(* ===== verification/Prelude.thy ===== *)
theory Prelude
  imports Main "HOL-Library.State_Monad" "HOL-Library.AList" "HOL-Library.Sublist"
begin

text \<open>
  Shared vocabulary of the development.

  \<^item> Go values: strings are byte lists (\<^typ>\<open>string\<close>), a \<^verbatim>\<open>map[string]string\<close> is an
    association list (\<open>gomap\<close>) read by \<open>mget\<close> with the zero value for a missing key, a nil map
    being the empty one; errors are values of \<open>gerr\<close>.
  \<^item> Effects: a computation that talks to the cluster, the clock or another service is a
    \<^typ>\<open>('s, 'a) state\<close> over a state \<^typ>\<open>'s\<close> that is never inspected. The operations of the
    services are arguments, so a theorem with no hypothesis on them holds for every behaviour of
    these services: failures, and changes made by other processes between two calls.
  \<^item> \<open>preserves\<close>, the invariant calculus for such computations, with its rules collected in
    \<open>preserves_intros\<close>, and \<open>run_simps\<close>, the equations that evaluate a computation.
\<close>

named_theorems run_simps \<open>equations that run a computation\<close>
named_theorems preserves_intros \<open>rules that show an invariant is kept\<close>
named_theorems emits_intros \<open>rules that show which calls a computation makes\<close>
named_theorems gomap_simps \<open>lookups in Go maps\<close>

section \<open>Computations\<close>

abbreviation ret :: "'a \<Rightarrow> ('s, 'a) state" where
  "ret \<equiv> State_Monad.return"

declare run_state_bind [run_simps] and run_state_return [run_simps]

lemma run_unit: obtains s' where "run_state (m :: ('s, unit) state) s = ((), s')"
  by (cases "run_state m s") auto

definition preserves :: "('s \<Rightarrow> bool) \<Rightarrow> ('s, 'a) state \<Rightarrow> bool" where
  "preserves I m \<longleftrightarrow> (\<forall>s. I s \<longrightarrow> I (snd (run_state m s)))"

lemma preservesI:
  "(\<And>s a s'. I s \<Longrightarrow> run_state m s = (a, s') \<Longrightarrow> I s') \<Longrightarrow> preserves I m"
  unfolding preserves_def by (metis prod.collapse)

lemma preservesD: "preserves I m \<Longrightarrow> I s \<Longrightarrow> run_state m s = (a, s') \<Longrightarrow> I s'"
  unfolding preserves_def by (metis snd_conv)

lemma preserves_return [preserves_intros]: "preserves I (State_Monad.return a)"
  by (simp add: preserves_def)

lemma preserves_bind [preserves_intros]:
  "preserves I m \<Longrightarrow> (\<And>a. preserves I (f a)) \<Longrightarrow> preserves I (State_Monad.bind m f)"
  by (auto simp: preserves_def split: prod.splits)

lemma preserves_if [preserves_intros]:
  "(b \<Longrightarrow> preserves I m) \<Longrightarrow> (\<not> b \<Longrightarrow> preserves I n) \<Longrightarrow> preserves I (if b then m else n)"
  by simp

lemma preserves_sum [preserves_intros]:
  "(\<And>e. x = Inl e \<Longrightarrow> preserves I (f e)) \<Longrightarrow> (\<And>a. x = Inr a \<Longrightarrow> preserves I (g a)) \<Longrightarrow>
   preserves I (case x of Inl e \<Rightarrow> f e | Inr a \<Rightarrow> g a)"
  by (cases x) auto

lemma preserves_option [preserves_intros]:
  "(x = None \<Longrightarrow> preserves I m) \<Longrightarrow> (\<And>a. x = Some a \<Longrightarrow> preserves I (g a)) \<Longrightarrow>
   preserves I (case x of None \<Rightarrow> m | Some a \<Rightarrow> g a)"
  by (cases x) auto

lemma preserves_prod [preserves_intros]:
  "(\<And>a b. x = (a, b) \<Longrightarrow> preserves I (f a b)) \<Longrightarrow> preserves I (case x of (a, b) \<Rightarrow> f a b)"
  by (cases x) auto

lemma preserves_let [preserves_intros]: "preserves I (f x) \<Longrightarrow> preserves I (let y = x in f y)"
  by simp

text \<open>A loop over a list whose body is a computation.\<close>

primrec forEach :: "'a list \<Rightarrow> ('a \<Rightarrow> ('s, unit) state) \<Rightarrow> ('s, unit) state" where
  "forEach [] f = ret ()"
| "forEach (x # xs) f = do { f x; forEach xs f }"

lemma preserves_forEach [preserves_intros]:
  "(\<And>x. x \<in> set xs \<Longrightarrow> preserves I (f x)) \<Longrightarrow> preserves I (forEach xs f)"
  by (induction xs) (auto intro!: preserves_intros)

section \<open>Go maps\<close>

type_synonym gomap = "(string \<times> string) list"

definition mget :: "gomap \<Rightarrow> string \<Rightarrow> string" where
  "mget m k = (case map_of m k of None \<Rightarrow> [] | Some v \<Rightarrow> v)"

abbreviation mput :: "string \<Rightarrow> string \<Rightarrow> gomap \<Rightarrow> gomap" where
  "mput \<equiv> AList.update"

abbreviation mdelete :: "string \<Rightarrow> gomap \<Rightarrow> gomap" where
  "mdelete \<equiv> AList.delete"

lemma map_of_mput [simp, gomap_simps]: "map_of (mput k v m) = (map_of m)(k \<mapsto> v)"
  by (simp add: update_conv')

lemma map_of_mdelete [simp, gomap_simps]: "map_of (mdelete k m) = (map_of m)(k := None)"
  by (simp add: delete_conv')

lemma mget_mput [simp, gomap_simps]: "mget (mput k v m) k' = (if k' = k then v else mget m k')"
  by (simp add: mget_def)

lemma mget_mdelete [simp, gomap_simps]: "mget (mdelete k m) k' = (if k' = k then [] else mget m k')"
  by (simp add: mget_def)

lemma mget_Nil [simp, gomap_simps]: "mget [] k = []"
  by (simp add: mget_def)

lemma mget_Cons [simp, gomap_simps]: "mget ((k, v) # m) k' = (if k' = k then v else mget m k')"
  by (simp add: mget_def)

text \<open>
  A label selector (\<^verbatim>\<open>client.MatchingLabels\<close>) selects the objects whose labels hold every pair.
\<close>

definition matches_labels :: "gomap \<Rightarrow> gomap \<Rightarrow> bool" where
  "matches_labels sel labels \<longleftrightarrow> list_all (\<lambda>(k, v). map_of labels k = Some v) sel"

lemma matches_labels_Nil [simp]: "matches_labels [] l"
  by (simp add: matches_labels_def)

lemma matches_labels_Cons [simp]:
  "matches_labels ((k, v) # sel) l \<longleftrightarrow> map_of l k = Some v \<and> matches_labels sel l"
  by (simp add: matches_labels_def)

section \<open>Errors\<close>

text \<open>
  \<open>Sentinel\<close> is a package-level \<^verbatim>\<open>errors.New\<close> compared by identity, \<open>ErrNew\<close> an error made where it
  is returned, \<open>Wrap p e q\<close> an \<^verbatim>\<open>fmt.Errorf\<close> whose \<^verbatim>\<open>%w\<close> stands between \<open>p\<close> and \<open>q\<close>, and
  \<open>Api r m\<close> an API status error with its reason and text.
\<close>

datatype api_reason = ReasonNotFound | ReasonAlreadyExists | ReasonConflict | ReasonOther string

datatype gerr =
    Sentinel string
  | ErrNew string
  | Wrap string gerr string
  | Api api_reason string

primrec error_text :: "gerr \<Rightarrow> string" where
  "error_text (Sentinel m) = m"
| "error_text (ErrNew m) = m"
| "error_text (Wrap p e q) = p @ error_text e @ q"
| "error_text (Api r m) = m"

text \<open>\<^verbatim>\<open>errors.Is\<close> against a sentinel, and the API machinery's reason tests, look through wrapping.\<close>

primrec errors_Is :: "gerr \<Rightarrow> gerr \<Rightarrow> bool" where
  "errors_Is (Sentinel m) t \<longleftrightarrow> Sentinel m = t"
| "errors_Is (ErrNew m) t \<longleftrightarrow> False"
| "errors_Is (Wrap p e q) t \<longleftrightarrow> errors_Is e t"
| "errors_Is (Api r m) t \<longleftrightarrow> False"

primrec reason_of :: "gerr \<Rightarrow> api_reason option" where
  "reason_of (Sentinel m) = None"
| "reason_of (ErrNew m) = None"
| "reason_of (Wrap p e q) = reason_of e"
| "reason_of (Api r m) = Some r"

definition IsNotFound :: "gerr \<Rightarrow> bool" where
  "IsNotFound e \<longleftrightarrow> reason_of e = Some ReasonNotFound"

definition IsAlreadyExists :: "gerr \<Rightarrow> bool" where
  "IsAlreadyExists e \<longleftrightarrow> reason_of e = Some ReasonAlreadyExists"

abbreviation errf :: "string \<Rightarrow> gerr \<Rightarrow> gerr" where
  "errf p e \<equiv> Wrap p e []"

lemma IsNotFound_Wrap [simp]: "IsNotFound (Wrap p e q) = IsNotFound e"
  by (simp add: IsNotFound_def)

lemma IsAlreadyExists_Wrap [simp]: "IsAlreadyExists (Wrap p e q) = IsAlreadyExists e"
  by (simp add: IsAlreadyExists_def)

lemma not_both_reasons: "IsNotFound e \<Longrightarrow> \<not> IsAlreadyExists e"
  by (simp add: IsNotFound_def IsAlreadyExists_def)

section \<open>Result of a reconcile\<close>

text \<open>
  \<^verbatim>\<open>ctrl.Result\<close> of controller-runtime; every error return of the code carries the zero result, so
  a reconcile returns either an error or a result.
\<close>

record Result =
  Requeue :: bool
  RequeueAfter :: int

definition Result0 :: Result where
  "Result0 = \<lparr>Requeue = False, RequeueAfter = 0\<rparr>"

definition ResultRequeue :: Result where
  "ResultRequeue = \<lparr>Requeue = True, RequeueAfter = 0\<rparr>"

definition ResultAfter :: "int \<Rightarrow> Result" where
  "ResultAfter d = \<lparr>Requeue = False, RequeueAfter = d\<rparr>"

end
