(* ===== verification/GoStd.thy ===== *)
theory GoStd
  imports Prelude
begin

text \<open>
  The parts of Go's standard library the program computes with: \<^verbatim>\<open>strings\<close>, \<^verbatim>\<open>strconv\<close>,
  \<^verbatim>\<open>path/filepath.Base\<close> and \<^verbatim>\<open>encoding/hex\<close>, over byte strings. White space is the ASCII set (the
  code uses these functions on the output of \<^verbatim>\<open>ls\<close> and \<^verbatim>\<open>tar\<close>); the Unicode spaces of
  \<^verbatim>\<open>strings.Fields\<close> are not modelled. Integers of type \<^verbatim>\<open>int\<close> and \<^verbatim>\<open>int64\<close> have 64 bits.
\<close>

section \<open>strings\<close>

definition HasPrefix :: "string \<Rightarrow> string \<Rightarrow> bool" where
  "HasPrefix s p \<longleftrightarrow> take (length p) s = p"

definition TrimPrefix :: "string \<Rightarrow> string \<Rightarrow> string" where
  "TrimPrefix s p = (if HasPrefix s p then drop (length p) s else s)"

definition ContainsAny :: "string \<Rightarrow> string \<Rightarrow> bool" where
  "ContainsAny s cs \<longleftrightarrow> list_ex (\<lambda>c. c \<in> set cs) s"

definition is_space :: "char \<Rightarrow> bool" where
  "is_space c \<longleftrightarrow> c \<in> {CHR '' '', CHR 0x09, CHR 0x0A, CHR 0x0B, CHR 0x0C, CHR 0x0D}"

definition TrimSpace :: "string \<Rightarrow> string" where
  "TrimSpace s = rev (dropWhile is_space (rev (dropWhile is_space s)))"

text \<open>\<^verbatim>\<open>strings.Split\<close> with a separator of one byte.\<close>

fun Split :: "string \<Rightarrow> char \<Rightarrow> string list" where
  "Split [] c = [[]]"
| "Split (x # xs) c =
     (if x = c then [] # Split xs c
      else case Split xs c of [] \<Rightarrow> [[x]] | y # ys \<Rightarrow> (x # y) # ys)"

function Fields :: "string \<Rightarrow> string list" where
  "Fields s = (let r = dropWhile is_space s in
     if r = [] then [] else takeWhile (\<lambda>c. \<not> is_space c) r # Fields (dropWhile (\<lambda>c. \<not> is_space c) r))"
  by pat_completeness auto
termination
proof (relation "measure length")
  show "wf (measure length)" by simp
next
  fix s r :: string
  assume r: "r = dropWhile is_space s" and ne: "r \<noteq> []"
  have "\<not> is_space (hd r)" using hd_dropWhile r ne by blast
  with ne have "length (dropWhile (\<lambda>c. \<not> is_space c) r) < length r"
    by (cases r) (auto simp: le_imp_less_Suc length_dropWhile_le)
  also have "length r \<le> length s" by (simp add: r length_dropWhile_le)
  finally show "(dropWhile (\<lambda>c. \<not> is_space c) r, s) \<in> measure length" by simp
qed

declare Fields.simps [simp del]

lemma HasPrefix_append [simp]: "HasPrefix (p @ s) p"
  by (simp add: HasPrefix_def)

lemma HasPrefix_iff: "HasPrefix s p \<longleftrightarrow> prefix p s"
  unfolding HasPrefix_def prefix_def by (metis append_eq_conv_conj append_take_drop_id)

lemma TrimPrefix_append [simp]: "TrimPrefix (p @ s) p = s"
  by (simp add: TrimPrefix_def)

lemma Split_nonempty [simp]: "Split s c \<noteq> []"
  by (induction s) (auto split: list.splits)

lemma Split_no_sep: "\<forall>p \<in> set (Split s c). c \<notin> set p"
  by (induction s) (auto split: list.splits)

lemma Split_free: "c \<notin> set s \<Longrightarrow> Split s c = [s]"
  by (induction s) auto

lemma Split_append: "c \<notin> set p \<Longrightarrow> Split (p @ c # s) c = p # Split s c"
  by (induction p) auto

lemma Fields_no_space: "\<forall>w \<in> set (Fields s). w \<noteq> [] \<and> (\<forall>c \<in> set w. \<not> is_space c)"
proof (induction s rule: Fields.induct)
  case (1 s)
  let ?r = "dropWhile is_space s"
  show ?case
  proof (cases "?r = []")
    case True
    then show ?thesis by (subst Fields.simps) (simp add: Let_def)
  next
    case False
    then have "\<not> is_space (hd ?r)" using hd_dropWhile by blast
    with False have ne: "takeWhile (\<lambda>c. \<not> is_space c) ?r \<noteq> []" by (cases ?r) auto
    have ns: "\<not> is_space c" if "c \<in> set (takeWhile (\<lambda>c. \<not> is_space c) ?r)" for c
      using that by (auto dest: set_takeWhileD)
    have eq: "Fields s = takeWhile (\<lambda>c. \<not> is_space c) ?r
        # Fields (dropWhile (\<lambda>c. \<not> is_space c) ?r)"
      unfolding Fields.simps[of s] Let_def by (rule if_not_P [OF False])
    have "set (Fields s) = insert (takeWhile (\<lambda>c. \<not> is_space c) ?r)
        (set (Fields (dropWhile (\<lambda>c. \<not> is_space c) ?r)))"
      by (subst eq) (rule list.set(2))
    then show ?thesis using "1.IH"[OF refl False] ne ns by (metis insertE)
  qed
qed

section \<open>strconv\<close>

definition is_digit :: "char \<Rightarrow> bool" where
  "is_digit c \<longleftrightarrow> 48 \<le> (of_char c :: nat) \<and> (of_char c :: nat) \<le> 57"

definition digit_val :: "char \<Rightarrow> nat" where
  "digit_val c = of_char c - 48"

definition digit_char :: "nat \<Rightarrow> char" where
  "digit_char d = char_of (48 + d)"

definition parse_digits :: "string \<Rightarrow> nat option" where
  "parse_digits s = (if s = [] \<or> \<not> list_all is_digit s then None
     else Some (foldl (\<lambda>n c. 10 * n + digit_val c) 0 s))"

text \<open>\<^verbatim>\<open>strconv.ParseInt(s, 10, 64)\<close> and \<^verbatim>\<open>strconv.Atoi\<close>: \<open>None\<close> is a syntax or a range error.\<close>

definition Atoi :: "string \<Rightarrow> int option" where
  "Atoi s = (case s of
       [] \<Rightarrow> None
     | c # cs \<Rightarrow>
         let neg = (c = CHR ''-''); body = (if c = CHR ''-'' \<or> c = CHR ''+'' then cs else s) in
         (case parse_digits body of
            None \<Rightarrow> None
          | Some n \<Rightarrow>
              if neg then (if n \<le> 2 ^ 63 then Some (- int n) else None)
              else if n < 2 ^ 63 then Some (int n) else None))"

fun nat_str :: "nat \<Rightarrow> string" where
  "nat_str n = (if n < 10 then [digit_char n] else nat_str (n div 10) @ [digit_char (n mod 10)])"

declare nat_str.simps [simp del]

definition Itoa :: "int \<Rightarrow> string" where
  "Itoa i = (if i < 0 then CHR ''-'' # nat_str (nat (- i)) else nat_str (nat i))"

definition ParseBool :: "string \<Rightarrow> bool option" where
  "ParseBool s =
     (if s \<in> {''1'', ''t'', ''T'', ''true'', ''TRUE'', ''True''} then Some True
      else if s \<in> {''0'', ''f'', ''F'', ''false'', ''FALSE'', ''False''} then Some False
      else None)"

lemma digit_char_props [simp]:
  "d < 10 \<Longrightarrow> is_digit (digit_char d)"
  "d < 10 \<Longrightarrow> digit_val (digit_char d) = d"
  by (auto simp: is_digit_def digit_val_def digit_char_def of_char_of)

lemma is_digit_not_sign: "is_digit c \<Longrightarrow> c \<noteq> CHR ''-'' \<and> c \<noteq> CHR ''+''"
  by (auto simp: is_digit_def)

lemma nat_str_nonempty [simp]: "nat_str n \<noteq> []"
  by (subst nat_str.simps) auto

lemma nat_str_digits: "list_all is_digit (nat_str n)"
proof (induction n rule: nat_str.induct)
  case (1 n)
  then show ?case by (subst nat_str.simps) auto
qed

lemma foldl_nat_str: "foldl (\<lambda>n c. 10 * n + digit_val c) 0 (nat_str n) = n"
proof (induction n rule: nat_str.induct)
  case (1 n)
  then show ?case by (subst nat_str.simps) (auto simp: div_mult_mod_eq)
qed

lemma parse_digits_nat_str [simp]: "parse_digits (nat_str n) = Some n"
  using nat_str_digits[of n] foldl_nat_str[of n] by (auto simp: parse_digits_def)

lemma Atoi_range: "Atoi s = Some i \<Longrightarrow> - (2 ^ 63) \<le> i \<and> i < 2 ^ 63"
  by (auto simp: Atoi_def Let_def split: list.splits option.splits if_splits)

lemma Atoi_nat_str: "n < 2 ^ 63 \<Longrightarrow> Atoi (nat_str n) = Some (int n)"
proof -
  assume n: "n < 2 ^ 63"
  obtain c cs where s: "nat_str n = c # cs" by (cases "nat_str n") auto
  with nat_str_digits[of n] have "is_digit c" by simp
  then have "c \<noteq> CHR ''-''" "c \<noteq> CHR ''+''" using is_digit_not_sign by auto
  with s n show ?thesis
    using parse_digits_nat_str[of n] by (simp add: Atoi_def Let_def)
qed

lemma Atoi_neg_nat_str: "n \<le> 2 ^ 63 \<Longrightarrow> Atoi (CHR ''-'' # nat_str n) = Some (- int n)"
  by (simp add: Atoi_def Let_def)

text \<open>\<^verbatim>\<open>strconv.Atoi\<close> reads back what \<^verbatim>\<open>strconv.Itoa\<close> prints, over the whole range of \<^verbatim>\<open>int\<close>.\<close>

lemma Atoi_Itoa: "- (2 ^ 63) \<le> i \<Longrightarrow> i < 2 ^ 63 \<Longrightarrow> Atoi (Itoa i) = Some i"
  by (cases "i < 0") (simp_all add: Itoa_def Atoi_nat_str Atoi_neg_nat_str nat_less_iff nat_le_iff)

section \<open>path/filepath and encoding/hex\<close>

text \<open>
  \<^verbatim>\<open>filepath.Base\<close> on a Unix host: trailing slashes are removed, then everything up to the last
  slash; the empty path gives \<^verbatim>\<open>"."\<close> and a path of slashes only \<^verbatim>\<open>"/"\<close>.
\<close>

definition Base :: "string \<Rightarrow> string" where
  "Base p = (if p = [] then ''.''
     else let q = rev (dropWhile (\<lambda>c. c = CHR ''/'') (rev p)) in
       if q = [] then ''/'' else rev (takeWhile (\<lambda>c. c \<noteq> CHR ''/'') (rev q)))"

text \<open>\<^verbatim>\<open>strings.Join\<close> with a separator of one byte.\<close>

fun joinWith :: "char \<Rightarrow> string list \<Rightarrow> string" where
  "joinWith c [] = []"
| "joinWith c [w] = w"
| "joinWith c (w # v # ws) = w @ c # joinWith c (v # ws)"

text \<open>
  \<^verbatim>\<open>path.Clean\<close>: empty elements and \<^verbatim>\<open>"."\<close> are dropped, \<^verbatim>\<open>".."\<close> removes the element before it, and is dropped
  itself at the root. The elements kept so far are on a stack.
\<close>

primrec cleanElems :: "bool \<Rightarrow> string list \<Rightarrow> string list \<Rightarrow> string list" where
  "cleanElems rooted st [] = rev st"
| "cleanElems rooted st (s # ss) = (if s = [] \<or> s = ''.'' then cleanElems rooted st ss
     else if s = ''..'' then (case st of
         [] \<Rightarrow> cleanElems rooted (if rooted then [] else [''..'']) ss
       | t # st' \<Rightarrow> if t = ''..'' then cleanElems rooted (''..'' # st) ss else cleanElems rooted st' ss)
     else cleanElems rooted (s # st) ss)"

definition Clean :: "string \<Rightarrow> string" where
  "Clean p = (if p = [] then ''.''
     else let rooted = (hd p = CHR ''/''); es = cleanElems rooted [] (Split p (CHR ''/'')) in
       if rooted then ''/'' @ joinWith (CHR ''/'') es
       else if es = [] then ''.'' else joinWith (CHR ''/'') es)"

text \<open>\<^verbatim>\<open>filepath.Join\<close>.\<close>

definition Join :: "string list \<Rightarrow> string" where
  "Join es = (case dropWhile (\<lambda>e. e = []) es of [] \<Rightarrow> [] | xs \<Rightarrow> Clean (joinWith (CHR ''/'') xs))"

definition hex_digit :: "nat \<Rightarrow> char" where
  "hex_digit d = (if d < 10 then char_of (48 + d) else char_of (87 + d))"

definition EncodeToString :: "nat list \<Rightarrow> string" where
  "EncodeToString bs = concat (map (\<lambda>b. [hex_digit (b div 16), hex_digit (b mod 16)]) bs)"

lemma Base_no_slash: "Base p = ''/'' \<or> CHR ''/'' \<notin> set (Base p)"
  by (auto simp: Base_def Let_def dest: set_takeWhileD)

lemma Base_nonempty: "Base p \<noteq> []"
proof (cases "rev (dropWhile (\<lambda>c. c = CHR ''/'') (rev p)) = []")
  case True
  then show ?thesis by (simp add: Base_def)
next
  case False
  let ?q = "dropWhile (\<lambda>c. c = CHR ''/'') (rev p)"
  from False have "hd ?q \<noteq> CHR ''/''" using hd_dropWhile[of "\<lambda>c. c = CHR ''/''" "rev p"] by simp
  with False have "takeWhile (\<lambda>c. c \<noteq> CHR ''/'') ?q \<noteq> []" by (cases ?q) auto
  with False show ?thesis by (auto simp: Base_def Let_def)
qed

lemma length_EncodeToString [simp]: "length (EncodeToString bs) = 2 * length bs"
  by (induction bs) (auto simp: EncodeToString_def)

lemma hex_digit_inj: "a < 16 \<Longrightarrow> b < 16 \<Longrightarrow> hex_digit a = hex_digit b \<Longrightarrow> a = b"
  by (auto simp: hex_digit_def split: if_splits)

lemma EncodeToString_inj:
  "list_all (\<lambda>b. b < 256) xs \<Longrightarrow> list_all (\<lambda>b. b < 256) ys \<Longrightarrow>
   EncodeToString xs = EncodeToString ys \<Longrightarrow> xs = ys"
proof (induction xs arbitrary: ys)
  case Nil
  then have "length (EncodeToString ys) = 0" by (simp add: EncodeToString_def)
  then show ?case by simp
next
  case (Cons x xs)
  from Cons.prems(3) have "length (EncodeToString ys) = 2 * length (x # xs)"
    by (metis length_EncodeToString)
  then obtain y ys' where ys: "ys = y # ys'" by (cases ys) auto
  from Cons.prems ys have e: "hex_digit (x div 16) = hex_digit (y div 16)"
      "hex_digit (x mod 16) = hex_digit (y mod 16)" "EncodeToString xs = EncodeToString ys'"
    by (auto simp: EncodeToString_def)
  from Cons.prems ys have lt: "x div 16 < 16" "y div 16 < 16" "x mod 16 < 16" "y mod 16 < 16"
    by auto
  from hex_digit_inj[OF lt(1,2) e(1)] hex_digit_inj[OF lt(3,4) e(2)]
  have "x = y" by (metis div_mult_mod_eq)
  moreover from Cons.IH[of ys'] Cons.prems ys e(3) have "xs = ys'" by auto
  ultimately show ?case using ys by simp
qed

end
