(* ===== verification/ApiTypes.thy ===== *)
theory ApiTypes
  imports GoStd
begin

text \<open>
  The custom resources of \<^verbatim>\<open>api/v1alpha1\<close> (GameServer and Backup with their lifecycles), and the
  fields of the Kubernetes objects the program reads or writes. A resource quantity is its exact
  value in units of $10^{-9}$, a time is in nanoseconds since the Unix epoch, and an unset
  \<^verbatim>\<open>metav1.Time\<close> is \<^term>\<open>None\<close>.

  The two lifecycles share the locale \<open>lifecycle\<close>; the one of backups also satisfies
  \<open>terminating_lifecycle\<close>, where terminal states are final and every run is bounded.
\<close>

type_synonym quantity = int
type_synonym gotime = int

record key =
  keyNamespace :: string
  keyName :: string

record OwnerReference =
  refKind :: string
  refName :: string
  refController :: bool

record ObjectMeta =
  Name :: string
  Namespace :: string
  Labels :: gomap
  Annotations :: gomap
  Finalizers :: "string list"
  OwnerReferences :: "OwnerReference list"
  CreationTimestamp :: "gotime option"
  DeletionTimestamp :: "gotime option"
  Generation :: int
  ResourceVersion :: string

definition NewMeta :: "string \<Rightarrow> string \<Rightarrow> gomap \<Rightarrow> ObjectMeta" where
  "NewMeta ns n ls = \<lparr>Name = n, Namespace = ns, Labels = ls, Annotations = [], Finalizers = [],
     OwnerReferences = [], CreationTimestamp = None, DeletionTimestamp = None, Generation = 0,
     ResourceVersion = []\<rparr>"

definition key_of :: "ObjectMeta \<Rightarrow> key" where
  "key_of m = \<lparr>keyNamespace = Namespace m, keyName = Name m\<rparr>"

lemma NewMeta_simps [simp]:
  "Name (NewMeta ns n ls) = n" "Namespace (NewMeta ns n ls) = ns" "Labels (NewMeta ns n ls) = ls"
  "Annotations (NewMeta ns n ls) = []" "Finalizers (NewMeta ns n ls) = []"
  "OwnerReferences (NewMeta ns n ls) = []" "CreationTimestamp (NewMeta ns n ls) = None"
  "DeletionTimestamp (NewMeta ns n ls) = None"
  by (simp_all add: NewMeta_def)

section \<open>Conditions\<close>

datatype ConditionStatus = ConditionTrue | ConditionFalse | ConditionUnknown

record Condition =
  cType :: string
  cStatus :: ConditionStatus
  cReason :: string
  cMessage :: string
  cObservedGeneration :: int
  cLastTransitionTime :: "gotime option"

section \<open>GameServer\<close>

text \<open>
  The state is a string type in Go: \<open>GameServerStateUnset\<close> is the empty string of a new object, and
  \<open>GameServerStateOther\<close> any text outside the six constants.
\<close>

datatype GameServerState =
    GameServerStateUnset
  | GameServerStateCreating
  | GameServerStateStarting
  | GameServerStateReady
  | GameServerStateAllocated
  | GameServerStateShutdown
  | GameServerStateError
  | GameServerStateOther string

primrec gs_state_string :: "GameServerState \<Rightarrow> string" where
  "gs_state_string GameServerStateUnset = []"
| "gs_state_string GameServerStateCreating = ''Creating''"
| "gs_state_string GameServerStateStarting = ''Starting''"
| "gs_state_string GameServerStateReady = ''Ready''"
| "gs_state_string GameServerStateAllocated = ''Allocated''"
| "gs_state_string GameServerStateShutdown = ''Shutdown''"
| "gs_state_string GameServerStateError = ''Error''"
| "gs_state_string (GameServerStateOther t) = t"

record GameServerPort =
  PortName :: string
  ContainerPort :: int
  Protocol :: string

record GameServerStatusPort =
  StatusPortName :: string
  StatusPort :: int
  StatusProtocol :: string

record ResourceRequirements =
  Requests :: "(string \<times> quantity) list"
  Limits :: "(string \<times> quantity) list"

record GameServerSpec =
  GameType :: string
  Image :: string
  Resources :: ResourceRequirements
  Ports :: "GameServerPort list"
  Parameters :: gomap

record GameServerStatus =
  State :: GameServerState
  Address :: string
  StatusPorts :: "GameServerStatusPort list"
  Conditions :: "Condition list"

record GameServer =
  gsMeta :: ObjectMeta
  gsSpec :: GameServerSpec
  gsStatus :: GameServerStatus

definition GameServerStatus0 :: GameServerStatus where
  "GameServerStatus0 = \<lparr>State = GameServerStateUnset, Address = [], StatusPorts = [], Conditions = []\<rparr>"

definition TypeReady :: string where "TypeReady = ''Ready''"
definition TypeProgressing :: string where "TypeProgressing = ''Progressing''"
definition TypeDegraded :: string where "TypeDegraded = ''Degraded''"
definition FinalizerName :: string where "FinalizerName = ''game.kterodactyl.io/finalizer''"

lemmas condition_type_defs = TypeReady_def TypeProgressing_def TypeDegraded_def

primrec ValidTransitions :: "GameServerState \<Rightarrow> GameServerState list" where
  "ValidTransitions GameServerStateUnset = []"
| "ValidTransitions GameServerStateCreating = [GameServerStateStarting, GameServerStateError]"
| "ValidTransitions GameServerStateStarting =
     [GameServerStateReady, GameServerStateCreating, GameServerStateError, GameServerStateShutdown]"
| "ValidTransitions GameServerStateReady =
     [GameServerStateAllocated, GameServerStateCreating, GameServerStateError, GameServerStateShutdown]"
| "ValidTransitions GameServerStateAllocated =
     [GameServerStateReady, GameServerStateCreating, GameServerStateError, GameServerStateShutdown]"
| "ValidTransitions GameServerStateShutdown = [GameServerStateCreating]"
| "ValidTransitions GameServerStateError = [GameServerStateShutdown, GameServerStateCreating]"
| "ValidTransitions (GameServerStateOther t) = []"

definition IsValidTransition :: "GameServerState \<Rightarrow> GameServerState \<Rightarrow> bool" where
  "IsValidTransition from to \<longleftrightarrow> list_ex (\<lambda>valid. valid = to) (ValidTransitions from)"

definition IsTerminal :: "GameServerState \<Rightarrow> bool" where
  "IsTerminal st \<longleftrightarrow> st = GameServerStateShutdown"

section \<open>Backup\<close>

datatype BackupState =
    BackupStateUnset
  | BackupStatePending
  | BackupStateInProgress
  | BackupStateCompleted
  | BackupStateFailed
  | BackupStateOther string

primrec backup_state_string :: "BackupState \<Rightarrow> string" where
  "backup_state_string BackupStateUnset = []"
| "backup_state_string BackupStatePending = ''Pending''"
| "backup_state_string BackupStateInProgress = ''InProgress''"
| "backup_state_string BackupStateCompleted = ''Completed''"
| "backup_state_string BackupStateFailed = ''Failed''"
| "backup_state_string (BackupStateOther t) = t"

record BackupSpec =
  GameServerName :: string
  BackupPaths :: "string list"

record BackupStatus =
  bState :: BackupState
  S3Key :: string
  S3Bucket :: string
  Size :: int
  StartedAt :: "gotime option"
  CompletedAt :: "gotime option"
  Message :: string
  bConditions :: "Condition list"

record Backup =
  bkMeta :: ObjectMeta
  bkSpec :: BackupSpec
  bkStatus :: BackupStatus

definition BackupStatus0 :: BackupStatus where
  "BackupStatus0 = \<lparr>bState = BackupStateUnset, S3Key = [], S3Bucket = [], Size = 0,
     StartedAt = None, CompletedAt = None, Message = [], bConditions = []\<rparr>"

definition BackupConditionReady :: string where "BackupConditionReady = ''Ready''"

primrec BackupValidTransitions :: "BackupState \<Rightarrow> BackupState list" where
  "BackupValidTransitions BackupStateUnset = []"
| "BackupValidTransitions BackupStatePending = [BackupStateInProgress, BackupStateFailed]"
| "BackupValidTransitions BackupStateInProgress = [BackupStateCompleted, BackupStateFailed]"
| "BackupValidTransitions BackupStateCompleted = []"
| "BackupValidTransitions BackupStateFailed = []"
| "BackupValidTransitions (BackupStateOther t) = []"

definition IsBackupValidTransition :: "BackupState \<Rightarrow> BackupState \<Rightarrow> bool" where
  "IsBackupValidTransition from to \<longleftrightarrow> list_ex (\<lambda>valid. valid = to) (BackupValidTransitions from)"

definition IsBackupTerminal :: "BackupState \<Rightarrow> bool" where
  "IsBackupTerminal st \<longleftrightarrow> st = BackupStateCompleted \<or> st = BackupStateFailed"

section \<open>Objects of the Kubernetes API the program uses\<close>

record ContainerPortSpec =
  cpName :: string
  cpContainerPort :: int
  cpProtocol :: string

record VolumeMount =
  vmName :: string
  MountPath :: string

record Container =
  ctName :: string
  ctImage :: string
  ctPorts :: "ContainerPortSpec list"
  ctResources :: ResourceRequirements
  ctEnv :: gomap
  ctVolumeMounts :: "VolumeMount list"

record Volume =
  volName :: string
  ClaimName :: string

record PodSpec =
  Containers :: "Container list"
  RestartPolicy :: string
  Volumes :: "Volume list"

record PodStatus =
  Phase :: string
  PhaseReason :: string
  PodIP :: string
  ContainerStatuses :: "bool list"  \<comment> \<open>the \<^verbatim>\<open>Ready\<close> field of each container status\<close>

record Pod =
  podMeta :: ObjectMeta
  podSpec :: PodSpec
  podStatus :: PodStatus

definition PodRunning :: string where "PodRunning = ''Running''"
definition PodFailed :: string where "PodFailed = ''Failed''"

record PVCSpec =
  AccessModes :: "string list"
  StorageRequest :: quantity
  StorageClassName :: "string option"

record PVC =
  pvcMeta :: ObjectMeta
  pvcSpec :: "PVCSpec option"  \<comment> \<open>\<^term>\<open>None\<close> is the zero spec\<close>

record KNamespace =
  nsMeta :: ObjectMeta

record ResourceQuota =
  rqMeta :: ObjectMeta
  Hard :: "(string \<times> quantity) list"

record LimitRangeItem =
  lrType :: string
  lrDefault :: "(string \<times> quantity) list"
  lrDefaultRequest :: "(string \<times> quantity) list"
  lrMax :: "(string \<times> quantity) list"
  lrMin :: "(string \<times> quantity) list"

record LimitRange =
  lrMeta :: ObjectMeta
  lrLimits :: "LimitRangeItem list"

datatype NetworkPolicyPeer =
    PeerPodSelector gomap
  | PeerNamespaceSelector gomap
  | PeerIPBlock string "string list"

record NetworkPolicyRule =
  Peers :: "NetworkPolicyPeer list"
  PeerPorts :: "(string \<times> int) list"

record NetworkPolicy =
  npMeta :: ObjectMeta
  npPodSelector :: gomap
  PolicyTypes :: "string list"
  Ingress :: "NetworkPolicyRule list"
  Egress :: "NetworkPolicyRule list"

record ServicePort =
  spName :: string
  spPort :: int
  spTargetPort :: int
  spProtocol :: string

record Service =
  svcMeta :: ObjectMeta
  Selector :: gomap
  svcType :: string
  svcPorts :: "ServicePort list"

record ParentReference =
  prName :: string
  prNamespace :: string
  prSectionName :: string

record HTTPRoute =
  rtMeta :: ObjectMeta
  ParentRefs :: "ParentReference list"
  Hostnames :: "string list"
  BackendRefs :: "(string \<times> int) list list"  \<comment> \<open>one list of service and port per rule\<close>

record Secret =
  secMeta :: ObjectMeta
  secType :: string
  secData :: gomap

record ConfigMap =
  cmMeta :: ObjectMeta
  cmData :: gomap

section \<open>Lifecycles\<close>

text \<open>
  The contract of a lifecycle table: its edges stay within a finite list of states that contains the
  initial one. Every run from the initial state then stays there.
\<close>

locale lifecycle =
  fixes valid :: "'st \<Rightarrow> 'st \<Rightarrow> bool"
    and states :: "'st list"
    and initial :: "'st"
  assumes initial_state: "initial \<in> set states"
    and valid_states: "valid a b \<Longrightarrow> a \<in> set states \<and> b \<in> set states"
begin

lemma run_states: "valid\<^sup>*\<^sup>* a b \<Longrightarrow> a \<in> set states \<Longrightarrow> b \<in> set states"
  by (induction rule: rtranclp_induct) (auto dest: valid_states)

lemma reachable_states: "valid\<^sup>*\<^sup>* initial b \<Longrightarrow> b \<in> set states"
  using run_states initial_state by blast

end

text \<open>
  In a terminating lifecycle a rank drops along every edge, so a run has at most as many steps as
  the rank of its start, and terminal states have no edge.
\<close>

locale terminating_lifecycle = lifecycle valid states initial
  for valid :: "'st \<Rightarrow> 'st \<Rightarrow> bool" and states :: "'st list" and initial :: "'st" +
  fixes terminal :: "'st \<Rightarrow> bool"
    and rank :: "'st \<Rightarrow> nat"
  assumes terminal_final: "terminal a \<Longrightarrow> \<not> valid a b"
    and nonterminal_moves: "a \<in> set states \<Longrightarrow> \<not> terminal a \<Longrightarrow> \<exists>b. valid a b"
    and rank_drops: "valid a b \<Longrightarrow> rank b < rank a"
begin

lemma run_bound: "(valid ^^ n) a b \<Longrightarrow> n + rank b \<le> rank a"
proof (induction n arbitrary: b)
  case 0
  then show ?case by simp
next
  case (Suc n)
  then obtain c where "(valid ^^ n) a c" "valid c b" by auto
  with Suc.IH[of c] rank_drops[of c b] show ?case by simp
qed

lemma terminal_stays: "valid\<^sup>*\<^sup>* a b \<Longrightarrow> terminal a \<Longrightarrow> b = a"
  by (induction rule: converse_rtranclp_induct) (auto dest: terminal_final)

lemma run_completes: "a \<in> set states \<Longrightarrow> \<exists>b. valid\<^sup>*\<^sup>* a b \<and> terminal b"
proof (induction "rank a" arbitrary: a rule: less_induct)
  case less
  show ?case
  proof (cases "terminal a")
    case False
    then obtain c where c: "valid a c" using nonterminal_moves less.prems by blast
    with less.hyps[OF rank_drops[OF c]] obtain b where "valid\<^sup>*\<^sup>* c b" "terminal b"
      using valid_states by blast
    with c show ?thesis by (meson converse_rtranclp_into_rtranclp)
  qed blast
qed

end

definition gs_states :: "GameServerState list" where
  "gs_states = [GameServerStateCreating, GameServerStateStarting, GameServerStateReady,
     GameServerStateAllocated, GameServerStateShutdown, GameServerStateError]"

definition backup_states :: "BackupState list" where
  "backup_states = [BackupStatePending, BackupStateInProgress, BackupStateCompleted, BackupStateFailed]"

primrec backup_rank :: "BackupState \<Rightarrow> nat" where
  "backup_rank BackupStateUnset = 0"
| "backup_rank BackupStatePending = 2"
| "backup_rank BackupStateInProgress = 1"
| "backup_rank BackupStateCompleted = 0"
| "backup_rank BackupStateFailed = 0"
| "backup_rank (BackupStateOther t) = 0"

lemma IsValidTransition_cases:
  "IsValidTransition a b \<Longrightarrow> a \<in> set gs_states \<and> b \<in> set gs_states"
  by (cases a) (auto simp: IsValidTransition_def gs_states_def)

lemma IsBackupValidTransition_cases:
  "IsBackupValidTransition a b \<Longrightarrow> a \<in> set backup_states \<and> b \<in> set backup_states"
  by (cases a) (auto simp: IsBackupValidTransition_def backup_states_def)

interpretation gslife: lifecycle IsValidTransition gs_states GameServerStateCreating
  by unfold_locales (auto simp: gs_states_def dest: IsValidTransition_cases)

interpretation bklife: terminating_lifecycle IsBackupValidTransition backup_states
    BackupStatePending IsBackupTerminal backup_rank
proof unfold_locales
  show "BackupStatePending \<in> set backup_states" by (simp add: backup_states_def)
next
  fix a b
  show "IsBackupValidTransition a b \<Longrightarrow> a \<in> set backup_states \<and> b \<in> set backup_states"
    by (rule IsBackupValidTransition_cases)
next
  fix a b
  show "IsBackupTerminal a \<Longrightarrow> \<not> IsBackupValidTransition a b"
    by (auto simp: IsBackupTerminal_def IsBackupValidTransition_def)
next
  fix a
  show "a \<in> set backup_states \<Longrightarrow> \<not> IsBackupTerminal a \<Longrightarrow> \<exists>b. IsBackupValidTransition a b"
    by (auto simp: backup_states_def IsBackupTerminal_def IsBackupValidTransition_def)
next
  fix a b
  show "IsBackupValidTransition a b \<Longrightarrow> backup_rank b < backup_rank a"
    by (cases a) (auto simp: IsBackupValidTransition_def)
qed

text \<open>No game server is ever stuck and none leaves the lifecycle: between any two of the six states, even
  from \<^verbatim>\<open>Error\<close> and from \<^verbatim>\<open>Shutdown\<close>, which \<^verbatim>\<open>IsTerminal\<close> calls terminal, there is a run of valid
  transitions, and every state a run from one of them reaches is one of the six.\<close>

theorem gameserver_lifecycle_connected:
  assumes "a \<in> set gs_states"
  shows "IsValidTransition\<^sup>*\<^sup>* a b \<longleftrightarrow> b \<in> set gs_states"
proof
  have creating: "IsValidTransition a GameServerStateCreating \<or> a = GameServerStateCreating"
    using assms by (auto simp: gs_states_def IsValidTransition_def)
  have steps: "IsValidTransition GameServerStateCreating GameServerStateStarting"
    "IsValidTransition GameServerStateCreating GameServerStateError"
    "IsValidTransition GameServerStateStarting GameServerStateReady"
    "IsValidTransition GameServerStateStarting GameServerStateShutdown"
    "IsValidTransition GameServerStateReady GameServerStateAllocated"
    by (simp_all add: IsValidTransition_def)
  assume "b \<in> set gs_states"
  then have "IsValidTransition\<^sup>*\<^sup>* GameServerStateCreating b"
    using steps by (auto simp: gs_states_def intro: rtranclp.rtrancl_into_rtrancl)
  with creating show "IsValidTransition\<^sup>*\<^sup>* a b" by (meson converse_rtranclp_into_rtranclp)
qed (use assms gslife.run_states in blast)

theorem gameserver_lifecycle_connected_witness:
  "IsTerminal GameServerStateShutdown \<and> IsValidTransition\<^sup>*\<^sup>* GameServerStateShutdown GameServerStateAllocated"
  using gameserver_lifecycle_connected[of GameServerStateShutdown GameServerStateAllocated]
  by (simp add: gs_states_def IsTerminal_def)



end
