(* ===== verification/Kube.thy ===== *)
theory Kube
  imports ApiTypes
begin

text \<open>
  The interface to code that is not part of the repository: the Kubernetes API through
  controller-runtime's \<^verbatim>\<open>client.Client\<close>, and the helper libraries around it. It is a record of
  operations that every definition of the model takes as an argument.

  \<^item> \<open>kapi\<close>: the operations on one kind of object. \<open>kcou\<close> is \<^verbatim>\<open>controllerutil.CreateOrUpdate\<close>, which
    takes the mutate function of the caller.
  \<^item> \<open>client\<close>: the kinds the program uses; \<open>runtime\<close>: the clock, the event recorder, the metrics gauge
    and the library functions on conditions, owner references, finalizers and quantities, and
    \<open>RangeKeys\<close>, the order in which a Go map is traversed.
  \<^item> \<open>traced\<close>: a client that behaves as another one and also records every call with its answer, so
    that a property of the calls a handler makes is a property of the recorded trace, whatever the
    client answers.
  \<^item> The locale \<open>object_store\<close>, with \<open>status_store\<close> above it: what the API documents of a healthy
    server with no concurrent writer. \<open>store_api\<close> is a reference store that satisfies it.
\<close>

section \<open>The client\<close>

record ('s, 'o) kapi =
  kget :: "key \<Rightarrow> ('s, gerr + 'o) state"
  klist :: "string option \<Rightarrow> gomap \<Rightarrow> ('s, gerr + 'o list) state"
  kcreate :: "'o \<Rightarrow> ('s, gerr + 'o) state"
  kupdate :: "'o \<Rightarrow> ('s, gerr + 'o) state"
  kstatus :: "'o \<Rightarrow> ('s, gerr + 'o) state"
  kdelete :: "'o \<Rightarrow> int option \<Rightarrow> ('s, gerr + unit) state"
  kcou :: "'o \<Rightarrow> ('o \<Rightarrow> gerr + 'o) \<Rightarrow> ('s, gerr + 'o \<times> string) state"

record 's client =
  gameservers :: "('s, GameServer) kapi"
  backups :: "('s, Backup) kapi"
  pods :: "('s, Pod) kapi"
  pvcs :: "('s, PVC) kapi"
  namespaces :: "('s, KNamespace) kapi"
  resourcequotas :: "('s, ResourceQuota) kapi"
  limitranges :: "('s, LimitRange) kapi"
  networkpolicies :: "('s, NetworkPolicy) kapi"
  services :: "('s, Service) kapi"
  httproutes :: "('s, HTTPRoute) kapi"
  secrets :: "('s, Secret) kapi"
  configmaps :: "('s, ConfigMap) kapi"

record 's runtime =
  Now :: "('s, gotime) state"
  Event :: "key \<Rightarrow> string \<Rightarrow> string \<Rightarrow> string \<Rightarrow> ('s, unit) state"
  GaugeReset :: "('s, unit) state"
  GaugeSet :: "string \<Rightarrow> string \<Rightarrow> nat \<Rightarrow> ('s, unit) state"
  SetStatusCondition :: "Condition list \<Rightarrow> Condition \<Rightarrow> ('s, Condition list) state"
  SetControllerReference :: "GameServer \<Rightarrow> ObjectMeta \<Rightarrow> gerr + ObjectMeta"
  ParseQuantity :: "string \<Rightarrow> quantity option"
  MustParse :: "string \<Rightarrow> quantity"
  ContainsFinalizer :: "ObjectMeta \<Rightarrow> string \<Rightarrow> bool"
  AddFinalizer :: "ObjectMeta \<Rightarrow> string \<Rightarrow> ObjectMeta"
  RemoveFinalizer :: "ObjectMeta \<Rightarrow> string \<Rightarrow> ObjectMeta"
  RangeKeys :: "string list \<Rightarrow> string list"

text \<open>The fields the three reconcilers have in common.\<close>

record 's Reconciler =
  Client :: "'s client"
  Runtime :: "'s runtime"
  OperatorNamespace :: string

text \<open>The pairs of a Go map in the order a \<^verbatim>\<open>range\<close> loop sees them.\<close>

definition rangeMap :: "(string list \<Rightarrow> string list) \<Rightarrow> gomap \<Rightarrow> gomap" where
  "rangeMap ord m = map (\<lambda>k. (k, mget m k)) (ord (map fst m))"

section \<open>Recording the calls\<close>

datatype 'o kevent =
    EvGet key "gerr + 'o"
  | EvList "string option" gomap "gerr + 'o list"
  | EvCreate 'o "gerr + 'o"
  | EvUpdate 'o "gerr + 'o"
  | EvStatus 'o "gerr + 'o"
  | EvDelete 'o "int option" "gerr + unit"
  | EvCreateOrUpdate 'o "gerr + 'o \<times> string"

datatype s3event =
    EvBucketExists string "gerr + bool"
  | EvMakeBucket string "gerr + unit"
  | EvPutObject string string "gerr + int"
  | EvGetObject string string "gerr + string"
  | EvRemoveObject string string "gerr + unit"

datatype event =
    OnGameServer "GameServer kevent"
  | OnBackup "Backup kevent"
  | OnPod "Pod kevent"
  | OnPVC "PVC kevent"
  | OnNamespace "KNamespace kevent"
  | OnResourceQuota "ResourceQuota kevent"
  | OnLimitRange "LimitRange kevent"
  | OnNetworkPolicy "NetworkPolicy kevent"
  | OnService "Service kevent"
  | OnHTTPRoute "HTTPRoute kevent"
  | OnSecret "Secret kevent"
  | OnConfigMap "ConfigMap kevent"
  | OnS3 s3event
  | OnExec string string "string list" "gerr + string \<times> string \<times> gerr option"
  | OnMetrics string string
  | OnLogs string string

type_synonym 's tracing = "'s \<times> event list"

definition lift_op :: "('s, 'a) state \<Rightarrow> ('a \<Rightarrow> event list) \<Rightarrow> ('s tracing, 'a) state" where
  "lift_op m ev = State_Monad.State (\<lambda>(s, tr). case run_state m s of (a, s') \<Rightarrow> (a, (s', tr @ ev a)))"

lemma run_lift_op [simp, run_simps]:
  "run_state (lift_op m ev) (s, tr) = (case run_state m s of (a, s') \<Rightarrow> (a, (s', tr @ ev a)))"
  by (simp add: lift_op_def)

definition traced_api :: "('o kevent \<Rightarrow> event) \<Rightarrow> ('s, 'o) kapi \<Rightarrow> ('s tracing, 'o) kapi" where
  "traced_api on api = \<lparr>
     kget = (\<lambda>k. lift_op (kget api k) (\<lambda>r. [on (EvGet k r)])),
     klist = (\<lambda>ns sel. lift_op (klist api ns sel) (\<lambda>r. [on (EvList ns sel r)])),
     kcreate = (\<lambda>x. lift_op (kcreate api x) (\<lambda>r. [on (EvCreate x r)])),
     kupdate = (\<lambda>x. lift_op (kupdate api x) (\<lambda>r. [on (EvUpdate x r)])),
     kstatus = (\<lambda>x. lift_op (kstatus api x) (\<lambda>r. [on (EvStatus x r)])),
     kdelete = (\<lambda>x g. lift_op (kdelete api x g) (\<lambda>r. [on (EvDelete x g r)])),
     kcou = (\<lambda>x f. lift_op (kcou api x f) (\<lambda>r. [on (EvCreateOrUpdate x r)]))\<rparr>"

definition traced_client :: "'s client \<Rightarrow> 's tracing client" where
  "traced_client c = \<lparr>
     gameservers = traced_api OnGameServer (gameservers c),
     backups = traced_api OnBackup (backups c),
     pods = traced_api OnPod (pods c),
     pvcs = traced_api OnPVC (pvcs c),
     namespaces = traced_api OnNamespace (namespaces c),
     resourcequotas = traced_api OnResourceQuota (resourcequotas c),
     limitranges = traced_api OnLimitRange (limitranges c),
     networkpolicies = traced_api OnNetworkPolicy (networkpolicies c),
     services = traced_api OnService (services c),
     httproutes = traced_api OnHTTPRoute (httproutes c),
     secrets = traced_api OnSecret (secrets c),
     configmaps = traced_api OnConfigMap (configmaps c)\<rparr>"

definition traced_runtime :: "'s runtime \<Rightarrow> 's tracing runtime" where
  "traced_runtime r = \<lparr>
     Now = lift_op (Now r) (\<lambda>_. []),
     Event = (\<lambda>k t re m. lift_op (Event r k t re m) (\<lambda>_. [])),
     GaugeReset = lift_op (GaugeReset r) (\<lambda>_. []),
     GaugeSet = (\<lambda>a b n. lift_op (GaugeSet r a b n) (\<lambda>_. [])),
     SetStatusCondition = (\<lambda>cs c. lift_op (SetStatusCondition r cs c) (\<lambda>_. [])),
     SetControllerReference = SetControllerReference r,
     ParseQuantity = ParseQuantity r,
     MustParse = MustParse r,
     ContainsFinalizer = ContainsFinalizer r,
     AddFinalizer = AddFinalizer r,
     RemoveFinalizer = RemoveFinalizer r,
     RangeKeys = RangeKeys r\<rparr>"

definition traced :: "'s Reconciler \<Rightarrow> 's tracing Reconciler" where
  "traced r = \<lparr>Client = traced_client (Client r), Runtime = traced_runtime (Runtime r),
     OperatorNamespace = OperatorNamespace r\<rparr>"

lemma traced_api_simps [simp]:
  "kget (traced_api on api) k = lift_op (kget api k) (\<lambda>r. [on (EvGet k r)])"
  "klist (traced_api on api) ns sel = lift_op (klist api ns sel) (\<lambda>r. [on (EvList ns sel r)])"
  "kcreate (traced_api on api) x = lift_op (kcreate api x) (\<lambda>r. [on (EvCreate x r)])"
  "kupdate (traced_api on api) x = lift_op (kupdate api x) (\<lambda>r. [on (EvUpdate x r)])"
  "kstatus (traced_api on api) x = lift_op (kstatus api x) (\<lambda>r. [on (EvStatus x r)])"
  "kdelete (traced_api on api) x g = lift_op (kdelete api x g) (\<lambda>r. [on (EvDelete x g r)])"
  "kcou (traced_api on api) x f = lift_op (kcou api x f) (\<lambda>r. [on (EvCreateOrUpdate x r)])"
  by (simp_all add: traced_api_def)

lemma traced_simps [simp]:
  "Client (traced r) = traced_client (Client r)"
  "Runtime (traced r) = traced_runtime (Runtime r)"
  "OperatorNamespace (traced r) = OperatorNamespace r"
  "gameservers (traced_client c) = traced_api OnGameServer (gameservers c)"
  "backups (traced_client c) = traced_api OnBackup (backups c)"
  "pods (traced_client c) = traced_api OnPod (pods c)"
  "pvcs (traced_client c) = traced_api OnPVC (pvcs c)"
  "namespaces (traced_client c) = traced_api OnNamespace (namespaces c)"
  "resourcequotas (traced_client c) = traced_api OnResourceQuota (resourcequotas c)"
  "limitranges (traced_client c) = traced_api OnLimitRange (limitranges c)"
  "networkpolicies (traced_client c) = traced_api OnNetworkPolicy (networkpolicies c)"
  "services (traced_client c) = traced_api OnService (services c)"
  "httproutes (traced_client c) = traced_api OnHTTPRoute (httproutes c)"
  "secrets (traced_client c) = traced_api OnSecret (secrets c)"
  "configmaps (traced_client c) = traced_api OnConfigMap (configmaps c)"
  "Now (traced_runtime t) = lift_op (Now t) (\<lambda>_. [])"
  "Event (traced_runtime t) k a b m = lift_op (Event t k a b m) (\<lambda>_. [])"
  "GaugeReset (traced_runtime t) = lift_op (GaugeReset t) (\<lambda>_. [])"
  "GaugeSet (traced_runtime t) a b n = lift_op (GaugeSet t a b n) (\<lambda>_. [])"
  "SetStatusCondition (traced_runtime t) cs cd = lift_op (SetStatusCondition t cs cd) (\<lambda>_. [])"
  "SetControllerReference (traced_runtime t) = SetControllerReference t"
  "ParseQuantity (traced_runtime t) = ParseQuantity t"
  "MustParse (traced_runtime t) = MustParse t"
  "ContainsFinalizer (traced_runtime t) = ContainsFinalizer t"
  "AddFinalizer (traced_runtime t) = AddFinalizer t"
  "RemoveFinalizer (traced_runtime t) = RemoveFinalizer t"
  "RangeKeys (traced_runtime t) = RangeKeys t"
  by (simp_all add: traced_def traced_client_def traced_runtime_def)

text \<open>
  An invariant of the recorded trace. A call keeps it when the event it appends does, and a call
  that appends nothing always does.
\<close>

abbreviation on_trace :: "(event list \<Rightarrow> bool) \<Rightarrow> 's tracing \<Rightarrow> bool" where
  "on_trace I \<equiv> \<lambda>(s, tr). I tr"

lemma preserves_lift_op:
  "(\<And>tr a. I tr \<Longrightarrow> I (tr @ ev a)) \<Longrightarrow> preserves (on_trace I) (lift_op m ev)"
  by (auto simp: preserves_def split: prod.splits)

lemma preserves_lift_silent [preserves_intros]: "preserves (on_trace I) (lift_op m (\<lambda>_. []))"
  by (rule preserves_lift_op) simp

text \<open>Every event of a trace satisfies a predicate.\<close>

definition all_events :: "(event \<Rightarrow> bool) \<Rightarrow> event list \<Rightarrow> bool" where
  "all_events P tr \<longleftrightarrow> (\<forall>e \<in> set tr. P e)"

lemma all_events_append [simp]: "all_events P (tr @ evs) \<longleftrightarrow> all_events P tr \<and> all_events P evs"
  by (auto simp: all_events_def)

lemma all_events_simps [simp]:
  "all_events P []" "all_events P (e # evs) \<longleftrightarrow> P e \<and> all_events P evs"
  by (simp_all add: all_events_def)

lemma all_eventsD: "all_events P evs \<Longrightarrow> e \<in> set evs \<Longrightarrow> P e"
  by (simp add: all_events_def)

lemma all_events_mono: "all_events P evs \<Longrightarrow> (\<And>e. P e \<Longrightarrow> Q e) \<Longrightarrow> all_events Q evs"
  by (auto simp: all_events_def)

text \<open>
  \<open>emits P m\<close>: the computation only appends to the trace, and every call it makes satisfies \<open>P\<close>.
\<close>

definition emits :: "(event \<Rightarrow> bool) \<Rightarrow> ('s tracing, 'a) state \<Rightarrow> bool" where
  "emits P m \<longleftrightarrow> (\<forall>s tr. \<exists>evs. snd (snd (run_state m (s, tr))) = tr @ evs \<and> all_events P evs)"

lemma emitsD:
  assumes "emits P m" "run_state m (s, tr) = (a, (s', tr'))"
  obtains evs where "tr' = tr @ evs" "all_events P evs"
  using assms by (metis emits_def snd_conv)

lemma emits_mono: "emits P m \<Longrightarrow> (\<And>e. P e \<Longrightarrow> Q e) \<Longrightarrow> emits Q m"
  unfolding emits_def by (meson all_events_mono)

lemma emits_return [emits_intros]: "emits P (State_Monad.return a)"
  by (simp add: emits_def)

lemma emits_lift_op [emits_intros]: "(\<And>a. all_events P (ev a)) \<Longrightarrow> emits P (lift_op m ev)"
  by (auto simp: emits_def split: prod.splits)

text \<open>Only the results the first computation can have matter for the second.\<close>

lemma emits_bind_result:
  assumes "emits P m" "\<And>s tr a s' tr'. run_state m (s, tr) = (a, (s', tr')) \<Longrightarrow> emits P (f a)"
  shows "emits P (State_Monad.bind m f)"
  unfolding emits_def
proof (intro allI)
  fix s tr
  obtain a s1 tr1 where m: "run_state m (s, tr) = (a, (s1, tr1))" by (metis prod.collapse)
  obtain b s2 tr2 where f: "run_state (f a) (s1, tr1) = (b, (s2, tr2))" by (metis prod.collapse)
  from emitsD[OF assms(1) m] emitsD[OF assms(2)[OF m] f] m f
  show "\<exists>evs. snd (snd (run_state (State_Monad.bind m f) (s, tr))) = tr @ evs \<and> all_events P evs"
    by (metis all_events_append append.assoc run_state_bind snd_conv split_conv)
qed

lemma emits_bind [emits_intros]:
  "emits P m \<Longrightarrow> (\<And>a. emits P (f a)) \<Longrightarrow> emits P (State_Monad.bind m f)"
  by (rule emits_bind_result)

lemma emits_if [emits_intros]:
  "(b \<Longrightarrow> emits P m) \<Longrightarrow> (\<not> b \<Longrightarrow> emits P n) \<Longrightarrow> emits P (if b then m else n)"
  by simp

lemma emits_sum [emits_intros]:
  "(\<And>e. x = Inl e \<Longrightarrow> emits P (f e)) \<Longrightarrow> (\<And>a. x = Inr a \<Longrightarrow> emits P (g a)) \<Longrightarrow>
   emits P (case x of Inl e \<Rightarrow> f e | Inr a \<Rightarrow> g a)"
  by (cases x) auto

lemma emits_option [emits_intros]:
  "(x = None \<Longrightarrow> emits P m) \<Longrightarrow> (\<And>a. x = Some a \<Longrightarrow> emits P (g a)) \<Longrightarrow>
   emits P (case x of None \<Rightarrow> m | Some a \<Rightarrow> g a)"
  by (cases x) auto

lemma emits_prod [emits_intros]:
  "(\<And>a b. x = (a, b) \<Longrightarrow> emits P (f a b)) \<Longrightarrow> emits P (case x of (a, b) \<Rightarrow> f a b)"
  by (cases x) auto

lemma emits_let [emits_intros]: "emits P (f x) \<Longrightarrow> emits P (let y = x in f y)"
  by simp

lemma emits_forEach [emits_intros]:
  "(\<And>x. x \<in> set xs \<Longrightarrow> emits P (f x)) \<Longrightarrow> emits P (forEach xs f)"
  by (induction xs) (auto intro!: emits_intros)

text \<open>A property of the trace that no emitted call can undo is an invariant.\<close>

lemma emits_preserves:
  assumes "emits P m" "\<And>tr evs. I tr \<Longrightarrow> all_events P evs \<Longrightarrow> I (tr @ evs)"
  shows "preserves (on_trace I) m"
proof (rule preservesI, clarify)
  fix s tr a s' tr'
  assume "I tr" "run_state m (s, tr) = (a, (s', tr'))"
  then show "I tr'" using emitsD[OF assms(1)] assms(2) by metis
qed

end
