(* ===== verification/Util.thy ===== *)
theory Util
  imports ApiTypes
begin

text \<open>
  \<^verbatim>\<open>internal/util\<close>: the label and annotation keys, the namespace of a user, the label set of a game
  server and its DNS name.
\<close>

definition LabelManagedBy :: string where "LabelManagedBy = ''app.kubernetes.io/managed-by''"
definition LabelName :: string where "LabelName = ''app.kubernetes.io/name''"
definition LabelOwner :: string where "LabelOwner = ''kterodactyl.io/owner''"
definition LabelGame :: string where "LabelGame = ''kterodactyl.io/game''"
definition LabelUser :: string where "LabelUser = ''kterodactyl.io/user''"
definition LabelManagedByKterodactyl :: string where
  "LabelManagedByKterodactyl = ''kterodactyl.io/managed-by''"
definition LabelBackupGameServer :: string where
  "LabelBackupGameServer = ''kterodactyl.io/backup-gameserver''"
definition AnnotationAllocated :: string where "AnnotationAllocated = ''kterodactyl.io/allocated''"
definition AnnotationModPath :: string where "AnnotationModPath = ''kterodactyl.io/mod-path''"
definition AnnotationBackupPath :: string where
  "AnnotationBackupPath = ''kterodactyl.io/backup-path''"
definition AnnotationBackupSchedule :: string where
  "AnnotationBackupSchedule = ''kterodactyl.io/backup-schedule''"
definition AnnotationBackupRetention :: string where
  "AnnotationBackupRetention = ''kterodactyl.io/backup-retention''"
definition AnnotationLastBackupTime :: string where
  "AnnotationLastBackupTime = ''kterodactyl.io/last-backup-time''"
definition ManagedByValue :: string where "ManagedByValue = ''kterodactyl''"
definition AppNameValue :: string where "AppNameValue = ''gameserver''"
definition AnnotationExternalDNSTTL :: string where
  "AnnotationExternalDNSTTL = ''external-dns.alpha.kubernetes.io/ttl''"
definition LabelHTTPRouteOwner :: string where "LabelHTTPRouteOwner = ''kterodactyl.io/gameserver''"

lemmas util_constant_defs =
  LabelManagedBy_def LabelName_def LabelOwner_def LabelGame_def LabelUser_def
  LabelManagedByKterodactyl_def LabelBackupGameServer_def AnnotationAllocated_def
  AnnotationModPath_def AnnotationBackupPath_def AnnotationBackupSchedule_def
  AnnotationBackupRetention_def AnnotationLastBackupTime_def ManagedByValue_def AppNameValue_def
  AnnotationExternalDNSTTL_def LabelHTTPRouteOwner_def

definition UserNamespace :: "string \<Rightarrow> string" where
  "UserNamespace username = ''user-'' @ username"

definition GameServerLabels :: "string \<Rightarrow> string \<Rightarrow> gomap" where
  "GameServerLabels owner gameType =
     [(LabelManagedBy, ManagedByValue), (LabelName, AppNameValue), (LabelOwner, owner),
      (LabelGame, gameType)]"

definition GameServerDNSName :: "string \<Rightarrow> string \<Rightarrow> string \<Rightarrow> string" where
  "GameServerDNSName gameType owner baseDomain = gameType @ ''.'' @ owner @ ''.'' @ baseDomain"

lemma UserNamespace_inj: "UserNamespace a = UserNamespace b \<longleftrightarrow> a = b"
  by (simp add: UserNamespace_def)

lemma UserNamespace_nonempty [simp]: "UserNamespace u \<noteq> []"
  by (simp add: UserNamespace_def)

lemma GameServerLabels_lookup [simp]:
  "map_of (GameServerLabels o' g) LabelOwner = Some o'"
  "map_of (GameServerLabels o' g) LabelGame = Some g"
  "map_of (GameServerLabels o' g) LabelName = Some AppNameValue"
  "map_of (GameServerLabels o' g) LabelManagedBy = Some ManagedByValue"
  by (simp_all add: GameServerLabels_def util_constant_defs)

text \<open>
  Labels of a DNS name hold no dot, so the name determines the game type and the owner.
\<close>

lemma GameServerDNSName_inj:
  assumes "CHR ''.'' \<notin> set g" "CHR ''.'' \<notin> set g'" "CHR ''.'' \<notin> set u" "CHR ''.'' \<notin> set u'"
    and "GameServerDNSName g u d = GameServerDNSName g' u' d'"
  shows "g = g' \<and> u = u' \<and> d = d'"
proof -
  have split: "xs = xs' \<and> ys = ys'"
    if "xs @ CHR ''.'' # ys = xs' @ CHR ''.'' # ys'" "CHR ''.'' \<notin> set xs" "CHR ''.'' \<notin> set xs'"
    for xs xs' ys ys' :: string
    using that by (induction xs arbitrary: xs') (auto simp: append_eq_Cons_conv Cons_eq_append_conv)
  from assms have "g = g'" "u @ CHR ''.'' # d = u' @ CHR ''.'' # d'"
    using split[of g "u @ CHR ''.'' # d" g' "u' @ CHR ''.'' # d'"]
    by (auto simp: GameServerDNSName_def)
  with assms split[of u d u' d'] show ?thesis by simp
qed

end
