(* ===== verification/AdminConfig.thy ===== *)
theory AdminConfig
  imports Kube Util
begin

text \<open>
  The admin configuration of \<^verbatim>\<open>internal/controller/gameserver_controller.go\<close>: its defaults, and
  \<^verbatim>\<open>LoadAdminConfig\<close>, which overlays the entries of a ConfigMap on them. An entry that is missing or
  does not parse leaves the default in place.
\<close>

record AdminConfig =
  MaxServersGlobal :: int
  MaxServersPerUser :: int
  QuotaCPURequests :: quantity
  QuotaCPULimits :: quantity
  QuotaMemoryRequests :: quantity
  QuotaMemoryLimits :: quantity
  QuotaPods :: quantity
  QuotaPVCs :: quantity
  QuotaStorage :: quantity
  DefaultCPU :: quantity
  DefaultMemory :: quantity
  DefaultRequestCPU :: quantity
  DefaultRequestMemory :: quantity
  MaxCPU :: quantity
  MaxMemory :: quantity
  MinCPU :: quantity
  MinMemory :: quantity
  BaseDomain :: string
  GatewayName :: string
  GatewayNamespace :: string
  GatewayControllerNamespace :: string
  JWTExpirationHours :: int
  InviteExpirationHours :: int
  RegistrationEnabled :: bool
  PanelURL :: string
  SMTPHost :: string
  SMTPPort :: int
  SMTPUsername :: string
  SMTPFrom :: string
  ModStorageSize :: quantity
  ModStorageClass :: string
  BackupS3Endpoint :: string
  BackupS3Bucket :: string
  BackupS3Region :: string
  BackupS3UseSSL :: bool
  BackupRetentionCount :: int

definition defaultMaxServersGlobal :: int where "defaultMaxServersGlobal = 100"
definition defaultMaxServersPerUser :: int where "defaultMaxServersPerUser = 5"
definition defaultOperatorNamespace :: string where "defaultOperatorNamespace = ''kterodactyl-system''"
definition adminConfigMapName :: string where "adminConfigMapName = ''kterodactyl-admin-config''"

definition DefaultAdminConfig :: "'s runtime \<Rightarrow> AdminConfig" where
  "DefaultAdminConfig rt = \<lparr>
     MaxServersGlobal = defaultMaxServersGlobal,
     MaxServersPerUser = defaultMaxServersPerUser,
     QuotaCPURequests = MustParse rt ''4'',
     QuotaCPULimits = MustParse rt ''8'',
     QuotaMemoryRequests = MustParse rt ''8Gi'',
     QuotaMemoryLimits = MustParse rt ''16Gi'',
     QuotaPods = MustParse rt ''5'',
     QuotaPVCs = MustParse rt ''5'',
     QuotaStorage = MustParse rt ''50Gi'',
     DefaultCPU = MustParse rt ''2'',
     DefaultMemory = MustParse rt ''4Gi'',
     DefaultRequestCPU = MustParse rt ''500m'',
     DefaultRequestMemory = MustParse rt ''1Gi'',
     MaxCPU = MustParse rt ''4'',
     MaxMemory = MustParse rt ''8Gi'',
     MinCPU = MustParse rt ''100m'',
     MinMemory = MustParse rt ''128Mi'',
     BaseDomain = [],
     GatewayName = ''kterodactyl-gateway'',
     GatewayNamespace = ''kterodactyl-system'',
     GatewayControllerNamespace = ''envoy-gateway-system'',
     JWTExpirationHours = 24,
     InviteExpirationHours = 72,
     RegistrationEnabled = True,
     PanelURL = [],
     SMTPHost = [],
     SMTPPort = 587,
     SMTPUsername = [],
     SMTPFrom = [],
     ModStorageSize = MustParse rt ''1Gi'',
     ModStorageClass = [],
     BackupS3Endpoint = [],
     BackupS3Bucket = ''kterodactyl-backups'',
     BackupS3Region = ''us-east-1'',
     BackupS3UseSSL = False,
     BackupRetentionCount = 5\<rparr>"

text \<open>The five ways an entry is read; each takes the value to keep.\<close>

definition intField :: "gomap \<Rightarrow> string \<Rightarrow> int \<Rightarrow> int" where
  "intField d k cur = (case map_of d k of None \<Rightarrow> cur
     | Some v \<Rightarrow> (case Atoi v of None \<Rightarrow> cur | Some n \<Rightarrow> n))"

definition boolField :: "gomap \<Rightarrow> string \<Rightarrow> bool \<Rightarrow> bool" where
  "boolField d k cur = (case map_of d k of None \<Rightarrow> cur
     | Some v \<Rightarrow> (case ParseBool v of None \<Rightarrow> cur | Some b \<Rightarrow> b))"

definition parseQuantity :: "'s runtime \<Rightarrow> gomap \<Rightarrow> string \<Rightarrow> quantity \<Rightarrow> quantity" where
  "parseQuantity rt d k cur = (case map_of d k of None \<Rightarrow> cur
     | Some v \<Rightarrow> (case ParseQuantity rt v of None \<Rightarrow> cur | Some q \<Rightarrow> q))"

definition stringField :: "gomap \<Rightarrow> string \<Rightarrow> string \<Rightarrow> string" where
  "stringField d k cur = (case map_of d k of None \<Rightarrow> cur | Some v \<Rightarrow> v)"

definition nonemptyField :: "gomap \<Rightarrow> string \<Rightarrow> string \<Rightarrow> string" where
  "nonemptyField d k cur = (case map_of d k of None \<Rightarrow> cur | Some v \<Rightarrow> if v \<noteq> [] then v else cur)"

definition applyConfigMap :: "'s runtime \<Rightarrow> gomap \<Rightarrow> AdminConfig \<Rightarrow> AdminConfig" where
  "applyConfigMap rt d cfg = \<lparr>
     MaxServersGlobal = intField d ''maxServersGlobal'' (MaxServersGlobal cfg),
     MaxServersPerUser = intField d ''maxServersPerUser'' (MaxServersPerUser cfg),
     QuotaCPURequests = parseQuantity rt d ''quotaCPURequests'' (QuotaCPURequests cfg),
     QuotaCPULimits = parseQuantity rt d ''quotaCPULimits'' (QuotaCPULimits cfg),
     QuotaMemoryRequests = parseQuantity rt d ''quotaMemoryRequests'' (QuotaMemoryRequests cfg),
     QuotaMemoryLimits = parseQuantity rt d ''quotaMemoryLimits'' (QuotaMemoryLimits cfg),
     QuotaPods = parseQuantity rt d ''quotaPods'' (QuotaPods cfg),
     QuotaPVCs = parseQuantity rt d ''quotaPVCs'' (QuotaPVCs cfg),
     QuotaStorage = parseQuantity rt d ''quotaStorage'' (QuotaStorage cfg),
     DefaultCPU = parseQuantity rt d ''defaultCPU'' (DefaultCPU cfg),
     DefaultMemory = parseQuantity rt d ''defaultMemory'' (DefaultMemory cfg),
     DefaultRequestCPU = parseQuantity rt d ''defaultRequestCPU'' (DefaultRequestCPU cfg),
     DefaultRequestMemory = parseQuantity rt d ''defaultRequestMemory'' (DefaultRequestMemory cfg),
     MaxCPU = parseQuantity rt d ''maxCPU'' (MaxCPU cfg),
     MaxMemory = parseQuantity rt d ''maxMemory'' (MaxMemory cfg),
     MinCPU = parseQuantity rt d ''minCPU'' (MinCPU cfg),
     MinMemory = parseQuantity rt d ''minMemory'' (MinMemory cfg),
     BaseDomain = stringField d ''baseDomain'' (BaseDomain cfg),
     GatewayName = nonemptyField d ''gatewayName'' (GatewayName cfg),
     GatewayNamespace = nonemptyField d ''gatewayNamespace'' (GatewayNamespace cfg),
     GatewayControllerNamespace =
       nonemptyField d ''gatewayControllerNamespace'' (GatewayControllerNamespace cfg),
     JWTExpirationHours = intField d ''jwtExpirationHours'' (JWTExpirationHours cfg),
     InviteExpirationHours = intField d ''inviteExpirationHours'' (InviteExpirationHours cfg),
     RegistrationEnabled = boolField d ''registrationEnabled'' (RegistrationEnabled cfg),
     PanelURL = stringField d ''panelURL'' (PanelURL cfg),
     SMTPHost = stringField d ''smtpHost'' (SMTPHost cfg),
     SMTPPort = intField d ''smtpPort'' (SMTPPort cfg),
     SMTPUsername = stringField d ''smtpUsername'' (SMTPUsername cfg),
     SMTPFrom = stringField d ''smtpFrom'' (SMTPFrom cfg),
     ModStorageSize = parseQuantity rt d ''modStorageSize'' (ModStorageSize cfg),
     ModStorageClass = stringField d ''modStorageClass'' (ModStorageClass cfg),
     BackupS3Endpoint = stringField d ''backupS3Endpoint'' (BackupS3Endpoint cfg),
     BackupS3Bucket = nonemptyField d ''backupS3Bucket'' (BackupS3Bucket cfg),
     BackupS3Region = nonemptyField d ''backupS3Region'' (BackupS3Region cfg),
     BackupS3UseSSL = boolField d ''backupS3UseSSL'' (BackupS3UseSSL cfg),
     BackupRetentionCount = intField d ''backupRetentionCount'' (BackupRetentionCount cfg)\<rparr>"

definition LoadAdminConfig ::
  "'s client \<Rightarrow> 's runtime \<Rightarrow> string \<Rightarrow> ('s, gerr + AdminConfig) state" where
  "LoadAdminConfig c rt namespace = do {
     r \<leftarrow> kget (configmaps c) \<lparr>keyNamespace = namespace, keyName = adminConfigMapName\<rparr>;
     case r of
       Inl err \<Rightarrow>
         (if IsNotFound err then ret (Inr (DefaultAdminConfig rt))
          else ret (Inl (errf ''failed to get admin config ConfigMap: '' err)))
     | Inr cm \<Rightarrow> ret (Inr (applyConfigMap rt (cmData cm) (DefaultAdminConfig rt))) }"

lemmas config_field_defs =
  intField_def boolField_def parseQuantity_def stringField_def nonemptyField_def

text \<open>An entry that does not parse is treated as a missing one.\<close>

lemma intField_bad: "map_of d k = Some v \<Longrightarrow> Atoi v = None \<Longrightarrow> intField d k x = x"
  by (simp add: intField_def)

lemma intField_range:
  "- (2 ^ 63) \<le> x \<Longrightarrow> x < 2 ^ 63 \<Longrightarrow> - (2 ^ 63) \<le> intField d k x \<and> intField d k x < 2 ^ 63"
  by (auto simp: intField_def dest: Atoi_range split: option.splits)

lemma preserves_LoadAdminConfig [preserves_intros]:
  "preserves (on_trace I) (kget (configmaps c) \<lparr>keyNamespace = ns, keyName = adminConfigMapName\<rparr>) \<Longrightarrow>
   preserves (on_trace I) (LoadAdminConfig c rt ns)"
  unfolding LoadAdminConfig_def by (intro preserves_intros)

end
