(* ===== verification/GameServerController.thy ===== *)
theory GameServerController
  imports AdminConfig
begin

text \<open>
  The GameServer controller, \<^verbatim>\<open>internal/controller/gameserver_controller.go\<close>: one reconcile of a
  GameServer, with its dispatch on the lifecycle state, the handler of each state, the deletion path
  and the objects it maintains (Pod, mod volume claim, user namespace with quota, limits and network
  policy). Logging and the duration metric are left out; the events it records are calls of
  \<open>Event\<close>.
\<close>

section \<open>Conditions and state of a game server\<close>

definition requeueDelay :: int where "requeueDelay = 5 * 1000000000"
definition startingTimeout :: int where "startingTimeout = 5 * 60 * 1000000000"
definition shutdownGracePeriod :: int where "shutdownGracePeriod = 30"

definition gsKey :: "GameServer \<Rightarrow> key" where
  "gsKey gs = key_of (gsMeta gs)"

abbreviation gsState :: "GameServer \<Rightarrow> GameServerState" where
  "gsState gs \<equiv> State (gsStatus gs)"

definition setState :: "GameServerState \<Rightarrow> GameServer \<Rightarrow> GameServer" where
  "setState st gs = gs\<lparr>gsStatus := (gsStatus gs)\<lparr>State := st\<rparr>\<rparr>"

definition setCondition :: "'s Reconciler \<Rightarrow> string \<Rightarrow> ConditionStatus \<Rightarrow> string \<Rightarrow> string \<Rightarrow>
    GameServer \<Rightarrow> ('s, GameServer) state" where
  "setCondition r ty st reason message gs = do {
     cs \<leftarrow> SetStatusCondition (Runtime r) (Conditions (gsStatus gs))
       \<lparr>cType = ty, cStatus = st, cReason = reason, cMessage = message,
        cObservedGeneration = Generation (gsMeta gs), cLastTransitionTime = None\<rparr>;
     ret (gs\<lparr>gsStatus := (gsStatus gs)\<lparr>Conditions := cs\<rparr>\<rparr>) }"

definition isPodReady :: "Pod \<Rightarrow> bool" where
  "isPodReady pod \<longleftrightarrow> list_all (\<lambda>rdy. rdy) (ContainerStatuses (podStatus pod))
     \<and> ContainerStatuses (podStatus pod) \<noteq> []"

definition operatorNs :: "'s Reconciler \<Rightarrow> string" where
  "operatorNs r = (if OperatorNamespace r \<noteq> [] then OperatorNamespace r else defaultOperatorNamespace)"

section \<open>State transitions\<close>

text \<open>The conditions \<^verbatim>\<open>transitionState\<close> sets for each new state.\<close>

definition transitionConditions :: "'s Reconciler \<Rightarrow> GameServerState \<Rightarrow> string \<Rightarrow> string \<Rightarrow>
    GameServer \<Rightarrow> ('s, GameServer) state" where
  "transitionConditions r newState reason message fresh =
     (if newState = GameServerStateCreating \<or> newState = GameServerStateStarting then do {
        g \<leftarrow> setCondition r TypeProgressing ConditionTrue reason message fresh;
        setCondition r TypeReady ConditionFalse reason message g }
      else if newState = GameServerStateReady then do {
        g \<leftarrow> setCondition r TypeReady ConditionTrue reason message fresh;
        setCondition r TypeProgressing ConditionFalse reason message g }
      else if newState = GameServerStateAllocated then
        setCondition r TypeReady ConditionTrue reason message fresh
      else if newState = GameServerStateShutdown then do {
        g \<leftarrow> setCondition r TypeReady ConditionFalse ''ShuttingDown'' ''GameServer is shutting down'' fresh;
        setCondition r TypeProgressing ConditionFalse ''ShuttingDown'' ''GameServer is shutting down'' g }
      else if newState = GameServerStateError then do {
        g \<leftarrow> setCondition r TypeDegraded ConditionTrue reason message fresh;
        g' \<leftarrow> setCondition r TypeReady ConditionFalse reason message g;
        setCondition r TypeProgressing ConditionFalse reason message g' }
      else ret fresh)"

definition transitionState :: "'s Reconciler \<Rightarrow> GameServer \<Rightarrow> GameServerState \<Rightarrow> string \<Rightarrow> string \<Rightarrow>
    ('s, gerr + Result) state" where
  "transitionState r gs newState reason message =
     (let oldState = gsState gs in
      if \<not> IsValidTransition oldState newState then
        ret (Inl (ErrNew (''invalid state transition from '' @ gs_state_string oldState
          @ '' to '' @ gs_state_string newState)))
      else do {
        got \<leftarrow> kget (gameservers (Client r)) (gsKey gs);
        case got of
          Inl err \<Rightarrow> ret (Inl (errf ''failed to re-fetch GameServer for status update: '' err))
        | Inr fresh0 \<Rightarrow> do {
            fresh \<leftarrow> transitionConditions r newState reason message (setState newState fresh0);
            put \<leftarrow> kstatus (gameservers (Client r)) fresh;
            case put of
              Inl err \<Rightarrow> ret (Inl (errf ''failed to update status for state transition: '' err))
            | Inr _ \<Rightarrow> do {
                Event (Runtime r) (gsKey gs) ''Normal'' ''StateChanged''
                  (''State changed from '' @ gs_state_string oldState @ '' to ''
                    @ gs_state_string newState @ '': '' @ message);
                if newState = GameServerStateCreating then ret (Inr ResultRequeue)
                else if newState = GameServerStateStarting then ret (Inr (ResultAfter requeueDelay))
                else ret (Inr ResultRequeue) } } })"

definition statusPortsOf :: "GameServerPort list \<Rightarrow> GameServerStatusPort list" where
  "statusPortsOf ps = map (\<lambda>p. \<lparr>StatusPortName = PortName p, StatusPort = ContainerPort p,
     StatusProtocol = Protocol p\<rparr>) ps"

definition updateReadyStatus :: "'s Reconciler \<Rightarrow> GameServer \<Rightarrow> Pod \<Rightarrow> ('s, gerr + unit) state" where
  "updateReadyStatus r gs pod = do {
     got \<leftarrow> kget (gameservers (Client r)) (gsKey gs);
     case got of
       Inl err \<Rightarrow> ret (Inl (errf ''failed to re-fetch GameServer for ready status update: '' err))
     | Inr fresh0 \<Rightarrow> do {
         let fresh1 = fresh0\<lparr>gsStatus := (gsStatus fresh0)\<lparr>Address := PodIP (podStatus pod),
           StatusPorts := statusPortsOf (Ports (gsSpec fresh0))\<rparr>\<rparr>;
         fresh2 \<leftarrow> setCondition r TypeReady ConditionTrue ''PodReady'' ''GameServer is running and ready'' fresh1;
         fresh \<leftarrow> setCondition r TypeProgressing ConditionFalse ''PodReady'' ''GameServer is running and ready'' fresh2;
         put \<leftarrow> kstatus (gameservers (Client r)) fresh;
         case put of
           Inl err \<Rightarrow> ret (Inl (errf ''failed to update ready status: '' err))
         | Inr _ \<Rightarrow> ret (Inr ()) } }"

definition refreshAndUpdateCondition :: "'s Reconciler \<Rightarrow> GameServer \<Rightarrow> string \<Rightarrow> ConditionStatus \<Rightarrow>
    string \<Rightarrow> string \<Rightarrow> ('s, gerr + unit) state" where
  "refreshAndUpdateCondition r gs condType status reason message = do {
     got \<leftarrow> kget (gameservers (Client r)) (gsKey gs);
     case got of
       Inl err \<Rightarrow> ret (Inl (errf ''failed to re-fetch GameServer for condition update: '' err))
     | Inr fresh0 \<Rightarrow> do {
         fresh \<leftarrow> setCondition r condType status reason message fresh0;
         put \<leftarrow> kstatus (gameservers (Client r)) fresh;
         case put of
           Inl err \<Rightarrow> ret (Inl (errf (''failed to update condition '' @ condType @ '': '') err))
         | Inr _ \<Rightarrow> ret (Inr ()) } }"

section \<open>The objects of a game server\<close>

definition Pod0 :: "string \<Rightarrow> string \<Rightarrow> Pod" where
  "Pod0 ns n = \<lparr>podMeta = NewMeta ns n [],
     podSpec = \<lparr>Containers = [], RestartPolicy = [], Volumes = []\<rparr>,
     podStatus = \<lparr>Phase = [], PhaseReason = [], PodIP = [], ContainerStatuses = []\<rparr>\<rparr>"

definition gsPodSpec :: "(string list \<Rightarrow> string list) \<Rightarrow> GameServer \<Rightarrow> PodSpec" where
  "gsPodSpec ord gs =
     (let modPath = mget (Annotations (gsMeta gs)) AnnotationModPath in
      \<lparr>Containers = [\<lparr>ctName = ''gameserver'', ctImage = Image (gsSpec gs),
          ctPorts = map (\<lambda>p. \<lparr>cpName = PortName p, cpContainerPort = ContainerPort p,
            cpProtocol = Protocol p\<rparr>) (Ports (gsSpec gs)),
          ctResources = Resources (gsSpec gs),
          ctEnv = rangeMap ord (Parameters (gsSpec gs)),
          ctVolumeMounts = (if modPath \<noteq> [] then [\<lparr>vmName = ''mods'', MountPath = modPath\<rparr>] else [])\<rparr>],
       RestartPolicy = ''Never'',
       Volumes = (if modPath \<noteq> []
         then [\<lparr>volName = ''mods'', ClaimName = Name (gsMeta gs) @ ''-mods''\<rparr>] else [])\<rparr>)"

definition podMutate :: "'s Reconciler \<Rightarrow> GameServer \<Rightarrow> Pod \<Rightarrow> gerr + Pod" where
  "podMutate r gs pod =
     (let owner = mget (Labels (gsMeta gs)) LabelOwner;
          m = (podMeta pod)\<lparr>Labels := GameServerLabels owner (GameType (gsSpec gs))\<rparr> in
      case SetControllerReference (Runtime r) gs m of
        Inl err \<Rightarrow> Inl (errf ''failed to set owner reference: '' err)
      | Inr m' \<Rightarrow> Inr (pod\<lparr>podMeta := m', podSpec := gsPodSpec (RangeKeys (Runtime r)) gs\<rparr>))"

definition reconcilePod :: "'s Reconciler \<Rightarrow> GameServer \<Rightarrow> ('s, gerr + unit) state" where
  "reconcilePod r gs = do {
     res \<leftarrow> kcou (pods (Client r)) (Pod0 (Namespace (gsMeta gs)) (Name (gsMeta gs))) (podMutate r gs);
     case res of
       Inl err \<Rightarrow> ret (Inl (errf ''failed to create/update Pod: '' err))
     | Inr (pod, result) \<Rightarrow> do {
         Event (Runtime r) (gsKey gs) ''Normal'' ''PodReconciled''
           (''Pod '' @ Name (podMeta pod) @ '' '' @ result);
         ret (Inr ()) } }"

definition pvcMutate :: "'s Reconciler \<Rightarrow> GameServer \<Rightarrow> AdminConfig \<Rightarrow> PVC \<Rightarrow> gerr + PVC" where
  "pvcMutate r gs cfg pvc =
     (case SetControllerReference (Runtime r) gs (pvcMeta pvc) of
        Inl err \<Rightarrow> Inl (errf ''failed to set owner reference on mod PVC: '' err)
      | Inr m \<Rightarrow>
          Inr (if CreationTimestamp m = None
            then pvc\<lparr>pvcMeta := m, pvcSpec := Some \<lparr>AccessModes = [''ReadWriteOnce''],
              StorageRequest = ModStorageSize cfg,
              StorageClassName = (if ModStorageClass cfg \<noteq> [] then Some (ModStorageClass cfg) else None)\<rparr>\<rparr>
            else pvc\<lparr>pvcMeta := m\<rparr>))"

definition reconcileModPVC :: "'s Reconciler \<Rightarrow> GameServer \<Rightarrow> AdminConfig \<Rightarrow> ('s, gerr + unit) state" where
  "reconcileModPVC r gs cfg = do {
     res \<leftarrow> kcou (pvcs (Client r))
       \<lparr>pvcMeta = NewMeta (Namespace (gsMeta gs)) (Name (gsMeta gs) @ ''-mods'') [], pvcSpec = None\<rparr>
       (pvcMutate r gs cfg);
     case res of
       Inl err \<Rightarrow> ret (Inl (errf ''failed to create/update mod PVC: '' err))
     | Inr (pvc, result) \<Rightarrow> do {
         Event (Runtime r) (gsKey gs) ''Normal'' ''ModPVCReconciled''
           (''Mod PVC '' @ Name (pvcMeta pvc) @ '' '' @ result);
         ret (Inr ()) } }"

section \<open>The namespace of a user\<close>

definition discard :: "('s, gerr + 'a) state \<Rightarrow> ('s, gerr + unit) state" where
  "discard m = do { x \<leftarrow> m; case x of Inl err \<Rightarrow> ret (Inl err) | Inr _ \<Rightarrow> ret (Inr ()) }"

definition quotaSpec :: "AdminConfig \<Rightarrow> (string \<times> quantity) list" where
  "quotaSpec cfg =
     [(''requests.cpu'', QuotaCPURequests cfg), (''requests.memory'', QuotaMemoryRequests cfg),
      (''limits.cpu'', QuotaCPULimits cfg), (''limits.memory'', QuotaMemoryLimits cfg),
      (''pods'', QuotaPods cfg), (''persistentvolumeclaims'', QuotaPVCs cfg),
      (''requests.storage'', QuotaStorage cfg)]"

definition ensureResourceQuota :: "'s Reconciler \<Rightarrow> string \<Rightarrow> AdminConfig \<Rightarrow> ('s, gerr + unit) state" where
  "ensureResourceQuota r namespace cfg =
     discard (kcou (resourcequotas (Client r)) \<lparr>rqMeta = NewMeta namespace ''user-quota'' [], Hard = []\<rparr>
       (\<lambda>quota. Inr (quota\<lparr>Hard := quotaSpec cfg\<rparr>)))"

definition limitItem :: "AdminConfig \<Rightarrow> LimitRangeItem" where
  "limitItem cfg = \<lparr>lrType = ''Container'',
     lrDefault = [(''cpu'', DefaultCPU cfg), (''memory'', DefaultMemory cfg)],
     lrDefaultRequest = [(''cpu'', DefaultRequestCPU cfg), (''memory'', DefaultRequestMemory cfg)],
     lrMax = [(''cpu'', MaxCPU cfg), (''memory'', MaxMemory cfg)],
     lrMin = [(''cpu'', MinCPU cfg), (''memory'', MinMemory cfg)]\<rparr>"

definition ensureLimitRange :: "'s Reconciler \<Rightarrow> string \<Rightarrow> AdminConfig \<Rightarrow> ('s, gerr + unit) state" where
  "ensureLimitRange r namespace cfg =
     discard (kcou (limitranges (Client r)) \<lparr>lrMeta = NewMeta namespace ''gameserver-limits'' [], lrLimits = []\<rparr>
       (\<lambda>lr. Inr (lr\<lparr>lrLimits := [limitItem cfg]\<rparr>)))"

definition policyIngress :: "string \<Rightarrow> AdminConfig \<Rightarrow> NetworkPolicyRule list" where
  "policyIngress opNs cfg =
     [\<lparr>Peers = [PeerPodSelector []], PeerPorts = []\<rparr>,
      \<lparr>Peers = [PeerNamespaceSelector [(''kubernetes.io/metadata.name'', opNs)]], PeerPorts = []\<rparr>,
      \<lparr>Peers = [PeerNamespaceSelector
         [(''kubernetes.io/metadata.name'', GatewayControllerNamespace cfg)]], PeerPorts = []\<rparr>]"

definition policyEgress :: "NetworkPolicyRule list" where
  "policyEgress =
     [\<lparr>Peers = [PeerPodSelector []], PeerPorts = []\<rparr>,
      \<lparr>Peers = [PeerNamespaceSelector [(''kubernetes.io/metadata.name'', ''kube-system'')]],
       PeerPorts = [(''TCP'', 53), (''UDP'', 53)]\<rparr>,
      \<lparr>Peers = [PeerIPBlock ''0.0.0.0/0'' [''10.0.0.0/8'', ''172.16.0.0/12'', ''192.168.0.0/16'']],
       PeerPorts = []\<rparr>]"

definition ensureNetworkPolicy :: "'s Reconciler \<Rightarrow> string \<Rightarrow> AdminConfig \<Rightarrow> ('s, gerr + unit) state" where
  "ensureNetworkPolicy r namespace cfg =
     discard (kcou (networkpolicies (Client r))
       \<lparr>npMeta = NewMeta namespace ''deny-cross-namespace'' [], npPodSelector = [], PolicyTypes = [],
        Ingress = [], Egress = []\<rparr>
       (\<lambda>np. Inr (np\<lparr>npPodSelector := [], PolicyTypes := [''Ingress'', ''Egress''],
          Ingress := policyIngress (operatorNs r) cfg, Egress := policyEgress\<rparr>)))"

definition namespaceMutate :: "string \<Rightarrow> KNamespace \<Rightarrow> gerr + KNamespace" where
  "namespaceMutate username ns =
     Inr (ns\<lparr>nsMeta := (nsMeta ns)\<lparr>Labels :=
       mput LabelUser username (mput LabelManagedByKterodactyl ManagedByValue (Labels (nsMeta ns)))\<rparr>\<rparr>)"

definition ensureUserNamespace :: "'s Reconciler \<Rightarrow> string \<Rightarrow> AdminConfig \<Rightarrow> ('s, gerr + unit) state" where
  "ensureUserNamespace r username cfg =
     (let namespaceName = UserNamespace username in do {
        res \<leftarrow> kcou (namespaces (Client r)) \<lparr>nsMeta = NewMeta [] namespaceName []\<rparr> (namespaceMutate username);
        case res of
          Inl err \<Rightarrow> ret (Inl (errf (''failed to create/update namespace '' @ namespaceName @ '': '') err))
        | Inr _ \<Rightarrow> do {
            q \<leftarrow> ensureResourceQuota r namespaceName cfg;
            case q of
              Inl err \<Rightarrow> ret (Inl (errf (''failed to ensure ResourceQuota in '' @ namespaceName @ '': '') err))
            | Inr _ \<Rightarrow> do {
                l \<leftarrow> ensureLimitRange r namespaceName cfg;
                case l of
                  Inl err \<Rightarrow> ret (Inl (errf (''failed to ensure LimitRange in '' @ namespaceName @ '': '') err))
                | Inr _ \<Rightarrow> do {
                    n \<leftarrow> ensureNetworkPolicy r namespaceName cfg;
                    case n of
                      Inl err \<Rightarrow>
                        ret (Inl (errf (''failed to ensure NetworkPolicy in '' @ namespaceName @ '': '') err))
                    | Inr _ \<Rightarrow> ret (Inr ()) } } } })"

end
