(* ===== verification/GameServerReconcile.thy ===== *)
theory GameServerReconcile
  imports GameServerController
begin

text \<open>
  The reconcile loop of the GameServer controller: the handler of each lifecycle state, deletion, the
  metrics gauge and \<^verbatim>\<open>Reconcile\<close> itself. The lemmas follow every status write through the trace of
  calls; they hold for any client, so also when other processes change objects between two calls.
\<close>

section \<open>The handlers\<close>

definition initializeState :: "'s Reconciler \<Rightarrow> GameServer \<Rightarrow> ('s, gerr + Result) state" where
  "initializeState r gs0 = do {
     gs1 \<leftarrow> setCondition r TypeProgressing ConditionTrue ''Initializing'' ''GameServer is being created''
       (setState GameServerStateCreating gs0);
     gs \<leftarrow> setCondition r TypeReady ConditionFalse ''Initializing'' ''GameServer is not yet ready'' gs1;
     put \<leftarrow> kstatus (gameservers (Client r)) gs;
     case put of
       Inl err \<Rightarrow> ret (Inl (errf ''failed to set initial state: '' err))
     | Inr _ \<Rightarrow> do {
         Event (Runtime r) (gsKey gs) ''Normal'' ''StateChanged'' ''GameServer state set to Creating'';
         ret (Inr ResultRequeue) } }"

text \<open>The work of \<^verbatim>\<open>reconcileCreating\<close> once the two server limits are passed.\<close>

definition createServerObjects :: "'s Reconciler \<Rightarrow> GameServer \<Rightarrow> string \<Rightarrow> AdminConfig \<Rightarrow>
    ('s, gerr + Result) state" where
  "createServerObjects r gs owner adminCfg = do {
     ens \<leftarrow> ensureUserNamespace r owner adminCfg;
     case ens of
       Inl err \<Rightarrow> transitionState r gs GameServerStateError ''NamespaceSetupFailed''
         (''Failed to set up user namespace: '' @ error_text err)
     | Inr _ \<Rightarrow> do {
         pvc \<leftarrow> (if mget (Annotations (gsMeta gs)) AnnotationModPath \<noteq> []
           then reconcileModPVC r gs adminCfg else ret (Inr ()));
         case pvc of
           Inl err \<Rightarrow> ret (Inl (errf ''failed to reconcile mod PVC: '' err))
         | Inr _ \<Rightarrow> do {
             pod \<leftarrow> reconcilePod r gs;
             case pod of
               Inl err \<Rightarrow> ret (Inl (errf ''failed to reconcile Pod: '' err))
             | Inr _ \<Rightarrow> transitionState r gs GameServerStateStarting ''PodCreated''
                 ''Pod created, waiting for it to become ready'' } } }"

definition reconcileCreating :: "'s Reconciler \<Rightarrow> GameServer \<Rightarrow> ('s, gerr + Result) state" where
  "reconcileCreating r gs =
     (let owner = mget (Labels (gsMeta gs)) LabelOwner in
      if owner = [] then
        transitionState r gs GameServerStateError ''MissingOwnerLabel''
          ''GameServer is missing required owner label''
      else do {
        cfg \<leftarrow> LoadAdminConfig (Client r) (Runtime r) (operatorNs r);
        case cfg of
          Inl err \<Rightarrow> ret (Inl (errf ''failed to load admin config: '' err))
        | Inr adminCfg \<Rightarrow> do {
            all \<leftarrow> klist (gameservers (Client r)) None [];
            case all of
              Inl err \<Rightarrow> ret (Inl (errf ''failed to list GameServers for global count check: '' err))
            | Inr gsList \<Rightarrow>
                if int (length gsList) > MaxServersGlobal adminCfg then
                  transitionState r gs GameServerStateError ''GlobalLimitExceeded''
                    (''Global server limit of '' @ Itoa (MaxServersGlobal adminCfg)
                      @ '' exceeded (current: '' @ Itoa (int (length gsList)) @ '')'')
                else do {
                  own \<leftarrow> klist (gameservers (Client r)) (Some (UserNamespace owner)) [];
                  case (case own of Inl err \<Rightarrow> (if IsNotFound err then Inr [] else Inl err)
                        | Inr xs \<Rightarrow> Inr xs) of
                    Inl err \<Rightarrow> ret (Inl (errf ''failed to list GameServers for per-user count check: '' err))
                  | Inr userGsList \<Rightarrow>
                      if int (length userGsList) > MaxServersPerUser adminCfg then
                        transitionState r gs GameServerStateError ''UserLimitExceeded''
                          (''Per-user server limit of '' @ Itoa (MaxServersPerUser adminCfg)
                            @ '' exceeded for user '' @ owner @ '' (current: ''
                            @ Itoa (int (length userGsList)) @ '')'')
                      else createServerObjects r gs owner adminCfg } } })"

text \<open>
  The loop over the conditions in \<^verbatim>\<open>reconcileStarting\<close>. A condition with no transition time counts
  from the zero time, which is long past.
\<close>

primrec startingTimedOut :: "'s runtime \<Rightarrow> Condition list \<Rightarrow> ('s, bool) state" where
  "startingTimedOut rt [] = ret False"
| "startingTimedOut rt (c # cs) =
     (if cType c = TypeProgressing \<and> cStatus c = ConditionTrue then do {
        now \<leftarrow> Now rt;
        if (case cLastTransitionTime c of None \<Rightarrow> True | Some t \<Rightarrow> now - t > startingTimeout)
        then ret True else startingTimedOut rt cs }
      else startingTimedOut rt cs)"

definition reconcileStarting :: "'s Reconciler \<Rightarrow> GameServer \<Rightarrow> ('s, gerr + Result) state" where
  "reconcileStarting r gs = do {
     got \<leftarrow> kget (pods (Client r)) (gsKey gs);
     case got of
       Inl err \<Rightarrow>
         if IsNotFound err then
           transitionState r gs GameServerStateCreating ''PodDeleted''
             ''Pod was deleted externally, recreating''
         else ret (Inl (errf ''failed to get Pod: '' err))
     | Inr pod \<Rightarrow>
         if Phase (podStatus pod) = PodRunning \<and> isPodReady pod then
           transitionState r gs GameServerStateReady ''PodReady''
             ''Pod is running and all containers are ready''
         else if Phase (podStatus pod) = PodFailed then
           transitionState r gs GameServerStateError ''PodFailed''
             (''Pod failed with reason: '' @ PhaseReason (podStatus pod))
         else do {
           late \<leftarrow> startingTimedOut (Runtime r) (Conditions (gsStatus gs));
           if late then
             transitionState r gs GameServerStateError ''StartingTimeout''
               ''Pod did not become ready within 5 minutes''
           else ret (Inr (ResultAfter requeueDelay)) } }"

definition reconcileReady :: "'s Reconciler \<Rightarrow> GameServer \<Rightarrow> ('s, gerr + Result) state" where
  "reconcileReady r gs = do {
     got \<leftarrow> kget (pods (Client r)) (gsKey gs);
     case got of
       Inl err \<Rightarrow>
         if IsNotFound err then
           transitionState r gs GameServerStateError ''PodNotFound''
             ''Pod disappeared while GameServer was Ready''
         else ret (Inl (errf ''failed to get Pod: '' err))
     | Inr pod \<Rightarrow>
         if Phase (podStatus pod) \<noteq> PodRunning \<or> \<not> isPodReady pod then
           transitionState r gs GameServerStateError ''PodNotReady'' ''Pod is no longer running or ready''
         else if mget (Annotations (gsMeta gs)) AnnotationAllocated = ''true'' then
           transitionState r gs GameServerStateAllocated ''Allocated'' ''GameServer has been allocated''
         else do {
           up \<leftarrow> updateReadyStatus r gs pod;
           case up of Inl err \<Rightarrow> ret (Inl err) | Inr _ \<Rightarrow> ret (Inr Result0) } }"

definition reconcileAllocated :: "'s Reconciler \<Rightarrow> GameServer \<Rightarrow> ('s, gerr + Result) state" where
  "reconcileAllocated r gs = do {
     got \<leftarrow> kget (pods (Client r)) (gsKey gs);
     case got of
       Inl err \<Rightarrow>
         if IsNotFound err then
           transitionState r gs GameServerStateError ''PodNotFound''
             ''Pod disappeared while GameServer was Allocated''
         else ret (Inl (errf ''failed to get Pod: '' err))
     | Inr pod \<Rightarrow>
         if Phase (podStatus pod) \<noteq> PodRunning \<or> \<not> isPodReady pod then
           transitionState r gs GameServerStateError ''PodNotReady''
             ''Pod is no longer running or ready while Allocated''
         else if mget (Annotations (gsMeta gs)) AnnotationAllocated \<noteq> ''true'' then
           transitionState r gs GameServerStateReady ''Deallocated'' ''GameServer has been deallocated''
         else ret (Inr Result0) }"

definition reconcileShutdown :: "'s Reconciler \<Rightarrow> GameServer \<Rightarrow> ('s, gerr + Result) state" where
  "reconcileShutdown r gs = do {
     got \<leftarrow> kget (pods (Client r)) (gsKey gs);
     gone \<leftarrow> (case got of
         Inl err \<Rightarrow>
           if IsNotFound err then ret (Inr ())
           else ret (Inl (errf ''failed to get Pod during shutdown: '' err))
       | Inr pod \<Rightarrow> do {
           del \<leftarrow> kdelete (pods (Client r)) pod (Some shutdownGracePeriod);
           case (case del of Inl err \<Rightarrow> (if IsNotFound err then None else Some err) | Inr _ \<Rightarrow> None) of
             Some err \<Rightarrow> ret (Inl (errf ''failed to delete Pod during shutdown: '' err))
           | None \<Rightarrow> do {
               Event (Runtime r) (gsKey gs) ''Normal'' ''PodDeleted'' ''Pod deleted during shutdown'';
               ret (Inr ()) } });
     case gone of
       Inl err \<Rightarrow> ret (Inl err)
     | Inr _ \<Rightarrow> do {
         up \<leftarrow> refreshAndUpdateCondition r gs TypeReady ConditionFalse ''ShuttingDown''
           ''GameServer is shutting down'';
         case up of Inl err \<Rightarrow> ret (Inl err) | Inr _ \<Rightarrow> ret (Inr Result0) } }"

definition reconcileError :: "'s Reconciler \<Rightarrow> GameServer \<Rightarrow> ('s, gerr + Result) state" where
  "reconcileError r gs = do {
     up \<leftarrow> refreshAndUpdateCondition r gs TypeDegraded ConditionTrue ''Error''
       ''GameServer has encountered an error'';
     case up of Inl err \<Rightarrow> ret (Inl err) | Inr _ \<Rightarrow> ret (Inr Result0) }"

definition handleDeletion :: "'s Reconciler \<Rightarrow> GameServer \<Rightarrow> ('s, gerr + Result) state" where
  "handleDeletion r gs =
     (if ContainsFinalizer (Runtime r) (gsMeta gs) FinalizerName then do {
        got \<leftarrow> kget (pods (Client r)) (gsKey gs);
        gone \<leftarrow> (case got of
            Inr pod \<Rightarrow> do {
              del \<leftarrow> kdelete (pods (Client r)) pod None;
              case (case del of Inl err \<Rightarrow> (if IsNotFound err then None else Some err) | Inr _ \<Rightarrow> None) of
                Some err \<Rightarrow> ret (Inl (errf ''failed to delete Pod during finalization: '' err))
              | None \<Rightarrow> ret (Inr ()) }
          | Inl err \<Rightarrow>
              if \<not> IsNotFound err then ret (Inl (errf ''failed to get Pod during finalization: '' err))
              else ret (Inr ()));
        case gone of
          Inl err \<Rightarrow> ret (Inl err)
        | Inr _ \<Rightarrow> do {
            let gs' = gs\<lparr>gsMeta := RemoveFinalizer (Runtime r) (gsMeta gs) FinalizerName\<rparr>;
            put \<leftarrow> kupdate (gameservers (Client r)) gs';
            case put of
              Inl err \<Rightarrow> ret (Inl (errf ''failed to remove finalizer: '' err))
            | Inr _ \<Rightarrow> do {
                Event (Runtime r) (gsKey gs) ''Normal'' ''Finalized''
                  ''GameServer finalized and resources cleaned up'';
                ret (Inr Result0) } } }
      else ret (Inr Result0))"

section \<open>The metrics gauge\<close>

type_synonym counts = "(string \<times> (string \<times> nat) list) list"

definition lookupCount :: "counts \<Rightarrow> string \<Rightarrow> string \<Rightarrow> nat" where
  "lookupCount m st g = (case map_of m st of None \<Rightarrow> 0
     | Some inner \<Rightarrow> (case map_of inner g of None \<Rightarrow> 0 | Some n \<Rightarrow> n))"

definition innerCounts :: "counts \<Rightarrow> string \<Rightarrow> (string \<times> nat) list" where
  "innerCounts m st = (case map_of m st of None \<Rightarrow> [] | Some inner \<Rightarrow> inner)"

definition countServer :: "GameServer \<Rightarrow> counts \<Rightarrow> counts" where
  "countServer gs m =
     (let st = gs_state_string (gsState gs); g = GameType (gsSpec gs) in
      AList.update st (AList.update g (Suc (lookupCount m st g)) (innerCounts m st)) m)"

definition countServers :: "GameServer list \<Rightarrow> counts" where
  "countServers items = fold countServer items []"

definition updateGameServerGauge :: "'s Reconciler \<Rightarrow> ('s, unit) state" where
  "updateGameServerGauge r = do {
     l \<leftarrow> klist (gameservers (Client r)) None [];
     case l of
       Inl _ \<Rightarrow> ret ()
     | Inr items \<Rightarrow> do {
         GaugeReset (Runtime r);
         let m = countServers items;
         forEach (RangeKeys (Runtime r) (map fst m)) (\<lambda>st.
           forEach (RangeKeys (Runtime r) (map fst (innerCounts m st))) (\<lambda>g.
             GaugeSet (Runtime r) st g (lookupCount m st g))) } }"

section \<open>Reconcile\<close>

definition dispatchState :: "'s Reconciler \<Rightarrow> GameServer \<Rightarrow> ('s, gerr + Result) state option" where
  "dispatchState r gs = (case gsState gs of
       GameServerStateCreating \<Rightarrow> Some (reconcileCreating r gs)
     | GameServerStateStarting \<Rightarrow> Some (reconcileStarting r gs)
     | GameServerStateReady \<Rightarrow> Some (reconcileReady r gs)
     | GameServerStateAllocated \<Rightarrow> Some (reconcileAllocated r gs)
     | GameServerStateShutdown \<Rightarrow> Some (reconcileShutdown r gs)
     | GameServerStateError \<Rightarrow> Some (reconcileError r gs)
     | _ \<Rightarrow> None)"

text \<open>Steps 2 to 5 of \<^verbatim>\<open>Reconcile\<close>, on the game server that was read.\<close>

definition reconcileFetched :: "'s Reconciler \<Rightarrow> GameServer \<Rightarrow> ('s, gerr + Result) state" where
  "reconcileFetched r gs =
     (if DeletionTimestamp (gsMeta gs) \<noteq> None then handleDeletion r gs
      else if \<not> ContainsFinalizer (Runtime r) (gsMeta gs) FinalizerName then do {
        put \<leftarrow> kupdate (gameservers (Client r))
          (gs\<lparr>gsMeta := AddFinalizer (Runtime r) (gsMeta gs) FinalizerName\<rparr>);
        case put of
          Inl err \<Rightarrow> ret (Inl (errf ''failed to add finalizer: '' err))
        | Inr _ \<Rightarrow> ret (Inr ResultRequeue) }
      else if gsState gs = GameServerStateUnset then initializeState r gs
      else (case dispatchState r gs of
          None \<Rightarrow> ret (Inr Result0)
        | Some m \<Rightarrow> do {
            result \<leftarrow> m;
            updateGameServerGauge r;
            ret result }))"

definition Reconcile :: "'s Reconciler \<Rightarrow> key \<Rightarrow> ('s, gerr + Result) state" where
  "Reconcile r req = do {
     got \<leftarrow> kget (gameservers (Client r)) req;
     case got of
       Inl err \<Rightarrow>
         if IsNotFound err then ret (Inr Result0)
         else ret (Inl (errf ''failed to get GameServer: '' err))
     | Inr gs \<Rightarrow> reconcileFetched r gs }"

section \<open>What a handler writes\<close>

text \<open>Setting a condition changes nothing else of the object and makes no recorded call.\<close>

definition same_but_conditions :: "GameServer \<Rightarrow> GameServer \<Rightarrow> bool" where
  "same_but_conditions g g' \<longleftrightarrow> gsMeta g' = gsMeta g \<and> gsSpec g' = gsSpec g \<and> gsState g' = gsState g
     \<and> Address (gsStatus g') = Address (gsStatus g) \<and> StatusPorts (gsStatus g') = StatusPorts (gsStatus g)"

lemma same_but_conditions_trans:
  "same_but_conditions a b \<Longrightarrow> same_but_conditions b c \<Longrightarrow> same_but_conditions a c"
  by (simp add: same_but_conditions_def)

lemma same_but_conditions_refl [simp]: "same_but_conditions a a"
  by (simp add: same_but_conditions_def)

lemma setCondition_traced:
  "run_state (setCondition (traced r) ty st re m g) (s, tr) = (g', (s', tr')) \<Longrightarrow>
   same_but_conditions g g' \<and> tr' = tr"
  by (auto simp: setCondition_def same_but_conditions_def split: prod.splits)

lemma transitionConditions_traced:
  "run_state (transitionConditions (traced r) st re m g) (s, tr) = (g', (s', tr')) \<Longrightarrow>
   same_but_conditions g g' \<and> tr' = tr"
  unfolding transitionConditions_def
  by (auto split: if_splits prod.splits dest!: setCondition_traced intro: same_but_conditions_trans)

text \<open>
  A status write is in order for the game server \<open>gs\<close> that was read at the start of a reconcile when
  it writes a copy fetched under \<open>gs\<close>'s key, with metadata and spec as fetched, whose state is the
  fetched one or a valid next state of \<open>gs\<close>.
\<close>

definition write_in_order :: "GameServer \<Rightarrow> event list \<Rightarrow> GameServer \<Rightarrow> bool" where
  "write_in_order gs tr g \<longleftrightarrow> (\<exists>fresh. OnGameServer (EvGet (gsKey gs) (Inr fresh)) \<in> set tr
     \<and> gsMeta g = gsMeta fresh \<and> gsSpec g = gsSpec fresh
     \<and> (gsState g = gsState fresh \<or> IsValidTransition (gsState gs) (gsState g)))"

definition writes_in_order :: "GameServer \<Rightarrow> event list \<Rightarrow> bool" where
  "writes_in_order gs tr \<longleftrightarrow> (\<forall>g put. OnGameServer (EvStatus g put) \<in> set tr \<longrightarrow> write_in_order gs tr g)"

lemma write_in_order_mono: "write_in_order gs tr g \<Longrightarrow> write_in_order gs (tr @ evs) g"
  by (auto simp: write_in_order_def)

lemma writes_in_order_Nil [simp]: "writes_in_order gs []"
  by (simp add: writes_in_order_def)

lemma writes_in_order_other:
  "writes_in_order gs tr \<Longrightarrow> (\<And>g put. OnGameServer (EvStatus g put) \<notin> set evs) \<Longrightarrow>
   writes_in_order gs (tr @ evs)"
  by (auto simp: writes_in_order_def intro: write_in_order_mono)

lemma preserves_writes_other:
  "(\<And>a g put. OnGameServer (EvStatus g put) \<notin> set (ev a)) \<Longrightarrow>
   preserves (on_trace (writes_in_order gs)) (lift_op m ev)"
  by (rule preserves_lift_op) (rule writes_in_order_other)

lemma writes_in_order_refetched:
  assumes "writes_in_order gs tr" "gsMeta g = gsMeta fresh" "gsSpec g = gsSpec fresh"
    and "gsState g = gsState fresh \<or> IsValidTransition (gsState gs) (gsState g)"
  shows "writes_in_order gs (tr @ [OnGameServer (EvGet (gsKey gs) (Inr fresh)), OnGameServer (EvStatus g put)])"
  using assms by (fastforce simp: writes_in_order_def write_in_order_def)

lemma setState_simps [simp]:
  "gsMeta (setState st g) = gsMeta g" "gsSpec (setState st g) = gsSpec g" "gsState (setState st g) = st"
  by (simp_all add: setState_def)

lemma transitionState_writes [preserves_intros]:
  "preserves (on_trace (writes_in_order gs)) (transitionState (traced r) gs st re m)"
proof (rule preservesI, clarify)
  fix s tr a s' tr'
  assume I: "writes_in_order gs tr"
    and run: "run_state (transitionState (traced r) gs st re m) (s, tr) = (a, (s', tr'))"
  show "writes_in_order gs tr'"
  proof (cases "IsValidTransition (gsState gs) st")
    case False
    with run I show ?thesis by (simp add: transitionState_def)
  next
    case True
    have get: "writes_in_order gs (tr @ [OnGameServer (EvGet k x)])" for k x
      using I by (rule writes_in_order_other) simp
    have valid: "x = st \<Longrightarrow> IsValidTransition (gsState gs) x" for x using True by simp
    from run show ?thesis
      by (auto simp: transitionState_def Let_def True get same_but_conditions_def
          split: prod.splits sum.splits if_splits dest!: transitionConditions_traced
          intro!: writes_in_order_refetched[OF I _ _ disjI2[OF valid]])
  qed
qed


lemma updateReadyStatus_writes [preserves_intros]:
  "preserves (on_trace (writes_in_order gs)) (updateReadyStatus (traced r) gs pod)"
proof (rule preservesI, clarify)
  fix s tr a s' tr'
  assume I: "writes_in_order gs tr"
    and run: "run_state (updateReadyStatus (traced r) gs pod) (s, tr) = (a, (s', tr'))"
  have get: "writes_in_order gs (tr @ [OnGameServer (EvGet k x)])" for k x
    using I by (rule writes_in_order_other) simp
  from run show "writes_in_order gs tr'"
    by (auto simp: updateReadyStatus_def Let_def get same_but_conditions_def
        split: prod.splits sum.splits dest!: setCondition_traced
        intro!: writes_in_order_refetched[OF I _ _ disjI1])
qed

lemma refreshAndUpdateCondition_writes [preserves_intros]:
  "preserves (on_trace (writes_in_order gs)) (refreshAndUpdateCondition (traced r) gs ty st re m)"
proof (rule preservesI, clarify)
  fix s tr a s' tr'
  assume I: "writes_in_order gs tr"
    and run: "run_state (refreshAndUpdateCondition (traced r) gs ty st re m) (s, tr) = (a, (s', tr'))"
  have get: "writes_in_order gs (tr @ [OnGameServer (EvGet k x)])" for k x
    using I by (rule writes_in_order_other) simp
  from run show "writes_in_order gs tr'"
    by (auto simp: refreshAndUpdateCondition_def get same_but_conditions_def
        split: prod.splits sum.splits dest!: setCondition_traced
        intro!: writes_in_order_refetched[OF I _ _ disjI1])
qed

text \<open>Handlers are built from these three writers and from calls that write no game server status.\<close>

lemmas handler_defs = ensureUserNamespace_def ensureResourceQuota_def ensureLimitRange_def
  ensureNetworkPolicy_def discard_def reconcilePod_def reconcileModPVC_def LoadAdminConfig_def

lemma createServerObjects_writes [preserves_intros]:
  "preserves (on_trace (writes_in_order gs)) (createServerObjects (traced r) gs owner cfg)"
  unfolding createServerObjects_def handler_defs traced_simps traced_api_simps
  by (intro preserves_intros preserves_writes_other) auto

lemma startingTimedOut_writes [preserves_intros]:
  "preserves (on_trace I) (startingTimedOut (traced_runtime rt) cs)"
  by (induction cs) (auto intro!: preserves_intros)

lemma dispatchState_writes:
  "dispatchState (traced r) gs = Some m \<Longrightarrow> preserves (on_trace (writes_in_order gs)) m"
  unfolding dispatchState_def reconcileCreating_def reconcileStarting_def reconcileReady_def
    reconcileAllocated_def reconcileShutdown_def reconcileError_def handler_defs
    traced_simps traced_api_simps
  by (auto split: GameServerState.splits intro!: preserves_intros preserves_writes_other)


lemma handleDeletion_writes [preserves_intros]:
  "preserves (on_trace (writes_in_order gs)) (handleDeletion (traced r) gs)"
  unfolding handleDeletion_def traced_simps traced_api_simps
  by (intro preserves_intros preserves_writes_other) auto

lemma updateGameServerGauge_writes [preserves_intros]:
  "preserves (on_trace (writes_in_order gs)) (updateGameServerGauge (traced r))"
  unfolding updateGameServerGauge_def traced_simps traced_api_simps
  by (intro preserves_intros preserves_writes_other) auto

text \<open>
  Which kinds of calls each part makes. The status writers only read and write game servers, and the
  objects of a server are only created or updated.
\<close>

lemmas writer_defs = transitionState_def transitionConditions_def updateReadyStatus_def
  refreshAndUpdateCondition_def setCondition_def

lemmas state_handler_defs = reconcileCreating_def createServerObjects_def reconcileStarting_def
  reconcileReady_def reconcileAllocated_def reconcileShutdown_def reconcileError_def

fun gs_status_call :: "event \<Rightarrow> bool" where
  "gs_status_call (OnGameServer (EvGet k x)) = True"
| "gs_status_call (OnGameServer (EvList n l x)) = True"
| "gs_status_call (OnGameServer (EvStatus g x)) = True"
| "gs_status_call _ = False"

text \<open>Calls picked out by kind, for stating what a trace contains.\<close>

fun is_status_write :: "event \<Rightarrow> bool" where
  "is_status_write (OnGameServer (EvStatus g x)) = True"
| "is_status_write _ = False"

fun is_gs_update :: "event \<Rightarrow> bool" where
  "is_gs_update (OnGameServer (EvUpdate g x)) = True"
| "is_gs_update _ = False"

fun is_pod_delete :: "event \<Rightarrow> bool" where
  "is_pod_delete (OnPod (EvDelete p g x)) = True"
| "is_pod_delete _ = False"

fun is_pod_cou :: "event \<Rightarrow> bool" where
  "is_pod_cou (OnPod (EvCreateOrUpdate p x)) = True"
| "is_pod_cou _ = False"

fun_cases is_status_writeE: "is_status_write e"
fun_cases is_gs_updateE: "is_gs_update e"
fun_cases is_pod_deleteE: "is_pod_delete e"
fun_cases is_pod_couE: "is_pod_cou e"

lemma list_ex_event: "list_ex Q tr \<Longrightarrow> (\<And>e. Q e \<Longrightarrow> e \<in> set tr \<Longrightarrow> thesis) \<Longrightarrow> thesis"
  by (auto simp: list_ex_iff)

lemma gs_status_call_kind [simp]:
  assumes "gs_status_call e"
  shows "\<not> is_pod_delete e" "\<not> is_pod_cou e" "\<not> is_gs_update e"
  using assms by (auto elim!: is_pod_deleteE is_pod_couE is_gs_updateE)

lemma gs_status_calls [simp]:
  assumes "all_events gs_status_call evs"
  shows "OnPod e \<notin> set evs" "OnGameServer (EvUpdate g x) \<notin> set evs"
  using assms by (auto dest: all_eventsD)

lemma transitionState_emits:
  "emits gs_status_call (transitionState (traced r) gs st re m)"
  unfolding writer_defs traced_simps traced_api_simps by (intro emits_intros) simp_all

lemma updateReadyStatus_emits:
  "emits gs_status_call (updateReadyStatus (traced r) gs pod)"
  unfolding writer_defs traced_simps traced_api_simps by (intro emits_intros) simp_all

lemma refreshAndUpdateCondition_emits:
  "emits gs_status_call (refreshAndUpdateCondition (traced r) gs ty st re m)"
  unfolding writer_defs traced_simps traced_api_simps by (intro emits_intros) simp_all

lemma initializeState_emits:
  "emits gs_status_call (initializeState (traced r) gs)"
  unfolding initializeState_def writer_defs traced_simps traced_api_simps
  by (intro emits_intros) simp_all

lemma updateGameServerGauge_emits:
  "emits gs_status_call (updateGameServerGauge (traced r))"
  unfolding updateGameServerGauge_def traced_simps traced_api_simps
  by (intro emits_intros) simp_all

lemma startingTimedOut_emits [emits_intros]: "emits P (startingTimedOut (traced_runtime rt) cs)"
  by (induction cs) (auto intro!: emits_intros)

lemmas emits_writers [emits_intros] = emits_mono[OF transitionState_emits]
  emits_mono[OF updateReadyStatus_emits] emits_mono[OF refreshAndUpdateCondition_emits]
  emits_mono[OF initializeState_emits] emits_mono[OF updateGameServerGauge_emits]

lemma dispatchState_emits:
  "dispatchState (traced r) gs = Some m \<Longrightarrow> emits (\<lambda>_. True) m"
  unfolding dispatchState_def state_handler_defs handler_defs traced_simps traced_api_simps
  by (auto split: GameServerState.splits intro!: emits_intros)

lemma handleDeletion_emits: "emits (\<lambda>_. True) (handleDeletion (traced r) gs)"
  unfolding handleDeletion_def traced_simps traced_api_simps by (intro emits_intros) simp_all

lemma reconcileFetched_emits: "emits (\<lambda>_. True) (reconcileFetched (traced r) gs)"
  unfolding reconcileFetched_def traced_simps traced_api_simps
  by (intro emits_intros handleDeletion_emits dispatchState_emits) simp_all

definition initializes :: "'s Reconciler \<Rightarrow> GameServer \<Rightarrow> bool" where
  "initializes r gs \<longleftrightarrow> DeletionTimestamp (gsMeta gs) = None
     \<and> ContainsFinalizer (Runtime r) (gsMeta gs) FinalizerName \<and> gsState gs = GameServerStateUnset"

lemma reconcileFetched_writes:
  assumes "\<not> initializes r gs"
  shows "preserves (on_trace (writes_in_order gs)) (reconcileFetched (traced r) gs)"
  using assms unfolding reconcileFetched_def initializes_def
  by (auto intro!: preserves_intros preserves_writes_other dest: dispatchState_writes)

lemma reconcileFetched_initializes:
  "initializes r gs \<Longrightarrow> reconcileFetched r gs = initializeState r gs"
  by (simp add: initializes_def reconcileFetched_def)

lemma initializes_traced [simp]: "initializes (traced r) gs \<longleftrightarrow> initializes r gs"
  by (simp add: initializes_def)

lemma initializeState_trace:
  "run_state (initializeState (traced r) gs) (s, tr) = (a, (s', tr')) \<Longrightarrow>
   \<exists>g put. tr' = tr @ [OnGameServer (EvStatus g put)] \<and> gsMeta g = gsMeta gs \<and> gsSpec g = gsSpec gs
     \<and> gsState g = GameServerStateCreating"
  by (auto simp: initializeState_def same_but_conditions_def split: prod.splits sum.splits
      dest!: setCondition_traced)

lemma Reconcile_trace:
  assumes "run_state (Reconcile (traced r) req) (s, []) = (res, (s', tr))"
  obtains (failed) err where "tr = [OnGameServer (EvGet req (Inl err))]"
  | (read) gs s1 evs where "run_state (kget (gameservers (Client r)) req) s = (Inr gs, s1)"
      "run_state (reconcileFetched (traced r) gs) (s1, [OnGameServer (EvGet req (Inr gs))]) = (res, (s', tr))"
      "tr = OnGameServer (EvGet req (Inr gs)) # evs"
proof (cases "run_state (kget (gameservers (Client r)) req) s")
  case (Pair got s1)
  show thesis
  proof (cases got)
    case (Inl err)
    with assms Pair failed[of err] show thesis by (simp add: Reconcile_def split: if_splits)
  next
    case (Inr gs)
    with assms Pair have run: "run_state (reconcileFetched (traced r) gs)
        (s1, [OnGameServer (EvGet req (Inr gs))]) = (res, (s', tr))"
      by (simp add: Reconcile_def)
    from emitsD[OF reconcileFetched_emits run] Pair Inr read[OF _ run] show thesis by auto
  qed
qed

end
