(* ===== verification/Store.thy ===== *)
theory Store
  imports Kube
begin

text \<open>
  What the API server documents of a kind of object when it is healthy and no other process writes,
  as the locales \<open>object_store\<close> (reads, creation, deletion) and \<open>status_store\<close> (the status
  subresource, with its optimistic lock on the resource version). A theorem that needs the server to
  behave takes one of them as a hypothesis.

  \<open>cluster\<close> with \<open>cluster_client\<close> is a reference server that satisfies them for every kind the
  program uses, so that the hypotheses can be met; it is also what the concrete runs evaluate on.
\<close>

section \<open>The laws\<close>

locale object_store =
  fixes api :: "('s, 'o) kapi"
    and objects :: "'s \<Rightarrow> key \<Rightarrow> 'o option"
    and meta :: "'o \<Rightarrow> ObjectMeta"
    and content :: "'o \<Rightarrow> 'b"
  assumes object_key: "objects s k = Some x \<Longrightarrow> key_of (meta x) = k"
    and get_found: "objects s k = Some x \<Longrightarrow> run_state (kget api k) s = (Inr x, s)"
    and get_missing:
      "objects s k = None \<Longrightarrow> \<exists>e. run_state (kget api k) s = (Inl e, s) \<and> IsNotFound e"
    and list_objects:
      "\<exists>xs. run_state (klist api ns sel) s = (Inr xs, s) \<and> distinct xs \<and>
         set xs = {x. \<exists>k. objects s k = Some x \<and> (ns = None \<or> ns = Some (keyNamespace k)) \<and>
           matches_labels sel (Labels (meta x))}"
    and create_new:
      "objects s (key_of (meta x)) = None \<Longrightarrow>
       \<exists>x' s'. run_state (kcreate api x) s = (Inr x', s') \<and> content x' = content x \<and>
         objects s' = (objects s)(key_of (meta x) \<mapsto> x')"
    and create_existing:
      "objects s (key_of (meta x)) = Some y \<Longrightarrow>
       \<exists>e. run_state (kcreate api x) s = (Inl e, s) \<and> IsAlreadyExists e"
    and delete_existing:
      "objects s (key_of (meta x)) = Some y \<Longrightarrow> Finalizers (meta y) = [] \<Longrightarrow>
       \<exists>s'. run_state (kdelete api x g) s = (Inr (), s') \<and>
         objects s' = (objects s)(key_of (meta x) := None)"
    and delete_finalized:
      "objects s (key_of (meta x)) = Some y \<Longrightarrow> Finalizers (meta y) \<noteq> [] \<Longrightarrow>
       \<exists>y' s'. run_state (kdelete api x g) s = (Inr (), s') \<and> DeletionTimestamp (meta y') \<noteq> None \<and>
         objects s' = (objects s)(key_of (meta x) \<mapsto> y')"
    and cou_new:
      "objects s (key_of (meta x)) = None \<Longrightarrow> f x = Inr y \<Longrightarrow> key_of (meta y) = key_of (meta x) \<Longrightarrow>
       \<exists>z s'. run_state (kcou api x f) s = (Inr (z, ''created''), s') \<and> content z = content y \<and>
         objects s' = (objects s)(key_of (meta x) \<mapsto> z)"
    and cou_existing:
      "objects s (key_of (meta x)) = Some cur \<Longrightarrow> DeletionTimestamp (meta cur) = None \<Longrightarrow> f cur = Inr y \<Longrightarrow>
       key_of (meta y) = key_of (meta x) \<Longrightarrow> ResourceVersion (meta y) = ResourceVersion (meta cur) \<Longrightarrow>
       \<exists>z result s'. run_state (kcou api x f) s = (Inr (z, result), s') \<and> content z = content y \<and>
         objects s' = (objects s)(key_of (meta x) \<mapsto> z)"
begin

lemma delete_ok:
  assumes "objects s (key_of (meta x)) = Some y"
  obtains s' where "run_state (kdelete api x g) s = (Inr (), s')"
  using delete_existing[OF assms, of g] delete_finalized[OF assms, of g] by blast

text \<open>An unlabelled list has one entry for each key of the namespace.\<close>

lemma list_length:
  assumes "run_state (klist api ns []) s = (Inr xs, s')"
  shows "s' = s \<and> length xs = card {k. objects s k \<noteq> None \<and> (ns = None \<or> ns = Some (keyNamespace k))}"
proof -
  let ?K = "{k. objects s k \<noteq> None \<and> (ns = None \<or> ns = Some (keyNamespace k))}"
  from list_objects[of ns "[]" s] assms have xs: "s' = s" "distinct xs"
      "set xs = {x. \<exists>k. objects s k = Some x \<and> (ns = None \<or> ns = Some (keyNamespace k))}" by auto
  have "set xs = (\<lambda>k. the (objects s k)) ` ?K" unfolding xs(3) by force
  moreover have "inj_on (\<lambda>k. the (objects s k)) ?K"
  proof (rule inj_onI)
    fix j k
    assume "j \<in> ?K" "k \<in> ?K" and eq: "the (objects s j) = the (objects s k)"
    then obtain x where "objects s j = Some x" "objects s k = Some x" by auto
    then have "key_of (meta x) = j" "key_of (meta x) = k" by (auto dest: object_key)
    then show "j = k" by simp
  qed
  ultimately have "card (set xs) = card ?K" by (simp add: card_image)
  with xs(1,2) show ?thesis by (simp add: distinct_card)
qed

lemma get_cases:
  obtains (found) x where "objects s k = Some x" "run_state (kget api k) s = (Inr x, s)"
  | (missing) e where "objects s k = None" "run_state (kget api k) s = (Inl e, s)" "IsNotFound e"
  using get_found get_missing by (metis not_None_eq)

end

locale status_store = object_store api objects meta content
  for api :: "('s, 'o) kapi" and objects :: "'s \<Rightarrow> key \<Rightarrow> 'o option"
    and meta :: "'o \<Rightarrow> ObjectMeta" and content :: "'o \<Rightarrow> 'b" +
  fixes status :: "'o \<Rightarrow> 't"
  assumes status_written:
      "objects s (key_of (meta x)) = Some cur \<Longrightarrow> ResourceVersion (meta x) = ResourceVersion (meta cur) \<Longrightarrow>
       \<exists>x' s'. run_state (kstatus api x) s = (Inr x', s') \<and> status x' = status x \<and>
         content x' = content cur \<and> objects s' = (objects s)(key_of (meta x) \<mapsto> x') \<and>
         Generation (meta x') = Generation (meta cur) \<and> DeletionTimestamp (meta x') = DeletionTimestamp (meta cur)"
    and status_conflict:
      "objects s (key_of (meta x)) = Some cur \<Longrightarrow> ResourceVersion (meta x) \<noteq> ResourceVersion (meta cur) \<Longrightarrow>
       \<exists>e. run_state (kstatus api x) s = (Inl e, s) \<and> reason_of e = Some ReasonConflict"
begin

text \<open>Reading an object, changing its status only and writing it back succeeds.\<close>

lemma read_modify_write:
  assumes "objects s k = Some x" "meta y = meta x"
  shows "\<exists>x' s'. run_state (kstatus api y) s = (Inr x', s') \<and> status x' = status y \<and>
    content x' = content x \<and> objects s' = (objects s)(k \<mapsto> x') \<and>
    Generation (meta x') = Generation (meta x) \<and> DeletionTimestamp (meta x') = DeletionTimestamp (meta x)"
proof -
  from assms object_key have k: "key_of (meta y) = k" by auto
  with assms status_written[of s y x] show ?thesis by simp
qed

end

text \<open>
  What the server does with the generation and the deletion timestamp beside: a deletion that waits for
  finalizers counts as a change, and an update cannot undo it.
\<close>

definition no_longer :: "('o \<Rightarrow> ObjectMeta) \<Rightarrow> 'o option \<Rightarrow> bool" where
  "no_longer meta x \<longleftrightarrow> (case x of None \<Rightarrow> True | Some y \<Rightarrow> DeletionTimestamp (meta y) \<noteq> None)"

locale generation_store = status_store api objects meta content status
  for api :: "('s, 'o) kapi" and objects :: "'s \<Rightarrow> key \<Rightarrow> 'o option"
    and meta :: "'o \<Rightarrow> ObjectMeta" and content :: "'o \<Rightarrow> 'b" and status :: "'o \<Rightarrow> 't" +
  assumes update_deleting: "preserves (\<lambda>s. no_longer meta (objects s k)) (kupdate api x)"
    and delete_generation:
      "objects s (key_of (meta x)) = Some y \<Longrightarrow> Finalizers (meta y) \<noteq> [] \<Longrightarrow> DeletionTimestamp (meta y) = None \<Longrightarrow>
       run_state (kdelete api x g) s = (Inr (), s') \<Longrightarrow> objects s' (key_of (meta x)) = Some y' \<Longrightarrow>
       Generation (meta y') = Generation (meta y) + 1"

section \<open>A reference server\<close>

record ('c, 'o) kind =
  kObjs :: "'c \<Rightarrow> 'o list"
  kPut :: "'o list \<Rightarrow> 'c \<Rightarrow> 'c"
  kMeta :: "'o \<Rightarrow> ObjectMeta"
  kSetMeta :: "ObjectMeta \<Rightarrow> 'o \<Rightarrow> 'o"
  kWithStatus :: "'o \<Rightarrow> 'o \<Rightarrow> 'o"  \<comment> \<open>the first object with the status of the second\<close>
  kClock :: "'c \<Rightarrow> gotime"
  kVersion :: "'c \<Rightarrow> nat"
  kBump :: "'c \<Rightarrow> 'c"

definition store_find :: "('c, 'o) kind \<Rightarrow> 'c \<Rightarrow> key \<Rightarrow> 'o option" where
  "store_find K c k = List.find (\<lambda>x. key_of (kMeta K x) = k) (kObjs K c)"

definition store_put :: "('c, 'o) kind \<Rightarrow> 'o \<Rightarrow> 'c \<Rightarrow> 'c" where
  "store_put K x c = kBump K (kPut K (x # filter (\<lambda>y. key_of (kMeta K y) \<noteq> key_of (kMeta K x)) (kObjs K c)) c)"

definition store_remove :: "('c, 'o) kind \<Rightarrow> key \<Rightarrow> 'c \<Rightarrow> 'c" where
  "store_remove K k c = kBump K (kPut K (filter (\<lambda>y. key_of (kMeta K y) \<noteq> k) (kObjs K c)) c)"

definition store_stamp :: "('c, 'o) kind \<Rightarrow> 'c \<Rightarrow> 'o \<Rightarrow> 'o" where
  "store_stamp K c x = kSetMeta K ((kMeta K x)\<lparr>ResourceVersion := nat_str (kVersion K c)\<rparr>) x"

definition err_not_found :: gerr where "err_not_found = Api ReasonNotFound ''not found''"
definition err_exists :: gerr where "err_exists = Api ReasonAlreadyExists ''already exists''"
definition err_conflict :: gerr where "err_conflict = Api ReasonConflict ''the object has been modified''"

definition store_create :: "('c, 'o) kind \<Rightarrow> 'o \<Rightarrow> 'c \<Rightarrow> (gerr + 'o) \<times> 'c" where
  "store_create K x c = (case store_find K c (key_of (kMeta K x)) of
       Some _ \<Rightarrow> (Inl err_exists, c)
     | None \<Rightarrow>
         let x' = store_stamp K c (kSetMeta K ((kMeta K x)\<lparr>CreationTimestamp := Some (kClock K c),
           Generation := 1\<rparr>) x)
         in (Inr x', store_put K x' c))"

text \<open>
  An update keeps the timestamps of the server and counts the generation when the object changes outside
  its metadata and status.
\<close>

definition store_update_meta :: "('c, 'o) kind \<Rightarrow> 'o \<Rightarrow> 'o \<Rightarrow> ObjectMeta" where
  "store_update_meta K cur x = (kMeta K x)\<lparr>CreationTimestamp := CreationTimestamp (kMeta K cur),
     DeletionTimestamp := DeletionTimestamp (kMeta K cur),
     Generation := Generation (kMeta K cur) + (if kSetMeta K (kMeta K cur) (kWithStatus K x cur) = cur then 0 else 1)\<rparr>"

definition store_update :: "('c, 'o) kind \<Rightarrow> 'o \<Rightarrow> 'c \<Rightarrow> (gerr + 'o) \<times> 'c" where
  "store_update K x c = (case store_find K c (key_of (kMeta K x)) of
       None \<Rightarrow> (Inl err_not_found, c)
     | Some cur \<Rightarrow>
         if ResourceVersion (kMeta K x) \<noteq> ResourceVersion (kMeta K cur) then (Inl err_conflict, c)
         else let x' = store_stamp K c (kWithStatus K (kSetMeta K (store_update_meta K cur x) x) cur) in
           if DeletionTimestamp (kMeta K x') \<noteq> None \<and> Finalizers (kMeta K x') = []
           then (Inr x', store_remove K (key_of (kMeta K x)) c)
           else (Inr x', store_put K x' c))"

definition store_status :: "('c, 'o) kind \<Rightarrow> 'o \<Rightarrow> 'c \<Rightarrow> (gerr + 'o) \<times> 'c" where
  "store_status K x c = (case store_find K c (key_of (kMeta K x)) of
       None \<Rightarrow> (Inl err_not_found, c)
     | Some cur \<Rightarrow>
         if ResourceVersion (kMeta K x) \<noteq> ResourceVersion (kMeta K cur) then (Inl err_conflict, c)
         else let x' = store_stamp K c (kWithStatus K cur x) in (Inr x', store_put K x' c))"

definition store_delete :: "('c, 'o) kind \<Rightarrow> 'o \<Rightarrow> 'c \<Rightarrow> (gerr + unit) \<times> 'c" where
  "store_delete K x c = (case store_find K c (key_of (kMeta K x)) of
       None \<Rightarrow> (Inl err_not_found, c)
     | Some cur \<Rightarrow>
         if Finalizers (kMeta K cur) = [] then (Inr (), store_remove K (key_of (kMeta K x)) c)
         else if DeletionTimestamp (kMeta K cur) \<noteq> None then (Inr (), c)
         else (Inr (), store_put K (store_stamp K c
           (kSetMeta K ((kMeta K cur)\<lparr>DeletionTimestamp := Some (kClock K c),
             Generation := Generation (kMeta K cur) + 1\<rparr>) cur)) c))"

definition store_cou :: "('c, 'o) kind \<Rightarrow> 'o \<Rightarrow> ('o \<Rightarrow> gerr + 'o) \<Rightarrow> 'c \<Rightarrow> (gerr + 'o \<times> string) \<times> 'c" where
  "store_cou K x f c = (case store_find K c (key_of (kMeta K x)) of
       None \<Rightarrow> (case f x of
           Inl e \<Rightarrow> (Inl e, c)
         | Inr y \<Rightarrow> (case store_create K y c of
             (Inl e, c') \<Rightarrow> (Inl e, c') | (Inr z, c') \<Rightarrow> (Inr (z, ''created''), c')))
     | Some cur \<Rightarrow> (case f cur of
           Inl e \<Rightarrow> (Inl e, c)
         | Inr y \<Rightarrow>
             if y = cur then (Inr (cur, ''unchanged''), c)
             else (case store_update K y c of
               (Inl e, c') \<Rightarrow> (Inl e, c') | (Inr z, c') \<Rightarrow> (Inr (z, ''updated''), c'))))"

definition store_list :: "('c, 'o) kind \<Rightarrow> string option \<Rightarrow> gomap \<Rightarrow> 'c \<Rightarrow> 'o list" where
  "store_list K ns sel c = remdups (filter (\<lambda>x. store_find K c (key_of (kMeta K x)) = Some x
     \<and> (ns = None \<or> ns = Some (Namespace (kMeta K x)))
     \<and> matches_labels sel (Labels (kMeta K x))) (kObjs K c))"

definition store_api :: "('c, 'o) kind \<Rightarrow> ('c, 'o) kapi" where
  "store_api K = \<lparr>
     kget = (\<lambda>k. State_Monad.State (\<lambda>c. case store_find K c k of
       None \<Rightarrow> (Inl err_not_found, c) | Some x \<Rightarrow> (Inr x, c))),
     klist = (\<lambda>ns sel. State_Monad.State (\<lambda>c. (Inr (store_list K ns sel c), c))),
     kcreate = (\<lambda>x. State_Monad.State (store_create K x)),
     kupdate = (\<lambda>x. State_Monad.State (store_update K x)),
     kstatus = (\<lambda>x. State_Monad.State (store_status K x)),
     kdelete = (\<lambda>x g. State_Monad.State (store_delete K x)),
     kcou = (\<lambda>x f. State_Monad.State (store_cou K x f))\<rparr>"

lemma run_store_api [simp, run_simps]:
  "run_state (kget (store_api K) k) c =
     (case store_find K c k of None \<Rightarrow> (Inl err_not_found, c) | Some x \<Rightarrow> (Inr x, c))"
  "run_state (klist (store_api K) ns sel) c = (Inr (store_list K ns sel c), c)"
  "run_state (kcreate (store_api K) x) c = store_create K x c"
  "run_state (kupdate (store_api K) x) c = store_update K x c"
  "run_state (kstatus (store_api K) x) c = store_status K x c"
  "run_state (kdelete (store_api K) x g) c = store_delete K x c"
  "run_state (kcou (store_api K) x f) c = store_cou K x f c"
  by (simp_all add: store_api_def)

lemma err_reasons [simp]:
  "IsNotFound err_not_found" "IsAlreadyExists err_exists" "reason_of err_conflict = Some ReasonConflict"
  "\<not> IsNotFound err_exists" "\<not> IsNotFound err_conflict" "\<not> IsAlreadyExists err_not_found"
  "\<not> IsAlreadyExists err_conflict"
  by (simp_all add: err_not_found_def err_exists_def err_conflict_def IsNotFound_def IsAlreadyExists_def)

lemma find_filter_other:
  "List.find (\<lambda>x. f x = k) (filter (\<lambda>y. f y \<noteq> k') xs) =
     (if k = k' then None else List.find (\<lambda>x. f x = k) xs)"
  by (induction xs) auto

text \<open>
  A kind is well formed when its accessors are: what \<open>kPut\<close> stores is read back, the bookkeeping
  does not touch the objects, and metadata and status are separate parts of an object.
\<close>

locale kind_laws =
  fixes K :: "('c, 'o) kind"
    and content :: "'o \<Rightarrow> 'b"
    and status :: "'o \<Rightarrow> 't"
  assumes objs_put: "kObjs K (kPut K xs c) = xs"
    and objs_bump: "kObjs K (kBump K c) = kObjs K c"
    and meta_set: "kMeta K (kSetMeta K m x) = m"
    and meta_status: "kMeta K (kWithStatus K x y) = kMeta K x"
    and content_set:
      "content (kSetMeta K ((kMeta K x)\<lparr>ResourceVersion := v\<rparr>) x) = content x"
      "content (kSetMeta K ((kMeta K x)\<lparr>CreationTimestamp := t, Generation := n\<rparr>) x) = content x"
      "content (kSetMeta K ((kMeta K x)\<lparr>CreationTimestamp := t, DeletionTimestamp := d, Generation := n\<rparr>) x) = content x"
    and content_status: "content (kWithStatus K x y) = content x"
    and status_set: "status (kSetMeta K m x) = status x"
    and status_with: "status (kWithStatus K x y) = status y"
begin

lemmas laws = objs_put objs_bump meta_set meta_status content_set content_status status_set status_with

lemma store_find_key: "store_find K c k = Some x \<Longrightarrow> key_of (kMeta K x) = k"
  by (auto simp: store_find_def find_Some_iff)

lemma store_find_put:
  "store_find K (store_put K x c) = (store_find K c)(key_of (kMeta K x) \<mapsto> x)"
  by (rule ext) (auto simp: store_find_def store_put_def find_filter_other laws)

lemma store_find_remove:
  "store_find K (store_remove K k c) = (store_find K c)(k := None)"
  by (rule ext) (auto simp: store_find_def store_remove_def find_filter_other laws)

lemma key_stamp: "key_of (kMeta K (store_stamp K c x)) = key_of (kMeta K x)"
  by (simp add: store_stamp_def key_of_def laws)

lemma content_stamp: "content (store_stamp K c x) = content x"
  by (simp add: store_stamp_def laws)

lemma status_stamp: "status (store_stamp K c x) = status x"
  by (simp add: store_stamp_def laws)

lemma content_update: "content (kSetMeta K (store_update_meta K cur x) x) = content x"
  unfolding store_update_meta_def by (rule content_set)

lemma key_update: "key_of (store_update_meta K cur x) = key_of (kMeta K x)"
  by (simp add: store_update_meta_def key_of_def)

lemma stamp_meta: "DeletionTimestamp (kMeta K (store_stamp K c x)) = DeletionTimestamp (kMeta K x)"
    "Generation (kMeta K (store_stamp K c x)) = Generation (kMeta K x)"
    "DeletionTimestamp (store_update_meta K cur x) = DeletionTimestamp (kMeta K cur)"
  by (simp_all add: store_stamp_def store_update_meta_def laws)

lemmas store_laws = laws stamp_meta content_update key_update store_find_put store_find_remove key_stamp content_stamp status_stamp

lemma set_store_list: "set (store_list K ns sel c) = {x. \<exists>k. store_find K c k = Some x \<and>
    (ns = None \<or> ns = Some (keyNamespace k)) \<and> matches_labels sel (Labels (kMeta K x))}"
proof (rule set_eqI)
  fix x
  let ?P = "(ns = None \<or> ns = Some (Namespace (kMeta K x))) \<and> matches_labels sel (Labels (kMeta K x))"
  have key: "keyNamespace (key_of (kMeta K x)) = Namespace (kMeta K x)" by (simp add: key_of_def)
  have mem: "x \<in> set (kObjs K c)" if "store_find K c k = Some x" for k
    using that by (auto simp: store_find_def find_Some_iff)
  have "x \<in> set (store_list K ns sel c) \<longleftrightarrow> store_find K c (key_of (kMeta K x)) = Some x \<and> ?P"
    using mem by (auto simp: store_list_def)
  also have "\<dots> \<longleftrightarrow> (\<exists>k. store_find K c k = Some x \<and> (ns = None \<or> ns = Some (keyNamespace k)) \<and>
      matches_labels sel (Labels (kMeta K x)))"
    using store_find_key[of c _ x] key by metis
  finally show "x \<in> set (store_list K ns sel c) \<longleftrightarrow> x \<in> {x. \<exists>k. store_find K c k = Some x \<and>
      (ns = None \<or> ns = Some (keyNamespace k)) \<and> matches_labels sel (Labels (kMeta K x))}"
    by simp
qed

lemma delete_marked:
  assumes "store_find K s (key_of (kMeta K x)) = Some y" "Finalizers (kMeta K y) \<noteq> []"
  shows "\<exists>y' s'. run_state (kdelete (store_api K) x g) s = (Inr (), s') \<and> DeletionTimestamp (kMeta K y') \<noteq> None \<and>
    store_find K s' = (store_find K s)(key_of (kMeta K x) \<mapsto> y')"
proof (cases "DeletionTimestamp (kMeta K y) = None")
  case True
  let ?m = "(kMeta K y)\<lparr>DeletionTimestamp := Some (kClock K s), Generation := Generation (kMeta K y) + 1\<rparr>"
  have "key_of ?m = key_of (kMeta K x)" using store_find_key[OF assms(1)] by (simp add: key_of_def)
  with True assms show ?thesis
    by (intro exI[of _ "store_stamp K s (kSetMeta K ?m y)"]) (simp add: store_delete_def store_laws)
next
  case False
  with assms show ?thesis by (auto simp: store_delete_def fun_upd_idem)
qed

text \<open>Writing objects of one kind changes no view that does not read them.\<close>

lemma write_frames:
  assumes "\<And>xs c. view (kPut K xs c) = view c" "\<And>c. view (kBump K c) = view c"
  shows "view (snd (store_create K x s)) = view s" "view (snd (store_update K x s)) = view s"
    "view (snd (store_status K x s)) = view s" "view (snd (store_delete K x s)) = view s"
  using assms by (simp_all add: store_create_def store_update_def store_status_def store_delete_def store_put_def store_remove_def
      Let_def split: option.split)

text \<open>An update keeps the status, and collects an object whose deletion only waited for its finalizers.\<close>

lemma update_kept:
  assumes "store_find K s (key_of (kMeta K x)) = Some cur" "ResourceVersion (kMeta K x) = ResourceVersion (kMeta K cur)"
    "DeletionTimestamp (kMeta K cur) = None"
  shows "\<exists>x' s'. run_state (kupdate (store_api K) x) s = (Inr x', s') \<and> content x' = content x \<and> status x' = status cur \<and>
    DeletionTimestamp (kMeta K x') = None \<and> store_find K s' = (store_find K s)(key_of (kMeta K x) \<mapsto> x')"
  using assms by (simp add: store_update_def Let_def store_laws)

lemma update_dropped:
  assumes "store_find K s (key_of (kMeta K x)) = Some cur" "ResourceVersion (kMeta K x) = ResourceVersion (kMeta K cur)"
    "DeletionTimestamp (kMeta K cur) \<noteq> None" "Finalizers (kMeta K x) = []"
  shows "\<exists>x' s'. run_state (kupdate (store_api K) x) s = (Inr x', s') \<and> store_find K s' = (store_find K s)(key_of (kMeta K x) := None)"
proof -
  have "Finalizers (kMeta K (store_stamp K s (kWithStatus K (kSetMeta K (store_update_meta K cur x) x) cur))) = []"
    using assms(4) by (simp add: store_stamp_def store_update_meta_def laws)
  with assms show ?thesis by (simp add: store_update_def Let_def store_laws)
qed

lemma delete_content:
  assumes "store_find K s (key_of (kMeta K x)) = Some y" "Finalizers (kMeta K y) \<noteq> []" "store_delete K x s = (Inr (), s')"
  shows "\<exists>y'. store_find K s' (key_of (kMeta K x)) = Some y' \<and> content y' = content y"
proof (cases "DeletionTimestamp (kMeta K y) = None")
  case True
  let ?m = "(kMeta K y)\<lparr>DeletionTimestamp := Some (kClock K s), Generation := Generation (kMeta K y) + 1\<rparr>"
  have "key_of ?m = key_of (kMeta K x)" using store_find_key[OF assms(1)] by (simp add: key_of_def)
  moreover have "content (kSetMeta K ?m y) = content y"
    using content_set(3)[where x = y and t = "CreationTimestamp (kMeta K y)"] by simp
  ultimately show ?thesis
    using True assms by (intro exI[of _ "store_stamp K s (kSetMeta K ?m y)"]) (auto simp: store_delete_def store_laws)
next
  case False
  with assms show ?thesis by (auto simp: store_delete_def)
qed

lemma cou_updates:
  assumes "store_find K s (key_of (kMeta K x)) = Some cur" "DeletionTimestamp (kMeta K cur) = None" "f cur = Inr y"
    "key_of (kMeta K y) = key_of (kMeta K x)" "ResourceVersion (kMeta K y) = ResourceVersion (kMeta K cur)"
  shows "\<exists>z result s'. run_state (kcou (store_api K) x f) s = (Inr (z, result), s') \<and> content z = content y \<and>
    store_find K s' = (store_find K s)(key_of (kMeta K x) \<mapsto> z)"
proof (cases "y = cur")
  case True
  with assms show ?thesis by (simp add: store_cou_def fun_upd_idem)
next
  case False
  have "DeletionTimestamp (kMeta K (store_stamp K s (kWithStatus K (kSetMeta K (store_update_meta K cur y) y) cur))) = None"
    using assms(2) by (simp add: store_laws)
  with False assms show ?thesis
    by (simp add: store_cou_def store_update_def Let_def store_laws)
qed

end

sublocale kind_laws \<subseteq> st: status_store "store_api K" "store_find K" "kMeta K" content status
proof unfold_locales
  fix s k x
  show "store_find K s k = Some x \<Longrightarrow> key_of (kMeta K x) = k" by (rule store_find_key)
  show "store_find K s k = Some x \<Longrightarrow> run_state (kget (store_api K) k) s = (Inr x, s)" by simp
  show "store_find K s k = None \<Longrightarrow>
      \<exists>e. run_state (kget (store_api K) k) s = (Inl e, s) \<and> IsNotFound e" by simp
next
  fix s ns sel
  show "\<exists>xs. run_state (klist (store_api K) ns sel) s = (Inr xs, s) \<and> distinct xs \<and>
      set xs = {x. \<exists>k. store_find K s k = Some x \<and> (ns = None \<or> ns = Some (keyNamespace k)) \<and>
        matches_labels sel (Labels (kMeta K x))}"
    by (simp add: set_store_list) (simp add: store_list_def)
next
  fix s x
  show "store_find K s (key_of (kMeta K x)) = None \<Longrightarrow>
      \<exists>x' s'. run_state (kcreate (store_api K) x) s = (Inr x', s') \<and> content x' = content x \<and>
        store_find K s' = (store_find K s)(key_of (kMeta K x) \<mapsto> x')"
    by (simp add: store_create_def Let_def store_laws) (simp add: key_of_def)
next
  fix s x y
  show "store_find K s (key_of (kMeta K x)) = Some y \<Longrightarrow>
      \<exists>e. run_state (kcreate (store_api K) x) s = (Inl e, s) \<and> IsAlreadyExists e"
    by (simp add: store_create_def)
next
  fix s x y and g :: "int option"
  show "store_find K s (key_of (kMeta K x)) = Some y \<Longrightarrow> Finalizers (kMeta K y) = [] \<Longrightarrow>
      \<exists>s'. run_state (kdelete (store_api K) x g) s = (Inr (), s') \<and>
        store_find K s' = (store_find K s)(key_of (kMeta K x) := None)"
    by (simp add: store_delete_def store_laws)
next
  fix s x y and g :: "int option"
  show "store_find K s (key_of (kMeta K x)) = Some y \<Longrightarrow> Finalizers (kMeta K y) \<noteq> [] \<Longrightarrow>
      \<exists>y' s'. run_state (kdelete (store_api K) x g) s = (Inr (), s') \<and> DeletionTimestamp (kMeta K y') \<noteq> None \<and>
        store_find K s' = (store_find K s)(key_of (kMeta K x) \<mapsto> y')"
    by (rule delete_marked)
next
  fix s x f y
  show "store_find K s (key_of (kMeta K x)) = None \<Longrightarrow> f x = Inr y \<Longrightarrow> key_of (kMeta K y) = key_of (kMeta K x) \<Longrightarrow>
      \<exists>z s'. run_state (kcou (store_api K) x f) s = (Inr (z, ''created''), s') \<and> content z = content y \<and>
        store_find K s' = (store_find K s)(key_of (kMeta K x) \<mapsto> z)"
    by (simp add: store_cou_def store_create_def Let_def store_laws) (simp add: key_of_def)
next
  fix s x cur f y
  show "store_find K s (key_of (kMeta K x)) = Some cur \<Longrightarrow> DeletionTimestamp (kMeta K cur) = None \<Longrightarrow> f cur = Inr y \<Longrightarrow>
      key_of (kMeta K y) = key_of (kMeta K x) \<Longrightarrow> ResourceVersion (kMeta K y) = ResourceVersion (kMeta K cur) \<Longrightarrow>
      \<exists>z result s'. run_state (kcou (store_api K) x f) s = (Inr (z, result), s') \<and> content z = content y \<and>
        store_find K s' = (store_find K s)(key_of (kMeta K x) \<mapsto> z)"
    by (rule cou_updates)
next
  fix s x cur
  assume cur: "store_find K s (key_of (kMeta K x)) = Some cur"
  from store_find_key[OF cur]
  show "ResourceVersion (kMeta K x) = ResourceVersion (kMeta K cur) \<Longrightarrow>
      \<exists>x' s'. run_state (kstatus (store_api K) x) s = (Inr x', s') \<and> status x' = status x \<and>
        content x' = content cur \<and> store_find K s' = (store_find K s)(key_of (kMeta K x) \<mapsto> x') \<and>
        Generation (kMeta K x') = Generation (kMeta K cur) \<and> DeletionTimestamp (kMeta K x') = DeletionTimestamp (kMeta K cur)"
    using cur by (simp add: store_status_def Let_def store_laws)
  show "ResourceVersion (kMeta K x) \<noteq> ResourceVersion (kMeta K cur) \<Longrightarrow>
      \<exists>e. run_state (kstatus (store_api K) x) s = (Inl e, s) \<and> reason_of e = Some ReasonConflict"
    using cur by (simp add: store_status_def)
qed

sublocale kind_laws \<subseteq> gen: generation_store "store_api K" "store_find K" "kMeta K" content status
proof unfold_locales
  fix k x
  show "preserves (\<lambda>s. no_longer (kMeta K) (store_find K s k)) (kupdate (store_api K) x)"
    by (rule preservesI)
      (auto simp: store_update_def Let_def store_laws no_longer_def split: option.splits if_splits)
next
  fix s x y g s' y'
  assume y: "store_find K s (key_of (kMeta K x)) = Some y" "Finalizers (kMeta K y) \<noteq> []" "DeletionTimestamp (kMeta K y) = None"
    and run: "run_state (kdelete (store_api K) x g) s = (Inr (), s')" "store_find K s' (key_of (kMeta K x)) = Some y'"
  have "key_of ((kMeta K y)\<lparr>DeletionTimestamp := d, Generation := n\<rparr>) = key_of (kMeta K x)" for d n
    using store_find_key[OF y(1)] by (simp add: key_of_def)
  with y run show "Generation (kMeta K y') = Generation (kMeta K y) + 1"
    by (auto simp: store_delete_def store_laws)
qed

end
