(* ===== verification/Cluster.thy ===== *)
theory Cluster
  imports Store
begin

text \<open>
  The reference cluster: one list of objects per kind, a clock and a version counter, with the client
  and the runtime over it, and the objects in S3 and the files of Pods, which the backups move. \<open>status_conditions\<close> states what the API machinery documents of
  \<^verbatim>\<open>meta.SetStatusCondition\<close>, and the runtime's version is shown to satisfy it.
\<close>

record cluster =
  cGameServers :: "GameServer list"
  cBackups :: "Backup list"
  cPods :: "Pod list"
  cPVCs :: "PVC list"
  cNamespaces :: "KNamespace list"
  cQuotas :: "ResourceQuota list"
  cLimits :: "LimitRange list"
  cPolicies :: "NetworkPolicy list"
  cServices :: "Service list"
  cRoutes :: "HTTPRoute list"
  cSecrets :: "Secret list"
  cConfigMaps :: "ConfigMap list"
  cClock :: gotime
  cVersion :: nat
  cEvents :: "(key \<times> string \<times> string \<times> string) list"
  cGauge :: "((string \<times> string) \<times> nat) list"
  cBuckets :: "((string \<times> string) \<times> string) list"  \<comment> \<open>S3 objects by bucket and key\<close>
  cFiles :: "((string \<times> string \<times> string) \<times> (string \<times> string) list) list"  \<comment> \<open>directories of Pods\<close>

definition cluster0 :: cluster where
  "cluster0 = \<lparr>cGameServers = [], cBackups = [], cPods = [], cPVCs = [], cNamespaces = [],
     cQuotas = [], cLimits = [], cPolicies = [], cServices = [], cRoutes = [], cSecrets = [],
     cConfigMaps = [], cClock = 0, cVersion = 1, cEvents = [], cGauge = [], cBuckets = [], cFiles = []\<rparr>"

definition mkKind :: "(cluster \<Rightarrow> 'o list) \<Rightarrow> ('o list \<Rightarrow> cluster \<Rightarrow> cluster) \<Rightarrow> ('o \<Rightarrow> ObjectMeta) \<Rightarrow>
    (ObjectMeta \<Rightarrow> 'o \<Rightarrow> 'o) \<Rightarrow> ('o \<Rightarrow> 'o \<Rightarrow> 'o) \<Rightarrow> (cluster, 'o) kind" where
  "mkKind objs put meta setm ws = \<lparr>kObjs = objs, kPut = put, kMeta = meta, kSetMeta = setm,
     kWithStatus = ws, kClock = cClock, kVersion = cVersion,
     kBump = (\<lambda>c. c\<lparr>cVersion := Suc (cVersion c)\<rparr>)\<rparr>"

lemma mkKind_simps [simp]:
  "kObjs (mkKind objs put meta setm ws) = objs" "kPut (mkKind objs put meta setm ws) = put"
  "kMeta (mkKind objs put meta setm ws) = meta" "kSetMeta (mkKind objs put meta setm ws) = setm"
  "kWithStatus (mkKind objs put meta setm ws) = ws" "kClock (mkKind objs put meta setm ws) = cClock"
  "kVersion (mkKind objs put meta setm ws) = cVersion"
  "kBump (mkKind objs put meta setm ws) = (\<lambda>c. c\<lparr>cVersion := Suc (cVersion c)\<rparr>)"
  by (simp_all add: mkKind_def)

definition KGameServer :: "(cluster, GameServer) kind" where
  "KGameServer = mkKind cGameServers (\<lambda>xs c. c\<lparr>cGameServers := xs\<rparr>) gsMeta
     (\<lambda>m x. x\<lparr>gsMeta := m\<rparr>) (\<lambda>x y. x\<lparr>gsStatus := gsStatus y\<rparr>)"
definition KBackup :: "(cluster, Backup) kind" where
  "KBackup = mkKind cBackups (\<lambda>xs c. c\<lparr>cBackups := xs\<rparr>) bkMeta
     (\<lambda>m x. x\<lparr>bkMeta := m\<rparr>) (\<lambda>x y. x\<lparr>bkStatus := bkStatus y\<rparr>)"
definition KPod :: "(cluster, Pod) kind" where
  "KPod = mkKind cPods (\<lambda>xs c. c\<lparr>cPods := xs\<rparr>) podMeta
     (\<lambda>m x. x\<lparr>podMeta := m\<rparr>) (\<lambda>x y. x\<lparr>podStatus := podStatus y\<rparr>)"
definition KPVC :: "(cluster, PVC) kind" where
  "KPVC = mkKind cPVCs (\<lambda>xs c. c\<lparr>cPVCs := xs\<rparr>) pvcMeta (\<lambda>m x. x\<lparr>pvcMeta := m\<rparr>) (\<lambda>x y. x)"
definition KKNamespace :: "(cluster, KNamespace) kind" where
  "KKNamespace = mkKind cNamespaces (\<lambda>xs c. c\<lparr>cNamespaces := xs\<rparr>) nsMeta (\<lambda>m x. x\<lparr>nsMeta := m\<rparr>) (\<lambda>x y. x)"
definition KResourceQuota :: "(cluster, ResourceQuota) kind" where
  "KResourceQuota = mkKind cQuotas (\<lambda>xs c. c\<lparr>cQuotas := xs\<rparr>) rqMeta (\<lambda>m x. x\<lparr>rqMeta := m\<rparr>) (\<lambda>x y. x)"
definition KLimitRange :: "(cluster, LimitRange) kind" where
  "KLimitRange = mkKind cLimits (\<lambda>xs c. c\<lparr>cLimits := xs\<rparr>) lrMeta (\<lambda>m x. x\<lparr>lrMeta := m\<rparr>) (\<lambda>x y. x)"
definition KNetworkPolicy :: "(cluster, NetworkPolicy) kind" where
  "KNetworkPolicy = mkKind cPolicies (\<lambda>xs c. c\<lparr>cPolicies := xs\<rparr>) npMeta (\<lambda>m x. x\<lparr>npMeta := m\<rparr>) (\<lambda>x y. x)"
definition KService :: "(cluster, Service) kind" where
  "KService = mkKind cServices (\<lambda>xs c. c\<lparr>cServices := xs\<rparr>) svcMeta (\<lambda>m x. x\<lparr>svcMeta := m\<rparr>) (\<lambda>x y. x)"
definition KHTTPRoute :: "(cluster, HTTPRoute) kind" where
  "KHTTPRoute = mkKind cRoutes (\<lambda>xs c. c\<lparr>cRoutes := xs\<rparr>) rtMeta (\<lambda>m x. x\<lparr>rtMeta := m\<rparr>) (\<lambda>x y. x)"
definition KSecret :: "(cluster, Secret) kind" where
  "KSecret = mkKind cSecrets (\<lambda>xs c. c\<lparr>cSecrets := xs\<rparr>) secMeta (\<lambda>m x. x\<lparr>secMeta := m\<rparr>) (\<lambda>x y. x)"
definition KConfigMap :: "(cluster, ConfigMap) kind" where
  "KConfigMap = mkKind cConfigMaps (\<lambda>xs c. c\<lparr>cConfigMaps := xs\<rparr>) cmMeta (\<lambda>m x. x\<lparr>cmMeta := m\<rparr>) (\<lambda>x y. x)"

lemmas kind_defs = KGameServer_def KBackup_def KPod_def KPVC_def KKNamespace_def KResourceQuota_def
  KLimitRange_def KNetworkPolicy_def KService_def KHTTPRoute_def KSecret_def KConfigMap_def

definition cluster_client :: "cluster client" where
  "cluster_client = \<lparr>gameservers = store_api KGameServer, backups = store_api KBackup,
     pods = store_api KPod, pvcs = store_api KPVC, namespaces = store_api KKNamespace,
     resourcequotas = store_api KResourceQuota, limitranges = store_api KLimitRange,
     networkpolicies = store_api KNetworkPolicy, services = store_api KService,
     httproutes = store_api KHTTPRoute, secrets = store_api KSecret,
     configmaps = store_api KConfigMap\<rparr>"

lemma cluster_client_simps [simp]:
  "gameservers cluster_client = store_api KGameServer" "backups cluster_client = store_api KBackup"
  "pods cluster_client = store_api KPod" "pvcs cluster_client = store_api KPVC"
  "namespaces cluster_client = store_api KKNamespace"
  "resourcequotas cluster_client = store_api KResourceQuota"
  "limitranges cluster_client = store_api KLimitRange"
  "networkpolicies cluster_client = store_api KNetworkPolicy"
  "services cluster_client = store_api KService" "httproutes cluster_client = store_api KHTTPRoute"
  "secrets cluster_client = store_api KSecret" "configmaps cluster_client = store_api KConfigMap"
  by (simp_all add: cluster_client_def)

text \<open>The part of the metadata the server keeps as the client wrote it.\<close>

definition user_meta :: "ObjectMeta \<Rightarrow> string \<times> string \<times> gomap \<times> gomap \<times> string list" where
  "user_meta m = (Name m, Namespace m, Labels m, Annotations m, Finalizers m)"

abbreviation server_content where
  "server_content x \<equiv> (user_meta (gsMeta x), gsSpec x)"

abbreviation pod_content where
  "pod_content x \<equiv> (user_meta (podMeta x), podSpec x)"

lemma user_meta_server [simp]:
  "user_meta (m\<lparr>ResourceVersion := v\<rparr>) = user_meta m"
  "user_meta (m\<lparr>CreationTimestamp := t, Generation := n\<rparr>) = user_meta m"
  "user_meta (m\<lparr>CreationTimestamp := t, DeletionTimestamp := d, Generation := n\<rparr>) = user_meta m"
  by (simp_all add: user_meta_def)

interpretation kgs: kind_laws KGameServer "\<lambda>x. (user_meta (gsMeta x), gsSpec x)" gsStatus
  by unfold_locales (simp_all add: kind_defs)

interpretation kbk: kind_laws KBackup "\<lambda>x. (user_meta (bkMeta x), bkSpec x)" bkStatus
  by unfold_locales (simp_all add: kind_defs)

interpretation kpod: kind_laws KPod "\<lambda>x. (user_meta (podMeta x), podSpec x)" podStatus
  by unfold_locales (simp_all add: kind_defs)

interpretation ksvc: kind_laws KService
    "\<lambda>x. (user_meta (svcMeta x), Selector x, svcPorts x)" "\<lambda>x. ()"
  by unfold_locales (simp_all add: kind_defs)

interpretation krt: kind_laws KHTTPRoute
    "\<lambda>x. (user_meta (rtMeta x), Hostnames x, BackendRefs x)" "\<lambda>x. ()"
  by unfold_locales (simp_all add: kind_defs)

interpretation ksec: kind_laws KSecret
    "\<lambda>x. (user_meta (secMeta x), secType x, secData x)" "\<lambda>x. ()"
  by unfold_locales (simp_all add: kind_defs)

section \<open>Conditions\<close>

definition condition_of :: "Condition list \<Rightarrow> string \<Rightarrow> Condition option" where
  "condition_of cs t = List.find (\<lambda>c. cType c = t) cs"

text \<open>
  The documented behaviour of \<^verbatim>\<open>meta.SetStatusCondition\<close> for a condition without a transition time:
  the condition of that type gets the new status, reason and message; its transition time moves to
  the present only when the status changes or the condition is new; other conditions are untouched.
\<close>

locale status_conditions =
  fixes set_condition :: "Condition list \<Rightarrow> Condition \<Rightarrow> ('s, Condition list) state"
  assumes set_condition: "cLastTransitionTime c = None \<Longrightarrow>
    \<exists>cs' now. run_state (set_condition cs c) s = (cs', s) \<and>
      condition_of cs' (cType c) = Some (c\<lparr>cLastTransitionTime :=
        (case condition_of cs (cType c) of
           None \<Rightarrow> Some now
         | Some old \<Rightarrow> if cStatus old = cStatus c then cLastTransitionTime old else Some now)\<rparr>) \<and>
      (\<forall>t. t \<noteq> cType c \<longrightarrow> condition_of cs' t = condition_of cs t)"

primrec setStatusCondition :: "gotime \<Rightarrow> Condition list \<Rightarrow> Condition \<Rightarrow> Condition list" where
  "setStatusCondition now [] c =
     [c\<lparr>cLastTransitionTime := (case cLastTransitionTime c of None \<Rightarrow> Some now | t \<Rightarrow> t)\<rparr>]"
| "setStatusCondition now (x # xs) c =
     (if cType x = cType c then
        c\<lparr>cLastTransitionTime := (if cStatus x = cStatus c then cLastTransitionTime x
          else (case cLastTransitionTime c of None \<Rightarrow> Some now | t \<Rightarrow> t))\<rparr> # xs
      else x # setStatusCondition now xs c)"

definition readClock :: "(cluster, gotime) state" where
  "readClock = State_Monad.State (\<lambda>c. (cClock c, c))"

lemma run_readClock [simp, run_simps]: "run_state readClock c = (cClock c, c)"
  by (simp add: readClock_def)

lemma setStatusCondition_same:
  "cLastTransitionTime c = None \<Longrightarrow>
   condition_of (setStatusCondition now cs c) (cType c) = Some (c\<lparr>cLastTransitionTime :=
     (case condition_of cs (cType c) of None \<Rightarrow> Some now
      | Some old \<Rightarrow> if cStatus old = cStatus c then cLastTransitionTime old else Some now)\<rparr>)"
  by (induction cs) (auto simp: condition_of_def)

lemma setStatusCondition_other:
  "t \<noteq> cType c \<Longrightarrow> condition_of (setStatusCondition now cs c) t = condition_of cs t"
  by (induction cs) (auto simp: condition_of_def)

section \<open>The runtime over the cluster\<close>

definition controllerRef :: "GameServer \<Rightarrow> OwnerReference" where
  "controllerRef gs = \<lparr>refKind = ''GameServer'', refName = Name (gsMeta gs), refController = True\<rparr>"

definition setControllerReference :: "GameServer \<Rightarrow> ObjectMeta \<Rightarrow> gerr + ObjectMeta" where
  "setControllerReference gs m =
     (if list_ex (\<lambda>r. refController r \<and> r \<noteq> controllerRef gs) (OwnerReferences m)
      then Inl (ErrNew ''already owned by another controller'')
      else if controllerRef gs \<in> set (OwnerReferences m) then Inr m
      else Inr (m\<lparr>OwnerReferences := OwnerReferences m @ [controllerRef gs]\<rparr>))"

text \<open>Plain decimal quantities with the suffixes the defaults use, in units of $10^{-9}$.\<close>

definition quantity_suffix :: "string \<Rightarrow> int option" where
  "quantity_suffix t = map_of [([], 10 ^ 9), (''m'', 10 ^ 6), (''Mi'', 10 ^ 9 * 1048576),
     (''Gi'', 10 ^ 9 * 1073741824)] t"

definition quantity_of :: "string \<Rightarrow> quantity option" where
  "quantity_of t = (case (parse_digits (takeWhile is_digit t), quantity_suffix (dropWhile is_digit t)) of
     (Some n, Some u) \<Rightarrow> Some (int n * u) | _ \<Rightarrow> None)"

definition cluster_runtime :: "cluster runtime" where
  "cluster_runtime = \<lparr>
     Now = readClock,
     Event = (\<lambda>k t r m. State_Monad.State (\<lambda>c. ((), c\<lparr>cEvents := cEvents c @ [(k, t, r, m)]\<rparr>))),
     GaugeReset = State_Monad.State (\<lambda>c. ((), c\<lparr>cGauge := []\<rparr>)),
     GaugeSet = (\<lambda>a b n. State_Monad.State (\<lambda>c. ((), c\<lparr>cGauge := AList.update (a, b) n (cGauge c)\<rparr>))),
     SetStatusCondition = (\<lambda>cs c. do { now \<leftarrow> readClock; ret (setStatusCondition now cs c) }),
     SetControllerReference = setControllerReference,
     ParseQuantity = quantity_of,
     MustParse = (\<lambda>t. case quantity_of t of Some q \<Rightarrow> q | None \<Rightarrow> 0),
     ContainsFinalizer = (\<lambda>m f. f \<in> set (Finalizers m)),
     AddFinalizer = (\<lambda>m f. if f \<in> set (Finalizers m) then m else m\<lparr>Finalizers := Finalizers m @ [f]\<rparr>),
     RemoveFinalizer = (\<lambda>m f. m\<lparr>Finalizers := filter (\<lambda>x. x \<noteq> f) (Finalizers m)\<rparr>),
     RangeKeys = (\<lambda>ks. ks)\<rparr>"

interpretation kcond: status_conditions "SetStatusCondition cluster_runtime"
proof
  fix c :: Condition and cs s
  assume "cLastTransitionTime c = None"
  then show "\<exists>cs' now. run_state (SetStatusCondition cluster_runtime cs c) s = (cs', s) \<and>
      condition_of cs' (cType c) = Some (c\<lparr>cLastTransitionTime :=
        (case condition_of cs (cType c) of
           None \<Rightarrow> Some now
         | Some old \<Rightarrow> if cStatus old = cStatus c then cLastTransitionTime old else Some now)\<rparr>) \<and>
      (\<forall>t. t \<noteq> cType c \<longrightarrow> condition_of cs' t = condition_of cs t)"
    by (auto simp: cluster_runtime_def setStatusCondition_same setStatusCondition_other
        intro!: exI[of _ "cClock s"])
qed

definition cluster_reconciler :: "cluster Reconciler" where
  "cluster_reconciler = \<lparr>Client = cluster_client, Runtime = cluster_runtime,
     OperatorNamespace = ''kterodactyl-system''\<rparr>"

lemma kind_meta_simps [simp]:
  "kMeta KGameServer = gsMeta" "kMeta KBackup = bkMeta" "kMeta KPod = podMeta" "kMeta KService = svcMeta"
  "kMeta KHTTPRoute = rtMeta" "kMeta KSecret = secMeta"
  by (simp_all add: kind_defs)

lemma cluster_reconciler_simps [simp]:
  "Client cluster_reconciler = cluster_client" "Runtime cluster_reconciler = cluster_runtime"
  by (simp_all add: cluster_reconciler_def)

text \<open>Writing one kind leaves the others alone.\<close>

lemma store_status_gs_frame: "cPods (snd (store_status KGameServer x c)) = cPods c"
  by (simp add: store_status_def store_put_def KGameServer_def Let_def split: option.split)

lemma store_delete_pod_frame: "cGameServers (snd (store_delete KPod x c)) = cGameServers c"
  by (simp add: store_delete_def store_put_def store_remove_def KPod_def Let_def split: option.split)

lemma store_find_cong:
  "cGameServers c = cGameServers c' \<Longrightarrow> store_find KGameServer c = store_find KGameServer c'"
  "cPods c = cPods c' \<Longrightarrow> store_find KPod c = store_find KPod c'"
  by (simp_all add: store_find_def KGameServer_def KPod_def fun_eq_iff)

lemmas cluster_run_defs = cluster_reconciler_def cluster_client_def cluster_runtime_def store_api_def
  store_find_def store_put_def store_remove_def store_stamp_def store_create_def store_update_meta_def store_update_def
  store_status_def store_delete_def store_cou_def store_list_def kind_defs mkKind_def key_of_def
  err_not_found_def err_exists_def err_conflict_def IsNotFound_def IsAlreadyExists_def

end
