(* ===== verification/Demo.thy ===== *)
theory Demo
  imports GameServerReconcile Cluster
begin

text \<open>
  A small concrete cluster, on which the properties are exercised: the user \<^verbatim>\<open>alice\<close> owns one
  game server \<^verbatim>\<open>mc\<close> with a running Pod.
\<close>

definition demoMeta :: "string \<Rightarrow> string \<Rightarrow> ObjectMeta" where
  "demoMeta ns n = (NewMeta ns n (GameServerLabels ''alice'' ''minecraft''))\<lparr>Finalizers := [FinalizerName],
     CreationTimestamp := Some 0, ResourceVersion := ''1''\<rparr>"

definition demoGS :: "GameServerState \<Rightarrow> GameServer" where
  "demoGS st = \<lparr>gsMeta = demoMeta ''user-alice'' ''mc'',
     gsSpec = \<lparr>GameType = ''minecraft'', Image = ''img'', Resources = \<lparr>Requests = [], Limits = []\<rparr>,
       Ports = [\<lparr>PortName = ''game'', ContainerPort = 25565, Protocol = ''TCP''\<rparr>],
       Parameters = [(''EULA'', ''TRUE'')]\<rparr>,
     gsStatus = GameServerStatus0\<lparr>State := st\<rparr>\<rparr>"

definition demoPod :: Pod where
  "demoPod = \<lparr>podMeta = NewMeta ''user-alice'' ''mc'' (GameServerLabels ''alice'' ''minecraft''),
     podSpec = \<lparr>Containers = [], RestartPolicy = ''Never'', Volumes = []\<rparr>,
     podStatus = \<lparr>Phase = PodRunning, PhaseReason = [], PodIP = ''10.0.0.7'', ContainerStatuses = [True]\<rparr>\<rparr>"

definition demoKey :: key where "demoKey = \<lparr>keyNamespace = ''user-alice'', keyName = ''mc''\<rparr>"

definition demoCluster :: "GameServerState \<Rightarrow> cluster" where
  "demoCluster st = cluster0\<lparr>cGameServers := [demoGS st], cPods := [demoPod]\<rparr>"

definition deleted :: "GameServer \<Rightarrow> GameServer" where
  "deleted gs = gs\<lparr>gsMeta := (gsMeta gs)\<lparr>DeletionTimestamp := Some 1\<rparr>\<rparr>"

text \<open>The trace of one reconcile of the server.\<close>

definition demoTrace :: "cluster \<Rightarrow> event list" where
  "demoTrace c = snd (snd (run_state (Reconcile (traced cluster_reconciler) demoKey) (c, [])))"

lemma demoTrace_run:
  obtains res s' where
    "run_state (Reconcile (traced cluster_reconciler) demoKey) (c, []) = (res, (s', demoTrace c))"
  unfolding demoTrace_def by (metis prod.collapse)

end
