(* ===== verification/GameServerSafety.thy ===== *)
theory GameServerSafety
  imports Demo
begin

text \<open>
  What one run of \<^verbatim>\<open>Reconcile\<close> may do to the cluster, for every client: which statuses it writes,
  when it deletes and when it creates a Pod, and when it removes the finalizer. The runs are those of
  a client that records its calls (\<open>traced\<close>), so the statements are about the sequence of calls and
  hold whatever the answers are.
\<close>

section \<open>Status writes\<close>

text \<open>C2: Every status that one reconcile writes is a copy of a game server it has just fetched, with
  metadata and spec unchanged, and its state is the fetched one, a valid next state (by
  \<^verbatim>\<open>ValidTransitions\<close>) of the object read at the start, or \<^verbatim>\<open>Creating\<close> for an object that had no
  state. This holds for any client, failing or interfered with.\<close>

theorem Reconcile_status_writes:
  assumes run: "run_state (Reconcile (traced r) req) (s, []) = (res, (s', tr))"
    and wr: "OnGameServer (EvStatus g put) \<in> set tr"
  shows "\<exists>gs fresh k. hd tr = OnGameServer (EvGet req (Inr gs)) \<and>
    OnGameServer (EvGet k (Inr fresh)) \<in> set tr \<and> gsMeta g = gsMeta fresh \<and> gsSpec g = gsSpec fresh \<and>
    (gsState g = gsState fresh \<or> IsValidTransition (gsState gs) (gsState g) \<or>
     gsState gs = GameServerStateUnset \<and> gsState g = GameServerStateCreating)"
  using run
proof (cases rule: Reconcile_trace)
  case (read gs s1 evs)
  let ?e = "OnGameServer (EvGet req (Inr gs))"
  show ?thesis
  proof (cases "initializes r gs")
    case False
    have "writes_in_order gs tr"
      using preservesD[OF reconcileFetched_writes[OF False] _ read(2)]
      by (simp add: writes_in_order_def)
    with wr read(3) show ?thesis
      by (fastforce simp: writes_in_order_def write_in_order_def)
  next
    case True
    with read(2) have "run_state (initializeState (traced r) gs) (s1, [?e]) = (res, (s', tr))"
      by (simp add: reconcileFetched_initializes)
    from initializeState_trace[OF this] wr True show ?thesis
      by (auto simp: initializes_def)
  qed
qed (use wr in simp)

theorem Reconcile_status_writes_witness:
  "\<exists>g put gs. OnGameServer (EvStatus g put) \<in> set (demoTrace (demoCluster GameServerStateStarting)) \<and>
     hd (demoTrace (demoCluster GameServerStateStarting)) = OnGameServer (EvGet demoKey (Inr gs))"
proof -
  let ?c = "demoCluster GameServerStateStarting"
  have "list_ex is_status_write (demoTrace ?c)" by code_simp
  then obtain g put where wr: "OnGameServer (EvStatus g put) \<in> set (demoTrace ?c)"
    by (auto elim!: list_ex_event is_status_writeE)
  obtain res s' where run:
    "run_state (Reconcile (traced cluster_reconciler) demoKey) (?c, []) = (res, (s', demoTrace ?c))"
    by (rule demoTrace_run)
  from Reconcile_status_writes[OF run wr] wr show ?thesis by blast
qed


section \<open>Deletion of Pods\<close>

definition pod_deletion_reason :: "GameServer \<Rightarrow> int option \<Rightarrow> bool" where
  "pod_deletion_reason gs grace \<longleftrightarrow>
     (if DeletionTimestamp (gsMeta gs) \<noteq> None then grace = None
      else gsState gs = GameServerStateShutdown \<and> grace = Some shutdownGracePeriod)"

lemma dispatch_no_pod_delete:
  "gsState gs \<noteq> GameServerStateShutdown \<Longrightarrow> dispatchState (traced r) gs = Some m \<Longrightarrow> emits (\<lambda>e. \<not> is_pod_delete e) m"
  unfolding dispatchState_def state_handler_defs handler_defs traced_simps traced_api_simps
  by (auto split: GameServerState.splits intro!: emits_intros)

lemma reconcileShutdown_deletes:
  assumes "run_state (reconcileShutdown (traced r) gs) (s, tr) = (a, (s', tr'))"
    and "OnPod (EvDelete pod g x) \<in> set tr'" "OnPod (EvDelete pod g x) \<notin> set tr"
  shows "OnPod (EvGet (gsKey gs) (Inr pod)) \<in> set tr' \<and> g = Some shutdownGracePeriod"
  using assms unfolding reconcileShutdown_def
  by (auto split: prod.splits sum.splits if_splits option.splits
     elim!: emitsD[OF refreshAndUpdateCondition_emits])

lemma handleDeletion_deletes:
  assumes "run_state (handleDeletion (traced r) gs) (s, tr) = (a, (s', tr'))"
    and "OnPod (EvDelete pod g x) \<in> set tr'" "OnPod (EvDelete pod g x) \<notin> set tr"
  shows "OnPod (EvGet (gsKey gs) (Inr pod)) \<in> set tr' \<and> g = None"
  using assms unfolding handleDeletion_def
  by (auto simp: Let_def split: prod.splits sum.splits if_splits option.splits)

lemma reconcileFetched_deletes:
  assumes "run_state (reconcileFetched (traced r) gs) (s, tr) = (a, (s', tr'))"
    and "OnPod (EvDelete pod g x) \<in> set tr'" "OnPod (EvDelete pod g x) \<notin> set tr"
  shows "OnPod (EvGet (gsKey gs) (Inr pod)) \<in> set tr' \<and> pod_deletion_reason gs g"
proof (cases "DeletionTimestamp (gsMeta gs) = None")
  case False
  with assms handleDeletion_deletes[of r gs s tr a s' tr'] show ?thesis
    by (simp add: reconcileFetched_def pod_deletion_reason_def)
next
  case live: True
  show ?thesis
  proof (cases "gsState gs = GameServerStateShutdown \<and> ContainsFinalizer (Runtime r) (gsMeta gs) FinalizerName")
    case True
    with live assms(1) obtain b s1 tr1 where
      sh: "run_state (reconcileShutdown (traced r) gs) (s, tr) = (b, (s1, tr1))"
      and ga: "run_state (updateGameServerGauge (traced r)) (s1, tr1) = ((), (s', tr'))"
      by (auto simp: reconcileFetched_def dispatchState_def split: prod.splits)
    from emitsD[OF updateGameServerGauge_emits ga] obtain evs where
      tr': "tr' = tr1 @ evs" "all_events gs_status_call evs" .
    with assms reconcileShutdown_deletes[OF sh, of pod g x] live True show ?thesis
      by (auto simp: pod_deletion_reason_def)
  next
    case False
    with live have "emits (\<lambda>e. \<not> is_pod_delete e) (reconcileFetched (traced r) gs)"
      unfolding reconcileFetched_def traced_simps traced_api_simps
      by (auto intro!: emits_intros dest: dispatch_no_pod_delete)
    from emitsD[OF this assms(1)] assms(2,3) show ?thesis
      by (metis Un_iff all_eventsD is_pod_delete.simps(1) set_append)
  qed
qed

text \<open>C14: A reconcile deletes a Pod only after reading it under the key of the game server, and only when
  the game server is being deleted (with the default grace period) or is in state \<^verbatim>\<open>Shutdown\<close> (with
  the 30 second grace period); in no other state is a Pod deleted. For any client.\<close>

theorem Reconcile_pod_deletion:
  assumes run: "run_state (Reconcile (traced r) req) (s, []) = (res, (s', tr))"
    and del: "OnPod (EvDelete pod grace x) \<in> set tr"
  shows "\<exists>gs. hd tr = OnGameServer (EvGet req (Inr gs)) \<and>
    OnPod (EvGet (gsKey gs) (Inr pod)) \<in> set tr \<and> pod_deletion_reason gs grace"
  using run
proof (cases rule: Reconcile_trace)
  case (read gs s1 evs)
  with reconcileFetched_deletes[OF read(2) del] show ?thesis by auto
qed (use del in simp)

theorem Reconcile_pod_deletion_witness:
  "\<exists>pod grace x gs. OnPod (EvDelete pod grace x) \<in> set (demoTrace (demoCluster GameServerStateShutdown)) \<and>
     hd (demoTrace (demoCluster GameServerStateShutdown)) = OnGameServer (EvGet demoKey (Inr gs)) \<and>
     pod_deletion_reason gs grace"
proof -
  let ?c = "demoCluster GameServerStateShutdown"
  have "list_ex is_pod_delete (demoTrace ?c)" by code_simp
  then obtain pod grace x where del: "OnPod (EvDelete pod grace x) \<in> set (demoTrace ?c)"
    by (auto elim!: list_ex_event is_pod_deleteE)
  obtain res s' where run:
    "run_state (Reconcile (traced cluster_reconciler) demoKey) (?c, []) = (res, (s', demoTrace ?c))"
    by (rule demoTrace_run)
  from Reconcile_pod_deletion[OF run del] del show ?thesis by blast
qed

section \<open>Admission of new servers\<close>

abbreviation before_pod :: "event list \<Rightarrow> event list" where
  "before_pod tr \<equiv> takeWhile (\<lambda>e. \<not> is_pod_cou e) tr"

definition config_read :: "'s Reconciler \<Rightarrow> event list \<Rightarrow> AdminConfig \<Rightarrow> bool" where
  "config_read r tr cfg \<longleftrightarrow> (\<exists>x.
     OnConfigMap (EvGet \<lparr>keyNamespace = operatorNs r, keyName = adminConfigMapName\<rparr> x) \<in> set tr \<and>
     (case x of Inl e \<Rightarrow> IsNotFound e \<and> cfg = DefaultAdminConfig (Runtime r)
      | Inr cm \<Rightarrow> cfg = applyConfigMap (Runtime r) (cmData cm) (DefaultAdminConfig (Runtime r))))"

definition within_limits :: "event list \<Rightarrow> string \<Rightarrow> AdminConfig \<Rightarrow> bool" where
  "within_limits tr owner cfg \<longleftrightarrow> (\<exists>all own.
     OnGameServer (EvList None [] (Inr all)) \<in> set tr \<and> int (length all) \<le> MaxServersGlobal cfg \<and>
     OnGameServer (EvList (Some (UserNamespace owner)) [] own) \<in> set tr \<and>
     (case own of Inl e \<Rightarrow> IsNotFound e \<and> 0 \<le> MaxServersPerUser cfg
      | Inr xs \<Rightarrow> int (length xs) \<le> MaxServersPerUser cfg))"

definition namespace_ready :: "event list \<Rightarrow> string \<Rightarrow> bool" where
  "namespace_ready tr owner \<longleftrightarrow> (\<exists>n q l p a b c d.
     OnNamespace (EvCreateOrUpdate n (Inr a)) \<in> set tr \<and> Name (nsMeta n) = UserNamespace owner \<and>
     OnResourceQuota (EvCreateOrUpdate q (Inr b)) \<in> set tr \<and> Namespace (rqMeta q) = UserNamespace owner \<and>
     OnLimitRange (EvCreateOrUpdate l (Inr c)) \<in> set tr \<and> Namespace (lrMeta l) = UserNamespace owner \<and>
     OnNetworkPolicy (EvCreateOrUpdate p (Inr d)) \<in> set tr \<and> Namespace (npMeta p) = UserNamespace owner)"

lemma operatorNs_traced [simp]: "operatorNs (traced r) = operatorNs r"
  by (simp add: operatorNs_def)

lemma DefaultAdminConfig_traced [simp]: "DefaultAdminConfig (traced_runtime rt) = DefaultAdminConfig rt"
  by (simp add: DefaultAdminConfig_def)

lemma parseQuantity_traced [simp]: "parseQuantity (traced_runtime rt) = parseQuantity rt"
  by (intro ext) (simp add: parseQuantity_def split: option.split)

lemma applyConfigMap_traced [simp]: "applyConfigMap (traced_runtime rt) d cfg = applyConfigMap rt d cfg"
  by (simp add: applyConfigMap_def)

lemma LoadAdminConfig_trace:
  assumes "run_state (LoadAdminConfig (traced_client c) (traced_runtime rt) ns) (s, tr) = (a, (s', tr'))"
  obtains x where "tr' = tr @ [OnConfigMap (EvGet \<lparr>keyNamespace = ns, keyName = adminConfigMapName\<rparr> x)]"
    "\<And>cfg. a = Inr cfg \<Longrightarrow> (case x of Inl e \<Rightarrow> IsNotFound e \<and> cfg = DefaultAdminConfig rt
      | Inr cm \<Rightarrow> cfg = applyConfigMap rt (cmData cm) (DefaultAdminConfig rt))"
  using assms unfolding LoadAdminConfig_def
  by (auto split: prod.splits sum.splits if_splits)


lemma discard_trace:
  assumes "run_state (discard (lift_op m ev)) (s, tr) = (Inr (), (s', tr'))"
  obtains y where "tr' = tr @ ev (Inr y)"
  using assms by (auto simp: discard_def split: prod.splits sum.splits)

lemma discard_emits [emits_intros]: "emits P m \<Longrightarrow> emits P (discard m)"
  unfolding discard_def by (intro emits_intros)

lemma ensureUserNamespace_emits:
  "emits (\<lambda>e. \<not> is_pod_cou e) (ensureUserNamespace (traced r) owner cfg)"
  unfolding ensureUserNamespace_def ensureResourceQuota_def ensureLimitRange_def
    ensureNetworkPolicy_def traced_simps traced_api_simps
  by (intro emits_intros) simp_all

lemma namespace_readyI:
  assumes "OnNamespace (EvCreateOrUpdate n (Inr a)) \<in> set tr" "Name (nsMeta n) = UserNamespace owner"
    "OnResourceQuota (EvCreateOrUpdate q (Inr b)) \<in> set tr" "Namespace (rqMeta q) = UserNamespace owner"
    "OnLimitRange (EvCreateOrUpdate l (Inr c)) \<in> set tr" "Namespace (lrMeta l) = UserNamespace owner"
    "OnNetworkPolicy (EvCreateOrUpdate p (Inr d)) \<in> set tr" "Namespace (npMeta p) = UserNamespace owner"
  shows "namespace_ready tr owner"
  unfolding namespace_ready_def using assms by blast


lemma ensureUserNamespace_trace:
  assumes "run_state (ensureUserNamespace (traced r) owner cfg) (s, tr) = (Inr (), (s', tr'))"
  obtains n q l p a b c d where "tr' = tr @ [OnNamespace (EvCreateOrUpdate n (Inr a)),
      OnResourceQuota (EvCreateOrUpdate q (Inr b)), OnLimitRange (EvCreateOrUpdate l (Inr c)),
      OnNetworkPolicy (EvCreateOrUpdate p (Inr d))]"
    "Name (nsMeta n) = UserNamespace owner" "Namespace (rqMeta q) = UserNamespace owner"
    "Namespace (lrMeta l) = UserNamespace owner" "Namespace (npMeta p) = UserNamespace owner"
  using assms unfolding ensureUserNamespace_def Let_def ensureResourceQuota_def ensureLimitRange_def
    ensureNetworkPolicy_def traced_simps traced_api_simps
  by (auto split: prod.splits sum.splits elim!: discard_trace)

lemma ensureUserNamespace_ready:
  assumes "run_state (ensureUserNamespace (traced r) owner cfg) (s, tr) = (Inr (), (s', tr'))"
  shows "namespace_ready tr' owner"
  using assms by (rule ensureUserNamespace_trace) (rule namespace_readyI, auto)

lemma namespace_ready_mono: "namespace_ready tr owner \<Longrightarrow> set tr \<subseteq> set tr' \<Longrightarrow> namespace_ready tr' owner"
  unfolding namespace_ready_def by (meson subsetD)

lemma reconcileModPVC_emits: "emits (\<lambda>e. \<not> is_pod_cou e) (reconcileModPVC (traced r) gs cfg)"
  unfolding reconcileModPVC_def traced_simps traced_api_simps by (intro emits_intros) simp_all

lemma reconcilePod_trace:
  assumes "run_state (reconcilePod (traced r) gs) (s, tr) = (a, (s', tr'))"
  obtains x where "tr' = tr @ [OnPod (EvCreateOrUpdate (Pod0 (Namespace (gsMeta gs)) (Name (gsMeta gs))) x)]"
  using assms unfolding reconcilePod_def by (auto split: prod.splits sum.splits)

text \<open>The trace up to the creation of the Pod, if it comes to that.\<close>

definition pod_created_after :: "(event list \<Rightarrow> bool) \<Rightarrow> GameServer \<Rightarrow> event list \<Rightarrow> bool" where
  "pod_created_after Q gs tr \<longleftrightarrow> (\<forall>p x. OnPod (EvCreateOrUpdate p x) \<in> set tr \<longrightarrow>
     p = Pod0 (Namespace (gsMeta gs)) (Name (gsMeta gs)) \<and> Q (before_pod tr))"

lemma no_pod_cou: "all_events (\<lambda>e. \<not> is_pod_cou e) tr \<Longrightarrow> OnPod (EvCreateOrUpdate p x) \<notin> set tr"
  by (auto dest: all_eventsD)

lemma pod_created_after_none: "all_events (\<lambda>e. \<not> is_pod_cou e) tr \<Longrightarrow> pod_created_after Q gs tr"
  by (simp add: pod_created_after_def no_pod_cou)

lemma gs_status_no_pod: "all_events gs_status_call evs \<Longrightarrow> all_events (\<lambda>e. \<not> is_pod_cou e) evs"
  by (erule all_events_mono) simp

lemma pod_created_after_append:
  assumes "pod_created_after Q gs tr" "all_events gs_status_call evs" 
  shows "pod_created_after Q gs (tr @ evs)"
proof (cases "all_events (\<lambda>e. \<not> is_pod_cou e) tr")
  case True
  with assms show ?thesis by (simp add: pod_created_after_none gs_status_no_pod)
next
  case False
  then have "before_pod (tr @ evs) = before_pod tr" by (auto simp: all_events_def)
  with assms show ?thesis by (auto simp: pod_created_after_def)
qed

lemma pod_created_after_pod:
  assumes "all_events (\<lambda>e. \<not> is_pod_cou e) tr" "Q tr"
  shows "pod_created_after Q gs
    (tr @ [OnPod (EvCreateOrUpdate (Pod0 (Namespace (gsMeta gs)) (Name (gsMeta gs))) x)])"
proof -
  from assms(1) have "before_pod (tr @ [OnPod (EvCreateOrUpdate q x)]) = tr" for q
    by (simp add: all_events_def)
  with assms show ?thesis by (auto simp: pod_created_after_def no_pod_cou)
qed

lemma createServerObjects_pod:
  assumes run: "run_state (createServerObjects (traced r) gs owner cfg) (s, tr) = (a, (s', tr'))"
    and tr: "all_events (\<lambda>e. \<not> is_pod_cou e) tr"
    and Q: "\<And>evs. namespace_ready (tr @ evs) owner \<Longrightarrow> Q (tr @ evs)"
  shows "pod_created_after Q gs tr'"
proof -
  obtain ens s1 tr1 where ens: "run_state (ensureUserNamespace (traced r) owner cfg) (s, tr) = (ens, (s1, tr1))"
    by (metis prod.collapse)
  obtain evs1 where tr1: "tr1 = tr @ evs1" "all_events (\<lambda>e. \<not> is_pod_cou e) evs1"
    using emitsD[OF ensureUserNamespace_emits ens] .
  let ?pvc = "if mget (Annotations (gsMeta gs)) AnnotationModPath \<noteq> []
    then reconcileModPVC (traced r) gs cfg else ret (Inr ())"
  obtain pvc s2 tr2 where pvc: "run_state ?pvc (s1, tr1) = (pvc, (s2, tr2))" by (metis prod.collapse)
  obtain evs2 where tr2: "tr2 = tr1 @ evs2" "all_events (\<lambda>e. \<not> is_pod_cou e) evs2"
    using emitsD[OF _ pvc] by (metis emits_if emits_return reconcileModPVC_emits)
  obtain pod s3 tr3 where pod: "run_state (reconcilePod (traced r) gs) (s2, tr2) = (pod, (s3, tr3))"
    by (metis prod.collapse)
  obtain x where tr3: "tr3 = tr2 @ [OnPod (EvCreateOrUpdate (Pod0 (Namespace (gsMeta gs)) (Name (gsMeta gs))) x)]"
    using reconcilePod_trace[OF pod] .
  show ?thesis
  proof (cases ens)
    case (Inl err)
    with run ens have "run_state (transitionState (traced r) gs GameServerStateError ''NamespaceSetupFailed''
        (''Failed to set up user namespace: '' @ error_text err)) (s1, tr1) = (a, (s', tr'))"
      by (simp add: createServerObjects_def)
    from emitsD[OF transitionState_emits this] tr tr1 show ?thesis
      by (metis all_events_append gs_status_no_pod pod_created_after_none)
  next
    case (Inr u)
    then have "namespace_ready tr2 owner"
      using ens tr2 by (auto intro: namespace_ready_mono dest: ensureUserNamespace_ready)
    then have "pod_created_after Q gs tr3" 
      unfolding tr3 using Q[of "evs1 @ evs2"] tr tr1 tr2 by (intro pod_created_after_pod) simp_all
    moreover have "pod_created_after Q gs tr2" using tr tr1 tr2 by (simp add: pod_created_after_none)
    ultimately show ?thesis
      using run ens Inr pvc pod
      by (auto simp: createServerObjects_def split: sum.splits 
        elim!: emitsD[OF transitionState_emits] intro: pod_created_after_append)
  qed
qed

definition admitted :: "'s Reconciler \<Rightarrow> GameServer \<Rightarrow> event list \<Rightarrow> bool" where
  "admitted r gs tr \<longleftrightarrow> (let owner = mget (Labels (gsMeta gs)) LabelOwner in
     owner \<noteq> [] \<and> namespace_ready tr owner \<and>
     (\<exists>cfg. config_read r tr cfg \<and> within_limits tr owner cfg))"

lemma reconcileCreating_pod:
  assumes run: "run_state (reconcileCreating (traced r) gs) (s, tr) = (a, (s', tr'))"
    and tr: "all_events (\<lambda>e. \<not> is_pod_cou e) tr"
  shows "pod_created_after (admitted r gs) gs tr'"
proof -
  let ?owner = "mget (Labels (gsMeta gs)) LabelOwner"
  have err: "pod_created_after (admitted r gs) gs tr''"
    if "run_state (transitionState (traced r) gs st re m) (s0, tr0) = (a, (s'', tr''))"
      "all_events (\<lambda>e. \<not> is_pod_cou e) tr0" for st re m s0 tr0 s'' tr''
    using emitsD[OF transitionState_emits that(1)] that(2)
    by (metis pod_created_after_none pod_created_after_append)
  obtain cfg s1 tr1 where load: "run_state (LoadAdminConfig (Client (traced r)) (Runtime (traced r))
      (operatorNs (traced r))) (s, tr) = (cfg, (s1, tr1))" by (metis prod.collapse)
  then obtain x where tr1: "tr1 = tr @ [OnConfigMap (EvGet \<lparr>keyNamespace = operatorNs r, keyName = adminConfigMapName\<rparr> x)]"
    and x: "\<And>c. cfg = Inr c \<Longrightarrow> (case x of Inl e \<Rightarrow> IsNotFound e \<and> c = DefaultAdminConfig (Runtime r)
      | Inr cm \<Rightarrow> c = applyConfigMap (Runtime r) (cmData cm) (DefaultAdminConfig (Runtime r)))"
    unfolding traced_simps operatorNs_traced by (rule LoadAdminConfig_trace) blast
  have create: "pod_created_after (admitted r gs) gs tr''"
    if "run_state (createServerObjects (traced r) gs ?owner c) (s0, tr0) = (a, (s'', tr''))"
      "cfg = Inr c" "?owner \<noteq> []" "int (length all) \<le> MaxServersGlobal c"
      "case own of Inl e \<Rightarrow> IsNotFound e \<and> 0 \<le> MaxServersPerUser c | Inr xs \<Rightarrow> int (length xs) \<le> MaxServersPerUser c"
      "tr0 = tr1 @ [OnGameServer (EvList None [] (Inr all)),
        OnGameServer (EvList (Some (UserNamespace ?owner)) [] own)]"
    for c s0 tr0 all own s'' tr''
  proof (rule createServerObjects_pod[OF that(1)])
    fix evs
    let ?tr = "tr0 @ evs"
    have "config_read r ?tr c"
      unfolding config_read_def by (rule exI[of _ x]) (use x[OF that(2)] tr1 that(6) in simp)
    moreover have "within_limits ?tr ?owner c"
      unfolding within_limits_def by (rule exI[of _ all], rule exI[of _ own]) (use that in simp)
    moreover assume "namespace_ready ?tr ?owner"
    ultimately show "admitted r gs ?tr" using that(3) by (auto simp: admitted_def Let_def)
  qed (use that(6) tr tr1 in simp)
  from run load tr tr1 show ?thesis
    unfolding reconcileCreating_def Let_def
    by (auto split: if_splits sum.splits prod.splits intro: pod_created_after_none elim!: err create simp: pod_created_after_none)
qed

lemma dispatch_no_pod_cou:
  "gsState gs \<noteq> GameServerStateCreating \<Longrightarrow> dispatchState (traced r) gs = Some m \<Longrightarrow>
   emits (\<lambda>e. \<not> is_pod_cou e) m"
  unfolding dispatchState_def state_handler_defs handler_defs traced_simps traced_api_simps
  by (auto split: GameServerState.splits intro!: emits_intros)

lemma handleDeletion_no_pod_cou: "emits (\<lambda>e. \<not> is_pod_cou e) (handleDeletion (traced r) gs)"
  unfolding handleDeletion_def traced_simps traced_api_simps by (intro emits_intros) simp_all

definition creates :: "'s Reconciler \<Rightarrow> GameServer \<Rightarrow> bool" where
  "creates r gs \<longleftrightarrow> DeletionTimestamp (gsMeta gs) = None
     \<and> ContainsFinalizer (Runtime r) (gsMeta gs) FinalizerName \<and> gsState gs = GameServerStateCreating"

lemma reconcileFetched_no_pod_cou:
  "\<not> creates r gs \<Longrightarrow> emits (\<lambda>e. \<not> is_pod_cou e) (reconcileFetched (traced r) gs)"
  unfolding reconcileFetched_def creates_def traced_simps traced_api_simps
  by (auto intro!: emits_intros handleDeletion_no_pod_cou dest: dispatch_no_pod_cou)

lemma reconcileFetched_pod:
  assumes run: "run_state (reconcileFetched (traced r) gs) (s, tr) = (a, (s', tr'))"
    and tr: "all_events (\<lambda>e. \<not> is_pod_cou e) tr"
  shows "pod_created_after (\<lambda>pre. creates r gs \<and> admitted r gs pre) gs tr'"
proof (cases "creates r gs")
  case False
  with emitsD[OF reconcileFetched_no_pod_cou run] tr show ?thesis
    by (metis all_events_append pod_created_after_none)
next
  case True
  with run obtain b s1 tr1 where
    cr: "run_state (reconcileCreating (traced r) gs) (s, tr) = (b, (s1, tr1))"
    and ga: "run_state (updateGameServerGauge (traced r)) (s1, tr1) = ((), (s', tr'))"
    by (auto simp: creates_def reconcileFetched_def dispatchState_def split: prod.splits)
  from emitsD[OF updateGameServerGauge_emits ga] reconcileCreating_pod[OF cr tr]
  have "pod_created_after (admitted r gs) gs tr'" by (metis pod_created_after_append)
  with True show ?thesis by (simp add: pod_created_after_def)
qed

text \<open>C10: Admission. A reconcile creates or updates a Pod only for a live game server in state
  \<^verbatim>\<open>Creating\<close> that carries the finalizer and an owner label, and only after it has read the admin
  configuration (or found none, taking the defaults), found the number of all game servers and of the
  owner's game servers within the configured limits, and set up the owner's namespace with its quota,
  limit range and network policy. The Pod is the one named after the game server. For any client.\<close>

theorem Reconcile_pod_creation:
  assumes run: "run_state (Reconcile (traced r) req) (s, []) = (res, (s', tr))"
    and pod: "OnPod (EvCreateOrUpdate p x) \<in> set tr"
  shows "\<exists>gs. hd tr = OnGameServer (EvGet req (Inr gs)) \<and> creates r gs \<and>
    p = Pod0 (Namespace (gsMeta gs)) (Name (gsMeta gs)) \<and> admitted r gs (before_pod tr)"
  using run
proof (cases rule: Reconcile_trace)
  case (read gs s1 evs)
  with reconcileFetched_pod[OF read(2)] pod show ?thesis
    by (auto simp: pod_created_after_def)
qed (use pod in simp)

theorem Reconcile_pod_creation_witness:
  "\<exists>p x gs. OnPod (EvCreateOrUpdate p x) \<in> set (demoTrace (demoCluster GameServerStateCreating)) \<and>
     creates cluster_reconciler gs \<and>
     admitted cluster_reconciler gs (before_pod (demoTrace (demoCluster GameServerStateCreating)))"
proof -
  let ?c = "demoCluster GameServerStateCreating"
  have "list_ex is_pod_cou (demoTrace ?c)" by code_simp
  then obtain p x where pod: "OnPod (EvCreateOrUpdate p x) \<in> set (demoTrace ?c)"
    by (auto elim!: list_ex_event is_pod_couE)
  obtain res s' where run:
    "run_state (Reconcile (traced cluster_reconciler) demoKey) (?c, []) = (res, (s', demoTrace ?c))"
    by (rule demoTrace_run)
  from Reconcile_pod_creation[OF run pod] pod show ?thesis by blast
qed

section \<open>The finalizer\<close>

definition pod_gone :: "GameServer \<Rightarrow> event list \<Rightarrow> bool" where
  "pod_gone gs tr \<longleftrightarrow>
     (\<exists>e. OnPod (EvGet (gsKey gs) (Inl e)) \<in> set tr \<and> IsNotFound e) \<or>
     (\<exists>pod x. OnPod (EvGet (gsKey gs) (Inr pod)) \<in> set tr \<and> OnPod (EvDelete pod None x) \<in> set tr \<and>
        (case x of Inl e \<Rightarrow> IsNotFound e | Inr _ \<Rightarrow> True))"

lemma pod_gone_calls:
  "IsNotFound e \<Longrightarrow> pod_gone gs (tr @ OnPod (EvGet (gsKey gs) (Inl e)) # evs)"
  "IsNotFound e \<Longrightarrow> pod_gone gs (tr @ OnPod (EvGet (gsKey gs) (Inr pod)) # OnPod (EvDelete pod None (Inl e)) # evs)"
  "pod_gone gs (tr @ OnPod (EvGet (gsKey gs) (Inr pod)) # OnPod (EvDelete pod None (Inr u)) # evs)"
  unfolding pod_gone_def by (fastforce split: sum.splits)+

definition update_in_order :: "'s Reconciler \<Rightarrow> GameServer \<Rightarrow> event list \<Rightarrow> GameServer \<Rightarrow> bool" where
  "update_in_order r gs tr g \<longleftrightarrow>
     (if DeletionTimestamp (gsMeta gs) = None
      then \<not> ContainsFinalizer (Runtime r) (gsMeta gs) FinalizerName \<and>
        g = gs\<lparr>gsMeta := AddFinalizer (Runtime r) (gsMeta gs) FinalizerName\<rparr>
      else ContainsFinalizer (Runtime r) (gsMeta gs) FinalizerName \<and>
        g = gs\<lparr>gsMeta := RemoveFinalizer (Runtime r) (gsMeta gs) FinalizerName\<rparr> \<and> pod_gone gs tr)"

lemma dispatch_no_gs_update:
  "dispatchState (traced r) gs = Some m \<Longrightarrow> emits (\<lambda>e. \<not> is_gs_update e) m"
  unfolding dispatchState_def state_handler_defs handler_defs traced_simps traced_api_simps
  by (auto split: GameServerState.splits intro!: emits_intros)

lemma handleDeletion_updates:
  assumes "run_state (handleDeletion (traced r) gs) (s, tr) = (a, (s', tr'))"
    and "OnGameServer (EvUpdate g x) \<in> set tr'" "OnGameServer (EvUpdate g x) \<notin> set tr"
  shows "ContainsFinalizer (Runtime r) (gsMeta gs) FinalizerName \<and>
    g = gs\<lparr>gsMeta := RemoveFinalizer (Runtime r) (gsMeta gs) FinalizerName\<rparr> \<and> pod_gone gs tr'"
  using assms unfolding handleDeletion_def
  by (auto simp: Let_def pod_gone_calls split: prod.splits sum.splits if_splits option.splits)

lemma reconcileFetched_updates:
  assumes run: "run_state (reconcileFetched (traced r) gs) (s, tr) = (a, (s', tr'))"
    and "OnGameServer (EvUpdate g x) \<in> set tr'" "OnGameServer (EvUpdate g x) \<notin> set tr"
  shows "update_in_order r gs tr' g"
proof -
  consider "DeletionTimestamp (gsMeta gs) \<noteq> None"
    | "DeletionTimestamp (gsMeta gs) = None" "\<not> ContainsFinalizer (Runtime r) (gsMeta gs) FinalizerName"
    | "DeletionTimestamp (gsMeta gs) = None" "ContainsFinalizer (Runtime r) (gsMeta gs) FinalizerName"
    by blast
  then show ?thesis
  proof cases
    case 1
    with assms handleDeletion_updates[of r gs s tr a s' tr'] show ?thesis
      by (auto simp: reconcileFetched_def update_in_order_def)
  next
    case 2
    with assms show ?thesis
      by (auto simp: reconcileFetched_def update_in_order_def split: prod.splits sum.splits)
  next
    case 3
    then have "emits (\<lambda>e. \<not> is_gs_update e) (reconcileFetched (traced r) gs)"
      unfolding reconcileFetched_def traced_simps traced_api_simps
      by (auto intro!: emits_intros dest: dispatch_no_gs_update)
    from emitsD[OF this run] assms(2,3) show ?thesis
      by (metis Un_iff all_eventsD is_gs_update.simps(1) set_append)
  qed
qed

text \<open>C15: A reconcile updates the game server object itself only to add the finalizer when the object is
  live and does not have it, or to remove it when the object is being deleted, and then only after its
  Pod was found missing or its deletion was accepted. For any client.\<close>

theorem Reconcile_finalizer:
  assumes run: "run_state (Reconcile (traced r) req) (s, []) = (res, (s', tr))"
    and up: "OnGameServer (EvUpdate g x) \<in> set tr"
  shows "\<exists>gs. hd tr = OnGameServer (EvGet req (Inr gs)) \<and> update_in_order r gs tr g"
  using run
proof (cases rule: Reconcile_trace)
  case (read gs s1 evs)
  with reconcileFetched_updates[OF read(2) up] show ?thesis by auto
qed (use up in simp)

theorem Reconcile_finalizer_witness:
  "\<exists>g x gs. OnGameServer (EvUpdate g x) \<in>
       set (demoTrace ((demoCluster GameServerStateReady)\<lparr>cGameServers := [deleted (demoGS GameServerStateReady)]\<rparr>)) \<and>
     update_in_order cluster_reconciler gs
       (demoTrace ((demoCluster GameServerStateReady)\<lparr>cGameServers := [deleted (demoGS GameServerStateReady)]\<rparr>)) g"
proof -
  let ?c = "(demoCluster GameServerStateReady)\<lparr>cGameServers := [deleted (demoGS GameServerStateReady)]\<rparr>"
  have "list_ex is_gs_update (demoTrace ?c)" by code_simp
  then obtain g x where up: "OnGameServer (EvUpdate g x) \<in> set (demoTrace ?c)"
    by (auto elim!: list_ex_event is_gs_updateE)
  obtain res s' where run:
    "run_state (Reconcile (traced cluster_reconciler) demoKey) (?c, []) = (res, (s', demoTrace ?c))"
    by (rule demoTrace_run)
  from Reconcile_finalizer[OF run up] up show ?thesis by blast
qed

end
