(* ===== verification/GameServerRefinement.thy ===== *)
theory GameServerRefinement
  imports Demo
begin

text \<open>
  Functional correctness of the GameServer controller on a healthy cluster: the state a reconcile
  leaves behind is the one the specification \<open>next_state\<close> prescribes, and a transition leaves the
  conditions of its table (\<open>condition_after\<close>). The locale \<open>healthy_cluster\<close> collects the laws of the
  API the proofs use; the reference cluster is an instance.
\<close>

section \<open>The specification\<close>

text \<open>
  \<open>next_state\<close> is what the controller promises for every state but \<^verbatim>\<open>Creating\<close> (whose step also sets
  up the user's namespace): the next state from the object, its Pod and the time alone.
\<close>

definition allocated :: "GameServer \<Rightarrow> bool" where
  "allocated gs \<longleftrightarrow> mget (Annotations (gsMeta gs)) AnnotationAllocated = ''true''"

definition pod_up :: "Pod \<Rightarrow> bool" where
  "pod_up pod \<longleftrightarrow> Phase (podStatus pod) = PodRunning \<and> isPodReady pod"

definition starting_late :: "gotime \<Rightarrow> GameServer \<Rightarrow> bool" where
  "starting_late now gs \<longleftrightarrow> list_ex (\<lambda>c. cType c = TypeProgressing \<and> cStatus c = ConditionTrue \<and>
     (case cLastTransitionTime c of None \<Rightarrow> True | Some t \<Rightarrow> now - t > startingTimeout))
     (Conditions (gsStatus gs))"

definition next_state :: "gotime \<Rightarrow> GameServer \<Rightarrow> Pod option \<Rightarrow> GameServerState" where
  "next_state now gs pod = (case gsState gs of
       GameServerStateUnset \<Rightarrow> GameServerStateCreating
     | GameServerStateStarting \<Rightarrow> (case pod of
           None \<Rightarrow> GameServerStateCreating
         | Some p \<Rightarrow> if pod_up p then GameServerStateReady
             else if Phase (podStatus p) = PodFailed \<or> starting_late now gs then GameServerStateError
             else GameServerStateStarting)
     | GameServerStateReady \<Rightarrow> (case pod of
           None \<Rightarrow> GameServerStateError
         | Some p \<Rightarrow> if \<not> pod_up p then GameServerStateError
             else if allocated gs then GameServerStateAllocated else GameServerStateReady)
     | GameServerStateAllocated \<Rightarrow> (case pod of
           None \<Rightarrow> GameServerStateError
         | Some p \<Rightarrow> if \<not> pod_up p then GameServerStateError
             else if allocated gs then GameServerStateAllocated else GameServerStateReady)
     | st \<Rightarrow> st)"

text \<open>
  \<open>condition_after\<close>: the status of each condition once a server enters a state. A condition that is
  not mentioned keeps its old status.
\<close>

definition condition_status :: "Condition list \<Rightarrow> string \<Rightarrow> ConditionStatus option" where
  "condition_status cs t = map_option cStatus (condition_of cs t)"

definition condition_after :: "GameServerState \<Rightarrow> string \<Rightarrow> ConditionStatus option \<Rightarrow> ConditionStatus option" where
  "condition_after st t old =
     (if t = TypeReady \<and> st \<in> set gs_states then
        Some (if st = GameServerStateReady \<or> st = GameServerStateAllocated then ConditionTrue else ConditionFalse)
      else if t = TypeProgressing \<and> st \<in> set gs_states \<and> st \<noteq> GameServerStateAllocated then
        Some (if st = GameServerStateCreating \<or> st = GameServerStateStarting then ConditionTrue else ConditionFalse)
      else if t = TypeDegraded \<and> st = GameServerStateError then Some ConditionTrue
      else old)"

definition withConditions :: "Condition list \<Rightarrow> GameServer \<Rightarrow> GameServer" where
  "withConditions cs g = g\<lparr>gsStatus := (gsStatus g)\<lparr>Conditions := cs\<rparr>\<rparr>"

lemma withConditions_simps [simp]:
  "gsMeta (withConditions cs g) = gsMeta g" "gsSpec (withConditions cs g) = gsSpec g"
  "gsState (withConditions cs g) = gsState g" "Conditions (gsStatus (withConditions cs g)) = cs"
  "withConditions cs (withConditions ds g) = withConditions cs g"
  by (simp_all add: withConditions_def)

abbreviation statuses :: "GameServer \<Rightarrow> string \<Rightarrow> ConditionStatus option" where
  "statuses g \<equiv> condition_status (Conditions (gsStatus g))"

text \<open>A computation that only sets conditions of \<open>g\<close>, to the statuses \<open>f\<close>.\<close>

definition sets_conditions ::
  "('s, GameServer) state \<Rightarrow> GameServer \<Rightarrow> 's \<Rightarrow> (string \<Rightarrow> ConditionStatus option) \<Rightarrow> bool" where
  "sets_conditions m g s f \<longleftrightarrow> (\<exists>cs. run_state m s = (withConditions cs g, s) \<and> condition_status cs = f)"

lemma sets_conditions_bind:
  assumes "sets_conditions m g s f"
    and "\<And>g'. statuses g' = f \<Longrightarrow> sets_conditions (k g') g' s f'"
  shows "sets_conditions (State_Monad.bind m k) g s f'"
proof -
  from assms(1) obtain cs where m: "run_state m s = (withConditions cs g, s)" "condition_status cs = f"
    by (auto simp: sets_conditions_def)
  with assms(2)[of "withConditions cs g"] show ?thesis by (auto simp: sets_conditions_def)
qed

lemma sets_conditions_return: "sets_conditions (State_Monad.return g) g s (statuses g)"
  unfolding sets_conditions_def
  by (rule exI[of _ "Conditions (gsStatus g)"]) (simp add: withConditions_def)

section \<open>A healthy cluster\<close>

text \<open>
  The documented laws of the API for game servers and Pods, no other writer, and a clock, an event
  recorder and a gauge that do not touch the objects.
\<close>

locale healthy_cluster =
  gsapi: status_store "gameservers (Client r)" gobjs gsMeta gcontent gsStatus +
  podapi: object_store "pods (Client r)" pobjs podMeta pcontent +
  conds: status_conditions "SetStatusCondition (Runtime r)"
  for r :: "'s Reconciler" and gobjs :: "'s \<Rightarrow> key \<Rightarrow> GameServer option"
    and gcontent :: "GameServer \<Rightarrow> 'a"
    and pobjs :: "'s \<Rightarrow> key \<Rightarrow> Pod option" and pcontent :: "Pod \<Rightarrow> 'b" +
  fixes clock :: "'s \<Rightarrow> gotime"
  assumes now: "run_state (Now (Runtime r)) s = (clock s, s)"
    and event_silent: "preserves (\<lambda>s. (gobjs s, pobjs s) = w) (Event (Runtime r) k t re m)"
    and gauge_silent: "preserves (\<lambda>s. (gobjs s, pobjs s) = w) (GaugeReset (Runtime r))"
      "preserves (\<lambda>s. (gobjs s, pobjs s) = w) (GaugeSet (Runtime r) a b n)"
    and status_frame: "preserves (\<lambda>s. pobjs s = p) (kstatus (gameservers (Client r)) g)"
    and delete_frame: "preserves (\<lambda>s. gobjs s = q) (kdelete (pods (Client r)) pod grace)"
begin

lemma setCondition_sets:
  "sets_conditions (setCondition r ty st re m g) g s ((statuses g)(ty := Some st))"
proof -
  let ?c = "\<lparr>cType = ty, cStatus = st, cReason = re, cMessage = m,
      cObservedGeneration = Generation (gsMeta g), cLastTransitionTime = None\<rparr>"
  obtain cs where cs: "run_state (SetStatusCondition (Runtime r) (Conditions (gsStatus g)) ?c) s = (cs, s)"
      "map_option cStatus (condition_of cs ty) = Some st"
      "\<forall>t. t \<noteq> ty \<longrightarrow> condition_of cs t = condition_of (Conditions (gsStatus g)) t"
    using conds.set_condition[of ?c "Conditions (gsStatus g)" s] by auto
  from cs(2,3) have "condition_status cs = (statuses g)(ty := Some st)"
    by (auto simp: condition_status_def)
  with cs(1) show ?thesis
    by (auto simp: sets_conditions_def setCondition_def withConditions_def)
qed

lemma setCondition_then:
  assumes "\<And>g'. statuses g' = (statuses g)(ty := Some st) \<Longrightarrow> sets_conditions (k g') g' s f"
  shows "sets_conditions (State_Monad.bind (setCondition r ty st re m g) k) g s f"
  by (rule sets_conditions_bind[OF setCondition_sets]) (rule assms)

lemma setCondition_last:
  "f = (statuses g)(ty := Some st) \<Longrightarrow> sets_conditions (setCondition r ty st re m g) g s f"
  using setCondition_sets by simp

lemma transitionConditions_sets:
  "sets_conditions (transitionConditions r st re m g) g s (\<lambda>t. condition_after st t (statuses g t))"
  by (cases st) (auto simp: transitionConditions_def condition_after_def gs_states_def condition_type_defs fun_eq_iff
    intro!: setCondition_then setCondition_last intro: sets_conditions_return)

lemma event_gs: "run_state (Event (Runtime r) k t re m) s = (u, s') \<Longrightarrow> gobjs s' = gobjs s \<and> pobjs s' = pobjs s"
  using event_silent[of "(gobjs s, pobjs s)" k t re m] by (auto dest: preservesD)

text \<open>Writing back a fetched object with another status.\<close>

definition written :: "'s \<Rightarrow> key \<Rightarrow> GameServer \<Rightarrow> GameServerStatus \<Rightarrow> 's \<Rightarrow> bool" where
  "written s k gs status s' \<longleftrightarrow> (\<exists>gs'. gobjs s' = (gobjs s)(k \<mapsto> gs') \<and> pobjs s' = pobjs s \<and>
     gcontent gs' = gcontent gs \<and> gsStatus gs' = status \<and> DeletionTimestamp (gsMeta gs') = DeletionTimestamp (gsMeta gs))"

lemma status_write:
  assumes "gobjs s k = Some gs" "gsMeta g = gsMeta gs"
  obtains x s' where "run_state (kstatus (gameservers (Client r)) g) s = (Inr x, s')" "written s k gs (gsStatus g) s'"
proof -
  from gsapi.read_modify_write[OF assms] obtain x s' where
    w: "run_state (kstatus (gameservers (Client r)) g) s = (Inr x, s')" "gsStatus x = gsStatus g"
      "gcontent x = gcontent gs" "gobjs s' = (gobjs s)(k \<mapsto> x)" "DeletionTimestamp (gsMeta x) = DeletionTimestamp (gsMeta gs)" by blast
  moreover have "pobjs s' = pobjs s" using preservesD[OF status_frame _ w(1)] by blast
  ultimately show thesis using that by (auto simp: written_def)
qed

lemma transitionState_ok:
  assumes gs: "gobjs s (gsKey gs) = Some gs0" and valid: "IsValidTransition (gsState gs) st"
  obtains s' cs where "run_state (transitionState r gs st re m) s =
      (Inr (if st = GameServerStateStarting then ResultAfter requeueDelay else ResultRequeue), s')"
    "written s (gsKey gs) gs0 (gsStatus (withConditions cs (setState st gs0))) s'"
    "\<And>t. condition_status cs t = condition_after st t (statuses gs0 t)"
proof -
  from transitionConditions_sets[of st re m "setState st gs0" s] obtain cs where
    cs: "run_state (transitionConditions r st re m (setState st gs0)) s
        = (withConditions cs (setState st gs0), s)"
      "\<And>t. condition_status cs t = condition_after st t (statuses gs0 t)"
    by (auto simp: sets_conditions_def fun_eq_iff setState_def)
  obtain x s1 where w: "run_state (kstatus (gameservers (Client r)) (withConditions cs (setState st gs0))) s = (Inr x, s1)"
      "written s (gsKey gs) gs0 (gsStatus (withConditions cs (setState st gs0))) s1"
    using status_write[OF gs, of "withConditions cs (setState st gs0)"] by auto
  obtain s2 where e: "run_state (Event (Runtime r) (gsKey gs) ''Normal'' ''StateChanged''
                  (''State changed from '' @ gs_state_string (gsState gs) @ '' to ''
                    @ gs_state_string st @ '': '' @ m)) s1 = ((), s2)" by (rule run_unit)
  from event_gs[OF e] w(2) have wr: "written s (gsKey gs) gs0 (gsStatus (withConditions cs (setState st gs0))) s2"
    by (simp add: written_def)
  have "run_state (transitionState r gs st re m) s =
      (Inr (if st = GameServerStateStarting then ResultAfter requeueDelay else ResultRequeue), s2)"
    using cs w(1) e valid gsapi.get_found[OF gs] by (simp add: transitionState_def)
  from that[OF this wr cs(2)] show thesis .
qed

text \<open>A handler keeps the promise of the specification when it ends with the object in state \<open>st\<close>.\<close>

definition moves :: "('s, gerr + Result) state \<Rightarrow> 's \<Rightarrow> GameServer \<Rightarrow> GameServerState \<Rightarrow> bool" where
  "moves m s gs st \<longleftrightarrow> (\<exists>res s' gs'. run_state m s = (Inr res, s') \<and>
     gobjs s' = (gobjs s)(gsKey gs \<mapsto> gs') \<and> gcontent gs' = gcontent gs \<and> gsState gs' = st \<and>
     DeletionTimestamp (gsMeta gs') = DeletionTimestamp (gsMeta gs))"

lemma moves_transition:
  assumes "gobjs s (gsKey gs) = Some gs" "IsValidTransition (gsState gs) st"
  shows "moves (transitionState r gs st re m) s gs st"
  by (rule transitionState_ok[OF assms, of re m]) (auto simp: moves_def written_def)

lemma moves_stay: "gobjs s (gsKey gs) = Some gs \<Longrightarrow> moves (ret (Inr res)) s gs (gsState gs)"
  by (auto simp: moves_def fun_upd_idem intro!: exI[of _ gs])

lemma moves_written:
  assumes "run_state m s = (Inr res, s')" "written s (gsKey gs) gs status s'" "State status = st"
  shows "moves m s gs st"
  using assms by (auto simp: moves_def written_def)

lemma startingTimedOut_ok:
  "run_state (startingTimedOut (Runtime r) cs) s = (list_ex (\<lambda>c. cType c = TypeProgressing \<and>
     cStatus c = ConditionTrue \<and> (case cLastTransitionTime c of None \<Rightarrow> True
       | Some t \<Rightarrow> clock s - t > startingTimeout)) cs, s)"
  by (induction cs) (auto simp: now split: option.splits)

lemma refreshAndUpdateCondition_ok:
  assumes gs: "gobjs s (gsKey gs) = Some gs0"
  obtains s' status where "run_state (refreshAndUpdateCondition r gs ty st re m) s = (Inr (), s')"
    "written s (gsKey gs) gs0 status s'" "State status = gsState gs0"
proof -
  from setCondition_sets[of ty st re m gs0 s] obtain cs where
    cs: "run_state (setCondition r ty st re m gs0) s = (withConditions cs gs0, s)"
    by (auto simp: sets_conditions_def)
  obtain x s1 where w: "run_state (kstatus (gameservers (Client r)) (withConditions cs gs0)) s = (Inr x, s1)"
      "written s (gsKey gs) gs0 (gsStatus (withConditions cs gs0)) s1"
    using status_write[OF gs, of "withConditions cs gs0"] by auto
  show thesis
    by (rule that[of s1 "gsStatus (withConditions cs gs0)"])
      (use cs w gsapi.get_found[OF gs] in \<open>simp_all add: refreshAndUpdateCondition_def\<close>)
qed

lemma updateReadyStatus_ok:
  assumes gs: "gobjs s (gsKey gs) = Some gs0"
  obtains s' status where "run_state (updateReadyStatus r gs pod) s = (Inr (), s')"
    "written s (gsKey gs) gs0 status s'" "State status = gsState gs0"
    "Address status = PodIP (podStatus pod)" "StatusPorts status = statusPortsOf (Ports (gsSpec gs0))"
proof -
  let ?f = "gs0\<lparr>gsStatus := (gsStatus gs0)\<lparr>Address := PodIP (podStatus pod),
     StatusPorts := statusPortsOf (Ports (gsSpec gs0))\<rparr>\<rparr>"
  let ?re = "''PodReady''" and ?m = "''GameServer is running and ready''"
  from setCondition_sets[of TypeReady ConditionTrue ?re ?m ?f s] obtain cs where
    cs: "run_state (setCondition r TypeReady ConditionTrue ?re ?m ?f) s = (withConditions cs ?f, s)"
    by (auto simp: sets_conditions_def)
  from setCondition_sets[of TypeProgressing ConditionFalse ?re ?m "withConditions cs ?f" s] obtain ds where
    ds: "run_state (setCondition r TypeProgressing ConditionFalse ?re ?m (withConditions cs ?f)) s
      = (withConditions ds ?f, s)"
    by (auto simp: sets_conditions_def)
  obtain x s1 where w: "run_state (kstatus (gameservers (Client r)) (withConditions ds ?f)) s = (Inr x, s1)"
      "written s (gsKey gs) gs0 (gsStatus (withConditions ds ?f)) s1"
    using status_write[OF gs, of "withConditions ds ?f"] by auto
  show thesis
    by (rule that[of s1 "gsStatus (withConditions ds ?f)"])
      (use cs ds w gsapi.get_found[OF gs] in \<open>simp_all add: updateReadyStatus_def withConditions_def\<close>)
qed

lemma gauge_silent_run: "preserves (\<lambda>s. (gobjs s, pobjs s) = w) (updateGameServerGauge r)"
proof -
  have "preserves (\<lambda>s. (gobjs s, pobjs s) = w) (klist (gameservers (Client r)) None [])"
    using gsapi.list_objects[of None "[]"] by (metis (no_types, lifting) Pair_inject preservesI)
  then show ?thesis unfolding updateGameServerGauge_def by (intro preserves_intros gauge_silent)
qed

lemma moves_gauge:
  assumes "moves m s gs st"
  shows "moves (do { res \<leftarrow> m; updateGameServerGauge r; ret res }) s gs st"
proof -
  from assms obtain res s1 gs' where m: "run_state m s = (Inr res, s1)"
      "gobjs s1 = (gobjs s)(gsKey gs \<mapsto> gs')" "gcontent gs' = gcontent gs" "gsState gs' = st"
      "DeletionTimestamp (gsMeta gs') = DeletionTimestamp (gsMeta gs)"
    by (auto simp: moves_def)
  obtain s2 where g: "run_state (updateGameServerGauge r) s1 = ((), s2)" by (rule run_unit)
  have "gobjs s2 = gobjs s1" using preservesD[OF gauge_silent_run _ g] by blast
  with m g show ?thesis by (auto simp: moves_def)
qed

lemma moves_read_pod:
  assumes "\<And>p. pobjs s k = Some p \<Longrightarrow> moves (f (Inr p)) s gs st"
    and "\<And>e. pobjs s k = None \<Longrightarrow> IsNotFound e \<Longrightarrow> moves (f (Inl e)) s gs st"
  shows "moves (State_Monad.bind (kget (pods (Client r)) k) f) s gs st"
  by (rule podapi.get_cases[of s k]) (use assms in \<open>auto simp: moves_def\<close>)

lemma moves_if: "(b \<Longrightarrow> moves m s gs st) \<Longrightarrow> (\<not> b \<Longrightarrow> moves n s gs st) \<Longrightarrow> moves (if b then m else n) s gs st"
  by simp

lemma moves_stay_at: "gobjs s (gsKey gs) = Some gs \<Longrightarrow> gsState gs = st \<Longrightarrow> moves (ret (Inr res)) s gs st"
  using moves_stay by blast

lemma reconcileStarting_moves:
  assumes gs: "gobjs s (gsKey gs) = Some gs" and st: "gsState gs = GameServerStateStarting"
  shows "moves (reconcileStarting r gs) s gs (next_state (clock s) gs (pobjs s (gsKey gs)))"
proof -
  have late: "moves (State_Monad.bind (startingTimedOut (Runtime r) (Conditions (gsStatus gs))) f) s gs st'
      \<longleftrightarrow> moves (f (starting_late (clock s) gs)) s gs st'" for f st'
    by (simp add: moves_def startingTimedOut_ok starting_late_def)
  show ?thesis
    unfolding reconcileStarting_def
    by (rule moves_read_pod)
      (auto simp: next_state_def st pod_up_def late moves_stay_at[OF gs] IsValidTransition_def
        intro!: moves_transition[OF gs])
qed

lemma reconcileReady_moves:
  assumes gs: "gobjs s (gsKey gs) = Some gs" and st: "gsState gs = GameServerStateReady"
  shows "moves (reconcileReady r gs) s gs (next_state (clock s) gs (pobjs s (gsKey gs)))"
proof -
  have up: "moves (State_Monad.bind (updateReadyStatus r gs p)
      (\<lambda>up. case up of Inl err \<Rightarrow> ret (Inl err) | Inr _ \<Rightarrow> ret (Inr Result0))) s gs GameServerStateReady" for p
    by (rule updateReadyStatus_ok[OF gs, of p]) (rule moves_written, auto simp: st)
  show ?thesis
    unfolding reconcileReady_def
    by (rule moves_read_pod)
      (auto simp: next_state_def st pod_up_def allocated_def IsValidTransition_def up
        intro!: moves_transition[OF gs])
qed

lemma reconcileAllocated_moves:
  assumes gs: "gobjs s (gsKey gs) = Some gs" and st: "gsState gs = GameServerStateAllocated"
  shows "moves (reconcileAllocated r gs) s gs (next_state (clock s) gs (pobjs s (gsKey gs)))"
  unfolding reconcileAllocated_def
  by (rule moves_read_pod)
    (auto simp: next_state_def st pod_up_def allocated_def IsValidTransition_def moves_stay_at[OF gs]
      intro!: moves_transition[OF gs])

lemma moves_refresh:
  assumes gs: "gobjs s (gsKey gs) = Some gs"
  shows "moves (do { up \<leftarrow> refreshAndUpdateCondition r gs ty cst re m;
     case up of Inl err \<Rightarrow> ret (Inl err) | Inr _ \<Rightarrow> ret (Inr Result0) }) s gs (gsState gs)"
  by (rule refreshAndUpdateCondition_ok[OF gs, of ty cst re m]) (auto intro!: moves_written)

lemma reconcileShutdown_moves:
  assumes gs: "gobjs s (gsKey gs) = Some gs"
  shows "moves (reconcileShutdown r gs) s gs (gsState gs)"
proof (cases rule: podapi.get_cases[of s "gsKey gs"])
  case (missing e)
  with moves_refresh[OF gs] show ?thesis by (simp add: moves_def reconcileShutdown_def)
next
  case (found p)
  from podapi.object_key[OF found(1)] found(1) have "pobjs s (key_of (podMeta p)) = Some p" by simp
  from podapi.delete_ok[OF this] obtain s1 where
    d: "run_state (kdelete (pods (Client r)) p (Some shutdownGracePeriod)) s = (Inr (), s1)" by blast
  obtain s2 where e: "run_state (Event (Runtime r) (gsKey gs) ''Normal'' ''PodDeleted''
      ''Pod deleted during shutdown'') s1 = ((), s2)" by (rule run_unit)
  have "gobjs s2 = gobjs s" using preservesD[OF delete_frame _ d] event_gs[OF e] by simp
  with moves_refresh[of s2 gs] gs found d e show ?thesis
    by (simp add: moves_def reconcileShutdown_def)
qed

lemma initializeState_moves:
  assumes gs: "gobjs s (gsKey gs) = Some gs"
  shows "moves (initializeState r gs) s gs GameServerStateCreating"
proof -
  let ?g = "setState GameServerStateCreating gs" and ?re = "''Initializing''"
  let ?m1 = "''GameServer is being created''" and ?m2 = "''GameServer is not yet ready''"
  from setCondition_sets[of TypeProgressing ConditionTrue ?re ?m1 ?g s] obtain cs where
    cs: "run_state (setCondition r TypeProgressing ConditionTrue ?re ?m1 ?g) s = (withConditions cs ?g, s)"
    by (auto simp: sets_conditions_def)
  from setCondition_sets[of TypeReady ConditionFalse ?re ?m2 "withConditions cs ?g" s] obtain ds where
    ds: "run_state (setCondition r TypeReady ConditionFalse ?re ?m2 (withConditions cs ?g)) s
      = (withConditions ds ?g, s)"
    by (auto simp: sets_conditions_def)
  obtain x s1 where w: "run_state (kstatus (gameservers (Client r)) (withConditions ds ?g)) s = (Inr x, s1)"
      "written s (gsKey gs) gs (gsStatus (withConditions ds ?g)) s1"
    using status_write[OF gs, of "withConditions ds ?g"] by auto
  obtain s2 where e: "run_state (Event (Runtime r) (gsKey gs) ''Normal'' ''StateChanged''
      ''GameServer state set to Creating'') s1 = ((), s2)" by (rule run_unit)
  have k: "gsKey (withConditions ds ?g) = gsKey gs" by (simp add: gsKey_def)
  from event_gs[OF e] w(2) have "written s (gsKey gs) gs (gsStatus (withConditions ds ?g)) s2"
    by (simp add: written_def)
  with cs ds w(1) e show ?thesis
    by (intro moves_written[of _ _ ResultRequeue s2 _ "gsStatus (withConditions ds ?g)"]) (simp_all add: initializeState_def k)
qed

lemma reconcileFetched_moves:
  assumes gs: "gobjs s (gsKey gs) = Some gs" and live: "DeletionTimestamp (gsMeta gs) = None"
    and fin: "ContainsFinalizer (Runtime r) (gsMeta gs) FinalizerName"
    and st: "gsState gs \<noteq> GameServerStateCreating"
  shows "moves (reconcileFetched r gs) s gs (next_state (clock s) gs (pobjs s (gsKey gs)))"
proof -
  have disp: "moves (reconcileFetched r gs) s gs st'"
    if "dispatchState r gs = Some m" "moves m s gs st'" "gsState gs \<noteq> GameServerStateUnset" for m st'
    using moves_gauge[OF that(2)] that(1,3) live fin by (simp add: reconcileFetched_def)
  show ?thesis
  proof (cases "gsState gs")
    case GameServerStateUnset
    with initializeState_moves[OF gs] live fin show ?thesis
      by (simp add: reconcileFetched_def next_state_def)
  next
    case GameServerStateStarting
    with reconcileStarting_moves[OF gs] show ?thesis by (intro disp) (simp_all add: dispatchState_def)
  next
    case GameServerStateReady
    with reconcileReady_moves[OF gs] show ?thesis by (intro disp) (simp_all add: dispatchState_def)
  next
    case GameServerStateAllocated
    with reconcileAllocated_moves[OF gs] show ?thesis by (intro disp) (simp_all add: dispatchState_def)
  next
    case GameServerStateShutdown
    with reconcileShutdown_moves[OF gs] show ?thesis
      by (intro disp) (simp_all add: dispatchState_def next_state_def)
  next
    case GameServerStateError
    with moves_refresh[OF gs] show ?thesis
      by (intro disp) (simp_all add: dispatchState_def next_state_def reconcileError_def)
  next
    case (GameServerStateOther t)
    with live fin gs show ?thesis
      by (simp add: reconcileFetched_def next_state_def dispatchState_def moves_stay_at)
  qed (use st in simp)
qed

lemma Reconcile_moves:
  assumes gs: "gobjs s k = Some gs" and "DeletionTimestamp (gsMeta gs) = None"
    and "ContainsFinalizer (Runtime r) (gsMeta gs) FinalizerName"
    and "gsState gs \<noteq> GameServerStateCreating"
  shows "moves (Reconcile r k) s gs (next_state (clock s) gs (pobjs s k))"
proof -
  from gsapi.object_key[OF gs] have k: "gsKey gs = k" by (simp add: gsKey_def)
  from reconcileFetched_moves[of s gs] assms k gsapi.get_found[OF gs] show ?thesis
    by (simp add: moves_def Reconcile_def)
qed

end


section \<open>The reference cluster is healthy\<close>

interpretation healthy: healthy_cluster cluster_reconciler "store_find KGameServer"
    "\<lambda>x. (user_meta (gsMeta x), gsSpec x)" "store_find KPod" "\<lambda>x. (user_meta (podMeta x), podSpec x)" cClock
proof (intro healthy_cluster.intro healthy_cluster_axioms.intro)
  show "status_store (gameservers (Client cluster_reconciler)) (store_find KGameServer) gsMeta
      (\<lambda>x. (user_meta (gsMeta x), gsSpec x)) gsStatus"
    using kgs.st.status_store_axioms by simp
  show "object_store (pods (Client cluster_reconciler)) (store_find KPod) podMeta
      (\<lambda>x. (user_meta (podMeta x), podSpec x))"
    using kpod.st.object_store_axioms by simp
  show "status_conditions (SetStatusCondition (Runtime cluster_reconciler))"
    using kcond.status_conditions_axioms by simp
qed (auto simp: cluster_runtime_def preserves_def store_status_gs_frame store_delete_pod_frame
    intro!: store_find_cong)

section \<open>Properties\<close>



text \<open>C16: Outcome of a transition. On a healthy cluster, \<^verbatim>\<open>transitionState\<close> to a state that is valid
  for its argument succeeds: the stored object \<open>gs0\<close> gets the new state and the conditions of the
  table, keeps its spec, metadata, address and ports, no other object changes, and the result asks for
  a requeue (after \<open>requeueDelay\<close> when starting). The stored object's own state plays no part: a
  stop that was written after \<open>gs\<close> was read is overwritten.\<close>

theorem transitionState_outcome:
  assumes h: "healthy_cluster r gobjs gcontent pobjs pcontent clock"
    and stored: "gobjs s (gsKey gs) = Some gs0" and valid: "IsValidTransition (gsState gs) st"
  shows "\<exists>s' gs'. run_state (transitionState r gs st re m) s =
      (Inr (if st = GameServerStateStarting then ResultAfter requeueDelay else ResultRequeue), s') \<and>
    gobjs s' = (gobjs s)(gsKey gs \<mapsto> gs') \<and> pobjs s' = pobjs s \<and> gcontent gs' = gcontent gs0 \<and>
    gsState gs' = st \<and> Address (gsStatus gs') = Address (gsStatus gs0) \<and>
    StatusPorts (gsStatus gs') = StatusPorts (gsStatus gs0) \<and>
    (\<forall>t. statuses gs' t = condition_after st t (statuses gs0 t))"
proof -
  obtain s' cs where run: "run_state (transitionState r gs st re m) s =
      (Inr (if st = GameServerStateStarting then ResultAfter requeueDelay else ResultRequeue), s')"
    and w: "healthy_cluster.written gobjs gcontent pobjs s (gsKey gs) gs0
      (gsStatus (withConditions cs (setState st gs0))) s'"
    and cs: "\<And>t. condition_status cs t = condition_after st t (statuses gs0 t)"
    by (rule healthy_cluster.transitionState_ok[OF h stored valid, of re m]) blast
  from w obtain gs' where "gobjs s' = (gobjs s)(gsKey gs \<mapsto> gs')" "pobjs s' = pobjs s"
      "gcontent gs' = gcontent gs0" and st': "gsStatus gs' = gsStatus (withConditions cs (setState st gs0))"
    by (auto simp: healthy_cluster.written_def[OF h])
  with run cs show ?thesis by (intro exI[of _ s'] exI[of _ gs']) (simp add: st' withConditions_def setState_def)
qed

theorem transitionState_outcome_witness:
  "\<exists>s' gs'. run_state (transitionState cluster_reconciler (demoGS GameServerStateStarting)
       GameServerStateReady ''PodReady'' ''ready'') (demoCluster GameServerStateShutdown) = (Inr ResultRequeue, s') \<and>
     store_find KGameServer s' demoKey = Some gs' \<and> gsState gs' = GameServerStateReady \<and>
     statuses gs' TypeReady = Some ConditionTrue"
proof -
  let ?c = "demoCluster GameServerStateShutdown" and ?g = "demoGS GameServerStateStarting"
  have "gsKey ?g = demoKey" "store_find KGameServer ?c demoKey = Some (demoGS GameServerStateShutdown)"
    "IsValidTransition (gsState ?g) GameServerStateReady"
    "condition_after GameServerStateReady TypeReady None = Some ConditionTrue"
    "statuses (demoGS GameServerStateShutdown) TypeReady = None"
    by code_simp+
  with transitionState_outcome[OF healthy.healthy_cluster_axioms, of ?c ?g "demoGS GameServerStateShutdown"
      GameServerStateReady "''PodReady''" "''ready''"]
  show ?thesis by auto
qed

end
