(* ===== verification/GameServerObjects.thy ===== *)
theory GameServerObjects
  imports Demo "HOL-Library.Multiset"
begin

text \<open>
  Properties of what the GameServer controller computes: the Pod of a game server, the counts
  behind the metrics gauge and the admin configuration it reads.
\<close>

section \<open>The Pod\<close>

lemma map_of_map_keys: "map_of (map (\<lambda>k. (k, f k)) ks) k = (if k \<in> set ks then Some (f k) else None)"
  by (induction ks) auto

lemma rangeMap_lookup:
  assumes "mset (ord (map fst m)) = mset (map fst m)"
  shows "map_of (rangeMap ord m) = map_of m"
proof
  fix k
  from assms have "set (ord (map fst m)) = fst ` set m" by (metis list.set_map set_mset_mset)
  moreover have "k \<in> fst ` set m \<longleftrightarrow> map_of m k \<noteq> None" by (simp add: map_of_eq_None_iff)
  ultimately show "map_of (rangeMap ord m) k = map_of m k"
    by (auto simp: rangeMap_def map_of_map_keys mget_def)
qed

lemma rangeMap_length: "mset (ord (map fst m)) = mset (map fst m) \<Longrightarrow> length (rangeMap ord m) = length m"
  by (metis length_map rangeMap_def size_mset)

text \<open>The Pod of a game server runs its image in one container that never restarts, exposes the
  ports of the spec in order, and sees exactly the parameters of the spec as environment variables,
  each once, whatever order Go visits the map in; it mounts the server's mod volume if and only if
  the server has a mod path. The status of an existing Pod is left alone.\<close>

theorem podMutate_spec:
  assumes visit: "mset (RangeKeys (Runtime r) (map fst (Parameters (gsSpec gs)))) = mset (map fst (Parameters (gsSpec gs)))"
    and pod: "podMutate r gs pod = Inr pod'"
  shows "\<exists>c. Containers (podSpec pod') = [c] \<and> ctImage c = Image (gsSpec gs) \<and>
      map_of (ctEnv c) = map_of (Parameters (gsSpec gs)) \<and> length (ctEnv c) = length (Parameters (gsSpec gs)) \<and>
      map cpContainerPort (ctPorts c) = map ContainerPort (Ports (gsSpec gs)) \<and>
      RestartPolicy (podSpec pod') = ''Never'' \<and>
      (ctVolumeMounts c = [] \<longleftrightarrow> mget (Annotations (gsMeta gs)) AnnotationModPath = []) \<and>
      map volName (Volumes (podSpec pod')) = map vmName (ctVolumeMounts c) \<and>
      podStatus pod' = podStatus pod"
  using pod visit
  by (auto simp: podMutate_def gsPodSpec_def Let_def rangeMap_lookup rangeMap_length
      split: sum.splits)

theorem podMutate_spec_witness:
  "\<exists>pod' c. podMutate cluster_reconciler (demoGS GameServerStateCreating) demoPod = Inr pod' \<and>
     Containers (podSpec pod') = [c] \<and> map_of (ctEnv c) ''EULA'' = Some ''TRUE''"
proof -
  let ?g = "demoGS GameServerStateCreating"
  obtain pod' where p: "podMutate cluster_reconciler ?g demoPod = Inr pod'"
    by (cases "podMutate cluster_reconciler ?g demoPod")
      (auto simp: podMutate_def cluster_runtime_def setControllerReference_def demoPod_def Let_def)
  have "RangeKeys (Runtime cluster_reconciler) (map fst (Parameters (gsSpec ?g))) = map fst (Parameters (gsSpec ?g))"
    "map_of (Parameters (gsSpec ?g)) ''EULA'' = Some ''TRUE''"
    by code_simp+
  with podMutate_spec[OF _ p] p show ?thesis by auto
qed

section \<open>The gauge\<close>

lemma lookupCount_countServer:
  "lookupCount (countServer gs m) st g = lookupCount m st g
     + (if gs_state_string (gsState gs) = st \<and> GameType (gsSpec gs) = g then 1 else 0)"
  by (auto simp: lookupCount_def countServer_def innerCounts_def Let_def update_conv' split: option.splits)

lemma lookupCount_fold:
  "lookupCount (fold countServer items m) st g = lookupCount m st g
     + length (filter (\<lambda>gs. gs_state_string (gsState gs) = st \<and> GameType (gsSpec gs) = g) items)"
  by (induction items arbitrary: m) (auto simp: lookupCount_countServer)

text \<open>The counts published in the gauge are exact: for every state and game type, the number of
  listed game servers in that state with that game type.\<close>

theorem countServers_exact:
  "lookupCount (countServers items) st g =
     length (filter (\<lambda>gs. gs_state_string (gsState gs) = st \<and> GameType (gsSpec gs) = g) items)"
  using lookupCount_fold[of items "[]"] by (simp add: countServers_def lookupCount_def)

section \<open>The admin configuration\<close>

text \<open>The values each key of the ConfigMap does not accept.\<close>

definition int_keys :: "string list" where
  "int_keys = [''maxServersGlobal'', ''maxServersPerUser'', ''jwtExpirationHours'',
     ''inviteExpirationHours'', ''smtpPort'', ''backupRetentionCount'']"

definition bool_keys :: "string list" where
  "bool_keys = [''registrationEnabled'', ''backupS3UseSSL'']"

definition quantity_keys :: "string list" where
  "quantity_keys = [''quotaCPURequests'', ''quotaCPULimits'', ''quotaMemoryRequests'',
     ''quotaMemoryLimits'', ''quotaPods'', ''quotaPVCs'', ''quotaStorage'', ''defaultCPU'',
     ''defaultMemory'', ''defaultRequestCPU'', ''defaultRequestMemory'', ''maxCPU'', ''maxMemory'',
     ''minCPU'', ''minMemory'', ''modStorageSize'']"

definition nonempty_keys :: "string list" where
  "nonempty_keys = [''gatewayName'', ''gatewayNamespace'', ''gatewayControllerNamespace'',
     ''backupS3Bucket'', ''backupS3Region'']"

definition text_keys :: "string list" where
  "text_keys = [''baseDomain'', ''panelURL'', ''smtpHost'', ''smtpUsername'', ''smtpFrom'',
     ''modStorageClass'', ''backupS3Endpoint'']"

definition malformed :: "'s runtime \<Rightarrow> string \<Rightarrow> string \<Rightarrow> bool" where
  "malformed rt k v \<longleftrightarrow> (k \<in> set int_keys \<longrightarrow> Atoi v = None) \<and> (k \<in> set bool_keys \<longrightarrow> ParseBool v = None)
     \<and> (k \<in> set quantity_keys \<longrightarrow> ParseQuantity rt v = None) \<and> (k \<in> set nonempty_keys \<longrightarrow> v = [])
     \<and> k \<notin> set text_keys"

lemma field_malformed:
  "malformed rt k v \<Longrightarrow> k' \<in> set int_keys \<Longrightarrow> intField (mput k v d) k' x = intField (mdelete k d) k' x"
  "malformed rt k v \<Longrightarrow> k' \<in> set bool_keys \<Longrightarrow> boolField (mput k v d) k' b = boolField (mdelete k d) k' b"
  "malformed rt k v \<Longrightarrow> k' \<in> set quantity_keys \<Longrightarrow>
     parseQuantity rt (mput k v d) k' q = parseQuantity rt (mdelete k d) k' q"
  "malformed rt k v \<Longrightarrow> k' \<in> set nonempty_keys \<Longrightarrow>
     nonemptyField (mput k v d) k' t = nonemptyField (mdelete k d) k' t"
  "malformed rt k v \<Longrightarrow> k' \<in> set text_keys \<Longrightarrow> stringField (mput k v d) k' t = stringField (mdelete k d) k' t"
  by (auto simp: config_field_defs malformed_def)

text \<open>C38: A malformed entry of the admin ConfigMap (an integer, boolean or quantity that does not parse,
  an empty name where one is required, or an unknown key) is treated exactly as a missing one: no
  other field changes, and loading does not fail.\<close>

theorem applyConfigMap_malformed:
  assumes "malformed rt k v"
  shows "applyConfigMap rt (mput k v d) cfg = applyConfigMap rt (mdelete k d) cfg"
proof -
  have m: "k' \<in> set int_keys \<Longrightarrow> intField (mput k v d) k' x = intField (mdelete k d) k' x"
    "k' \<in> set bool_keys \<Longrightarrow> boolField (mput k v d) k' b = boolField (mdelete k d) k' b"
    "k' \<in> set quantity_keys \<Longrightarrow> parseQuantity rt (mput k v d) k' q = parseQuantity rt (mdelete k d) k' q"
    "k' \<in> set nonempty_keys \<Longrightarrow> nonemptyField (mput k v d) k' t = nonemptyField (mdelete k d) k' t"
    "k' \<in> set text_keys \<Longrightarrow> stringField (mput k v d) k' t = stringField (mdelete k d) k' t" for k' x b q t
    using field_malformed[OF assms] by blast+
  show ?thesis unfolding applyConfigMap_def
    by (simp add: m int_keys_def bool_keys_def quantity_keys_def nonempty_keys_def text_keys_def)
qed

theorem applyConfigMap_malformed_witness:
  "applyConfigMap cluster_runtime (mput ''maxServersGlobal'' ''many'' [(''maxServersPerUser'', ''7'')])
     (DefaultAdminConfig cluster_runtime)
   = applyConfigMap cluster_runtime (mdelete ''maxServersGlobal'' [(''maxServersPerUser'', ''7'')])
     (DefaultAdminConfig cluster_runtime)"
proof -
  have "malformed cluster_runtime ''maxServersGlobal'' ''many''" by code_simp
  from applyConfigMap_malformed[OF this] show ?thesis .
qed

end
