(* ===== verification/DNSController.thy ===== *)
theory DNSController
  imports GameServerController
begin

text \<open>
  The DNS controller, \<^verbatim>\<open>internal/controller/dns_controller.go\<close>: a Service and an HTTPRoute for every
  running game server, the DNS name in its status, and their removal when it stops running.
\<close>

definition dnsOperatorNs :: "'s Reconciler \<Rightarrow> string" where
  "dnsOperatorNs r = (if OperatorNamespace r \<noteq> [] then OperatorNamespace r else ''kterodactyl-system'')"

text \<open>\<^verbatim>\<open>client.IgnoreNotFound\<close>: the error that remains, if any.\<close>

definition IgnoreNotFound :: "gerr \<Rightarrow> gerr option" where
  "IgnoreNotFound err = (if IsNotFound err then None else Some err)"

definition servicePorts :: "GameServerPort list \<Rightarrow> ServicePort list" where
  "servicePorts ps = map (\<lambda>p. \<lparr>spName = PortName p, spPort = ContainerPort p,
     spTargetPort = ContainerPort p, spProtocol = Protocol p\<rparr>) ps"

definition serviceSelector :: "GameServer \<Rightarrow> gomap" where
  "serviceSelector gs = [(LabelOwner, mget (Labels (gsMeta gs)) LabelOwner),
     (LabelGame, GameType (gsSpec gs)), (LabelName, AppNameValue)]"

definition serviceMutate :: "'s Reconciler \<Rightarrow> GameServer \<Rightarrow> Service \<Rightarrow> gerr + Service" where
  "serviceMutate r gs svc = (case SetControllerReference (Runtime r) gs (svcMeta svc) of
       Inl err \<Rightarrow> Inl (errf ''failed to set owner reference on Service: '' err)
     | Inr m \<Rightarrow> Inr (svc\<lparr>svcMeta := m\<lparr>Labels := mput LabelHTTPRouteOwner (Name (gsMeta gs))
           (mput LabelManagedBy ManagedByValue (Labels m))\<rparr>,
         Selector := serviceSelector gs, svcType := ''ClusterIP'',
         svcPorts := servicePorts (Ports (gsSpec gs))\<rparr>))"

definition ensureService :: "'s Reconciler \<Rightarrow> GameServer \<Rightarrow> ('s, gerr + unit) state" where
  "ensureService r gs = do {
     res \<leftarrow> kcou (services (Client r))
       \<lparr>svcMeta = NewMeta (Namespace (gsMeta gs)) (Name (gsMeta gs)) [], Selector = [], svcType = [],
        svcPorts = []\<rparr> (serviceMutate r gs);
     case res of
       Inl err \<Rightarrow> ret (Inl (errf ''failed to create/update Service: '' err))
     | Inr _ \<Rightarrow> ret (Inr ()) }"

definition backendPort :: "GameServer \<Rightarrow> int" where
  "backendPort gs = (case Ports (gsSpec gs) of [] \<Rightarrow> 8080 | p # _ \<Rightarrow> ContainerPort p)"

definition routeMutate :: "'s Reconciler \<Rightarrow> GameServer \<Rightarrow> string \<Rightarrow> AdminConfig \<Rightarrow> HTTPRoute \<Rightarrow>
    gerr + HTTPRoute" where
  "routeMutate r gs hostname cfg route = (case SetControllerReference (Runtime r) gs (rtMeta route) of
       Inl err \<Rightarrow> Inl (errf ''failed to set owner reference on HTTPRoute: '' err)
     | Inr m \<Rightarrow> Inr (route\<lparr>
         rtMeta := m\<lparr>Annotations := mput AnnotationExternalDNSTTL ''60'' (Annotations m)\<rparr>,
         ParentRefs := [\<lparr>prName = GatewayName cfg, prNamespace = GatewayNamespace cfg,
           prSectionName = ''http''\<rparr>],
         Hostnames := [hostname],
         BackendRefs := [[(Name (gsMeta gs), backendPort gs)]]\<rparr>))"

definition ensureHTTPRoute :: "'s Reconciler \<Rightarrow> GameServer \<Rightarrow> string \<Rightarrow> AdminConfig \<Rightarrow>
    ('s, gerr + unit) state" where
  "ensureHTTPRoute r gs hostname cfg = do {
     res \<leftarrow> kcou (httproutes (Client r))
       \<lparr>rtMeta = NewMeta (Namespace (gsMeta gs)) (Name (gsMeta gs)) [], ParentRefs = [], Hostnames = [],
        BackendRefs = []\<rparr> (routeMutate r gs hostname cfg);
     case res of
       Inl err \<Rightarrow> ret (Inl (errf ''failed to create/update HTTPRoute: '' err))
     | Inr _ \<Rightarrow> ret (Inr ()) }"

definition setAddress :: "string \<Rightarrow> GameServerStatusPort list \<Rightarrow> GameServer \<Rightarrow> GameServer" where
  "setAddress a ps gs = gs\<lparr>gsStatus := (gsStatus gs)\<lparr>Address := a, StatusPorts := ps\<rparr>\<rparr>"

definition updateConnectionInfo :: "'s Reconciler \<Rightarrow> GameServer \<Rightarrow> string \<Rightarrow> ('s, gerr + unit) state" where
  "updateConnectionInfo r gs dnsName = do {
     got \<leftarrow> kget (gameservers (Client r)) (gsKey gs);
     case got of
       Inl err \<Rightarrow> ret (Inl (errf ''failed to re-fetch GameServer for connection info update: '' err))
     | Inr fresh \<Rightarrow>
         if Address (gsStatus fresh) = dnsName then ret (Inr ())
         else do {
           put \<leftarrow> kstatus (gameservers (Client r))
             (setAddress dnsName (statusPortsOf (Ports (gsSpec fresh))) fresh);
           case put of
             Inl err \<Rightarrow> ret (Inl (errf ''failed to update connection info status: '' err))
           | Inr _ \<Rightarrow> do {
               Event (Runtime r) (gsKey gs) ''Normal'' ''DNSConfigured''
                 (''DNS name configured: '' @ dnsName);
               ret (Inr ()) } } }"

text \<open>Deleting an object if it can be read; other read errors are ignored.\<close>

definition deleteIfPresent :: "('s, 'o) kapi \<Rightarrow> key \<Rightarrow> string \<Rightarrow> ('s, gerr + unit) state" where
  "deleteIfPresent api k msg = do {
     got \<leftarrow> kget api k;
     case got of
       Inl _ \<Rightarrow> ret (Inr ())
     | Inr x \<Rightarrow> do {
         del \<leftarrow> kdelete api x None;
         case del of
           Inl err \<Rightarrow> (case IgnoreNotFound err of
               Some _ \<Rightarrow> ret (Inl (errf msg err))
             | None \<Rightarrow> ret (Inr ()))
         | Inr _ \<Rightarrow> ret (Inr ()) } }"

definition hasAddress :: "GameServer \<Rightarrow> bool" where
  "hasAddress gs \<longleftrightarrow> Address (gsStatus gs) \<noteq> [] \<or> StatusPorts (gsStatus gs) \<noteq> []"

definition clearConnectionInfo :: "'s Reconciler \<Rightarrow> GameServer \<Rightarrow> ('s, gerr + unit) state" where
  "clearConnectionInfo r gs =
     (if hasAddress gs then do {
        got \<leftarrow> kget (gameservers (Client r)) (gsKey gs);
        case got of
          Inl err \<Rightarrow> (case IgnoreNotFound err of Some e \<Rightarrow> ret (Inl e) | None \<Rightarrow> ret (Inr ()))
        | Inr fresh \<Rightarrow>
            if hasAddress fresh then do {
              put \<leftarrow> kstatus (gameservers (Client r)) (setAddress [] [] fresh);
              case put of
                Inl err \<Rightarrow> ret (Inl (errf ''failed to clear connection info during cleanup: '' err))
              | Inr _ \<Rightarrow> ret (Inr ()) }
            else ret (Inr ()) }
      else ret (Inr ()))"

definition cleanupNetworking :: "'s Reconciler \<Rightarrow> GameServer \<Rightarrow> ('s, gerr + unit) state" where
  "cleanupNetworking r gs = do {
     svc \<leftarrow> deleteIfPresent (services (Client r)) (gsKey gs) ''failed to delete Service during cleanup: '';
     case svc of
       Inl err \<Rightarrow> ret (Inl err)
     | Inr _ \<Rightarrow> do {
         route \<leftarrow> deleteIfPresent (httproutes (Client r)) (gsKey gs)
           ''failed to delete HTTPRoute during cleanup: '';
         case route of
           Inl err \<Rightarrow> ret (Inl err)
         | Inr _ \<Rightarrow> clearConnectionInfo r gs } }"

definition running :: "GameServer \<Rightarrow> bool" where
  "running gs \<longleftrightarrow> gsState gs = GameServerStateReady \<or> gsState gs = GameServerStateAllocated"

text \<open>Steps 5 to 9 of the reconcile, for a running game server.\<close>

definition exposeServer :: "'s Reconciler \<Rightarrow> GameServer \<Rightarrow> AdminConfig \<Rightarrow> ('s, gerr + Result) state" where
  "exposeServer r gs cfg =
     (let owner = mget (Labels (gsMeta gs)) LabelOwner;
          dnsName = GameServerDNSName (GameType (gsSpec gs)) owner (BaseDomain cfg) in
      if owner = [] then ret (Inr Result0)
      else do {
        svc \<leftarrow> ensureService r gs;
        case svc of
          Inl err \<Rightarrow> ret (Inl (errf ''failed to ensure Service: '' err))
        | Inr _ \<Rightarrow> do {
            route \<leftarrow> ensureHTTPRoute r gs dnsName cfg;
            case route of
              Inl err \<Rightarrow> ret (Inl (errf ''failed to ensure HTTPRoute: '' err))
            | Inr _ \<Rightarrow> do {
                info \<leftarrow> updateConnectionInfo r gs dnsName;
                case info of
                  Inl err \<Rightarrow> ret (Inl (errf ''failed to update connection info: '' err))
                | Inr _ \<Rightarrow> ret (Inr Result0) } } })"

text \<open>Steps 2 to 9, on the game server that was read.\<close>

definition dnsReconcileFetched :: "'s Reconciler \<Rightarrow> GameServer \<Rightarrow> ('s, gerr + Result) state" where
  "dnsReconcileFetched r gs = do {
     load \<leftarrow> LoadAdminConfig (Client r) (Runtime r) (dnsOperatorNs r);
     case load of
       Inl err \<Rightarrow> ret (Inl (errf ''failed to load admin config: '' err))
     | Inr cfg \<Rightarrow>
         if BaseDomain cfg = [] then ret (Inr Result0)
         else if DeletionTimestamp (gsMeta gs) \<noteq> None then ret (Inr Result0)
         else if \<not> running gs then do {
           clean \<leftarrow> cleanupNetworking r gs;
           case clean of
             Inl err \<Rightarrow> ret (Inl (errf ''failed to cleanup networking: '' err))
           | Inr _ \<Rightarrow> ret (Inr Result0) }
         else exposeServer r gs cfg }"

definition dnsReconcile :: "'s Reconciler \<Rightarrow> key \<Rightarrow> ('s, gerr + Result) state" where
  "dnsReconcile r req = do {
     got \<leftarrow> kget (gameservers (Client r)) req;
     case got of
       Inl err \<Rightarrow> (case IgnoreNotFound err of None \<Rightarrow> ret (Inr Result0) | Some e \<Rightarrow> ret (Inl e))
     | Inr gs \<Rightarrow> dnsReconcileFetched r gs }"

end
