(* ===== verification/DNSProperties.thy ===== *)
theory DNSProperties
  imports DNSController Demo
begin

text \<open>
  Properties of the DNS controller: what it may touch (for any client), which Pods the Service of a
  game server selects, and that on a healthy cluster nothing of a stopped server's network is left.
\<close>

section \<open>A cluster with a base domain\<close>

definition dnsCluster :: "GameServerState \<Rightarrow> cluster" where
  "dnsCluster st = (demoCluster st)\<lparr>
     cGameServers := [setAddress ''10.0.0.7'' [] (demoGS st)],
     cServices := [\<lparr>svcMeta = NewMeta ''user-alice'' ''mc'' [], Selector = [], svcType = [], svcPorts = []\<rparr>],
     cConfigMaps := [\<lparr>cmMeta = NewMeta ''kterodactyl-system'' adminConfigMapName [],
       cmData = [(''baseDomain'', ''example.com'')]\<rparr>]\<rparr>"

section \<open>What the controller may touch\<close>

text \<open>
  An event of the DNS controller is in order for the game server \<open>gs\<close> it has read: statuses are
  written with only the address changed; Services and routes are created for a running server only
  and deleted for one that is not running only.
\<close>

definition dns_status :: "GameServer \<Rightarrow> GameServer \<Rightarrow> bool" where
  "dns_status gs g \<longleftrightarrow> (\<exists>fresh d. g = (if running gs
     then setAddress (GameServerDNSName (GameType (gsSpec gs)) (mget (Labels (gsMeta gs)) LabelOwner) d)
       (statusPortsOf (Ports (gsSpec fresh))) fresh
     else setAddress [] [] fresh))"

lemma dns_statusI:
  "running gs \<Longrightarrow> dns_status gs (setAddress (GameServerDNSName (GameType (gsSpec gs))
     (mget (Labels (gsMeta gs)) LabelOwner) d) (statusPortsOf (Ports (gsSpec fresh))) fresh)"
  "\<not> running gs \<Longrightarrow> dns_status gs (setAddress [] [] fresh)"
  unfolding dns_status_def by auto

fun dns_call :: "GameServer \<Rightarrow> event \<Rightarrow> bool" where
  "dns_call gs (OnGameServer (EvGet k x)) = True"
| "dns_call gs (OnGameServer (EvStatus g x)) = dns_status gs g"
| "dns_call gs (OnConfigMap (EvGet k x)) = True"
| "dns_call gs (OnService (EvGet k x)) = True"
| "dns_call gs (OnHTTPRoute (EvGet k x)) = True"
| "dns_call gs (OnService (EvCreateOrUpdate s x)) = (running gs \<and> key_of (svcMeta s) = gsKey gs)"
| "dns_call gs (OnHTTPRoute (EvCreateOrUpdate t x)) = (running gs \<and> key_of (rtMeta t) = gsKey gs)"
| "dns_call gs (OnService (EvDelete s g x)) = (\<not> running gs)"
| "dns_call gs (OnHTTPRoute (EvDelete t g x)) = (\<not> running gs)"
| "dns_call gs _ = False"

lemma key_of_NewMeta [simp]: "key_of (NewMeta (Namespace (gsMeta gs)) (Name (gsMeta gs)) ls) = gsKey gs"
  by (simp add: key_of_def gsKey_def)

lemma cleanupNetworking_emits:
  "\<not> running gs \<Longrightarrow> emits (dns_call gs) (cleanupNetworking (traced r) gs)"
  unfolding cleanupNetworking_def deleteIfPresent_def clearConnectionInfo_def traced_simps traced_api_simps
  by (intro emits_intros) (auto simp: dns_statusI)

lemma exposeServer_emits:
  "running gs \<Longrightarrow> emits (dns_call gs) (exposeServer (traced r) gs cfg)"
  unfolding exposeServer_def ensureService_def ensureHTTPRoute_def updateConnectionInfo_def Let_def
    traced_simps traced_api_simps
  by (intro emits_intros) (auto simp: dns_statusI)

lemma dnsReconcileFetched_emits: "emits (dns_call gs) (dnsReconcileFetched (traced r) gs)"
  unfolding dnsReconcileFetched_def LoadAdminConfig_def traced_simps traced_api_simps
  by (intro emits_intros cleanupNetworking_emits exposeServer_emits) simp_all



section \<open>Whose Pods a Service selects\<close>

text \<open>The Service of a game server selects a Pod with the labels the GameServer controller gives
  (\<^verbatim>\<open>GameServerLabels\<close>) exactly when owner and game type agree. The name of the server plays no
  part, so two servers of one user running the same game share their Pods and their DNS name.\<close>

theorem serviceSelector_matches:
  "matches_labels (serviceSelector gs) (GameServerLabels owner game) \<longleftrightarrow>
     owner = mget (Labels (gsMeta gs)) LabelOwner \<and> game = GameType (gsSpec gs)"
  by (auto simp: serviceSelector_def)

section \<open>Cleanup on a healthy cluster\<close>

context object_store
begin

lemma deleteIfPresent_ok:
  assumes "\<And>x. objects s k = Some x \<Longrightarrow> Finalizers (meta x) = []"
  obtains s' where "run_state (deleteIfPresent api k msg) s = (Inr (), s')"
    "objects s' = (objects s)(k := None)" "s' = s \<or> (\<exists>x. run_state (kdelete api x None) s = (Inr (), s'))"
proof (cases rule: get_cases[of s k])
  case (missing e)
  then show thesis using that[of s] by (simp add: deleteIfPresent_def fun_upd_idem)
next
  case (found x)
  from object_key[OF found(1)] have "key_of (meta x) = k" .
  with delete_existing[of s x x None] found assms obtain s' where
    "run_state (kdelete api x None) s = (Inr (), s')" "objects s' = (objects s)(k := None)" by auto
  with that found show thesis by (auto simp: deleteIfPresent_def)
qed

end

locale healthy_network =
  gsapi: status_store "gameservers (Client r)" gobjs gsMeta gcontent gsStatus +
  svcapi: object_store "services (Client r)" sobjs svcMeta scontent +
  rtapi: object_store "httproutes (Client r)" robjs rtMeta rcontent
  for r :: "'s Reconciler" and gobjs :: "'s \<Rightarrow> key \<Rightarrow> GameServer option" and gcontent :: "GameServer \<Rightarrow> 'a"
    and sobjs :: "'s \<Rightarrow> key \<Rightarrow> Service option" and scontent :: "Service \<Rightarrow> 'b"
    and robjs :: "'s \<Rightarrow> key \<Rightarrow> HTTPRoute option" and rcontent :: "HTTPRoute \<Rightarrow> 'c" +
  assumes service_frame: "preserves (\<lambda>s. (gobjs s, robjs s) = w) (kdelete (services (Client r)) svc g)"
    and route_frame: "preserves (\<lambda>s. (gobjs s, sobjs s) = v) (kdelete (httproutes (Client r)) rt g)"
    and status_frame: "preserves (\<lambda>s. (sobjs s, robjs s) = u) (kstatus (gameservers (Client r)) gs)"
begin

lemma deleteService_ok:
  assumes "\<And>x. sobjs s k = Some x \<Longrightarrow> Finalizers (svcMeta x) = []"
  obtains s' where "run_state (deleteIfPresent (services (Client r)) k msg) s = (Inr (), s')"
    "sobjs s' = (sobjs s)(k := None)" "gobjs s' = gobjs s" "robjs s' = robjs s"
  using svcapi.deleteIfPresent_ok[OF assms] preservesD[OF service_frame refl] by (metis Pair_inject)

lemma deleteRoute_ok:
  assumes "\<And>x. robjs s k = Some x \<Longrightarrow> Finalizers (rtMeta x) = []"
  obtains s' where "run_state (deleteIfPresent (httproutes (Client r)) k msg) s = (Inr (), s')"
    "robjs s' = (robjs s)(k := None)" "gobjs s' = gobjs s" "sobjs s' = sobjs s"
  using rtapi.deleteIfPresent_ok[OF assms] preservesD[OF route_frame refl] by (metis Pair_inject)

lemma clearConnectionInfo_ok:
  assumes gs: "gobjs s (gsKey gs) = Some gs"
  obtains s' gs' where "run_state (clearConnectionInfo r gs) s = (Inr (), s')"
    "gobjs s' = (gobjs s)(gsKey gs \<mapsto> gs')" "gcontent gs' = gcontent gs" "\<not> hasAddress gs'"
    "gsState gs' = gsState gs" "Conditions (gsStatus gs') = Conditions (gsStatus gs)"
    "sobjs s' = sobjs s" "robjs s' = robjs s"
proof (cases "hasAddress gs")
  case False
  with that[of s gs] gs show thesis by (simp add: clearConnectionInfo_def fun_upd_idem)
next
  case True
  from gsapi.read_modify_write[OF gs, of "setAddress [] [] gs"] obtain x s' where
    w: "run_state (kstatus (gameservers (Client r)) (setAddress [] [] gs)) s = (Inr x, s')"
      "gsStatus x = gsStatus (setAddress [] [] gs)" "gcontent x = gcontent gs" "gobjs s' = (gobjs s)(gsKey gs \<mapsto> x)"
    by (auto simp: setAddress_def)
  have "(sobjs s', robjs s') = (sobjs s, robjs s)" using preservesD[OF status_frame refl w(1)] .
  with w True gsapi.get_found[OF gs] that[of s' x] show thesis
    by (simp add: clearConnectionInfo_def hasAddress_def setAddress_def)
qed

lemma cleanupNetworking_ok:
  assumes gs: "gobjs s (gsKey gs) = Some gs"
    and svc: "\<And>x. sobjs s (gsKey gs) = Some x \<Longrightarrow> Finalizers (svcMeta x) = []"
    and rt: "\<And>x. robjs s (gsKey gs) = Some x \<Longrightarrow> Finalizers (rtMeta x) = []"
  obtains s' gs' where "run_state (cleanupNetworking r gs) s = (Inr (), s')"
    "sobjs s' = (sobjs s)(gsKey gs := None)" "robjs s' = (robjs s)(gsKey gs := None)"
    "gobjs s' = (gobjs s)(gsKey gs \<mapsto> gs')" "gcontent gs' = gcontent gs" "\<not> hasAddress gs'"
    "gsState gs' = gsState gs" "Conditions (gsStatus gs') = Conditions (gsStatus gs)"
proof -
  obtain s1 where a: "run_state (deleteIfPresent (services (Client r)) (gsKey gs)
      ''failed to delete Service during cleanup: '') s = (Inr (), s1)"
    "sobjs s1 = (sobjs s)(gsKey gs := None)" "gobjs s1 = gobjs s" "robjs s1 = robjs s"
    using deleteService_ok[OF svc] .
  obtain s2 where b: "run_state (deleteIfPresent (httproutes (Client r)) (gsKey gs)
      ''failed to delete HTTPRoute during cleanup: '') s1 = (Inr (), s2)"
    "robjs s2 = (robjs s1)(gsKey gs := None)" "gobjs s2 = gobjs s1" "sobjs s2 = sobjs s1"
    using deleteRoute_ok[of s1 "gsKey gs"] rt a(4) by auto
  obtain s3 gs' where c: "run_state (clearConnectionInfo r gs) s2 = (Inr (), s3)"
    "gobjs s3 = (gobjs s2)(gsKey gs \<mapsto> gs')" "gcontent gs' = gcontent gs" "\<not> hasAddress gs'"
    "gsState gs' = gsState gs" "Conditions (gsStatus gs') = Conditions (gsStatus gs)"
    "sobjs s3 = sobjs s2" "robjs s3 = robjs s2"
    using clearConnectionInfo_ok[of s2 gs] gs a(3) b(3) by auto
  show thesis
    by (rule that[of s3 gs']) (use a b c in \<open>simp_all add: cleanupNetworking_def\<close>)
qed

end

section \<open>The reference network is healthy\<close>

lemma network_frames:
  "cGameServers (snd (store_delete KService x c)) = cGameServers c" "cRoutes (snd (store_delete KService x c)) = cRoutes c"
  "cGameServers (snd (store_delete KHTTPRoute y c)) = cGameServers c"
  "cServices (snd (store_delete KHTTPRoute y c)) = cServices c"
  "cServices (snd (store_status KGameServer g c)) = cServices c" "cRoutes (snd (store_status KGameServer g c)) = cRoutes c"
  by (simp_all add: store_delete_def store_status_def store_put_def store_remove_def kind_defs Let_def
      split: option.split)

lemma network_find_cong:
  "cServices c = cServices c' \<Longrightarrow> store_find KService c = store_find KService c'"
  "cRoutes c = cRoutes c' \<Longrightarrow> store_find KHTTPRoute c = store_find KHTTPRoute c'"
  by (simp_all add: store_find_def kind_defs fun_eq_iff)

interpretation network: healthy_network cluster_reconciler
    "store_find KGameServer" "\<lambda>x. (user_meta (gsMeta x), gsSpec x)"
    "store_find KService" "\<lambda>x. (user_meta (svcMeta x), Selector x, svcPorts x)"
    "store_find KHTTPRoute" "\<lambda>x. (user_meta (rtMeta x), Hostnames x, BackendRefs x)"
proof (intro healthy_network.intro healthy_network_axioms.intro)
  show "status_store (gameservers (Client cluster_reconciler)) (store_find KGameServer) gsMeta
      (\<lambda>x. (user_meta (gsMeta x), gsSpec x)) gsStatus"
    using kgs.st.status_store_axioms by simp
  show "object_store (services (Client cluster_reconciler)) (store_find KService) svcMeta
      (\<lambda>x. (user_meta (svcMeta x), Selector x, svcPorts x))"
    using ksvc.st.object_store_axioms by simp
  show "object_store (httproutes (Client cluster_reconciler)) (store_find KHTTPRoute) rtMeta
      (\<lambda>x. (user_meta (rtMeta x), Hostnames x, BackendRefs x))"
    using krt.st.object_store_axioms by simp
qed (auto simp: preserves_def network_frames intro!: store_find_cong network_find_cong)

text \<open>C18: Cleanup is complete. On a healthy cluster with a base domain, reconciling a live game server
  that is neither Ready nor Allocated succeeds and leaves no Service and no HTTPRoute under its key
  and no address or ports in its status, while its state, conditions, spec and metadata and every
  other object stay as they were.\<close>

theorem dnsReconcile_cleans_up:
  assumes h: "healthy_network r gobjs gcontent sobjs scontent robjs rcontent"
    and gs: "gobjs s k = Some gs" "DeletionTimestamp (gsMeta gs) = None" "\<not> running gs"
    and cfg: "run_state (LoadAdminConfig (Client r) (Runtime r) (dnsOperatorNs r)) s = (Inr cfg, s)"
      "BaseDomain cfg \<noteq> []"
    and svc: "\<And>x. sobjs s k = Some x \<Longrightarrow> Finalizers (svcMeta x) = []"
    and rt: "\<And>x. robjs s k = Some x \<Longrightarrow> Finalizers (rtMeta x) = []"
  shows "\<exists>s' gs'. run_state (dnsReconcile r k) s = (Inr Result0, s') \<and>
    sobjs s' = (sobjs s)(k := None) \<and> robjs s' = (robjs s)(k := None) \<and>
    gobjs s' = (gobjs s)(k \<mapsto> gs') \<and> gcontent gs' = gcontent gs \<and>
    Address (gsStatus gs') = [] \<and> StatusPorts (gsStatus gs') = [] \<and>
    gsState gs' = gsState gs \<and> Conditions (gsStatus gs') = Conditions (gsStatus gs)"
proof -
  note os = status_store.axioms(1)[OF healthy_network.axioms(1)[OF h]]
  have k: "gsKey gs = k" using object_store.object_key[OF os gs(1)] by (simp add: gsKey_def)
  from gs(1) svc rt have pre: "gobjs s (gsKey gs) = Some gs"
    "\<And>x. sobjs s (gsKey gs) = Some x \<Longrightarrow> Finalizers (svcMeta x) = []"
    "\<And>x. robjs s (gsKey gs) = Some x \<Longrightarrow> Finalizers (rtMeta x) = []" by (simp_all add: k)
  show ?thesis
    by (rule healthy_network.cleanupNetworking_ok[OF h pre])
      (use gs cfg object_store.get_found[OF os gs(1)] in
        \<open>auto simp: k dnsReconcile_def dnsReconcileFetched_def hasAddress_def\<close>)
qed

theorem dnsReconcile_cleans_up_witness:
  "\<exists>s'. run_state (dnsReconcile cluster_reconciler demoKey) (dnsCluster GameServerStateShutdown) = (Inr Result0, s') \<and>
     store_find KService (dnsCluster GameServerStateShutdown) demoKey \<noteq> None \<and>
     store_find KService s' demoKey = None"
proof -
  let ?c = "dnsCluster GameServerStateShutdown"
  let ?g = "setAddress ''10.0.0.7'' [] (demoGS GameServerStateShutdown)"
  let ?load = "LoadAdminConfig (Client cluster_reconciler) (Runtime cluster_reconciler) (dnsOperatorNs cluster_reconciler)"
  let ?cfg = "applyConfigMap cluster_runtime [(''baseDomain'', ''example.com'')] (DefaultAdminConfig cluster_runtime)"
  have "store_find KGameServer ?c demoKey = Some ?g" "DeletionTimestamp (gsMeta ?g) = None" "\<not> running ?g"
    "run_state ?load ?c = (Inr ?cfg, ?c)" "BaseDomain ?cfg \<noteq> []"
    "case store_find KService ?c demoKey of None \<Rightarrow> False | Some x \<Rightarrow> Finalizers (svcMeta x) = []"
    "store_find KHTTPRoute ?c demoKey = None"
    by code_simp+
  with dnsReconcile_cleans_up[OF network.healthy_network_axioms, of ?c demoKey ?g ?cfg] show ?thesis
    by (auto split: option.splits)
qed

end
