(* ===== verification/GoTime.thy ===== *)
theory GoTime
  imports GoStd
begin

text \<open>
  The parts of Go's \<^verbatim>\<open>time\<close> package the program uses, on times in nanoseconds since the Unix epoch:
  the calendar, the layouts \<^verbatim>\<open>time.RFC3339\<close> and \<^verbatim>\<open>"20060102-150405"\<close> in UTC, parsing of RFC 3339
  texts (with fractions and zone offsets), the zero time and the saturating difference.
\<close>

section \<open>Days and years\<close>

definition second :: int where "second = 1000000000"
definition secondsPerDay :: int where "secondsPerDay = 86400"

definition unixToInternalDays :: int where "unixToInternalDays = 719162"

definition isLeap :: "int \<Rightarrow> bool" where
  "isLeap y \<longleftrightarrow> y mod 4 = 0 \<and> (y mod 100 \<noteq> 0 \<or> y mod 400 = 0)"

definition daysBefore :: "int list" where
  "daysBefore = [0, 31, 59, 90, 120, 151, 181, 212, 243, 273, 304, 334, 365]"

definition yearDays :: "int \<Rightarrow> int" where  \<comment> \<open>days before 1 January of the year, from 1 January of year 1\<close>
  "yearDays y = (let p = y - 1 in 365 * p + p div 4 - p div 100 + p div 400)"

text \<open>The year and the day of the year, by cycles of 400, 100, 4 and 1 years as in \<^verbatim>\<open>time.absDate\<close>.\<close>

definition yearOf :: "int \<Rightarrow> int" where
  "yearOf d = (let n400 = d div 146097; d1 = d mod 146097;
     n100 = d1 div 36524 - d1 div 36524 div 4; d2 = d1 - 36524 * n100;
     n4 = d2 div 1461; d3 = d2 mod 1461;
     n1 = d3 div 365 - d3 div 365 div 4 in 400 * n400 + 100 * n100 + 4 * n4 + n1 + 1)"

definition ydayOf :: "int \<Rightarrow> int" where
  "ydayOf d = (let d1 = d mod 146097;
     n100 = d1 div 36524 - d1 div 36524 div 4; d2 = d1 - 36524 * n100;
     d3 = d2 mod 1461;
     n1 = d3 div 365 - d3 div 365 div 4 in d3 - 365 * n1)"

text \<open>Cutting $[0, 4k + 1)$ into four parts of length $k$, the last one having one more.\<close>

lemma quarter:
  assumes "0 \<le> d" "d < 4 * k + 1" "0 < k" and n: "n = d div k - d div k div (4::int)"
  shows "0 \<le> n" "n \<le> 3" "0 \<le> d - k * n" "d - k * n \<le> k" "d - k * n = k \<Longrightarrow> n = 3 \<and> d = 4 * k"
proof -
  define q where "q = d div k"
  have r: "d = k * q + d mod k" "0 \<le> d mod k" "d mod k < k" using assms(3) by (simp_all add: q_def)
  then have lo: "k * q \<le> d" and hi: "d < k * q + k" by linarith+
  have "0 \<le> q" using assms by (simp add: q_def pos_imp_zdiv_nonneg_iff)
  moreover have "q \<le> 4"
  proof (rule ccontr)
    assume "\<not> q \<le> 4"
    then have "k * 5 \<le> k * q" using assms(3) by simp
    with lo assms show False by linarith
  qed
  ultimately consider "q = 0" | "q = 1" | "q = 2" | "q = 3" | "q = 4" by linarith
  then have "0 \<le> n \<and> n \<le> 3 \<and> 0 \<le> d - k * n \<and> d - k * n \<le> k \<and> (d - k * n = k \<longrightarrow> n = 3 \<and> d = 4 * k)"
  proof cases
    case 5
    then have "n = 3" by (simp add: n q_def[symmetric])
    with 5 lo assms(2,3) show ?thesis by auto
  qed (use lo hi in \<open>simp_all add: n q_def[symmetric] algebra_simps\<close>)
  then show "0 \<le> n" "n \<le> 3" "0 \<le> d - k * n" "d - k * n \<le> k" "d - k * n = k \<Longrightarrow> n = 3 \<and> d = 4 * k"
    by blast+
qed

lemma year_split: "yearDays (yearOf d) + ydayOf d = d" "0 \<le> ydayOf d" "ydayOf d < (if isLeap (yearOf d) then 366 else 365)"
proof -
  define a where "a = d div 146097"
  define d1 where "d1 = d mod 146097"
  define b where "b = d1 div 36524 - d1 div 36524 div 4"
  define d2 where "d2 = d1 - 36524 * b"
  define c where "c = d2 div 1461"
  define d3 where "d3 = d2 mod 1461"
  define n where "n = d3 div 365 - d3 div 365 div 4"
  have d: "d = 146097 * a + d1" by (simp add: a_def d1_def)
  have d1: "0 \<le> d1" "d1 < 146097" by (simp_all add: d1_def)
  have b: "0 \<le> b" "b \<le> 3" "0 \<le> d2" "d2 \<le> 36524" using quarter[OF d1(1) _ _ b_def] d1 by (simp_all add: d2_def)
  have c: "d2 = 1461 * c + d3" "0 \<le> d3" "d3 < 1461" by (simp_all add: c_def d3_def)
  have c24: "0 \<le> c" "c \<le> 24" using b c by linarith+
  have n: "0 \<le> n" "n \<le> 3" "0 \<le> d3 - 365 * n" "d3 - 365 * n \<le> 365" using quarter[OF c(2) _ _ n_def] c(3) by simp_all
  have y: "yearOf d = 400 * a + 100 * b + 4 * c + n + 1"
    by (simp add: yearOf_def a_def d1_def b_def d2_def c_def d3_def n_def Let_def)
  have yd: "ydayOf d = d3 - 365 * n"
    by (simp add: ydayOf_def d1_def b_def d2_def d3_def n_def Let_def)
  have p4: "(400 * a + 100 * b + 4 * c + n) div 4 = 100 * a + 25 * b + c" using n by linarith
  have p100: "(400 * a + 100 * b + 4 * c + n) div 100 = 4 * a + b" using n c24 by linarith
  have p400: "(400 * a + 100 * b + 4 * c + n) div 400 = a" using n c24 b by linarith
  show "yearDays (yearOf d) + ydayOf d = d"
    unfolding y yd yearDays_def Let_def using d d2_def c(1) by (simp add: p4 p100 p400)
  show "0 \<le> ydayOf d" using n yd by simp
  show "ydayOf d < (if isLeap (yearOf d) then 366 else 365)"
  proof (cases "d3 - 365 * n = 365")
    case False
    with n yd show ?thesis by auto
  next
    case True
    with quarter(5)[OF c(2) _ _ n_def] c(3) have n3: "n = 3" "d3 = 1460" by auto
    have "b = 3" if "c = 24" using that quarter(5)[OF d1(1) _ _ b_def] d1(2) b c(1) n3 by (simp add: d2_def)
    have y4: "yearOf d = 4 * (100 * a + 25 * b + c + 1)" by (simp add: y n3)
    have "isLeap (yearOf d)"
    proof (cases "c = 24")
      case True
      with \<open>c = 24 \<Longrightarrow> b = 3\<close> y4 have "yearOf d = 400 * (a + 1)" by simp
      then show ?thesis by (simp add: isLeap_def)
    next
      case False
      with c24 have "yearOf d = 100 * (4 * a + b) + (4 * c + 4)" "0 < 4 * c + 4" "4 * c + 4 < 100"
        using y4 by simp_all
      then have "yearOf d mod 100 = 4 * c + 4" by (simp only: mod_mult_self4) simp
      with \<open>0 < 4 * c + 4\<close> y4 show ?thesis by (simp add: isLeap_def)
    qed
    with True n yd show ?thesis by auto
  qed
qed

section \<open>Months\<close>

definition monthStart :: "bool \<Rightarrow> nat \<Rightarrow> int" where
  "monthStart leap m = daysBefore ! (m - 1) + (if leap \<and> 2 < m then 1 else 0)"

definition daysIn :: "bool \<Rightarrow> nat \<Rightarrow> int" where
  "daysIn leap m = (if m = 2 then (if leap then 29 else 28) else daysBefore ! m - daysBefore ! (m - 1))"

definition monthOf :: "bool \<Rightarrow> int \<Rightarrow> nat" where
  "monthOf leap yday = length (takeWhile (\<lambda>m. monthStart leap m \<le> yday) [1..<13])"

definition dayOf :: "bool \<Rightarrow> int \<Rightarrow> int" where
  "dayOf leap yday = yday - monthStart leap (monthOf leap yday) + 1"

lemma month_ends:
  "1 \<le> m \<Longrightarrow> m \<le> 12 \<Longrightarrow>
     (if m = 12 then (if leap then 366 else 365) else monthStart leap (m + 1)) = monthStart leap m + daysIn leap m"
proof -
  have "\<forall>l \<in> set [True, False]. \<forall>m \<in> set [1..<13].
     (if m = 12 then (if l then 366 else 365) else monthStart l (m + 1)) = monthStart l m + daysIn l m"
    by code_simp
  moreover assume "1 \<le> m" "m \<le> 12"
  then have "leap \<in> set [True, False]" "m \<in> set [1..<13]" by auto
  ultimately show ?thesis by blast
qed

lemma daysIn_le: "1 \<le> m \<Longrightarrow> m \<le> 12 \<Longrightarrow> daysIn leap m \<le> 31"
proof -
  have "\<forall>l \<in> set [True, False]. \<forall>m \<in> set [1..<13]. daysIn l m \<le> 31" by code_simp
  moreover assume "1 \<le> m" "m \<le> 12"
  then have "leap \<in> set [True, False]" "m \<in> set [1..<13]" by auto
  ultimately show ?thesis by blast
qed

lemma month_day:
  assumes "0 \<le> yday" "yday < (if leap then 366 else 365)"
  shows "1 \<le> monthOf leap yday" "monthOf leap yday \<le> 12" "1 \<le> dayOf leap yday"
    "dayOf leap yday \<le> daysIn leap (monthOf leap yday)" "dayOf leap yday \<le> 31"
proof -
  let ?P = "\<lambda>m. monthStart leap m \<le> yday" and ?n = "monthOf leap yday"
  have split: "[1..<13] = (1::nat) # [2..<13]" by (simp add: upt_conv_Cons)
  have "?P 1" using assms by (simp add: monthStart_def daysBefore_def)
  then show n1: "1 \<le> ?n" unfolding monthOf_def split by simp
  have "?n \<le> length [1..<13]" unfolding monthOf_def by (rule length_takeWhile_le)
  then show n12: "?n \<le> 12" by simp
  have "takeWhile ?P [1..<13] ! (?n - 1) = ?n"
    using n1 n12 takeWhile_nth[of "?n - 1" ?P "[1..<13]"] by (simp add: monthOf_def nth_upt)
  moreover have "takeWhile ?P [1..<13] ! (?n - 1) \<in> set (takeWhile ?P [1..<13])"
    using n1 by (intro nth_mem) (simp add: monthOf_def)
  ultimately have "?P ?n" by (metis set_takeWhileD)
  then show "1 \<le> dayOf leap yday" by (simp add: dayOf_def)
  have "?n < 12 \<Longrightarrow> yday < monthStart leap (?n + 1)"
    using nth_length_takeWhile[of ?P "[1..<13]"] by (simp add: monthOf_def nth_upt)
  with month_ends[OF n1 n12, of leap] assms(2) n12
  show d: "dayOf leap yday \<le> daysIn leap ?n" by (cases "?n = 12") (auto simp: dayOf_def)
  with daysIn_le[OF n1 n12, of leap] show "dayOf leap yday \<le> 31" by simp
qed

definition zeroTime :: int where  \<comment> \<open>1 January of year 1, the zero \<^verbatim>\<open>time.Time\<close>\<close>
  "zeroTime = - unixToInternalDays * secondsPerDay * second"

text \<open>\<^verbatim>\<open>Time.Sub\<close> saturates at the range of \<^verbatim>\<open>time.Duration\<close>.\<close>

definition Sub :: "int \<Rightarrow> int \<Rightarrow> int" where
  "Sub t u = max (- (2 ^ 63)) (min (2 ^ 63 - 1) (t - u))"

section \<open>Layouts\<close>

definition two_digits :: "int \<Rightarrow> string" where
  "two_digits n = [digit_char (nat n div 10), digit_char (nat n mod 10)]"

definition four_digits :: "int \<Rightarrow> string" where
  "four_digits y = (let u = nat_str (nat (abs y)) in
     (if y < 0 then ''-'' else []) @ replicate (4 - length u) (CHR ''0'') @ u)"

definition sec_of :: "int \<Rightarrow> int" where "sec_of t = t div second"
definition abs_day :: "int \<Rightarrow> int" where "abs_day t = sec_of t div secondsPerDay + unixToInternalDays"
definition tod_of :: "int \<Rightarrow> int" where "tod_of t = sec_of t mod secondsPerDay"

definition Year :: "int \<Rightarrow> int" where "Year t = yearOf (abs_day t)"
definition MonthOf :: "int \<Rightarrow> nat" where "MonthOf t = monthOf (isLeap (Year t)) (ydayOf (abs_day t))"
definition DayOf :: "int \<Rightarrow> int" where "DayOf t = dayOf (isLeap (Year t)) (ydayOf (abs_day t))"
definition Hour :: "int \<Rightarrow> int" where "Hour t = tod_of t div 3600"
definition Minute :: "int \<Rightarrow> int" where "Minute t = tod_of t mod 3600 div 60"
definition Second :: "int \<Rightarrow> int" where "Second t = tod_of t mod 60"

definition FormatRFC3339 :: "int \<Rightarrow> string" where
  "FormatRFC3339 t = four_digits (Year t) @ ''-'' @ two_digits (int (MonthOf t)) @ ''-'' @ two_digits (DayOf t)
     @ ''T'' @ two_digits (Hour t) @ '':'' @ two_digits (Minute t) @ '':'' @ two_digits (Second t) @ ''Z''"

definition FormatCompact :: "int \<Rightarrow> string" where
  "FormatCompact t = four_digits (Year t) @ two_digits (int (MonthOf t)) @ two_digits (DayOf t) @ ''-''
     @ two_digits (Hour t) @ two_digits (Minute t) @ two_digits (Second t)"

text \<open>
  Evaluation waits until the time is known: the calendar of a symbolic time is a large term.
\<close>

lemma FormatRFC3339_code [code]:
  "FormatRFC3339 t = (if 0 \<le> t then four_digits (Year t) @ ''-'' @ two_digits (int (MonthOf t)) @ ''-''
       @ two_digits (DayOf t) @ ''T'' @ two_digits (Hour t) @ '':'' @ two_digits (Minute t) @ '':''
       @ two_digits (Second t) @ ''Z''
     else four_digits (Year t) @ ''-'' @ two_digits (int (MonthOf t)) @ ''-'' @ two_digits (DayOf t) @ ''T''
       @ two_digits (Hour t) @ '':'' @ two_digits (Minute t) @ '':'' @ two_digits (Second t) @ ''Z'')"
  by (simp add: FormatRFC3339_def)

lemma FormatCompact_code [code]:
  "FormatCompact t = (if 0 \<le> t then four_digits (Year t) @ two_digits (int (MonthOf t)) @ two_digits (DayOf t)
       @ ''-'' @ two_digits (Hour t) @ two_digits (Minute t) @ two_digits (Second t)
     else four_digits (Year t) @ two_digits (int (MonthOf t)) @ two_digits (DayOf t)
       @ ''-'' @ two_digits (Hour t) @ two_digits (Minute t) @ two_digits (Second t))"
  by (simp add: FormatCompact_def)

definition Date :: "int \<Rightarrow> nat \<Rightarrow> int \<Rightarrow> int \<Rightarrow> int \<Rightarrow> int \<Rightarrow> int \<Rightarrow> int" where
  "Date y m d hh mm ss nanos =
     ((yearDays y + monthStart (isLeap y) m + (d - 1) - unixToInternalDays) * secondsPerDay
       + hh * 3600 + mm * 60 + ss) * second + nanos"

lemma Date_fields: "Date (Year t) (MonthOf t) (DayOf t) (Hour t) (Minute t) (Second t) 0 = t - t mod second"
proof -
  have day: "yearDays (Year t) + monthStart (isLeap (Year t)) (MonthOf t) + (DayOf t - 1) = abs_day t"
    using year_split(1)[of "abs_day t"] by (simp add: Year_def MonthOf_def DayOf_def dayOf_def)
  have tod: "Hour t * 3600 + Minute t * 60 + Second t = tod_of t"
  proof -
    have "tod_of t mod 3600 mod 60 = tod_of t mod 60" by (simp add: mod_mod_cancel)
    then show ?thesis
      using div_mult_mod_eq[of "tod_of t" 3600] div_mult_mod_eq[of "tod_of t mod 3600" 60]
      unfolding Hour_def Minute_def Second_def by linarith
  qed
  have "Date (Year t) (MonthOf t) (DayOf t) (Hour t) (Minute t) (Second t) 0
      = ((abs_day t - unixToInternalDays) * secondsPerDay + tod_of t) * second"
    unfolding Date_def day[symmetric] tod[symmetric] by (simp add: algebra_simps)
  also have "\<dots> = sec_of t * second"
    using div_mult_mod_eq[of "sec_of t" secondsPerDay] by (simp add: abs_day_def tod_of_def)
  also have "\<dots> = t - t mod second"
    by (simp add: sec_of_def minus_mod_eq_div_mult)
  finally show ?thesis .
qed

text \<open>\<^verbatim>\<open>time.Parse(time.RFC3339, s)\<close>.\<close>

definition getnum :: "bool \<Rightarrow> string \<Rightarrow> (int \<times> string) option" where
  "getnum fixed s = (case s of
       [] \<Rightarrow> None
     | a # r \<Rightarrow> if \<not> is_digit a then None
         else (case r of
             b # r' \<Rightarrow> if is_digit b then Some (10 * int (digit_val a) + int (digit_val b), r')
               else if fixed then None else Some (int (digit_val a), r)
           | [] \<Rightarrow> if fixed then None else Some (int (digit_val a), r)))"

definition getyear :: "string \<Rightarrow> (int \<times> string) option" where
  "getyear s = (if length s < 4 then None else map_option (\<lambda>n. (int n, drop 4 s)) (parse_digits (take 4 s)))"

definition literal :: "char \<Rightarrow> string \<Rightarrow> string option" where
  "literal c s = (case s of x # r \<Rightarrow> if x = c then Some r else None | [] \<Rightarrow> None)"

text \<open>A fraction of a second, of which nine digits count.\<close>

definition nanos_of :: "string \<Rightarrow> int" where
  "nanos_of ds = (case parse_digits (take 9 ds) of None \<Rightarrow> 0 | Some n \<Rightarrow> int n * 10 ^ (9 - min 9 (length ds)))"

definition getfrac :: "string \<Rightarrow> int \<times> string" where
  "getfrac s = (case s of
       c # d # r \<Rightarrow> if (c = CHR ''.'' \<or> c = CHR '','') \<and> is_digit d
         then (nanos_of (takeWhile is_digit (d # r)), dropWhile is_digit (d # r)) else (0, s)
     | _ \<Rightarrow> (0, s))"

definition getzone :: "string \<Rightarrow> (int \<times> string) option" where
  "getzone s = (case s of
       [] \<Rightarrow> None
     | c # r \<Rightarrow>
         if c = CHR ''Z'' then Some (0, r)
         else if c = CHR ''+'' \<or> c = CHR ''-'' then
           Option.bind (getnum True r) (\<lambda>(hh, r1).
           Option.bind (literal (CHR '':'') r1) (\<lambda>r2.
           Option.bind (getnum True r2) (\<lambda>(mm, r3).
             if hh > 24 \<or> mm > 60 then None
             else Some ((if c = CHR ''-'' then - 1 else 1) * (hh * 3600 + mm * 60), r3))))
         else None)"

definition ParseRFC3339 :: "string \<Rightarrow> int option" where
  "ParseRFC3339 s =
     Option.bind (getyear s) (\<lambda>(y, s1).
     Option.bind (literal (CHR ''-'') s1) (\<lambda>s2.
     Option.bind (getnum True s2) (\<lambda>(mo, s3).
     Option.bind (literal (CHR ''-'') s3) (\<lambda>s4.
     Option.bind (getnum True s4) (\<lambda>(d, s5).
     Option.bind (literal (CHR ''T'') s5) (\<lambda>s6.
     Option.bind (getnum False s6) (\<lambda>(hh, s7).
     Option.bind (literal (CHR '':'') s7) (\<lambda>s8.
     Option.bind (getnum True s8) (\<lambda>(mm, s9).
     Option.bind (literal (CHR '':'') s9) (\<lambda>s10.
     Option.bind (getnum True s10) (\<lambda>(ss, s11).
       let (nanos, s12) = getfrac s11 in
     Option.bind (getzone s12) (\<lambda>(off, s13).
       if s13 \<noteq> [] \<or> mo < 1 \<or> 12 < mo \<or> 24 \<le> hh \<or> 60 \<le> mm \<or> 60 \<le> ss \<or> d < 1
         \<or> daysIn (isLeap y) (nat mo) < d then None
       else Some (Date y (nat mo) d hh mm ss nanos - off * second)))))))))))))"

lemma getnum_two [simp]: "0 \<le> n \<Longrightarrow> n < 100 \<Longrightarrow> getnum fixed (two_digits n @ s) = Some (n, s)"
proof -
  assume n: "0 \<le> n" "n < 100"
  have "10 * (nat n div 10) + nat n mod 10 = nat n" by simp
  then have "10 * int (nat n div 10) + int (nat n mod 10) = n"
    using n by (metis int_nat_eq int_ops(7) of_nat_add of_nat_numeral)
  with n show ?thesis by (simp add: getnum_def two_digits_def nat_less_iff)
qed

lemma literal_Cons [simp]: "literal c (c # s) = Some s"
  by (simp add: literal_def)

lemma getfrac_Z [simp]: "getfrac ''Z'' = (0, ''Z'')" "getzone ''Z'' = Some (0, [])"
  by (simp_all add: getfrac_def getzone_def)

lemma nat_str_4: "n < 10000 \<Longrightarrow> length (nat_str n) \<le> 4"
  by (simp add: nat_str.simps[of n] nat_str.simps[of "n div 10"] nat_str.simps[of "n div 10 div 10"]
      nat_str.simps[of "n div 10 div 10 div 10"])

lemma zeros:
  "foldl (\<lambda>n c. 10 * n + digit_val c) 0 (replicate k (CHR ''0'')) = 0"
  "list_all is_digit (replicate k (CHR ''0''))"
  by (induction k) (simp_all add: digit_val_def is_digit_def)

lemma getyear_four: "0 \<le> y \<Longrightarrow> y < 10000 \<Longrightarrow> getyear (four_digits y @ s) = Some (y, s)"
proof -
  assume y: "0 \<le> y" "y < 10000"
  let ?u = "nat_str (nat y)"
  have len: "length ?u \<le> 4" using y by (intro nat_str_4) simp
  have f: "four_digits y = replicate (4 - length ?u) (CHR ''0'') @ ?u" using y by (simp add: four_digits_def Let_def)
  then have l4: "length (four_digits y) = 4" using len by simp
  have "parse_digits (four_digits y) = Some (nat y)"
    unfolding f using nat_str_digits[of "nat y"] foldl_nat_str[of "nat y"]
    by (simp add: parse_digits_def zeros)
  with l4 y show ?thesis by (simp add: getyear_def)
qed

lemma field_ranges:
  "0 \<le> Hour t" "Hour t < 24" "0 \<le> Minute t" "Minute t < 60" "0 \<le> Second t" "Second t < 60"
proof -
  have "0 \<le> tod_of t" "tod_of t < 86400" by (simp_all add: tod_of_def secondsPerDay_def)
  then show "0 \<le> Hour t" "Hour t < 24" by (simp_all add: Hour_def)
  have "0 \<le> tod_of t mod 3600" "tod_of t mod 3600 < 3600" by simp_all
  then show "0 \<le> Minute t" "Minute t < 60" by (simp_all add: Minute_def)
  show "0 \<le> Second t" "Second t < 60" by (simp_all add: Second_def)
qed

lemma date_ranges:
  "1 \<le> MonthOf t" "MonthOf t \<le> 12" "1 \<le> DayOf t" "DayOf t \<le> 31" "DayOf t \<le> daysIn (isLeap (Year t)) (MonthOf t)"
  using month_day[OF year_split(2)[of "abs_day t"], of "isLeap (Year t)"] year_split(3)[of "abs_day t"]
  by (auto simp: MonthOf_def DayOf_def Year_def)

text \<open>Parsing reads back what was formatted, to the second, for years of four digits.\<close>

lemma ParseRFC3339_Format:
  assumes "0 \<le> Year t" "Year t < 10000"
  shows "ParseRFC3339 (FormatRFC3339 t) = Some (t - t mod second)"
  unfolding ParseRFC3339_def FormatRFC3339_def
  using assms field_ranges[of t] date_ranges[of t] Date_fields[of t]
  by (simp add: getyear_four)

lemma two_digits_inj: "0 \<le> a \<Longrightarrow> a < 100 \<Longrightarrow> 0 \<le> b \<Longrightarrow> b < 100 \<Longrightarrow> two_digits a = two_digits b \<Longrightarrow> a = b"
  using getnum_two[of a True "[]"] getnum_two[of b True "[]"] by simp

lemma four_digits_inj:
  assumes "0 \<le> a" "a < 10000" "0 \<le> b" "b < 10000" "four_digits a = four_digits b"
  shows "a = b"
  using getyear_four[OF assms(1,2), of "[]"] getyear_four[OF assms(3,4), of "[]"] assms(5) by simp

lemma four_digits_length: "0 \<le> y \<Longrightarrow> y < 10000 \<Longrightarrow> length (four_digits y) = 4"
  using nat_str_4[of "nat y"] by (simp add: four_digits_def Let_def)

lemma FormatCompact_inj:
  assumes "0 \<le> Year t" "Year t < 10000" "0 \<le> Year t'" "Year t' < 10000"
    and eq: "FormatCompact t = FormatCompact t'"
  shows "t - t mod second = t' - t' mod second"
proof -
  have "four_digits (Year t) = four_digits (Year t')" and rest:
    "two_digits (int (MonthOf t)) = two_digits (int (MonthOf t'))" "two_digits (DayOf t) = two_digits (DayOf t')"
    "two_digits (Hour t) = two_digits (Hour t')" "two_digits (Minute t) = two_digits (Minute t')"
    "two_digits (Second t) = two_digits (Second t')"
    using eq four_digits_length[OF assms(1,2)] four_digits_length[OF assms(3,4)]
    by (auto simp: FormatCompact_def two_digits_def)
  then have y: "Year t = Year t'" using four_digits_inj assms by blast
  have "int (MonthOf t) = int (MonthOf t')"
    by (rule two_digits_inj[OF _ _ _ _ rest(1)]) (use date_ranges[of t] date_ranges[of t'] in simp_all)
  moreover have "DayOf t = DayOf t'" "Hour t = Hour t'"
    "Minute t = Minute t'" "Second t = Second t'"
    using date_ranges[of t] date_ranges[of t'] field_ranges[of t] field_ranges[of t']
    by (auto intro!: two_digits_inj rest)
  ultimately show ?thesis using y Date_fields[of t] Date_fields[of t'] by simp
qed

lemma format_examples: "FormatRFC3339 0 = ''1970-01-01T00:00:00Z''" "FormatCompact 1709210096123456789 = ''20240229-123456''"
  by code_simp+

end
