(* ===== verification/BackupController.thy ===== *)
theory BackupController
  imports GameServerController DNSController GoTime
begin

text \<open>
  The Backup controller, \<^verbatim>\<open>internal/controller/backup_controller.go\<close>: the life of a Backup object
  (validation, the transfer of a tar archive from the Pod to S3, success and failure), scheduled
  backups and retention.

  The S3 client, the exec subresource, gzip and the cron parser are the operations of \<open>BackupEnv\<close>;
  \<open>SortNewest\<close> is \<^verbatim>\<open>sort.Slice\<close> with the comparison the code gives it, whose order among equal keys is
  not specified. The fields \<^verbatim>\<open>s3Client\<close> and \<^verbatim>\<open>s3Bucket\<close> of the reconciler, which are set together on
  first use, are the value \<open>s3cell\<close> that the operations take and return.
\<close>

record ('s, 'c) BackupEnv =
  NewS3 :: "string \<Rightarrow> string \<Rightarrow> string \<Rightarrow> bool \<Rightarrow> gerr + 'c"
  BucketExists :: "'c \<Rightarrow> string \<Rightarrow> ('s, gerr + bool) state"
  MakeBucket :: "'c \<Rightarrow> string \<Rightarrow> string \<Rightarrow> ('s, gerr + unit) state"
  PutObject :: "'c \<Rightarrow> string \<Rightarrow> string \<Rightarrow> string \<times> gerr option \<Rightarrow> ('s, gerr + int) state"
  GetObject :: "'c \<Rightarrow> string \<Rightarrow> string \<Rightarrow> ('s, gerr + string) state"
  RemoveObject :: "'c \<Rightarrow> string \<Rightarrow> string \<Rightarrow> ('s, gerr + unit) state"
  PodExec :: "string \<Rightarrow> string \<Rightarrow> string list \<Rightarrow> string \<Rightarrow>
    ('s, gerr + string \<times> string \<times> gerr option) state"
  Gzip :: "string \<Rightarrow> string"
  Gunzip :: "string \<Rightarrow> gerr + string"
  CronParse :: "string \<Rightarrow> gerr + (gotime \<Rightarrow> gotime)"
  SortNewest :: "Backup list \<Rightarrow> Backup list"

type_synonym 'c s3cell = "('c \<times> string) option"

definition s3CredentialsSecretName :: string where
  "s3CredentialsSecretName = ''kterodactyl-s3-credentials''"

definition bkKey :: "Backup \<Rightarrow> key" where
  "bkKey b = key_of (bkMeta b)"

definition bkServerKey :: "Backup \<Rightarrow> key" where
  "bkServerKey b = \<lparr>keyNamespace = Namespace (bkMeta b), keyName = GameServerName (bkSpec b)\<rparr>"

section \<open>Status of a backup\<close>

definition setBackupCondition :: "'s Reconciler \<Rightarrow> ConditionStatus \<Rightarrow> string \<Rightarrow> string \<Rightarrow> Backup \<Rightarrow>
    ('s, Backup) state" where
  "setBackupCondition r st reason message b = do {
     cs \<leftarrow> SetStatusCondition (Runtime r) (bConditions (bkStatus b))
       \<lparr>cType = BackupConditionReady, cStatus = st, cReason = reason, cMessage = message,
        cObservedGeneration = Generation (bkMeta b), cLastTransitionTime = None\<rparr>;
     ret (b\<lparr>bkStatus := (bkStatus b)\<lparr>bConditions := cs\<rparr>\<rparr>) }"

definition transitionBackupStatus :: "'s Reconciler \<Rightarrow> BackupState \<Rightarrow> string \<Rightarrow> string \<Rightarrow> Backup \<Rightarrow>
    ('s, Backup) state" where
  "transitionBackupStatus r newState reason message fresh0 = do {
     let fresh = fresh0\<lparr>bkStatus := (bkStatus fresh0)\<lparr>bState := newState, Message := message\<rparr>\<rparr>;
     if newState = BackupStatePending then setBackupCondition r ConditionFalse reason message fresh
     else if newState = BackupStateFailed then do {
       b \<leftarrow> setBackupCondition r ConditionFalse reason message fresh;
       if CompletedAt (bkStatus b) = None then do {
         now \<leftarrow> Now (Runtime r);
         ret (b\<lparr>bkStatus := (bkStatus b)\<lparr>CompletedAt := Some now\<rparr>\<rparr>) }
       else ret b }
     else ret fresh }"

definition transitionBackupState :: "'s Reconciler \<Rightarrow> Backup \<Rightarrow> BackupState \<Rightarrow> string \<Rightarrow> string \<Rightarrow>
    ('s, gerr + Result) state" where
  "transitionBackupState r backup newState reason message = do {
     got \<leftarrow> kget (backups (Client r)) (bkKey backup);
     case got of
       Inl err \<Rightarrow> ret (Inl (errf ''failed to re-fetch Backup for status update: '' err))
     | Inr fresh0 \<Rightarrow> do {
         fresh \<leftarrow> transitionBackupStatus r newState reason message fresh0;
         put \<leftarrow> kstatus (backups (Client r)) fresh;
         case put of
           Inl err \<Rightarrow> ret (Inl (errf ''failed to update backup status: '' err))
         | Inr _ \<Rightarrow> do {
             Event (Runtime r) (bkKey backup)
               (if newState = BackupStateFailed then ''Warning'' else ''Normal'') ''StateChanged''
               (''Backup state changed from '' @ backup_state_string (bState (bkStatus backup)) @ '' to ''
                 @ backup_state_string newState @ '': '' @ message);
             if \<not> IsBackupTerminal newState then ret (Inr ResultRequeue) else ret (Inr Result0) } } }"

section \<open>Pending\<close>

text \<open>The first other backup of the server that is in progress.\<close>

definition concurrentBackup :: "Backup \<Rightarrow> Backup list \<Rightarrow> Backup option" where
  "concurrentBackup backup items = List.find (\<lambda>other. Name (bkMeta other) \<noteq> Name (bkMeta backup)
     \<and> bState (bkStatus other) = BackupStateInProgress) items"

definition startBackup :: "'s Reconciler \<Rightarrow> Backup \<Rightarrow> ('s, gerr + Result) state" where
  "startBackup r backup = do {
     now \<leftarrow> Now (Runtime r);
     got \<leftarrow> kget (backups (Client r)) (bkKey backup);
     case got of
       Inl err \<Rightarrow> ret (Inl (errf ''failed to re-fetch Backup: '' err))
     | Inr fresh0 \<Rightarrow> do {
         fresh \<leftarrow> setBackupCondition r ConditionFalse ''BackupStarted'' ''Backup operation started''
           (fresh0\<lparr>bkStatus := (bkStatus fresh0)\<lparr>bState := BackupStateInProgress, StartedAt := Some now,
              Message := ''Backup in progress''\<rparr>\<rparr>);
         put \<leftarrow> kstatus (backups (Client r)) fresh;
         case put of
           Inl err \<Rightarrow> ret (Inl (errf ''failed to update backup status to InProgress: '' err))
         | Inr _ \<Rightarrow> do {
             Event (Runtime r) (bkKey backup) ''Normal'' ''BackupStarted''
               (''Backup started for GameServer '' @ GameServerName (bkSpec backup));
             ret (Inr ResultRequeue) } } }"

definition reconcilePending :: "'s Reconciler \<Rightarrow> Backup \<Rightarrow> AdminConfig \<Rightarrow> ('s, gerr + Result) state" where
  "reconcilePending r backup cfg =
     (if bState (bkStatus backup) = BackupStateUnset then
        transitionBackupState r backup BackupStatePending ''Initializing'' ''Backup queued''
      else if BackupS3Endpoint cfg = [] then
        transitionBackupState r backup BackupStateFailed ''S3NotConfigured''
          ''S3 not configured: set backupS3Endpoint in admin config''
      else do {
        got \<leftarrow> kget (gameservers (Client r)) (bkServerKey backup);
        case got of
          Inl err \<Rightarrow>
            if IsNotFound err then
              transitionBackupState r backup BackupStateFailed ''GameServerNotFound''
                (''GameServer '' @ GameServerName (bkSpec backup) @ '' not found'')
            else ret (Inl (errf ''failed to get GameServer: '' err))
        | Inr gs \<Rightarrow>
            if \<not> running gs then
              transitionBackupState r backup BackupStateFailed ''ServerNotRunning''
                (''GameServer must be Ready or Allocated, current state: '' @ gs_state_string (gsState gs))
            else do {
              l \<leftarrow> klist (backups (Client r)) (Some (Namespace (bkMeta backup)))
                [(LabelBackupGameServer, GameServerName (bkSpec backup))];
              case l of
                Inl err \<Rightarrow> ret (Inl (errf ''failed to list backups: '' err))
              | Inr items \<Rightarrow>
                  (case concurrentBackup backup items of
                    Some other \<Rightarrow> transitionBackupState r backup BackupStateFailed ''ConcurrentBackup''
                      (''Another backup '' @ Name (bkMeta other) @ '' is already in progress for this server'')
                  | None \<Rightarrow> startBackup r backup) } })"

section \<open>InProgress\<close>

definition ensureS3Client :: "('s, 'c) BackupEnv \<Rightarrow> 's Reconciler \<Rightarrow> 'c s3cell \<Rightarrow> AdminConfig \<Rightarrow>
    ('s, gerr + 'c \<times> string) state" where
  "ensureS3Client env r cell cfg = (case cell of
       Some c \<Rightarrow> ret (Inr c)
     | None \<Rightarrow> do {
         got \<leftarrow> kget (secrets (Client r))
           \<lparr>keyNamespace = OperatorNamespace r, keyName = s3CredentialsSecretName\<rparr>;
         case got of
           Inl err \<Rightarrow>
             if IsNotFound err then
               ret (Inl (ErrNew (''S3 credentials secret '' @ s3CredentialsSecretName
                 @ '' not found in namespace '' @ OperatorNamespace r)))
             else ret (Inl (errf ''failed to get S3 credentials secret: '' err))
         | Inr secret \<Rightarrow>
             let accessKeyID = mget (secData secret) ''accessKeyID'';
                 secretAccessKey = mget (secData secret) ''secretAccessKey'' in
             if accessKeyID = [] \<or> secretAccessKey = [] then
               ret (Inl (ErrNew ''S3 credentials secret missing accessKeyID or secretAccessKey''))
             else (case NewS3 env (BackupS3Endpoint cfg) accessKeyID secretAccessKey (BackupS3UseSSL cfg) of
                 Inl err \<Rightarrow> ret (Inl (errf ''failed to create S3 client: '' err))
               | Inr c \<Rightarrow> ret (Inr (c, BackupS3Bucket cfg))) })"

text \<open>The error of an exec, from the two ways it can fail.\<close>

definition execError :: "gerr + string \<times> string \<times> gerr option \<Rightarrow> gerr option" where
  "execError res = (case res of
       Inl err \<Rightarrow> Some (errf ''exec setup failed: '' err)
     | Inr (out, stderr, None) \<Rightarrow> None
     | Inr (out, stderr, Some err) \<Rightarrow>
         Some (if stderr \<noteq> [] then Wrap ''exec failed: '' err ('' (stderr: '' @ stderr @ '')'')
           else errf ''exec failed: '' err))"

text \<open>\<^verbatim>\<open>execTarFromPod\<close> writes to its writer even when it fails: it returns the bytes and the error.\<close>

definition execTarFromPod :: "('s, 'c) BackupEnv \<Rightarrow> string \<Rightarrow> string \<Rightarrow> string \<Rightarrow>
    ('s, string \<times> gerr option) state" where
  "execTarFromPod env namespace podName backupPath = do {
     res \<leftarrow> PodExec env namespace podName [''tar'', ''-cf'', ''-'', ''-C'', backupPath, ''.''] [];
     ret (case res of Inl _ \<Rightarrow> [] | Inr (out, _, _) \<Rightarrow> out, execError res) }"

definition execTarIntoPod :: "('s, 'c) BackupEnv \<Rightarrow> string \<Rightarrow> string \<Rightarrow> string \<Rightarrow> string \<Rightarrow>
    ('s, gerr + unit) state" where
  "execTarIntoPod env namespace podName backupPath stdin = do {
     res \<leftarrow> PodExec env namespace podName [''tar'', ''-xf'', ''-'', ''-C'', backupPath] stdin;
     ret (case execError res of None \<Rightarrow> Inr () | Some err \<Rightarrow> Inl err) }"

text \<open>
  The two goroutines of \<^verbatim>\<open>performBackup\<close> in sequence: the stream the upload reads is what the exec
  wrote, compressed, ended by its error if there was one.
\<close>

definition performBackup :: "('s, 'c) BackupEnv \<Rightarrow> 'c \<times> string \<Rightarrow> string \<Rightarrow> string \<Rightarrow> string \<Rightarrow> string \<Rightarrow>
    ('s, gerr + int) state" where
  "performBackup env cb namespace podName backupPath s3Key = do {
     res \<leftarrow> execTarFromPod env namespace podName backupPath;
     up \<leftarrow> PutObject env (fst cb) (snd cb) s3Key
       (Gzip env (fst res), map_option (errf ''tar exec failed: '') (snd res));
     ret (case up of
         Inl uploadErr \<Rightarrow> Inl (errf ''S3 upload failed: '' uploadErr)
       | Inr info \<Rightarrow> (case snd res of
           Some execErr \<Rightarrow> Inl (errf ''tar exec failed: '' execErr)
         | None \<Rightarrow> Inr info)) }"

definition performRestore :: "('s, 'c) BackupEnv \<Rightarrow> 'c \<Rightarrow> string \<Rightarrow> string \<Rightarrow> string \<Rightarrow> string \<Rightarrow> string \<Rightarrow>
    ('s, gerr + unit) state" where
  "performRestore env c namespace podName backupPath bucket s3Key = do {
     obj \<leftarrow> GetObject env c bucket s3Key;
     case obj of
       Inl err \<Rightarrow> ret (Inl (errf ''S3 download failed: '' err))
     | Inr bytes \<Rightarrow> (case Gunzip env bytes of
         Inl err \<Rightarrow> ret (Inl (errf ''gzip decompression failed: '' err))
       | Inr tar \<Rightarrow> do {
           res \<leftarrow> execTarIntoPod env namespace podName backupPath tar;
           case res of
             Inl err \<Rightarrow> ret (Inl (errf ''tar restore failed: '' err))
           | Inr _ \<Rightarrow> ret (Inr ()) }) }"

definition backupPathOf :: "GameServer \<Rightarrow> Backup \<Rightarrow> string" where
  "backupPathOf gs backup = (case BackupPaths (bkSpec backup) of
       p # _ \<Rightarrow> p
     | [] \<Rightarrow> (let p = mget (Annotations (gsMeta gs)) AnnotationBackupPath in
         if p = [] then ''/data'' else p))"

definition backupObjectKey :: "GameServer \<Rightarrow> gotime \<Rightarrow> string" where
  "backupObjectKey gs now = ''backups/'' @ Namespace (gsMeta gs) @ ''/'' @ Name (gsMeta gs) @ ''/''
     @ FormatCompact now @ ''.tar.gz''"

definition completeBackup :: "'s Reconciler \<Rightarrow> Backup \<Rightarrow> GameServer \<Rightarrow> string \<Rightarrow> string \<Rightarrow> int \<Rightarrow>
    ('s, gerr + Result) state" where
  "completeBackup r backup gs bucket s3Key sz = do {
     now \<leftarrow> Now (Runtime r);
     got \<leftarrow> kget (backups (Client r)) (bkKey backup);
     case got of
       Inl err \<Rightarrow> ret (Inl (errf ''failed to re-fetch Backup: '' err))
     | Inr fresh0 \<Rightarrow> do {
         fresh \<leftarrow> setBackupCondition r ConditionTrue ''BackupCompleted''
           (''Backup completed, size: '' @ Itoa sz @ '' bytes'')
           (fresh0\<lparr>bkStatus := (bkStatus fresh0)\<lparr>bState := BackupStateCompleted, S3Key := s3Key,
              S3Bucket := bucket, Size := sz, CompletedAt := Some now,
              Message := ''Backup completed successfully''\<rparr>\<rparr>);
         put \<leftarrow> kstatus (backups (Client r)) fresh;
         case put of
           Inl err \<Rightarrow> ret (Inl (errf ''failed to update backup status to Completed: '' err))
         | Inr _ \<Rightarrow> do {
             Event (Runtime r) (bkKey backup) ''Normal'' ''BackupCompleted''
               (''Backup completed for GameServer '' @ Name (gsMeta gs) @ '' (size: '' @ Itoa sz
                 @ '' bytes, key: '' @ s3Key @ '')'');
             ret (Inr Result0) } } }"

text \<open>The transfer, once the S3 client is there: bucket, archive, upload, and the final status.\<close>

definition transferBackup :: "('s, 'c) BackupEnv \<Rightarrow> 's Reconciler \<Rightarrow> 'c \<times> string \<Rightarrow> Backup \<Rightarrow> GameServer \<Rightarrow>
    AdminConfig \<Rightarrow> ('s, gerr + Result) state" where
  "transferBackup env r cb backup gs cfg = do {
     ex \<leftarrow> BucketExists env (fst cb) (snd cb);
     case ex of
       Inl err \<Rightarrow> transitionBackupState r backup BackupStateFailed ''S3BucketCheckError''
         (''Failed to check S3 bucket: '' @ error_text err)
     | Inr exists \<Rightarrow> do {
         made \<leftarrow> (if exists then ret (Inr ()) else MakeBucket env (fst cb) (snd cb) (BackupS3Region cfg));
         case made of
           Inl err \<Rightarrow> transitionBackupState r backup BackupStateFailed ''S3BucketCreateError''
             (''Failed to create S3 bucket: '' @ error_text err)
         | Inr _ \<Rightarrow> do {
             now \<leftarrow> Now (Runtime r);
             up \<leftarrow> performBackup env cb (Namespace (gsMeta gs)) (Name (gsMeta gs))
               (backupPathOf gs backup) (backupObjectKey gs now);
             case up of
               Inl err \<Rightarrow> transitionBackupState r backup BackupStateFailed ''BackupFailed''
                 (''Backup failed: '' @ error_text err)
             | Inr sz \<Rightarrow> completeBackup r backup gs (snd cb) (backupObjectKey gs now) sz } } }"

definition reconcileInProgress :: "('s, 'c) BackupEnv \<Rightarrow> 's Reconciler \<Rightarrow> 'c s3cell \<Rightarrow> Backup \<Rightarrow>
    AdminConfig \<Rightarrow> ('s, (gerr + Result) \<times> 'c s3cell) state" where
  "reconcileInProgress env r cell backup cfg = do {
     got \<leftarrow> kget (gameservers (Client r)) (bkServerKey backup);
     case got of
       Inl err \<Rightarrow>
         if IsNotFound err then do {
           res \<leftarrow> transitionBackupState r backup BackupStateFailed ''GameServerNotFound''
             (''GameServer '' @ GameServerName (bkSpec backup) @ '' not found'');
           ret (res, cell) }
         else ret (Inl (errf ''failed to get GameServer: '' err), cell)
     | Inr gs \<Rightarrow>
         if \<not> running gs then do {
           res \<leftarrow> transitionBackupState r backup BackupStateFailed ''ServerNotRunning''
             (''GameServer is no longer running (state: '' @ gs_state_string (gsState gs) @ '')'');
           ret (res, cell) }
         else do {
           s3 \<leftarrow> ensureS3Client env r cell cfg;
           case s3 of
             Inl err \<Rightarrow> do {
               res \<leftarrow> transitionBackupState r backup BackupStateFailed ''S3ClientError''
                 (''Failed to initialize S3 client: '' @ error_text err);
               ret (res, cell) }
           | Inr cb \<Rightarrow> do {
               res \<leftarrow> transferBackup env r cb backup gs cfg;
               ret (res, Some cb) } } }"

section \<open>Retention\<close>

definition creationOf :: "Backup \<Rightarrow> gotime" where
  "creationOf b = (case CreationTimestamp (bkMeta b) of None \<Rightarrow> zeroTime | Some t \<Rightarrow> t)"

definition completedBackups :: "Backup list \<Rightarrow> Backup list" where
  "completedBackups items = filter (\<lambda>b. bState (bkStatus b) = BackupStateCompleted) items"

definition retentionVictims :: "('s, 'c) BackupEnv \<Rightarrow> int \<Rightarrow> Backup list \<Rightarrow> Backup list" where
  "retentionVictims env maxCount items =
     (let completed = completedBackups items in
      if int (length completed) \<le> maxCount then [] else drop (nat maxCount) (SortNewest env completed))"

definition removeOld :: "('s, 'c) BackupEnv \<Rightarrow> 's Reconciler \<Rightarrow> 'c s3cell \<Rightarrow> Backup \<Rightarrow> ('s, unit) state" where
  "removeOld env r cell old = do {
     (if S3Key (bkStatus old) \<noteq> [] \<and> S3Bucket (bkStatus old) \<noteq> [] then
        (case cell of
           None \<Rightarrow> ret ()
         | Some (c, _) \<Rightarrow> do {
             _ \<leftarrow> RemoveObject env c (S3Bucket (bkStatus old)) (S3Key (bkStatus old));
             ret () })
      else ret ());
     _ \<leftarrow> kdelete (backups (Client r)) old None;
     ret () }"

definition enforceRetention :: "('s, 'c) BackupEnv \<Rightarrow> 's Reconciler \<Rightarrow> 'c s3cell \<Rightarrow> string \<Rightarrow> string \<Rightarrow> int \<Rightarrow>
    ('s, gerr + unit) state" where
  "enforceRetention env r cell namespace gameServerName maxCount =
     (if maxCount \<le> 0 then ret (Inr ())
      else do {
        l \<leftarrow> klist (backups (Client r)) (Some namespace) [(LabelBackupGameServer, gameServerName)];
        case l of
          Inl err \<Rightarrow> ret (Inl (errf ''failed to list backups for retention: '' err))
        | Inr items \<Rightarrow> do {
            forEach (retentionVictims env maxCount items) (removeOld env r cell);
            ret (Inr ()) } })"

section \<open>Schedules\<close>

definition lastBackupOf :: "GameServer \<Rightarrow> gotime" where
  "lastBackupOf gs = (let lastStr = mget (Annotations (gsMeta gs)) AnnotationLastBackupTime in
     if lastStr = [] then zeroTime
     else (case ParseRFC3339 lastStr of None \<Rightarrow> zeroTime | Some t \<Rightarrow> t))"

definition nextScheduled :: "(gotime \<Rightarrow> gotime) \<Rightarrow> GameServer \<Rightarrow> gotime" where
  "nextScheduled sched gs =
     (if lastBackupOf gs = zeroTime
      then sched (case CreationTimestamp (gsMeta gs) of None \<Rightarrow> zeroTime | Some t \<Rightarrow> t)
      else sched (lastBackupOf gs))"

definition scheduledBackup :: "GameServer \<Rightarrow> gotime \<Rightarrow> Backup" where
  "scheduledBackup gs now = \<lparr>
     bkMeta = NewMeta (Namespace (gsMeta gs)) (Name (gsMeta gs) @ ''-scheduled-'' @ FormatCompact now)
       [(LabelBackupGameServer, Name (gsMeta gs)), (LabelManagedByKterodactyl, ManagedByValue)],
     bkSpec = \<lparr>GameServerName = Name (gsMeta gs), BackupPaths = []\<rparr>, bkStatus = BackupStatus0\<rparr>"

definition retentionOf :: "GameServer \<Rightarrow> AdminConfig \<Rightarrow> int" where
  "retentionOf gs cfg = (let retStr = mget (Annotations (gsMeta gs)) AnnotationBackupRetention in
     if retStr = [] then BackupRetentionCount cfg
     else (case Atoi retStr of None \<Rightarrow> BackupRetentionCount cfg | Some n \<Rightarrow> n))"

definition opNsOrDefault :: "'s Reconciler \<Rightarrow> string" where
  "opNsOrDefault r = (if OperatorNamespace r = [] then defaultOperatorNamespace else OperatorNamespace r)"

definition stampBackup :: "gotime \<Rightarrow> GameServer \<Rightarrow> GameServer" where
  "stampBackup now gs = gs\<lparr>gsMeta := (gsMeta gs)\<lparr>Annotations :=
     mput AnnotationLastBackupTime (FormatRFC3339 now) (Annotations (gsMeta gs))\<rparr>\<rparr>"

definition retainBackups :: "('s, 'c) BackupEnv \<Rightarrow> 's Reconciler \<Rightarrow> 'c s3cell \<Rightarrow> GameServer \<Rightarrow> ('s, unit) state" where
  "retainBackups env r cell gs = do {
     load \<leftarrow> LoadAdminConfig (Client r) (Runtime r) (opNsOrDefault r);
     case load of
       Inl _ \<Rightarrow> ret ()
     | Inr cfg \<Rightarrow> do {
         _ \<leftarrow> enforceRetention env r cell (Namespace (gsMeta gs)) (Name (gsMeta gs)) (retentionOf gs cfg);
         ret () } }"

definition createScheduled :: "('s, 'c) BackupEnv \<Rightarrow> 's Reconciler \<Rightarrow> 'c s3cell \<Rightarrow> GameServer \<Rightarrow>
    (gotime \<Rightarrow> gotime) \<Rightarrow> gotime \<Rightarrow> ('s, gerr + Result) state" where
  "createScheduled env r cell gs sched now = do {
     made \<leftarrow> kcreate (backups (Client r)) (scheduledBackup gs now);
     ok \<leftarrow> (case made of
         Inl err \<Rightarrow> if IsAlreadyExists err then ret (Inr ())
           else ret (Inl (errf ''failed to create scheduled backup: '' err))
       | Inr _ \<Rightarrow> do {
           Event (Runtime r) (gsKey gs) ''Normal'' ''ScheduledBackup''
             (''Created scheduled backup '' @ Name (bkMeta (scheduledBackup gs now)));
           ret (Inr ()) });
     case ok of
       Inl err \<Rightarrow> ret (Inl err)
     | Inr _ \<Rightarrow> do {
         got \<leftarrow> kget (gameservers (Client r)) (gsKey gs);
         case got of
           Inl err \<Rightarrow> ret (Inl (errf ''failed to re-fetch GameServer: '' err))
         | Inr freshGS \<Rightarrow> do {
             put \<leftarrow> kupdate (gameservers (Client r)) (stampBackup now freshGS);
             case put of
               Inl err \<Rightarrow> ret (Inl (errf ''failed to update last backup time: '' err))
             | Inr _ \<Rightarrow> do {
                 retainBackups env r cell gs;
                 ret (Inr (ResultAfter (Sub (sched now) now))) } } } }"

definition reconcileGameServerSchedule :: "('s, 'c) BackupEnv \<Rightarrow> 's Reconciler \<Rightarrow> 'c s3cell \<Rightarrow> GameServer \<Rightarrow>
    ('s, gerr + Result) state" where
  "reconcileGameServerSchedule env r cell gs =
     (let schedule = mget (Annotations (gsMeta gs)) AnnotationBackupSchedule in
      if schedule = [] then ret (Inr Result0)
      else if \<not> running gs then ret (Inr Result0)
      else (case CronParse env schedule of
          Inl _ \<Rightarrow> ret (Inr Result0)
        | Inr sched \<Rightarrow> do {
            now \<leftarrow> Now (Runtime r);
            let nextTime = nextScheduled sched gs;
            if now < nextTime then ret (Inr (ResultAfter (Sub nextTime now)))
            else createScheduled env r cell gs sched now }))"

section \<open>Reconcile\<close>

definition reconcileBackup :: "('s, 'c) BackupEnv \<Rightarrow> 's Reconciler \<Rightarrow> 'c s3cell \<Rightarrow> Backup \<Rightarrow>
    ('s, (gerr + Result) \<times> 'c s3cell) state" where
  "reconcileBackup env r cell backup =
     (if IsBackupTerminal (bState (bkStatus backup)) then ret (Inr Result0, cell)
      else do {
        load \<leftarrow> LoadAdminConfig (Client r) (Runtime r) (opNsOrDefault r);
        case load of
          Inl err \<Rightarrow> ret (Inl (errf ''failed to load admin config: '' err), cell)
        | Inr cfg \<Rightarrow>
            (case bState (bkStatus backup) of
              BackupStateInProgress \<Rightarrow> reconcileInProgress env r cell backup cfg
            | BackupStateOther t \<Rightarrow> ret (Inr Result0, cell)
            | _ \<Rightarrow> do { res \<leftarrow> reconcilePending r backup cfg; ret (res, cell) }) })"

definition backupReconcile :: "('s, 'c) BackupEnv \<Rightarrow> 's Reconciler \<Rightarrow> 'c s3cell \<Rightarrow> key \<Rightarrow>
    ('s, (gerr + Result) \<times> 'c s3cell) state" where
  "backupReconcile env r cell req =
     (if HasPrefix (keyName req) ''schedule-'' then do {
        got \<leftarrow> kget (gameservers (Client r)) (req\<lparr>keyName := TrimPrefix (keyName req) ''schedule-''\<rparr>);
        case got of
          Inl err \<Rightarrow>
            if IsNotFound err then ret (Inr Result0, cell)
            else ret (Inl (errf ''failed to get GameServer for schedule: '' err), cell)
        | Inr gs \<Rightarrow> do { res \<leftarrow> reconcileGameServerSchedule env r cell gs; ret (res, cell) } }
      else do {
        got \<leftarrow> kget (backups (Client r)) req;
        case got of
          Inl err \<Rightarrow>
            if IsNotFound err then ret (Inr Result0, cell)
            else ret (Inl (errf ''failed to get Backup: '' err), cell)
        | Inr backup \<Rightarrow> reconcileBackup env r cell backup })"

text \<open>The watch of \<^verbatim>\<open>SetupWithManager\<close>: a scheduled game server enqueues the synthetic request.\<close>

definition scheduleRequests :: "GameServer \<Rightarrow> key list" where
  "scheduleRequests gs =
     (if mget (Annotations (gsMeta gs)) AnnotationBackupSchedule = [] then []
      else [\<lparr>keyNamespace = Namespace (gsMeta gs), keyName = ''schedule-'' @ Name (gsMeta gs)\<rparr>])"

end
