(* ===== verification/BackupSafety.thy ===== *)
theory BackupSafety
  imports BackupController Demo
begin

text \<open>
  Which statuses the Backup controller writes, for every behaviour of the cluster, of the S3 service
  and of the Pod; and that requests for schedules never touch a Backup's status.
\<close>

section \<open>Recording\<close>

definition traced_env :: "('s, 'c) BackupEnv \<Rightarrow> ('s tracing, 'c) BackupEnv" where
  "traced_env env = \<lparr>
     NewS3 = NewS3 env,
     BucketExists = (\<lambda>c b. lift_op (BucketExists env c b) (\<lambda>x. [OnS3 (EvBucketExists b x)])),
     MakeBucket = (\<lambda>c b g. lift_op (MakeBucket env c b g) (\<lambda>x. [OnS3 (EvMakeBucket b x)])),
     PutObject = (\<lambda>c b k st. lift_op (PutObject env c b k st) (\<lambda>x. [OnS3 (EvPutObject b k x)])),
     GetObject = (\<lambda>c b k. lift_op (GetObject env c b k) (\<lambda>x. [OnS3 (EvGetObject b k x)])),
     RemoveObject = (\<lambda>c b k. lift_op (RemoveObject env c b k) (\<lambda>x. [OnS3 (EvRemoveObject b k x)])),
     PodExec = (\<lambda>n p cmd i. lift_op (PodExec env n p cmd i) (\<lambda>x. [OnExec n p cmd x])),
     Gzip = Gzip env, Gunzip = Gunzip env, CronParse = CronParse env, SortNewest = SortNewest env\<rparr>"

lemma traced_env_simps [simp]:
  "NewS3 (traced_env env) = NewS3 env"
  "BucketExists (traced_env env) c b = lift_op (BucketExists env c b) (\<lambda>x. [OnS3 (EvBucketExists b x)])"
  "MakeBucket (traced_env env) c b g = lift_op (MakeBucket env c b g) (\<lambda>x. [OnS3 (EvMakeBucket b x)])"
  "PutObject (traced_env env) c b k st = lift_op (PutObject env c b k st) (\<lambda>x. [OnS3 (EvPutObject b k x)])"
  "GetObject (traced_env env) c b k = lift_op (GetObject env c b k) (\<lambda>x. [OnS3 (EvGetObject b k x)])"
  "RemoveObject (traced_env env) c b k = lift_op (RemoveObject env c b k) (\<lambda>x. [OnS3 (EvRemoveObject b k x)])"
  "PodExec (traced_env env) n p cmd i = lift_op (PodExec env n p cmd i) (\<lambda>x. [OnExec n p cmd x])"
  "Gzip (traced_env env) = Gzip env" "Gunzip (traced_env env) = Gunzip env"
  "CronParse (traced_env env) = CronParse env" "SortNewest (traced_env env) = SortNewest env"
  by (simp_all add: traced_env_def)

lemma opNsOrDefault_traced [simp]: "opNsOrDefault (traced r) = opNsOrDefault r"
  by (simp add: opNsOrDefault_def)

fun is_bk_status :: "event \<Rightarrow> bool" where
  "is_bk_status (OnBackup (EvStatus b x)) = True"
| "is_bk_status _ = False"

fun_cases is_bk_statusE: "is_bk_status e"

abbreviation quiet :: "event list \<Rightarrow> bool" where
  "quiet \<equiv> all_events (\<lambda>e. \<not> is_bk_status e)"

abbreviation bkState :: "Backup \<Rightarrow> BackupState" where
  "bkState b \<equiv> bState (bkStatus b)"

definition may_start :: "Backup \<Rightarrow> event list \<Rightarrow> bool" where
  "may_start bk pre \<longleftrightarrow> (\<exists>gs items.
     OnGameServer (EvGet (bkServerKey bk) (Inr gs)) \<in> set pre \<and> running gs \<and>
     OnBackup (EvList (Some (Namespace (bkMeta bk))) [(LabelBackupGameServer, GameServerName (bkSpec bk))]
       (Inr items)) \<in> set pre \<and>
     (\<forall>other \<in> set items. Name (bkMeta other) \<noteq> Name (bkMeta bk) \<longrightarrow> bkState other \<noteq> BackupStateInProgress))"

definition uploaded :: "Backup \<Rightarrow> event list \<Rightarrow> Backup \<Rightarrow> bool" where
  "uploaded bk pre b \<longleftrightarrow> (\<exists>gs out err.
     OnGameServer (EvGet (bkServerKey bk) (Inr gs)) \<in> set pre \<and> running gs \<and>
     OnExec (Namespace (gsMeta gs)) (Name (gsMeta gs))
       [''tar'', ''-cf'', ''-'', ''-C'', backupPathOf gs bk, ''.''] (Inr (out, err, None)) \<in> set pre \<and>
     OnS3 (EvPutObject (S3Bucket (bkStatus b)) (S3Key (bkStatus b)) (Inr (Size (bkStatus b)))) \<in> set pre)"

definition backup_write_ok :: "Backup \<Rightarrow> event list \<Rightarrow> Backup \<Rightarrow> bool" where
  "backup_write_ok bk pre b \<longleftrightarrow>
     (bkState bk = BackupStateUnset \<and> bkState b = BackupStatePending \<or> IsBackupValidTransition (bkState bk) (bkState b)) \<and>
     (bkState b = BackupStateInProgress \<longrightarrow> may_start bk pre) \<and>
     (bkState b = BackupStateCompleted \<longrightarrow> uploaded bk pre b)"

definition backup_steps :: "Backup \<Rightarrow> event list \<Rightarrow> bool" where
  "backup_steps bk tr \<longleftrightarrow> quiet tr \<or> (\<exists>pre fresh b put.
     tr = pre @ [OnBackup (EvGet (bkKey bk) (Inr fresh)), OnBackup (EvStatus b put)] \<and> quiet pre \<and>
     bkMeta b = bkMeta fresh \<and> bkSpec b = bkSpec fresh \<and> backup_write_ok bk pre b)"

lemma steps_quiet: "quiet tr \<Longrightarrow> backup_steps bk tr"
  by (simp add: backup_steps_def)

lemma steps_write:
  "quiet pre \<Longrightarrow> bkMeta b = bkMeta fresh \<Longrightarrow> bkSpec b = bkSpec fresh \<Longrightarrow> backup_write_ok bk pre b \<Longrightarrow>
   backup_steps bk (pre @ [OnBackup (EvGet (bkKey bk) (Inr fresh)), OnBackup (EvStatus b put)])"
  unfolding backup_steps_def by blast

definition same_but_bconditions :: "Backup \<Rightarrow> Backup \<Rightarrow> bool" where
  "same_but_bconditions b b' \<longleftrightarrow> (\<exists>cs. b' = b\<lparr>bkStatus := (bkStatus b)\<lparr>bConditions := cs\<rparr>\<rparr>)"

lemma setBackupCondition_traced:
  "run_state (setBackupCondition (traced r) st re m b) (s, tr) = (b', (s', tr')) \<Longrightarrow>
   same_but_bconditions b b' \<and> tr' = tr"
  by (auto simp: setBackupCondition_def same_but_bconditions_def split: prod.splits)

lemma transitionBackupStatus_traced:
  "run_state (transitionBackupStatus (traced r) st re m b) (s, tr) = (b', (s', tr')) \<Longrightarrow>
   bkMeta b' = bkMeta b \<and> bkSpec b' = bkSpec b \<and> bkState b' = st \<and> tr' = tr"
  unfolding transitionBackupStatus_def Let_def
  by (auto split: if_splits prod.splits dest!: setBackupCondition_traced simp: same_but_bconditions_def)

lemma transitionBackupState_steps:
  assumes "run_state (transitionBackupState (traced r) bk st re m) (s, tr) = (a, (s', tr'))" "quiet tr"
    and "bkState bk = BackupStateUnset \<and> st = BackupStatePending \<or>
      IsBackupValidTransition (bkState bk) st \<and> st = BackupStateFailed"
  shows "backup_steps bk tr'"
  using assms unfolding transitionBackupState_def
  by (auto split: prod.splits sum.splits if_splits dest!: transitionBackupStatus_traced
      simp: backup_write_ok_def steps_quiet intro!: steps_write)

lemma startBackup_steps:
  assumes "run_state (startBackup (traced r) bk) (s, tr) = (a, (s', tr'))" "quiet tr"
    and "bkState bk = BackupStatePending" "may_start bk tr"
  shows "backup_steps bk tr'"
  using assms unfolding startBackup_def
  by (auto split: prod.splits sum.splits dest!: setBackupCondition_traced
      simp: same_but_bconditions_def backup_write_ok_def IsBackupValidTransition_def steps_quiet intro!: steps_write)

lemma completeBackup_steps:
  assumes "run_state (completeBackup (traced r) bk gs bucket k sz) (s, tr) = (a, (s', tr'))" "quiet tr"
    and "bkState bk = BackupStateInProgress"
    and "\<And>b. S3Bucket (bkStatus b) = bucket \<Longrightarrow> S3Key (bkStatus b) = k \<Longrightarrow> Size (bkStatus b) = sz \<Longrightarrow> uploaded bk tr b"
  shows "backup_steps bk tr'"
  using assms unfolding completeBackup_def
  by (auto split: prod.splits sum.splits dest!: setBackupCondition_traced
      simp: same_but_bconditions_def backup_write_ok_def IsBackupValidTransition_def steps_quiet intro!: steps_write)

lemma may_startI:
  assumes "OnGameServer (EvGet (bkServerKey bk) (Inr gs)) \<in> set pre" "running gs"
    "OnBackup (EvList (Some (Namespace (bkMeta bk))) [(LabelBackupGameServer, GameServerName (bkSpec bk))]
       (Inr items)) \<in> set pre" "concurrentBackup bk items = None"
  shows "may_start bk pre"
  using assms unfolding may_start_def concurrentBackup_def by (auto simp: find_None_iff)

lemma IsBackupValidTransition_failed:
  "bkState bk = BackupStatePending \<or> bkState bk = BackupStateInProgress \<Longrightarrow>
   IsBackupValidTransition (bkState bk) BackupStateFailed"
  by (auto simp: IsBackupValidTransition_def)

lemma transition_failed:
  assumes "run_state (transitionBackupState (traced r) bk BackupStateFailed re m) (s, tr) = (a, (s', tr'))"
    "quiet tr" "bkState bk = BackupStatePending \<or> bkState bk = BackupStateInProgress"
  shows "backup_steps bk tr'"
  using transitionBackupState_steps[OF assms(1,2)] IsBackupValidTransition_failed[OF assms(3)] by blast

lemma transition_initial:
  assumes "run_state (transitionBackupState (traced r) bk BackupStatePending re m) (s, tr) = (a, (s', tr'))"
    "quiet tr" "bkState bk = BackupStateUnset"
  shows "backup_steps bk tr'"
  using transitionBackupState_steps[OF assms(1,2)] assms(3) by blast

lemma reconcilePending_steps:
  assumes "run_state (reconcilePending (traced r) bk cfg) (s, tr) = (a, (s', tr'))" "quiet tr"
    and "bkState bk = BackupStateUnset \<or> bkState bk = BackupStatePending"
  shows "backup_steps bk tr'"
  using assms unfolding reconcilePending_def
  by (auto split: prod.splits sum.splits if_splits option.splits simp: steps_quiet
      elim!: transition_failed transition_initial startBackup_steps intro!: may_startI)

lemma ensureS3Client_quiet:
  "emits (\<lambda>e. \<not> is_bk_status e) (ensureS3Client (traced_env env) (traced r) cell cfg)"
  unfolding ensureS3Client_def traced_simps traced_api_simps by (intro emits_intros) auto

lemma performBackup_trace:
  assumes "run_state (performBackup (traced_env env) cb ns pod path k) (s, tr) = (a, (s', tr'))"
  obtains x y where "tr' = tr @ [OnExec ns pod [''tar'', ''-cf'', ''-'', ''-C'', path, ''.''] x, OnS3 (EvPutObject (snd cb) k y)]"
    "\<And>sz. a = Inr sz \<Longrightarrow> \<exists>out err. x = Inr (out, err, None) \<and> y = Inr sz"
  using assms unfolding performBackup_def execTarFromPod_def
  by (auto split: prod.splits sum.splits option.splits simp: execError_def)

lemma uploadedI:
  assumes "OnGameServer (EvGet (bkServerKey bk) (Inr gs)) \<in> set pre" "running gs"
    "OnExec (Namespace (gsMeta gs)) (Name (gsMeta gs))
       [''tar'', ''-cf'', ''-'', ''-C'', backupPathOf gs bk, ''.''] (Inr (out, err, None)) \<in> set pre"
    "OnS3 (EvPutObject (S3Bucket (bkStatus b)) (S3Key (bkStatus b)) (Inr (Size (bkStatus b)))) \<in> set pre"
  shows "uploaded bk pre b"
  using assms unfolding uploaded_def by blast

lemma upload_done:
  assumes run: "run_state (completeBackup (traced r) bk gs (snd cb) k sz) (s1, tr1) = (a, (s', tr'))"
    "run_state (performBackup (traced_env env) cb (Namespace (gsMeta gs)) (Name (gsMeta gs)) (backupPathOf gs bk) k)
      (s0, tr0) = (Inr sz, (s1, tr1))"
    and tr0: "quiet tr0" "OnGameServer (EvGet (bkServerKey bk) (Inr gs)) \<in> set tr0" "running gs"
    and st: "bkState bk = BackupStateInProgress"
  shows "backup_steps bk tr'"
proof -
  from run(2) obtain out err where tr1: "tr1 = tr0 @ [OnExec (Namespace (gsMeta gs)) (Name (gsMeta gs))
      [''tar'', ''-cf'', ''-'', ''-C'', backupPathOf gs bk, ''.''] (Inr (out, err, None)),
      OnS3 (EvPutObject (snd cb) k (Inr sz))]"
    by (rule performBackup_trace) blast
  show ?thesis
    by (rule completeBackup_steps[OF run(1) _ st])
      (use tr0 in \<open>auto simp: tr1 intro!: uploadedI[of _ gs _ out err]\<close>)
qed

lemma emits_evs:
  "emits P m \<Longrightarrow> run_state m (s, tr) = (a, (s', tr')) \<Longrightarrow> \<exists>evs. tr' = tr @ evs \<and> all_events P evs"
  by (auto elim: emitsD)

lemma performBackup_quiet:
  "emits (\<lambda>e. \<not> is_bk_status e) (performBackup (traced_env env) cb ns pod path k)"
  unfolding performBackup_def execTarFromPod_def traced_env_simps by (intro emits_intros) auto

lemma performBackup_failed:
  "run_state (performBackup (traced_env env) cb ns pod path k) (s, tr) = (Inl e, (s', tr')) \<Longrightarrow>
   \<exists>evs. tr' = tr @ evs \<and> quiet evs"
  by (rule emits_evs[OF performBackup_quiet])

lemma transferBackup_steps:
  assumes "run_state (transferBackup (traced_env env) (traced r) cb bk gs cfg) (s, tr) = (a, (s', tr'))"
    and "quiet tr" "OnGameServer (EvGet (bkServerKey bk) (Inr gs)) \<in> set tr" "running gs"
    and "bkState bk = BackupStateInProgress"
  shows "backup_steps bk tr'"
  using assms unfolding transferBackup_def
  by (auto split: prod.splits sum.splits if_splits
      dest!: performBackup_failed elim!: transition_failed upload_done)

lemma LoadAdminConfig_quiet:
  "emits (\<lambda>e. \<not> is_bk_status e) (LoadAdminConfig (traced_client c) (traced_runtime rt) ns)"
  unfolding LoadAdminConfig_def traced_simps traced_api_simps by (intro emits_intros) auto

lemmas quiet_evs = emits_evs[OF ensureS3Client_quiet] emits_evs[OF LoadAdminConfig_quiet]

lemma reconcileInProgress_steps:
  assumes "run_state (reconcileInProgress (traced_env env) (traced r) cell bk cfg) (s, tr) = (a, (s', tr'))"
    and "quiet tr" "bkState bk = BackupStateInProgress"
  shows "backup_steps bk tr'"
  using assms unfolding reconcileInProgress_def
  by (auto split: prod.splits sum.splits if_splits simp: steps_quiet dest!: quiet_evs
      elim!: transition_failed transferBackup_steps)

lemma reconcileBackup_steps:
  assumes "run_state (reconcileBackup (traced_env env) (traced r) cell bk) (s, tr) = (a, (s', tr'))" "quiet tr"
  shows "backup_steps bk tr'"
  using assms unfolding reconcileBackup_def traced_simps
  by (auto split: prod.splits sum.splits if_splits BackupState.splits simp: steps_quiet IsBackupTerminal_def dest!: quiet_evs
      elim!: reconcilePending_steps reconcileInProgress_steps)

section \<open>Schedules and retention make no status writes\<close>

fun scheduler_call :: "event \<Rightarrow> bool" where
  "scheduler_call (OnBackup (EvGet k x)) = False"
| "scheduler_call (OnBackup (EvStatus b x)) = False"
| "scheduler_call (OnBackup (EvUpdate b x)) = False"
| "scheduler_call _ = True"

lemma scheduler_quiet: "scheduler_call e \<Longrightarrow> \<not> is_bk_status e"
  by (auto elim!: is_bk_statusE)

lemma enforceRetention_emits:
  "emits scheduler_call (enforceRetention (traced_env env) (traced r) cell ns n m)"
  unfolding enforceRetention_def removeOld_def traced_simps traced_api_simps traced_env_simps
  by (intro emits_intros) auto

lemma reconcileGameServerSchedule_emits:
  "emits scheduler_call (reconcileGameServerSchedule (traced_env env) (traced r) cell gs)"
  unfolding reconcileGameServerSchedule_def createScheduled_def retainBackups_def LoadAdminConfig_def
    traced_simps traced_api_simps traced_env_simps
  by (intro emits_intros enforceRetention_emits) auto

lemma quiet_no_status [simp]: "quiet pre \<Longrightarrow> OnBackup (EvStatus b x) \<notin> set pre"
  by (auto dest: all_eventsD)

lemma emits_backup_state:
  "(\<And>t. st = BackupStateOther t \<Longrightarrow> emits P (f t)) \<Longrightarrow> emits P a \<Longrightarrow> emits P b \<Longrightarrow> emits P c \<Longrightarrow>
   emits P d \<Longrightarrow> emits P e \<Longrightarrow>
   emits P (case st of BackupStateUnset \<Rightarrow> a | BackupStatePending \<Rightarrow> b | BackupStateInProgress \<Rightarrow> c
     | BackupStateCompleted \<Rightarrow> d | BackupStateFailed \<Rightarrow> e | BackupStateOther t \<Rightarrow> f t)"
  by (cases st) auto

lemma transitionBackupState_emits: "emits (\<lambda>_. True) (transitionBackupState (traced r) bk st re m)"
  unfolding transitionBackupState_def transitionBackupStatus_def setBackupCondition_def traced_simps traced_api_simps
  by (intro emits_intros) auto

lemma reconcileBackup_emits: "emits (\<lambda>_. True) (reconcileBackup (traced_env env) (traced r) cell bk)"
  unfolding reconcileBackup_def reconcilePending_def startBackup_def reconcileInProgress_def ensureS3Client_def
    transferBackup_def performBackup_def execTarFromPod_def completeBackup_def setBackupCondition_def
    LoadAdminConfig_def traced_simps traced_api_simps traced_env_simps
  by (intro emits_intros emits_backup_state transitionBackupState_emits) auto

text \<open>C11: One reconcile of a backup writes a status at most once, as its last call, onto a copy of the backup
  it has just fetched, with metadata and spec unchanged. The new state is \<^verbatim>\<open>Pending\<close> for a backup without a state,
  or a valid next state of the backup read at the start. \<^verbatim>\<open>InProgress\<close> is written only after the
  server was seen running and no other backup of it was listed in progress; \<^verbatim>\<open>Completed\<close> only after the
  archive was read from the running server's Pod without error and uploaded under exactly the bucket,
  key and size recorded. For any client, S3 service and Pod.\<close>

theorem backupReconcile_status:
  assumes run: "run_state (backupReconcile (traced_env env) (traced r) cell req) (s, []) = (a, (s', tr))"
    and wr: "OnBackup (EvStatus b put) \<in> set tr"
  shows "\<exists>bk pre fresh. hd tr = OnBackup (EvGet req (Inr bk)) \<and>
    tr = pre @ [OnBackup (EvGet (bkKey bk) (Inr fresh)), OnBackup (EvStatus b put)] \<and> quiet pre \<and>
    bkMeta b = bkMeta fresh \<and> bkSpec b = bkSpec fresh \<and> backup_write_ok bk pre b"
proof (cases "HasPrefix (keyName req) ''schedule-''")
  case True
  let ?k = "req\<lparr>keyName := TrimPrefix (keyName req) ''schedule-''\<rparr>"
  have "emits scheduler_call (backupReconcile (traced_env env) (traced r) cell req)"
    using True unfolding backupReconcile_def traced_simps traced_api_simps
    by (auto intro!: emits_intros reconcileGameServerSchedule_emits)
  from emitsD[OF this run] wr have "scheduler_call (OnBackup (EvStatus b put))"
    by (metis all_eventsD append_Nil)
  then show ?thesis by simp
next
  case False
  obtain got s1 where g: "run_state (kget (backups (Client r)) req) s = (got, s1)" by (metis prod.collapse)
  show ?thesis
  proof (cases got)
    case (Inl err)
    with run g False wr show ?thesis by (auto simp: backupReconcile_def split: if_splits)
  next
    case (Inr bk)
    let ?e = "OnBackup (EvGet req (Inr bk))"
    from run g False Inr have r': "run_state (reconcileBackup (traced_env env) (traced r) cell bk) (s1, [?e]) = (a, (s', tr))"
      by (simp add: backupReconcile_def)
    from reconcileBackup_steps[OF this] have "backup_steps bk tr" by simp
    moreover from wr have "\<not> quiet tr" using quiet_no_status by blast
    ultimately obtain pre fresh b' put' where
      p: "tr = pre @ [OnBackup (EvGet (bkKey bk) (Inr fresh)), OnBackup (EvStatus b' put')]"
      "quiet pre" "bkMeta b' = bkMeta fresh" "bkSpec b' = bkSpec fresh" "backup_write_ok bk pre b'"
      unfolding backup_steps_def by blast
    have "OnBackup (EvStatus b put) = OnBackup (EvStatus b' put')"
      using wr quiet_no_status[OF p(2), of b put] unfolding p(1) by simp
    then have "b' = b" "put' = put" by simp_all
    moreover
    have "hd tr = ?e" using emitsD[OF reconcileBackup_emits r'] by (metis append_Cons list.sel(1))
    ultimately show ?thesis using p by blast
  qed
qed

section \<open>A concrete environment\<close>

definition hour :: int where "hour = 3600 * second"

definition demoEnv :: "(cluster, unit) BackupEnv" where
  "demoEnv = \<lparr>NewS3 = (\<lambda>_ _ _ _. Inr ()), BucketExists = (\<lambda>_ _. ret (Inr True)),
     MakeBucket = (\<lambda>_ _ _. ret (Inr ())),
     PutObject = (\<lambda>_ _ _ st. ret (case snd st of None \<Rightarrow> Inr (int (length (fst st))) | Some e \<Rightarrow> Inl e)),
     GetObject = (\<lambda>_ _ _. ret (Inr ''archive'')), RemoveObject = (\<lambda>_ _ _. ret (Inr ())),
     PodExec = (\<lambda>_ _ _ _. ret (Inr (''archive'', [], None))), Gzip = (\<lambda>x. x), Gunzip = Inr,
     CronParse = (\<lambda>_. Inr (\<lambda>t. (t div hour + 1) * hour)),
     SortNewest = sort_key (\<lambda>b. - creationOf b)\<rparr>"

definition demoBackup :: "BackupState \<Rightarrow> Backup" where
  "demoBackup st = \<lparr>bkMeta = NewMeta ''user-alice'' ''mc-backup-1'' [(LabelBackupGameServer, ''mc'')],
     bkSpec = \<lparr>GameServerName = ''mc'', BackupPaths = []\<rparr>, bkStatus = BackupStatus0\<lparr>bState := st\<rparr>\<rparr>"

definition demoBackupKey :: key where
  "demoBackupKey = \<lparr>keyNamespace = ''user-alice'', keyName = ''mc-backup-1''\<rparr>"

definition backupCluster :: "BackupState \<Rightarrow> cluster" where
  "backupCluster st = (demoCluster GameServerStateReady)\<lparr>cBackups := [demoBackup st],
     cSecrets := [\<lparr>secMeta = NewMeta ''kterodactyl-system'' s3CredentialsSecretName [], secType = [],
       secData = [(''accessKeyID'', ''k''), (''secretAccessKey'', ''s'')]\<rparr>]\<rparr>"

theorem backupReconcile_status_witness:
  "\<exists>a s' tr b put bk pre. run_state (backupReconcile (traced_env demoEnv) (traced cluster_reconciler) None demoBackupKey)
       (backupCluster BackupStateInProgress, []) = (a, (s', tr)) \<and>
     OnBackup (EvStatus b put) \<in> set tr \<and> bkState b = BackupStateCompleted \<and> uploaded bk pre b"
proof -
  let ?run = "run_state (backupReconcile (traced_env demoEnv) (traced cluster_reconciler) None demoBackupKey)
       (backupCluster BackupStateInProgress, [])"
  obtain a s' tr where run: "?run = (a, (s', tr))" by (metis prod.collapse)
  have "case last (snd (snd ?run)) of OnBackup (EvStatus b put) \<Rightarrow> bkState b = BackupStateCompleted | _ \<Rightarrow> False"
    "snd (snd ?run) \<noteq> []"
    by code_simp+
  then obtain b put where "last tr = OnBackup (EvStatus b put)" "bkState b = BackupStateCompleted" "tr \<noteq> []"
    unfolding run by (auto split: event.splits kevent.splits)
  then have b: "OnBackup (EvStatus b put) \<in> set tr" "bkState b = BackupStateCompleted" by (metis last_in_set)+
  from backupReconcile_status[OF run b(1)] b run show ?thesis
    unfolding backup_write_ok_def by blast
qed

end
