(* ===== verification/BackupSchedule.thy ===== *)
theory BackupSchedule
  imports BackupSafety "HOL-Library.Multiset"
begin

text \<open>
  Retention and scheduled backups: what a retention run deletes, when a scheduled backup is due, and
  how schedule requests are told from requests for backups. The contracts of \<^verbatim>\<open>sort.Slice\<close> and of a cron
  schedule are the locales \<open>slice_sort\<close> and \<open>cron_schedule\<close>.
\<close>

section \<open>Concrete schedules\<close>

definition scheduledGS :: GameServer where
  "scheduledGS = (demoGS GameServerStateReady)\<lparr>gsMeta := (demoMeta ''user-alice'' ''mc'')\<lparr>
     Annotations := [(AnnotationBackupSchedule, ''0 * * * *'')]\<rparr>\<rparr>"

definition retentionCluster :: cluster where
  "retentionCluster = cluster0\<lparr>cBackups := map (\<lambda>n. (demoBackup BackupStateCompleted)\<lparr>bkMeta :=
     (NewMeta ''user-alice'' (''b'' @ nat_str n) [(LabelBackupGameServer, ''mc'')])
       \<lparr>CreationTimestamp := Some (int n)\<rparr>\<rparr>) [1, 2, 3]\<rparr>"

section \<open>Retention\<close>

text \<open>The documented contract of \<^verbatim>\<open>sort.Slice\<close>: a permutation, in order.\<close>

locale slice_sort =
  fixes sort_slice :: "'a list \<Rightarrow> 'a list" and before :: "'a \<Rightarrow> 'a \<Rightarrow> bool"
  assumes permuted: "mset (sort_slice xs) = mset xs"
    and ordered: "sorted_wrt (\<lambda>x y. \<not> before y x) (sort_slice xs)"
begin

lemma split_at:
  "mset (take n (sort_slice xs)) + mset (drop n (sort_slice xs)) = mset xs"
  "x \<in> set (take n (sort_slice xs)) \<Longrightarrow> y \<in> set (drop n (sort_slice xs)) \<Longrightarrow> \<not> before y x"
proof -
  show "mset (take n (sort_slice xs)) + mset (drop n (sort_slice xs)) = mset xs"
    by (metis append_take_drop_id mset_append permuted)
  have "sorted_wrt (\<lambda>x y. \<not> before y x) (take n (sort_slice xs) @ drop n (sort_slice xs))"
    by (simp add: ordered)
  then show "x \<in> set (take n (sort_slice xs)) \<Longrightarrow> y \<in> set (drop n (sort_slice xs)) \<Longrightarrow> \<not> before y x"
    unfolding sorted_wrt_append by blast
qed

end

definition newer :: "Backup \<Rightarrow> Backup \<Rightarrow> bool" where
  "newer a b \<longleftrightarrow> creationOf a > creationOf b"

interpretation demo_sort: slice_sort "SortNewest demoEnv" newer
proof
  fix xs :: "Backup list"
  show "mset (SortNewest demoEnv xs) = mset xs" by (simp add: demoEnv_def)
  have "sorted (map (\<lambda>b. - creationOf b) (SortNewest demoEnv xs))" by (simp add: demoEnv_def)
  then show "sorted_wrt (\<lambda>x y. \<not> newer y x) (SortNewest demoEnv xs)"
    unfolding sorted_map by (rule sorted_wrt_mono_rel[rotated]) (simp add: newer_def)
qed

text \<open>The backups deleted in a trace, in order.\<close>

fun deleted_backups :: "event list \<Rightarrow> Backup list" where
  "deleted_backups [] = []"
| "deleted_backups (OnBackup (EvDelete b g x) # tr) = b # deleted_backups tr"
| "deleted_backups (_ # tr) = deleted_backups tr"

lemma deleted_backups_append [simp]: "deleted_backups (xs @ ys) = deleted_backups xs @ deleted_backups ys"
  by (induction xs rule: deleted_backups.induct) auto

lemma removeOld_trace:
  "run_state (removeOld (traced_env env) (traced r) cell old) (s, tr) = (u, (s', tr')) \<Longrightarrow>
   deleted_backups tr' = deleted_backups tr @ [old]"
  unfolding removeOld_def by (auto split: prod.splits option.splits if_splits)

lemma removeAll_trace:
  "run_state (forEach olds (removeOld (traced_env env) (traced r) cell)) (s, tr) = (u, (s', tr')) \<Longrightarrow>
   deleted_backups tr' = deleted_backups tr @ olds"
proof (induction olds arbitrary: s tr)
  case (Cons old olds)
  then obtain s1 tr1 where a: "run_state (removeOld (traced_env env) (traced r) cell old) (s, tr) = ((), (s1, tr1))"
    and b: "run_state (forEach olds (removeOld (traced_env env) (traced r) cell)) (s1, tr1) = (u, (s', tr'))"
    by (auto split: prod.splits)
  from Cons.IH[OF b] removeOld_trace[OF a] show ?case by simp
qed simp

lemma enforceRetention_trace:
  assumes "run_state (enforceRetention (traced_env env) (traced r) cell ns n maxCount) (s, []) = (Inr (), (s', tr))"
    "0 < maxCount"
  obtains items where "OnBackup (EvList (Some ns) [(LabelBackupGameServer, n)] (Inr items)) \<in> set tr"
    "deleted_backups tr = retentionVictims env maxCount items"
proof -
  let ?l = "klist (backups (Client r)) (Some ns) [(LabelBackupGameServer, n)]"
  obtain l s1 where l: "run_state ?l s = (l, s1)" by (metis prod.collapse)
  show thesis
  proof (cases l)
    case (Inl err)
    with assms l show thesis by (simp add: enforceRetention_def)
  next
    case (Inr items)
    let ?e = "OnBackup (EvList (Some ns) [(LabelBackupGameServer, n)] (Inr items))"
    obtain s2 tr2 where f: "run_state (forEach (retentionVictims (traced_env env) maxCount items)
        (removeOld (traced_env env) (traced r) cell)) (s1, [?e]) = ((), (s2, tr2))"
      by (metis old.unit.exhaust prod.collapse)
    with assms l Inr have tr: "tr = tr2" by (simp add: enforceRetention_def)
    have "emits scheduler_call (forEach (retentionVictims (traced_env env) maxCount items)
        (removeOld (traced_env env) (traced r) cell))"
      unfolding removeOld_def traced_simps traced_api_simps traced_env_simps by (intro emits_intros) auto
    from emitsD[OF this f] have "?e \<in> set tr" unfolding tr by (metis Un_iff list.set_intros(1) set_append)
    moreover from removeAll_trace[OF f] have "deleted_backups tr = retentionVictims env maxCount items"
      by (simp add: tr retentionVictims_def Let_def)
    ultimately show thesis by (rule that)
  qed
qed



section \<open>Schedules\<close>

text \<open>The documented contract of a cron schedule: the next activation is later, on a full second.\<close>

locale cron_schedule =
  fixes sched :: "gotime \<Rightarrow> gotime"
  assumes later: "t < sched t" and full_second: "sched t mod second = 0"
begin

lemma next_after_truncation: "t < sched (t - t mod second)"
proof -
  let ?u = "t - t mod second"
  have "?u mod second = 0" by (simp add: minus_mod_eq_mult_div)
  moreover have "?u < sched ?u" by (rule later)
  ultimately have "?u + second \<le> sched ?u"
    using full_second[of ?u] zdvd_imp_le[of second "sched ?u - ?u"] 
    by (simp add: mod_eq_dvd_iff[symmetric] second_def dvd_diff mod_0_imp_dvd)
  moreover have "t mod second < second" by (simp add: second_def)
  ultimately show ?thesis by linarith
qed

end

interpretation hourly: cron_schedule "\<lambda>t. (t div hour + 1) * hour"
proof
  fix t
  have h: "0 < hour" by (simp add: hour_def second_def)
  have "t = t div hour * hour + t mod hour" "t mod hour < hour" using h by simp_all
  then show "t < (t div hour + 1) * hour" unfolding distrib_right mult_1 by linarith
  show "(t div hour + 1) * hour mod second = 0" by (simp add: hour_def mult.assoc[symmetric])
qed

lemma FormatRFC3339_nonempty [simp]: "FormatRFC3339 t \<noteq> []"
  by (simp add: FormatRFC3339_def)

lemma stamp_read_back:
  assumes "0 \<le> Year now" "Year now < 10000"
  shows "lastBackupOf (stampBackup now gs) = now - now mod second"
  using ParseRFC3339_Format[OF assms]
  by (simp add: lastBackupOf_def stampBackup_def Let_def)

lemma stamped_fields [simp]:
  "running (stampBackup now gs) \<longleftrightarrow> running gs"
  "mget (Annotations (gsMeta (stampBackup now gs))) AnnotationBackupSchedule
     = mget (Annotations (gsMeta gs)) AnnotationBackupSchedule"
  by (simp_all add: running_def stampBackup_def util_constant_defs)

lemma nextScheduled_stamped:
  assumes "cron_schedule sched" "0 \<le> now" "Year now < 10000" "0 \<le> Year now"
  shows "nextScheduled sched (stampBackup now gs) = sched (now - now mod second)"
    "now < nextScheduled sched (stampBackup now gs)"
proof -
  have "zeroTime < now - now mod second"
    using assms(2) by (simp add: zeroTime_def unixToInternalDays_def secondsPerDay_def second_def minus_mod_eq_div_mult)
  then show eq: "nextScheduled sched (stampBackup now gs) = sched (now - now mod second)"
    by (simp add: nextScheduled_def stamp_read_back[OF assms(4,3)])
  show "now < nextScheduled sched (stampBackup now gs)"
    unfolding eq by (rule cron_schedule.next_after_truncation[OF assms(1)])
qed



text \<open>A cron expression that parses but never fires (the cron library then returns the zero time) does not
  disable backups: every reconcile of the running server goes straight to creating one.\<close>

theorem schedule_without_activation:
  assumes "CronParse env (mget (Annotations (gsMeta gs)) AnnotationBackupSchedule) = Inr sched"
      "\<And>t. sched t = zeroTime"
    and "running gs" "mget (Annotations (gsMeta gs)) AnnotationBackupSchedule \<noteq> []"
    and "run_state (Now (Runtime r)) s = (now, s1)" "0 \<le> now"
  shows "run_state (reconcileGameServerSchedule env r cell gs) s = run_state (createScheduled env r cell gs sched now) s1"
proof -
  have "\<not> now < nextScheduled sched gs"
    using assms(2,6) by (simp add: nextScheduled_def zeroTime_def unixToInternalDays_def secondsPerDay_def second_def)
  with assms show ?thesis by (simp add: reconcileGameServerSchedule_def Let_def)
qed

theorem schedule_without_activation_witness:
  "run_state (reconcileGameServerSchedule (demoEnv\<lparr>CronParse := \<lambda>_. Inr (\<lambda>_. zeroTime)\<rparr>) cluster_reconciler None scheduledGS)
     (demoCluster GameServerStateReady) =
   run_state (createScheduled (demoEnv\<lparr>CronParse := \<lambda>_. Inr (\<lambda>_. zeroTime)\<rparr>) cluster_reconciler None scheduledGS (\<lambda>_. zeroTime) 0)
     (demoCluster GameServerStateReady)"
proof -
  have "running scheduledGS" "mget (Annotations (gsMeta scheduledGS)) AnnotationBackupSchedule \<noteq> []" by code_simp+
  moreover have "run_state (Now (Runtime cluster_reconciler)) (demoCluster GameServerStateReady)
      = (0, demoCluster GameServerStateReady)" by (simp add: cluster_runtime_def demoCluster_def cluster0_def)
  ultimately show ?thesis
    by (intro schedule_without_activation) simp_all
qed

text \<open>A request whose name starts with \<^verbatim>\<open>schedule-\<close> is taken for a schedule: no Backup is read, updated or
  given a status. A Backup object with such a name is therefore never processed. For any client.\<close>

theorem schedule_name_shadows_backup:
  assumes "HasPrefix (keyName req) ''schedule-''"
    and "run_state (backupReconcile (traced_env env) (traced r) cell req) (s, []) = (a, (s', tr))"
    and "e \<in> set tr"
  shows "scheduler_call e"
proof -
  have "emits scheduler_call (backupReconcile (traced_env env) (traced r) cell req)"
    using assms(1) unfolding backupReconcile_def traced_simps traced_api_simps
    by (auto intro!: emits_intros reconcileGameServerSchedule_emits)
  from emitsD[OF this assms(2)] assms(3) show ?thesis by (metis all_eventsD append_Nil)
qed

theorem schedule_name_shadows_backup_witness:
  "\<exists>a s' e tr. run_state (backupReconcile (traced_env demoEnv) (traced cluster_reconciler) None
       \<lparr>keyNamespace = ''user-alice'', keyName = ''schedule-mc-backup-1''\<rparr>) (backupCluster BackupStatePending, []) = (a, (s', e # tr)) \<and>
     scheduler_call e"
proof -
  let ?req = "\<lparr>keyNamespace = ''user-alice'', keyName = ''schedule-mc-backup-1''\<rparr>"
  let ?run = "run_state (backupReconcile (traced_env demoEnv) (traced cluster_reconciler) None ?req) (backupCluster BackupStatePending, [])"
  obtain a s' tr where run': "?run = (a, (s', tr))" by (metis prod.collapse)
  have "length (snd (snd ?run)) = 1" by code_simp
  then obtain e where "tr = [e]" unfolding run' by (cases tr) auto
  with run' have run: "?run = (a, (s', [e]))" by simp
  moreover have "HasPrefix (keyName ?req) ''schedule-''" by code_simp
  ultimately have "scheduler_call e" using schedule_name_shadows_backup[OF _ run, of e] by simp
  with run show ?thesis by blast
qed

text \<open>The synthetic request that the watch makes for a scheduled game server is recognised as a schedule
  request and leads back to that very game server.\<close>

theorem scheduleRequests_routed:
  "req \<in> set (scheduleRequests gs) \<Longrightarrow> HasPrefix (keyName req) ''schedule-'' \<and>
     req\<lparr>keyName := TrimPrefix (keyName req) ''schedule-''\<rparr> = gsKey gs"
  unfolding scheduleRequests_def gsKey_def key_of_def
  by (auto split: if_splits simp: HasPrefix_append[of "''schedule-''", simplified] TrimPrefix_append[of "''schedule-''", simplified])

theorem scheduleRequests_routed_witness:
  "HasPrefix (keyName (hd (scheduleRequests scheduledGS))) ''schedule-'' \<and> gsKey scheduledGS = demoKey"
proof -
  have "scheduleRequests scheduledGS \<noteq> []" "gsKey scheduledGS = demoKey" by code_simp+
  with scheduleRequests_routed[of "hd (scheduleRequests scheduledGS)" scheduledGS] show ?thesis by simp
qed

end
