(* ===== verification/Users.thy ===== *)
theory Users
  imports Util Cluster
begin

text \<open>
  Users: \<^verbatim>\<open>internal/auth/auth.go\<close>, \<^verbatim>\<open>errors.go\<close> and \<^verbatim>\<open>store.go\<close>. A user is kept in a Secret named after
  the username. The interface \<^verbatim>\<open>UserService\<close> is the locale \<open>user_service\<close>, over an abstract map from
  names to users; \<^verbatim>\<open>UserStore\<close> implements it on any object store (\<open>user_store\<close>), hence on the
  reference cluster.
\<close>

section \<open>Errors\<close>

definition ErrUserExists :: gerr where "ErrUserExists = Sentinel ''user already exists''"
definition ErrUserNotFound :: gerr where "ErrUserNotFound = Sentinel ''user not found''"
definition ErrInvalidCredentials :: gerr where "ErrInvalidCredentials = Sentinel ''invalid credentials''"
definition ErrInvalidToken :: gerr where "ErrInvalidToken = Sentinel ''invalid token''"
definition ErrTokenExpired :: gerr where "ErrTokenExpired = Sentinel ''token expired''"
definition ErrInviteExpired :: gerr where "ErrInviteExpired = Sentinel ''invitation expired''"
definition ErrInviteUsed :: gerr where "ErrInviteUsed = Sentinel ''invitation already used''"
definition ErrInvalidUsername :: gerr where "ErrInvalidUsername = Sentinel ''invalid username''"
definition ErrRegistrationDisabled :: gerr where
  "ErrRegistrationDisabled = Sentinel ''registration is disabled''"

lemmas auth_error_defs = ErrUserExists_def ErrUserNotFound_def ErrInvalidCredentials_def
  ErrInvalidToken_def ErrTokenExpired_def ErrInviteExpired_def ErrInviteUsed_def
  ErrInvalidUsername_def ErrRegistrationDisabled_def

section \<open>Usernames\<close>

definition RoleAdmin :: string where "RoleAdmin = ''admin''"
definition RoleUser :: string where "RoleUser = ''user''"

record User =
  Username :: string
  Email :: string
  PasswordHash :: string
  Role :: string
  CreatedAt :: string
  InvitedBy :: string

definition is_lower_alnum :: "char \<Rightarrow> bool" where
  "is_lower_alnum c \<longleftrightarrow> is_digit c \<or> 97 \<le> (of_char c :: nat) \<and> (of_char c :: nat) \<le> 122"

text \<open>The regular expression \<^verbatim>\<open>^[a-z0-9]([a-z0-9-]*[a-z0-9])?$\<close>.\<close>

definition dnsLabel :: "string \<Rightarrow> bool" where
  "dnsLabel s = (case s of
       [] \<Rightarrow> False
     | c # r \<Rightarrow> is_lower_alnum c \<and>
         (r = [] \<or> list_all (\<lambda>x. is_lower_alnum x \<or> x = CHR ''-'') (butlast r) \<and> is_lower_alnum (last r)))"

definition reservedUsernames :: "string list" where
  "reservedUsernames = [''admin'', ''system'', ''operator'', ''default'', ''kube'']"

definition ValidateUsername :: "string \<Rightarrow> gerr option" where
  "ValidateUsername username =
     (if length username = 0 then
        Some (Wrap [] ErrInvalidUsername '': username must not be empty'')
      else if length username > 63 then
        Some (Wrap [] ErrInvalidUsername '': username must be 63 characters or fewer'')
      else if \<not> dnsLabel username then
        Some (Wrap [] ErrInvalidUsername ('': username must be a valid DNS label (lowercase ''
          @ ''alphanumeric and hyphens, must start and end with alphanumeric)''))
      else if username \<in> set reservedUsernames then
        Some (Wrap [] ErrInvalidUsername ('': username '' @ [CHR 0x22] @ username @ [CHR 0x22] @ '' is reserved''))
      else None)"

lemma ValidateUsername_error: "ValidateUsername u = Some e \<Longrightarrow> errors_Is e ErrInvalidUsername"
  by (auto simp: ValidateUsername_def ErrInvalidUsername_def split: if_splits)

lemma is_lower_alnum_safe: "is_lower_alnum c \<Longrightarrow> c \<noteq> CHR ''/'' \<and> c \<noteq> CHR ''.'' \<and> c \<noteq> CHR '' ''"
  by (auto simp: is_lower_alnum_def is_digit_def)

lemma dnsLabel_chars: "dnsLabel s \<Longrightarrow> c \<in> set s \<Longrightarrow> is_lower_alnum c \<or> c = CHR ''-''"
proof (cases s)
  case (Cons x r)
  assume "dnsLabel s" "c \<in> set s"
  with Cons show ?thesis
    by (cases r rule: rev_cases) (auto simp: dnsLabel_def list_all_iff)
qed simp

section \<open>The store\<close>

definition LabelResourceType :: string where "LabelResourceType = ''kterodactyl.io/resource-type''"
definition LabelUserName :: string where "LabelUserName = ''kterodactyl.io/user''"
definition LabelRole :: string where "LabelRole = ''kterodactyl.io/role''"
definition ResourceTypeUser :: string where "ResourceTypeUser = ''user''"

lemmas auth_label_defs = LabelResourceType_def LabelUserName_def LabelRole_def ResourceTypeUser_def

record 's UserStore =
  storeSecrets :: "('s, Secret) kapi"
  storeNamespace :: string

definition userKey :: "string \<Rightarrow> string \<Rightarrow> key" where
  "userKey namespace username = \<lparr>keyNamespace = namespace, keyName = ''user-'' @ username\<rparr>"

definition userSecret :: "string \<Rightarrow> User \<Rightarrow> Secret" where
  "userSecret namespace user = \<lparr>
     secMeta = NewMeta namespace (''user-'' @ Username user)
       [(LabelManagedByKterodactyl, ManagedByValue), (LabelResourceType, ResourceTypeUser),
        (LabelUserName, Username user), (LabelRole, Role user)],
     secType = ''Opaque'',
     secData = [(''email'', Email user), (''password-hash'', PasswordHash user),
       (''created-at'', CreatedAt user), (''invited-by'', InvitedBy user)]\<rparr>"

definition userFromSecret :: "Secret \<Rightarrow> User" where
  "userFromSecret secret = \<lparr>
     Username = mget (Labels (secMeta secret)) LabelUserName,
     Email = mget (secData secret) ''email'',
     PasswordHash = mget (secData secret) ''password-hash'',
     Role = mget (Labels (secMeta secret)) LabelRole,
     CreatedAt = mget (secData secret) ''created-at'',
     InvitedBy = mget (secData secret) ''invited-by''\<rparr>"

definition CreateUser :: "'s UserStore \<Rightarrow> User \<Rightarrow> ('s, gerr + unit) state" where
  "CreateUser st user = (case ValidateUsername (Username user) of
       Some err \<Rightarrow> ret (Inl err)
     | None \<Rightarrow> do {
         made \<leftarrow> kcreate (storeSecrets st) (userSecret (storeNamespace st) user);
         case made of
           Inl err \<Rightarrow> if IsAlreadyExists err then ret (Inl ErrUserExists)
             else ret (Inl (errf ''failed to create user secret: '' err))
         | Inr _ \<Rightarrow> ret (Inr ()) })"

definition GetUser :: "'s UserStore \<Rightarrow> string \<Rightarrow> ('s, gerr + User) state" where
  "GetUser st username = do {
     got \<leftarrow> kget (storeSecrets st) (userKey (storeNamespace st) username);
     case got of
       Inl err \<Rightarrow> if IsNotFound err then ret (Inl ErrUserNotFound)
         else ret (Inl (errf ''failed to get user secret: '' err))
     | Inr secret \<Rightarrow> ret (Inr (userFromSecret secret)) }"

definition userLabels :: gomap where
  "userLabels = [(LabelManagedByKterodactyl, ManagedByValue), (LabelResourceType, ResourceTypeUser)]"

definition GetUserByEmail :: "'s UserStore \<Rightarrow> string \<Rightarrow> ('s, gerr + User) state" where
  "GetUserByEmail st email = do {
     l \<leftarrow> klist (storeSecrets st) (Some (storeNamespace st)) userLabels;
     case l of
       Inl err \<Rightarrow> ret (Inl (errf ''failed to list user secrets: '' err))
     | Inr items \<Rightarrow> (case List.find (\<lambda>x. mget (secData x) ''email'' = email) items of
         None \<Rightarrow> ret (Inl ErrUserNotFound)
       | Some x \<Rightarrow> ret (Inr (userFromSecret x))) }"

definition ListUsers :: "'s UserStore \<Rightarrow> ('s, gerr + User list) state" where
  "ListUsers st = do {
     l \<leftarrow> klist (storeSecrets st) (Some (storeNamespace st)) userLabels;
     case l of
       Inl err \<Rightarrow> ret (Inl (errf ''failed to list user secrets: '' err))
     | Inr items \<Rightarrow> ret (Inr (map userFromSecret items)) }"

definition DeleteUser :: "'s UserStore \<Rightarrow> string \<Rightarrow> ('s, gerr + unit) state" where
  "DeleteUser st username = do {
     got \<leftarrow> kget (storeSecrets st) (userKey (storeNamespace st) username);
     case got of
       Inl err \<Rightarrow> if IsNotFound err then ret (Inl ErrUserNotFound)
         else ret (Inl (errf ''failed to get user secret for deletion: '' err))
     | Inr secret \<Rightarrow> do {
         del \<leftarrow> kdelete (storeSecrets st) secret None;
         case del of
           Inl err \<Rightarrow> ret (Inl (errf ''failed to delete user secret: '' err))
         | Inr _ \<Rightarrow> ret (Inr ()) } }"

section \<open>The contract\<close>

text \<open>
  What \<^verbatim>\<open>UserService\<close> promises, over the map \<open>users\<close> from usernames to users. A user can be deleted
  when nothing holds its record back (\<open>deletable\<close>).
\<close>

locale user_service =
  fixes create :: "User \<Rightarrow> ('s, gerr + unit) state"
    and lookup :: "string \<Rightarrow> ('s, gerr + User) state"
    and remove :: "string \<Rightarrow> ('s, gerr + unit) state"
    and users :: "'s \<Rightarrow> string \<Rightarrow> User option"
    and deletable :: "'s \<Rightarrow> string \<Rightarrow> bool"
  assumes create_new: "ValidateUsername (Username u) = None \<Longrightarrow> users s (Username u) = None \<Longrightarrow>
      \<exists>s'. run_state (create u) s = (Inr (), s') \<and> users s' = (users s)(Username u \<mapsto> u) \<and>
        deletable s' (Username u)"
    and create_taken: "ValidateUsername (Username u) = None \<Longrightarrow> users s (Username u) = Some v \<Longrightarrow>
      run_state (create u) s = (Inl ErrUserExists, s)"
    and create_invalid: "ValidateUsername (Username u) = Some e \<Longrightarrow> run_state (create u) s = (Inl e, s)"
    and lookup_found: "users s n = Some u \<Longrightarrow> run_state (lookup n) s = (Inr u, s)"
    and lookup_missing: "users s n = None \<Longrightarrow> run_state (lookup n) s = (Inl ErrUserNotFound, s)"
    and remove_found: "users s n = Some u \<Longrightarrow> deletable s n \<Longrightarrow>
      \<exists>s'. run_state (remove n) s = (Inr (), s') \<and> users s' = (users s)(n := None)"
    and remove_missing: "users s n = None \<Longrightarrow> run_state (remove n) s = (Inl ErrUserNotFound, s)"
begin

lemma create_then_lookup:
  assumes "ValidateUsername (Username u) = None" "users s (Username u) = None"
  shows "\<exists>s'. run_state (create u) s = (Inr (), s') \<and>
    run_state (lookup (Username u)) s' = (Inr u, s') \<and>
    (\<forall>n. n \<noteq> Username u \<longrightarrow> fst (run_state (lookup n) s') = fst (run_state (lookup n) s))"
proof -
  from create_new[OF assms] obtain s' where
    s': "run_state (create u) s = (Inr (), s')" "users s' = (users s)(Username u \<mapsto> u)" by blast
  have "fst (run_state (lookup n) s') = fst (run_state (lookup n) s)" if "n \<noteq> Username u" for n
    using that s'(2) lookup_found lookup_missing by (cases "users s n") simp_all
  with s' lookup_found[of s' "Username u"] show ?thesis by auto
qed

lemma create_twice:
  assumes "ValidateUsername (Username u) = None" "users s (Username u) = None" "Username v = Username u"
  shows "\<exists>s'. run_state (create u) s = (Inr (), s') \<and> run_state (create v) s' = (Inl ErrUserExists, s')"
proof -
  from create_new[OF assms(1,2)] obtain s' where
    "run_state (create u) s = (Inr (), s')" "users s' = (users s)(Username u \<mapsto> u)" by blast
  with create_taken[of v s' u] assms show ?thesis by auto
qed

lemma create_remove:
  assumes "ValidateUsername (Username u) = None" "users s (Username u) = None"
  shows "\<exists>s1 s2. run_state (create u) s = (Inr (), s1) \<and> run_state (remove (Username u)) s1 = (Inr (), s2) \<and>
    users s2 = users s"
proof -
  from create_new[OF assms] obtain s1 where s1: "run_state (create u) s = (Inr (), s1)"
    "users s1 = (users s)(Username u \<mapsto> u)" "deletable s1 (Username u)" by blast
  with remove_found[of s1 "Username u" u] assms(2) show ?thesis by (auto simp: fun_upd_idem)
qed

end

section \<open>The implementation\<close>

text \<open>The part of a Secret that a healthy server keeps as written.\<close>

definition secret_content ::
  "Secret \<Rightarrow> (string \<times> string \<times> gomap \<times> gomap \<times> string list) \<times> string \<times> gomap" where
  "secret_content x = (user_meta (secMeta x), secType x, secData x)"

lemma userFromSecret_content:
  "secret_content x = secret_content y \<Longrightarrow>
   userFromSecret x = userFromSecret y \<and> Finalizers (secMeta x) = Finalizers (secMeta y)"
  by (simp add: secret_content_def user_meta_def userFromSecret_def)

lemma userFromSecret_userSecret [simp]: "userFromSecret (userSecret ns u) = u"
  by (simp add: userFromSecret_def userSecret_def util_constant_defs auth_label_defs)

lemma userSecret_key: "key_of (secMeta (userSecret ns u)) = userKey ns (Username u)"
  by (simp add: userSecret_def key_of_def userKey_def)

lemma userKey_inj [simp]: "userKey ns a = userKey ns b \<longleftrightarrow> a = b"
  by (simp add: userKey_def)

locale user_store = object_store "storeSecrets st" objects secMeta secret_content
  for st :: "'s UserStore" and objects :: "'s \<Rightarrow> key \<Rightarrow> Secret option"
begin

definition users_of :: "'s \<Rightarrow> string \<Rightarrow> User option" where
  "users_of s n = map_option userFromSecret (objects s (userKey (storeNamespace st) n))"

definition deletable_of :: "'s \<Rightarrow> string \<Rightarrow> bool" where
  "deletable_of s n \<longleftrightarrow> (\<forall>x. objects s (userKey (storeNamespace st) n) = Some x \<longrightarrow> Finalizers (secMeta x) = [])"

lemma CreateUser_new:
  assumes "ValidateUsername (Username u) = None" "users_of s (Username u) = None"
  shows "\<exists>s'. run_state (CreateUser st u) s = (Inr (), s') \<and> users_of s' = (users_of s)(Username u \<mapsto> u) \<and>
    deletable_of s' (Username u)"
proof -
  let ?x = "userSecret (storeNamespace st) u" and ?k = "userKey (storeNamespace st) (Username u)"
  from assms(2) have "objects s (key_of (secMeta ?x)) = None"
    by (simp add: users_of_def userSecret_key)
  from create_new[OF this] obtain x' s' where x': "run_state (kcreate (storeSecrets st) ?x) s = (Inr x', s')"
      "secret_content x' = secret_content ?x" "objects s' = (objects s)(?k \<mapsto> x')"
    by (auto simp: userSecret_key)
  have fin: "Finalizers (secMeta x') = []"
    using userFromSecret_content[OF x'(2)] by (simp add: userSecret_def)
  have "users_of s' = (users_of s)(Username u \<mapsto> u)"
    using userFromSecret_content[OF x'(2)] x'(3) by (auto simp: users_of_def fun_eq_iff)
  with x' fin assms(1) show ?thesis by (simp add: CreateUser_def deletable_of_def)
qed

lemma CreateUser_taken:
  assumes "ValidateUsername (Username u) = None" "users_of s (Username u) = Some v"
  shows "run_state (CreateUser st u) s = (Inl ErrUserExists, s)"
proof -
  from assms(2) obtain y where "objects s (key_of (secMeta (userSecret (storeNamespace st) u))) = Some y"
    by (auto simp: users_of_def userSecret_key)
  from create_existing[OF this] assms(1) show ?thesis by (auto simp: CreateUser_def)
qed

lemma GetUser_cases:
  "users_of s n = Some u \<Longrightarrow> run_state (GetUser st n) s = (Inr u, s)"
  "users_of s n = None \<Longrightarrow> run_state (GetUser st n) s = (Inl ErrUserNotFound, s)"
  using get_found[of s "userKey (storeNamespace st) n"] get_missing[of s "userKey (storeNamespace st) n"]
  by (auto simp: GetUser_def users_of_def)

lemma DeleteUser_found:
  assumes "users_of s n = Some u" "deletable_of s n"
  shows "\<exists>s'. run_state (DeleteUser st n) s = (Inr (), s') \<and> users_of s' = (users_of s)(n := None)"
proof -
  let ?k = "userKey (storeNamespace st) n"
  from assms(1) obtain x where x: "objects s ?k = Some x" by (auto simp: users_of_def)
  with assms(2) have fin: "Finalizers (secMeta x) = []" by (simp add: deletable_of_def)
  from object_key[OF x] delete_existing[of s x x None] x fin obtain s' where
    d: "run_state (kdelete (storeSecrets st) x None) s = (Inr (), s')" "objects s' = (objects s)(?k := None)"
    by auto
  then have "users_of s' = (users_of s)(n := None)" by (auto simp: users_of_def fun_eq_iff)
  with d get_found[OF x] show ?thesis by (simp add: DeleteUser_def)
qed

lemma DeleteUser_missing:
  "users_of s n = None \<Longrightarrow> run_state (DeleteUser st n) s = (Inl ErrUserNotFound, s)"
  using get_missing[of s "userKey (storeNamespace st) n"] by (auto simp: DeleteUser_def users_of_def)

end

sublocale user_store \<subseteq> svc: user_service "CreateUser st" "GetUser st" "DeleteUser st" users_of deletable_of
proof
  show "run_state (CreateUser st u) s = (Inl e, s)" if "ValidateUsername (Username u) = Some e" for u e s
    using that by (simp add: CreateUser_def)
qed (fact CreateUser_new CreateUser_taken GetUser_cases DeleteUser_found DeleteUser_missing)+

definition cluster_users :: "cluster UserStore" where
  "cluster_users = \<lparr>storeSecrets = store_api KSecret, storeNamespace = ''kterodactyl-system''\<rparr>"

interpretation cu: user_store cluster_users "store_find KSecret"
proof -
  have "object_store (store_api KSecret) (store_find KSecret) secMeta
      (\<lambda>x. (user_meta (secMeta x), secType x, secData x))"
    using ksec.st.object_store_axioms by simp
  then show "user_store cluster_users (store_find KSecret)"
    by (simp add: user_store_def cluster_users_def secret_content_def[abs_def])
qed

section \<open>Properties\<close>

lemma dnsLabel_prefix:
  assumes "p \<noteq> []" "is_lower_alnum (hd p)" "list_all (\<lambda>x. is_lower_alnum x \<or> x = CHR ''-'') p" "dnsLabel s"
  shows "dnsLabel (p @ s)"
proof -
  from assms obtain c r where p: "p = c # r" by (cases p) auto
  from assms(4) have s: "s \<noteq> []" "is_lower_alnum (last s)" by (auto simp: dnsLabel_def split: list.splits)
  have "list_all (\<lambda>x. is_lower_alnum x \<or> x = CHR ''-'') (butlast s)"
    using dnsLabel_chars[OF assms(4)] by (auto simp: list_all_iff dest: in_set_butlastD)
  with s assms p show ?thesis by (simp add: dnsLabel_def butlast_append)
qed

lemma dnsLabel_UserNamespace: "dnsLabel u \<Longrightarrow> dnsLabel (UserNamespace u)"
  unfolding UserNamespace_def by (rule dnsLabel_prefix) (simp_all add: is_lower_alnum_def)

context user_service
begin

lemma lifecycle:
  assumes "ValidateUsername (Username u) = None" "users s (Username u) = None"
  shows "\<exists>s'. run_state (create u) s = (Inr (), s') \<and> run_state (lookup (Username u)) s' = (Inr u, s') \<and>
    (\<forall>v. Username v = Username u \<longrightarrow> run_state (create v) s' = (Inl ErrUserExists, s')) \<and>
    (\<forall>n. n \<noteq> Username u \<longrightarrow> fst (run_state (lookup n) s') = fst (run_state (lookup n) s)) \<and>
    (\<exists>s''. run_state (remove (Username u)) s' = (Inr (), s'') \<and>
       run_state (lookup (Username u)) s'' = (Inl ErrUserNotFound, s''))"
proof -
  from create_new[OF assms] obtain s' where s': "run_state (create u) s = (Inr (), s')"
    "users s' = (users s)(Username u \<mapsto> u)" "deletable s' (Username u)" by blast
  from remove_found[of s' "Username u" u] s' obtain s'' where
    "run_state (remove (Username u)) s' = (Inr (), s'')" "users s'' (Username u) = None" by auto
  with s' lookup_missing create_then_lookup[OF assms] create_taken[of _ s' u] assms(1)
  show ?thesis by simp
qed

end

context user_store
begin

lemma roundtrip:
  assumes "ValidateUsername (Username u) = None" "objects s (userKey (storeNamespace st) (Username u)) = None"
  shows "\<exists>s'. run_state (CreateUser st u) s = (Inr (), s') \<and>
    run_state (GetUser st (Username u)) s' = (Inr u, s') \<and>
    (\<forall>v. Username v = Username u \<longrightarrow> run_state (CreateUser st v) s' = (Inl ErrUserExists, s')) \<and>
    (\<forall>n. n \<noteq> Username u \<longrightarrow> fst (run_state (GetUser st n) s') = fst (run_state (GetUser st n) s)) \<and>
    (\<exists>s''. run_state (DeleteUser st (Username u)) s' = (Inr (), s'') \<and>
       run_state (GetUser st (Username u)) s'' = (Inl ErrUserNotFound, s''))"
  using assms by (intro svc.lifecycle) (simp_all add: users_of_def)

end

text \<open>C24: The user store, on any healthy store of Secrets. Creating a user with a valid, unused name
  succeeds; looking the name up then returns exactly the user that was stored, every later attempt to
  take the name is refused with \<^verbatim>\<open>ErrUserExists\<close> and changes nothing, every other lookup answers as
  before, and deleting the user makes the name unknown again.\<close>

theorem user_roundtrip:
  assumes st: "user_store st objects"
    and u: "ValidateUsername (Username u) = None" "objects s (userKey (storeNamespace st) (Username u)) = None"
  shows "\<exists>s'. run_state (CreateUser st u) s = (Inr (), s') \<and>
    run_state (GetUser st (Username u)) s' = (Inr u, s') \<and>
    (\<forall>v. Username v = Username u \<longrightarrow> run_state (CreateUser st v) s' = (Inl ErrUserExists, s')) \<and>
    (\<forall>n. n \<noteq> Username u \<longrightarrow> fst (run_state (GetUser st n) s') = fst (run_state (GetUser st n) s)) \<and>
    (\<exists>s''. run_state (DeleteUser st (Username u)) s' = (Inr (), s'') \<and>
       run_state (GetUser st (Username u)) s'' = (Inl ErrUserNotFound, s''))"
  by (rule user_store.roundtrip[OF st u])

definition demoUser :: User where
  "demoUser = \<lparr>Username = ''alice'', Email = ''alice@example.org'', PasswordHash = ''h'',
     Role = RoleUser, CreatedAt = ''2025-01-01T00:00:00Z'', InvitedBy = []\<rparr>"

theorem user_roundtrip_witness:
  "\<exists>s'. run_state (CreateUser cluster_users demoUser) cluster0 = (Inr (), s') \<and>
     run_state (GetUser cluster_users ''alice'') s' = (Inr demoUser, s')"
proof -
  have v: "ValidateUsername (Username demoUser) = None" by code_simp
  have "store_find KSecret cluster0 k = None" for k
    by (simp add: store_find_def KSecret_def cluster0_def)
  from user_roundtrip[OF cu.user_store_axioms v this] show ?thesis
    by (auto simp: demoUser_def)
qed

text \<open>C39: An accepted username is a DNS label of at most 63 bytes that is not reserved, and the user's
  namespace is a DNS label too; but the prefix counts, so the namespace exceeds the 63 bytes a
  Kubernetes name may have for every accepted username of more than 58 bytes.\<close>

theorem username_namespace:
  assumes "ValidateUsername u = None"
  shows "dnsLabel u \<and> length u \<le> 63 \<and> u \<notin> set reservedUsernames \<and> dnsLabel (UserNamespace u) \<and>
    (length (UserNamespace u) \<le> 63 \<longleftrightarrow> length u \<le> 58)"
  using assms dnsLabel_UserNamespace[of u]
  by (auto simp: ValidateUsername_def UserNamespace_def split: if_splits)

theorem username_namespace_witness:
  "ValidateUsername (replicate 60 CHR ''a'') = None \<and> \<not> length (UserNamespace (replicate 60 CHR ''a'')) \<le> 63"
proof -
  have "ValidateUsername (replicate 60 CHR ''a'') = None" by code_simp
  from username_namespace[OF this] this show ?thesis by simp
qed

end
