(* ===== verification/Invites.thy ===== *)
theory Invites
  imports Users GoTime
begin

text \<open>
  Invitations: \<^verbatim>\<open>internal/auth/invite.go\<close>. An invitation is a Secret with a random token, an email
  address and an expiry time; redeeming it deletes the Secret. The random source, the clock and the
  mail library are arguments. Times are printed in the zone of the process, taken to be UTC.
\<close>

section \<open>Data\<close>

definition inviteTokenLength :: nat where "inviteTokenLength = 32"
definition inviteSecretPrefix :: string where "inviteSecretPrefix = ''invite-''"
definition ResourceTypeInvite :: string where "ResourceTypeInvite = ''invite''"
definition AnnotationExpiresAt :: string where "AnnotationExpiresAt = ''kterodactyl.io/expires-at''"

record SMTPConfig =
  smtpHost :: string
  smtpPort :: int
  smtpFrom :: string
  smtpUsername :: string
  smtpPassword :: string

text \<open>The mail library: the two address checks, the client and the delivery of a message.\<close>

record MailMessage =
  mailFrom :: string
  mailTo :: string
  mailSubject :: string
  mailBody :: string

record 's Mailer =
  CheckFrom :: "string \<Rightarrow> gerr option"
  CheckTo :: "string \<Rightarrow> gerr option"
  NewMailClient :: "string \<Rightarrow> int \<Rightarrow> gerr option"
  DialAndSend :: "string \<Rightarrow> int \<Rightarrow> (string \<times> string) option \<Rightarrow> MailMessage \<Rightarrow> ('s, gerr option) state"

record 's InviteService =
  inviteSecrets :: "('s, Secret) kapi"
  inviteNamespace :: string
  smtp :: "SMTPConfig option"
  panelURL :: string
  inviteMailer :: "'s Mailer"
  inviteRand :: "nat \<Rightarrow> ('s, gerr + string) state"
  inviteNow :: "('s, gotime) state"

record Invitation =
  invToken :: string
  invEmail :: string
  invInvitedBy :: string
  invExpiresAt :: string

text \<open>
  \<^verbatim>\<open>time.Duration(expirationHours) * time.Hour\<close> is a product of 64-bit integers and wraps around.
\<close>

definition hourDuration :: int where "hourDuration = 3600 * second"

definition wrap64 :: "int \<Rightarrow> int" where
  "wrap64 i = (i + 2 ^ 63) mod 2 ^ 64 - 2 ^ 63"

definition inviteExpiry :: "gotime \<Rightarrow> int \<Rightarrow> gotime" where
  "inviteExpiry now expirationHours = now + wrap64 (expirationHours * hourDuration)"

definition hexToken :: "string \<Rightarrow> string" where
  "hexToken bytes = EncodeToString (map of_char bytes)"

definition inviteLabels :: gomap where
  "inviteLabels = [(LabelManagedByKterodactyl, ManagedByValue), (LabelResourceType, ResourceTypeInvite)]"

definition inviteSecret :: "string \<Rightarrow> string \<Rightarrow> string \<Rightarrow> string \<Rightarrow> string \<Rightarrow> Secret" where
  "inviteSecret namespace token email invitedBy expiresAt = \<lparr>
     secMeta = (NewMeta namespace (inviteSecretPrefix @ take 12 token) inviteLabels)
       \<lparr>Annotations := [(AnnotationExpiresAt, expiresAt)]\<rparr>,
     secType = ''Opaque'',
     secData = [(''token'', token), (''email'', email), (''invited-by'', invitedBy)]\<rparr>"

section \<open>Mail\<close>

definition inviteBody :: "string \<Rightarrow> string" where
  "inviteBody link = (let nl = [CHR 0x0A]; q = [CHR 0x22] in
     ''<!DOCTYPE html>'' @ nl @ ''<html>'' @ nl @ ''<body>'' @ nl
     @ ''<h2>You've been invited to Kterodactyl!</h2>'' @ nl
     @ ''<p>Click the link below to create your account and start managing your game servers:</p>'' @ nl
     @ ''<p><a href='' @ q @ link @ q @ ''>Register Now</a></p>'' @ nl
     @ ''<p>If you didn't expect this invitation, you can safely ignore this email.</p>'' @ nl
     @ ''</body>'' @ nl @ ''</html>'')"

definition sendInviteEmail :: "'s InviteService \<Rightarrow> SMTPConfig \<Rightarrow> string \<Rightarrow> string \<Rightarrow> ('s, gerr option) state" where
  "sendInviteEmail sv cfg email token =
     (let registrationLink = panelURL sv @ ''/register?token='' @ token; m = inviteMailer sv in
      case CheckFrom m (smtpFrom cfg) of
        Some err \<Rightarrow> ret (Some (errf ''failed to set from address: '' err))
      | None \<Rightarrow> (case CheckTo m email of
          Some err \<Rightarrow> ret (Some (errf ''failed to set to address: '' err))
        | None \<Rightarrow> (case NewMailClient m (smtpHost cfg) (smtpPort cfg) of
            Some err \<Rightarrow> ret (Some (errf ''failed to create mail client: '' err))
          | None \<Rightarrow> do {
              sent \<leftarrow> DialAndSend m (smtpHost cfg) (smtpPort cfg)
                (if smtpUsername cfg \<noteq> [] then Some (smtpUsername cfg, smtpPassword cfg) else None)
                \<lparr>mailFrom = smtpFrom cfg, mailTo = email,
                 mailSubject = ''You've been invited to Kterodactyl'', mailBody = inviteBody registrationLink\<rparr>;
              ret (map_option (errf ''failed to send invite email: '') sent) })))"

section \<open>Creating and redeeming\<close>

definition CreateInvite :: "'s InviteService \<Rightarrow> string \<Rightarrow> string \<Rightarrow> int \<Rightarrow> ('s, gerr + Invitation) state" where
  "CreateInvite sv email invitedBy expirationHours = do {
     bytes \<leftarrow> inviteRand sv inviteTokenLength;
     case bytes of
       Inl err \<Rightarrow> ret (Inl (errf ''failed to generate invite token: '' err))
     | Inr b \<Rightarrow> do {
         now \<leftarrow> inviteNow sv;
         let token = hexToken b;
         let expiresAtStr = FormatRFC3339 (inviteExpiry now expirationHours);
         made \<leftarrow> kcreate (inviteSecrets sv)
           (inviteSecret (inviteNamespace sv) token email invitedBy expiresAtStr);
         case made of
           Inl err \<Rightarrow> ret (Inl (errf ''failed to create invite secret: '' err))
         | Inr _ \<Rightarrow> do {
             (case smtp sv of
                None \<Rightarrow> ret ()
              | Some cfg \<Rightarrow> do { _ \<leftarrow> sendInviteEmail sv cfg email token; ret () });
             ret (Inr \<lparr>invToken = token, invEmail = email, invInvitedBy = invitedBy,
               invExpiresAt = expiresAtStr\<rparr>) } } }"

definition expiryOf :: "Secret \<Rightarrow> gotime option" where
  "expiryOf secret = Option.bind (map_of (Annotations (secMeta secret)) AnnotationExpiresAt) ParseRFC3339"

definition inviteExpired :: "'s InviteService \<Rightarrow> Secret \<Rightarrow> ('s, bool) state" where
  "inviteExpired sv secret = (case expiryOf secret of
       None \<Rightarrow> ret False
     | Some expiresAt \<Rightarrow> do { now \<leftarrow> inviteNow sv; ret (expiresAt < now) })"

definition RedeemInvite :: "'s InviteService \<Rightarrow> string \<Rightarrow> ('s, gerr + string) state" where
  "RedeemInvite sv token = do {
     l \<leftarrow> klist (inviteSecrets sv) (Some (inviteNamespace sv)) inviteLabels;
     case l of
       Inl err \<Rightarrow> ret (Inl (errf ''failed to list invite secrets: '' err))
     | Inr items \<Rightarrow> (case List.find (\<lambda>x. mget (secData x) ''token'' = token) items of
         None \<Rightarrow> ret (Inl ErrInvalidToken)
       | Some secret \<Rightarrow> do {
           expired \<leftarrow> inviteExpired sv secret;
           if expired then do {
             _ \<leftarrow> kdelete (inviteSecrets sv) secret None;
             ret (Inl ErrInviteExpired) }
           else do {
             del \<leftarrow> kdelete (inviteSecrets sv) secret None;
             case del of
               Inl err \<Rightarrow> ret (Inl (errf ''failed to delete redeemed invite secret: '' err))
             | Inr _ \<Rightarrow> ret (Inr (mget (secData secret) ''email'')) } }) }"

section \<open>Bounds\<close>

lemma wrap64_eq_iff: "wrap64 i = i \<longleftrightarrow> - (2 ^ 63) \<le> i \<and> i < 2 ^ 63"
proof
  assume "wrap64 i = i"
  then have "(i + 2 ^ 63) mod 2 ^ 64 = i + 2 ^ 63" by (simp add: wrap64_def)
  moreover have "0 \<le> (i + 2 ^ 63) mod 2 ^ 64" "(i + 2 ^ 63) mod 2 ^ 64 < (2 ^ 64 :: int)" by simp_all
  ultimately show "- (2 ^ 63) \<le> i \<and> i < 2 ^ 63" by simp
qed (simp add: wrap64_def)

text \<open>The lifetime of an invitation. The expiry time lies the configured number of hours after the
  creation exactly when that number is at most 2562047 in size (some 292 years); beyond it the product
  of 64-bit integers wraps around, and the next number of hours gives a time in the past.\<close>

theorem inviteExpiry_exact:
  "(inviteExpiry now h = now + h * hourDuration \<longleftrightarrow> \<bar>h\<bar> \<le> 2562047) \<and> inviteExpiry now 2562048 < now"
proof
  show "inviteExpiry now h = now + h * hourDuration \<longleftrightarrow> \<bar>h\<bar> \<le> 2562047"
    unfolding inviteExpiry_def using wrap64_eq_iff[of "h * hourDuration"]
    by (auto simp: hourDuration_def second_def)
  have "wrap64 (2562048 * hourDuration) < 0" by (simp add: wrap64_def hourDuration_def second_def)
  then show "inviteExpiry now 2562048 < now" by (simp add: inviteExpiry_def)
qed

section \<open>Redemption\<close>

definition traced_invites :: "'s InviteService \<Rightarrow> 's tracing InviteService" where
  "traced_invites sv = \<lparr>inviteSecrets = traced_api OnSecret (inviteSecrets sv),
     inviteNamespace = inviteNamespace sv, smtp = smtp sv, panelURL = panelURL sv,
     inviteMailer = \<lparr>CheckFrom = CheckFrom (inviteMailer sv), CheckTo = CheckTo (inviteMailer sv),
       NewMailClient = NewMailClient (inviteMailer sv),
       DialAndSend = (\<lambda>h p a m. lift_op (DialAndSend (inviteMailer sv) h p a m) (\<lambda>_. []))\<rparr>,
     inviteRand = (\<lambda>n. lift_op (inviteRand sv n) (\<lambda>_. [])), inviteNow = lift_op (inviteNow sv) (\<lambda>_. [])\<rparr>"

lemma traced_invites_simps [simp]:
  "inviteSecrets (traced_invites sv) = traced_api OnSecret (inviteSecrets sv)"
  "inviteNamespace (traced_invites sv) = inviteNamespace sv"
  "inviteNow (traced_invites sv) = lift_op (inviteNow sv) (\<lambda>_. [])"
  by (simp_all add: traced_invites_def)

lemma inviteExpired_traced:
  "run_state (inviteExpired (traced_invites sv) x) (s, tr) = (b, (s', tr')) \<Longrightarrow>
   tr' = tr \<and> (\<not> b \<longrightarrow> (\<forall>t. expiryOf x = Some t \<longrightarrow> (\<exists>now. run_state (inviteNow sv) s = (now, s') \<and> now \<le> t)))"
  by (auto simp: inviteExpired_def split: option.splits prod.splits)

text \<open>A successful redemption, for any client: the token was that of a listed invitation, the address
  returned is the one stored with it, the invitation had not expired when the clock was read, and the
  server confirmed the deletion of that very Secret, which is the only call besides the listing.\<close>

theorem RedeemInvite_success:
  assumes run: "run_state (RedeemInvite (traced_invites sv) token) (s, []) = (Inr email, (s', tr))"
  shows "\<exists>items x s1 s2. tr = [OnSecret (EvList (Some (inviteNamespace sv)) inviteLabels (Inr items)),
      OnSecret (EvDelete x None (Inr ()))] \<and> x \<in> set items \<and>
    mget (secData x) ''token'' = token \<and> mget (secData x) ''email'' = email \<and>
    (\<forall>t. expiryOf x = Some t \<longrightarrow> (\<exists>now. run_state (inviteNow sv) s1 = (now, s2) \<and> now \<le> t))"
  using run unfolding RedeemInvite_def
  by (fastforce simp: run_simps find_Some_iff dest!: inviteExpired_traced
      split: prod.splits sum.splits option.splits if_splits)

lemma find_unique: "x \<in> set xs \<Longrightarrow> P x \<Longrightarrow> (\<And>y. y \<in> set xs \<Longrightarrow> P y \<Longrightarrow> y = x) \<Longrightarrow> List.find P xs = Some x"
  by (metis find_None_iff find_Some_iff not_None_eq nth_mem)

text \<open>
  A healthy invitation service: a healthy store of Secrets that reading the clock, drawing random
  bytes and sending mail leave alone.
\<close>

locale invite_store = object_store "inviteSecrets sv" objects secMeta secret_content
  for sv :: "'s InviteService" and objects :: "'s \<Rightarrow> key \<Rightarrow> Secret option" +
  assumes now_keeps: "run_state (inviteNow sv) s = (t, s') \<Longrightarrow> objects s' = objects s"
    and rand_keeps: "run_state (inviteRand sv n) s = (b, s') \<Longrightarrow> objects s' = objects s"
    and mail_keeps: "run_state (DialAndSend (inviteMailer sv) h p a m) s = (r, s') \<Longrightarrow> objects s' = objects s"
begin

definition has_token :: "string \<Rightarrow> Secret \<Rightarrow> bool" where
  "has_token token x \<longleftrightarrow> mget (secData x) ''token'' = token"

lemma mail_step_keeps: "run_state (sendInviteEmail sv cfg email token) s = (r, s') \<Longrightarrow> objects s' = objects s"
  by (auto simp: sendInviteEmail_def Let_def dest: mail_keeps split: option.splits prod.splits)

lemma CreateInvite_stores:
  assumes "run_state (CreateInvite sv email by h) s = (Inr i, s1)"
  shows "\<exists>x k. objects s k = None \<and> objects s1 = (objects s)(k \<mapsto> x) \<and> keyNamespace k = inviteNamespace sv \<and>
    secret_content x = secret_content (inviteSecret (inviteNamespace sv) (invToken i) email by (invExpiresAt i))"
proof -
  from assms obtain b s2 now s3 x s4 where
    b: "run_state (inviteRand sv inviteTokenLength) s = (Inr b, s2)" and
    now: "run_state (inviteNow sv) s2 = (now, s3)" and
    x: "run_state (kcreate (inviteSecrets sv) (inviteSecret (inviteNamespace sv) (hexToken b) email by
      (FormatRFC3339 (inviteExpiry now h)))) s3 = (Inr x, s4)" and
    i: "invToken i = hexToken b" "invExpiresAt i = FormatRFC3339 (inviteExpiry now h)" and
    m: "objects s1 = objects s4"
    by (auto simp: CreateInvite_def Let_def dest: mail_step_keeps split: prod.splits sum.splits option.splits)
  let ?y = "inviteSecret (inviteNamespace sv) (hexToken b) email by (FormatRFC3339 (inviteExpiry now h))"
  have same: "objects s3 = objects s" using rand_keeps[OF b] now_keeps[OF now] by simp
  have free: "objects s3 (key_of (secMeta ?y)) = None"
    using create_existing[of s3 ?y] x by (cases "objects s3 (key_of (secMeta ?y))") auto
  have key: "keyNamespace (key_of (secMeta ?y)) = inviteNamespace sv"
    by (simp add: inviteSecret_def key_of_def)
  from create_new[OF free] x obtain "secret_content x = secret_content ?y"
    "objects s4 = (objects s3)(key_of (secMeta ?y) \<mapsto> x)" by auto
  with same m free key i show ?thesis by metis
qed

lemma inviteExpired_run:
  assumes "run_state (inviteNow sv) s = (now, s')"
  obtains s1 where "run_state (inviteExpired sv x) s = ((case expiryOf x of None \<Rightarrow> False | Some t \<Rightarrow> t < now), s1)"
    "objects s1 = objects s"
  using assms now_keeps[OF assms] by (cases "expiryOf x") (auto simp: inviteExpired_def)

lemma listed_invites:
  obtains items where
    "run_state (klist (inviteSecrets sv) (Some (inviteNamespace sv)) inviteLabels) s = (Inr items, s)"
    "\<forall>y. y \<in> set items \<longleftrightarrow> (\<exists>k. objects s k = Some y \<and> keyNamespace k = inviteNamespace sv \<and>
       matches_labels inviteLabels (Labels (secMeta y)))"
proof -
  from list_objects[of "Some (inviteNamespace sv)" inviteLabels s] obtain items where
    "run_state (klist (inviteSecrets sv) (Some (inviteNamespace sv)) inviteLabels) s = (Inr items, s)"
    "set items = {y. \<exists>k. objects s k = Some y \<and> (Some (inviteNamespace sv) = None \<or>
       Some (inviteNamespace sv) = Some (keyNamespace k)) \<and> matches_labels inviteLabels (Labels (secMeta y))}"
    by blast
  then show thesis by (intro that[of items]) auto
qed

text \<open>Redeeming when one invitation carries the token, and when none does.\<close>

lemma RedeemInvite_found:
  assumes x: "objects s k = Some x" "keyNamespace k = inviteNamespace sv"
      "matches_labels inviteLabels (Labels (secMeta x))" "Finalizers (secMeta x) = []" "has_token token x"
    and only: "\<And>k' y. objects s k' = Some y \<Longrightarrow> has_token token y \<Longrightarrow> k' = k"
    and now: "run_state (inviteNow sv) s = (now, s0)" and e: "expiryOf x = Some e"
  shows "\<exists>s'. run_state (RedeemInvite sv token) s =
      ((if e < now then Inl ErrInviteExpired else Inr (mget (secData x) ''email'')), s') \<and>
    objects s' = (objects s)(k := None)"
proof -
  obtain items where
    l: "run_state (klist (inviteSecrets sv) (Some (inviteNamespace sv)) inviteLabels) s = (Inr items, s)" and
    set: "\<forall>y. y \<in> set items \<longleftrightarrow> (\<exists>k. objects s k = Some y \<and> keyNamespace k = inviteNamespace sv \<and>
       matches_labels inviteLabels (Labels (secMeta y)))"
    using listed_invites[of s] by blast
  from set x have mem: "x \<in> set items" by blast
  have tok: "mget (secData x) ''token'' = token" using x(5) by (simp add: has_token_def)
  have uniq: "y = x" if "y \<in> set items" "mget (secData y) ''token'' = token" for y
    using that only x(1) set by (fastforce simp: has_token_def)
  have find: "List.find (\<lambda>x. mget (secData x) ''token'' = token) items = Some x"
    by (rule find_unique, rule mem, rule tok, rule uniq)
  obtain s1 where ex: "run_state (inviteExpired sv x) s = (e < now, s1)" "objects s1 = objects s"
    using inviteExpired_run[OF now, of x] e by auto
  from delete_existing[of s1 x x None] object_key[OF x(1)] x ex(2) obtain s' where
    "run_state (kdelete (inviteSecrets sv) x None) s1 = (Inr (), s')" "objects s' = (objects s)(k := None)" by auto
  with l find ex show ?thesis by (simp add: RedeemInvite_def)
qed

lemma RedeemInvite_unknown:
  assumes "\<And>k y. objects s k = Some y \<Longrightarrow> \<not> has_token token y"
  shows "run_state (RedeemInvite sv token) s = (Inl ErrInvalidToken, s)"
proof -
  obtain items where
    l: "run_state (klist (inviteSecrets sv) (Some (inviteNamespace sv)) inviteLabels) s = (Inr items, s)" and
    set: "\<forall>y. y \<in> set items \<longleftrightarrow> (\<exists>k. objects s k = Some y \<and> keyNamespace k = inviteNamespace sv \<and>
       matches_labels inviteLabels (Labels (secMeta y)))"
    using listed_invites[of s] by blast
  from set assms have "List.find (\<lambda>x. mget (secData x) ''token'' = token) items = None"
    by (auto simp: find_None_iff has_token_def)
  with l show ?thesis by (simp add: RedeemInvite_def)
qed

lemma invite_once:
  assumes made: "run_state (CreateInvite sv email by h) s = (Inr i, s1)"
    and fresh: "\<And>k y. objects s k = Some y \<Longrightarrow> mget (secData y) ''token'' \<noteq> invToken i"
    and now: "run_state (inviteNow sv) s1 = (now, s0)"
    and e: "ParseRFC3339 (invExpiresAt i) = Some e"
  shows "\<exists>s2. run_state (RedeemInvite sv (invToken i)) s1 =
      ((if e < now then Inl ErrInviteExpired else Inr email), s2) \<and> objects s2 = objects s \<and>
     run_state (RedeemInvite sv (invToken i)) s2 = (Inl ErrInvalidToken, s2)"
proof -
  from CreateInvite_stores[OF made] obtain x k where x: "objects s k = None" "objects s1 = (objects s)(k \<mapsto> x)"
    "keyNamespace k = inviteNamespace sv"
    "secret_content x = secret_content (inviteSecret (inviteNamespace sv) (invToken i) email by (invExpiresAt i))" by blast
  then have c: "matches_labels inviteLabels (Labels (secMeta x))" "Finalizers (secMeta x) = []"
    "has_token (invToken i) x" "mget (secData x) ''email'' = email" "expiryOf x = Some e"
    using e by (auto simp: secret_content_def user_meta_def inviteSecret_def has_token_def expiryOf_def
        inviteLabels_def auth_label_defs util_constant_defs)
  have only: "k' = k" if "objects s1 k' = Some y" "has_token (invToken i) y" for k' y
    using that fresh x(2) by (auto simp: has_token_def split: if_splits)
  have "\<exists>s2. run_state (RedeemInvite sv (invToken i)) s1 =
      ((if e < now then Inl ErrInviteExpired else Inr (mget (secData x) ''email'')), s2) \<and>
      objects s2 = (objects s1)(k := None)"
    by (rule RedeemInvite_found[OF _ x(3) c(1,2,3) only now c(5)]) (simp_all add: x(2))
  then obtain s2 where s2: "run_state (RedeemInvite sv (invToken i)) s1 =
      ((if e < now then Inl ErrInviteExpired else Inr email), s2)" "objects s2 = objects s"
    using x(1,2) c(4) by (auto simp: fun_upd_idem)
  with RedeemInvite_unknown[of s2 "invToken i"] fresh show ?thesis by (simp add: has_token_def)
qed

end

text \<open>C25: An invitation works once. On a healthy store, the token returned by \<^verbatim>\<open>CreateInvite\<close>, if no other
  Secret carries it, redeems to the invited address up to the second shown as its expiry and is refused
  as expired afterwards; either way the invitation is then gone, the store is as it was before, and
  redeeming the token again is refused as invalid.\<close>

theorem invite_single_use:
  assumes sv: "invite_store sv objects"
    and made: "run_state (CreateInvite sv email by h) s = (Inr i, s1)"
    and fresh: "\<And>k y. objects s k = Some y \<Longrightarrow> mget (secData y) ''token'' \<noteq> invToken i"
    and now: "run_state (inviteNow sv) s1 = (now, s0)"
    and e: "ParseRFC3339 (invExpiresAt i) = Some e"
  shows "\<exists>s2. run_state (RedeemInvite sv (invToken i)) s1 =
      ((if e < now then Inl ErrInviteExpired else Inr email), s2) \<and> objects s2 = objects s \<and>
     run_state (RedeemInvite sv (invToken i)) s2 = (Inl ErrInvalidToken, s2)"
  by (rule invite_store.invite_once[OF sv made fresh now e])

definition cluster_invites :: "cluster InviteService" where
  "cluster_invites = \<lparr>inviteSecrets = store_api KSecret, inviteNamespace = ''kterodactyl-system'',
     smtp = None, panelURL = ''https://panel.example.org'',
     inviteMailer = \<lparr>CheckFrom = (\<lambda>_. None), CheckTo = (\<lambda>_. None), NewMailClient = (\<lambda>_ _. None),
       DialAndSend = (\<lambda>_ _ _ _. ret None)\<rparr>,
     inviteRand = (\<lambda>n. ret (Inr (replicate n CHR ''k''))), inviteNow = readClock\<rparr>"

lemma cluster_invites_store: "object_store (inviteSecrets cluster_invites) (store_find KSecret) secMeta secret_content"
  using ksec.st.object_store_axioms by (simp add: cluster_invites_def secret_content_def[abs_def])

interpretation ci: invite_store cluster_invites "store_find KSecret"
  by (rule invite_store.intro[OF cluster_invites_store], unfold_locales) (auto simp: cluster_invites_def)

theorem invite_single_use_witness:
  "\<exists>i s1 s2. run_state (CreateInvite cluster_invites ''bob@example.org'' ''root'' 48) cluster0 = (Inr i, s1) \<and>
     run_state (RedeemInvite cluster_invites (invToken i)) s1 = (Inr ''bob@example.org'', s2) \<and>
     run_state (RedeemInvite cluster_invites (invToken i)) s2 = (Inl ErrInvalidToken, s2)"
proof -
  have none: "store_find KSecret cluster0 k = None" for k
    by (simp add: store_find_def KSecret_def cluster0_def)
  have clock: "cClock cluster0 = 0" by (simp add: cluster0_def)
  have made: "\<exists>y s1. store_create KSecret x cluster0 = (Inr y, s1) \<and> cClock s1 = 0" for x
    unfolding store_create_def none Let_def by (simp add: store_put_def KSecret_def cluster0_def)
  obtain i s1 where
    i: "run_state (CreateInvite cluster_invites ''bob@example.org'' ''root'' 48) cluster0 = (Inr i, s1)"
      "invExpiresAt i = FormatRFC3339 (inviteExpiry 0 48)" "cClock s1 = 0"
    using made[of "inviteSecret ''kterodactyl-system'' (hexToken (replicate inviteTokenLength CHR ''k''))
      ''bob@example.org'' ''root'' (FormatRFC3339 (inviteExpiry 0 48))"]
    by (auto simp: CreateInvite_def cluster_invites_def clock Let_def)
  have e: "ParseRFC3339 (invExpiresAt i) = Some (48 * hourDuration)"
    unfolding i(2) by code_simp
  have now: "run_state (inviteNow cluster_invites) s1 = (0, s1)" by (simp add: cluster_invites_def i(3))
  from invite_single_use[OF ci.invite_store_axioms i(1) _ now e] none i(1)
  show ?thesis by (auto simp: hourDuration_def second_def)
qed

definition invitedCluster :: cluster where
  "invitedCluster = cluster0\<lparr>cSecrets := [inviteSecret ''kterodactyl-system'' ''0123456789abcdef''
     ''bob@example.org'' ''root'' ''1970-01-01T00:00:10Z'']\<rparr>"

theorem RedeemInvite_success_witness:
  "\<exists>s' tr. run_state (RedeemInvite (traced_invites cluster_invites) ''0123456789abcdef'') (invitedCluster, []) =
     (Inr ''bob@example.org'', (s', tr)) \<and> length tr = 2"
proof -
  have "fst (run_state (RedeemInvite (traced_invites cluster_invites) ''0123456789abcdef'') (invitedCluster, [])) =
     Inr ''bob@example.org''"
    by code_simp
  then obtain s' tr where
    run: "run_state (RedeemInvite (traced_invites cluster_invites) ''0123456789abcdef'') (invitedCluster, []) =
      (Inr ''bob@example.org'', (s', tr))"
    by (metis prod.collapse)
  with RedeemInvite_success[OF run] show ?thesis by auto
qed

end
