(* ===== verification/Tokens.thy ===== *)
theory Tokens
  imports Invites
begin

text \<open>
  Session tokens: \<^verbatim>\<open>internal/auth/jwt.go\<close>. The JWT library, the random source and the clock are
  arguments. What the library documents of signing and parsing is the locale \<open>jwt_library\<close>; from it
  \<open>token_service\<close>, the contract the HTTP layer relies on, follows for \<^verbatim>\<open>JWTService\<close>.
\<close>

section \<open>Claims and service\<close>

record KterodactylClaims =
  Subject :: string
  Issuer :: string
  IssuedAt :: "gotime option"
  ExpiresAt :: "gotime option"
  TokenID :: string
  claimUsername :: string
  claimEmail :: string
  claimRole :: string
  claimNamespace :: string

text \<open>
  \<open>ParseWithClaims\<close> takes the token, the key, the accepted methods, the required issuer and whether an
  expiry is required; it compares the expiry with the clock. \<open>NewNumericDate\<close> truncates a time to the
  precision of the library.
\<close>

record 's JWTLib =
  SignedString :: "string \<Rightarrow> KterodactylClaims \<Rightarrow> string \<Rightarrow> gerr + string"
  ParseWithClaims :: "string \<Rightarrow> string \<Rightarrow> string list \<Rightarrow> string \<Rightarrow> bool \<Rightarrow>
    ('s, gerr + KterodactylClaims \<times> bool) state"
  NewNumericDate :: "gotime \<Rightarrow> gotime"

definition jwtKeySecretName :: string where "jwtKeySecretName = ''kterodactyl-jwt-signing-key''"
definition defaultRefreshThreshold :: int where "defaultRefreshThreshold = 2 * hourDuration"
definition signingKeyLength :: nat where "signingKeyLength = 32"
definition tokenIDLength :: nat where "tokenIDLength = 8"

record 's JWTService =
  signingKey :: string
  tokenExpiration :: int
  refreshThreshold :: int
  jwtLib :: "'s JWTLib"
  jwtRand :: "nat \<Rightarrow> ('s, gerr + string) state"
  jwtNow :: "('s, gotime) state"

definition NewJWTService :: "'s JWTLib \<Rightarrow> (nat \<Rightarrow> ('s, gerr + string) state) \<Rightarrow> ('s, gotime) state \<Rightarrow>
    string \<Rightarrow> int \<Rightarrow> 's JWTService" where
  "NewJWTService lib rand now key expiration = \<lparr>signingKey = key, tokenExpiration = expiration,
     refreshThreshold = defaultRefreshThreshold, jwtLib = lib, jwtRand = rand, jwtNow = now\<rparr>"

section \<open>Operations\<close>

definition generateTokenID :: "'s JWTService \<Rightarrow> ('s, gerr + string) state" where
  "generateTokenID sv = do {
     got \<leftarrow> jwtRand sv tokenIDLength;
     case got of
       Inl err \<Rightarrow> ret (Inl (errf ''failed to generate random bytes: '' err))
     | Inr b \<Rightarrow> ret (Inr (hexToken b)) }"

definition claimsFor :: "'s JWTService \<Rightarrow> User \<Rightarrow> string \<Rightarrow> gotime \<Rightarrow> KterodactylClaims" where
  "claimsFor sv user tokenID now = \<lparr>
     Subject = Username user, Issuer = ''kterodactyl'',
     IssuedAt = Some (NewNumericDate (jwtLib sv) now),
     ExpiresAt = Some (NewNumericDate (jwtLib sv) (now + tokenExpiration sv)),
     TokenID = tokenID, claimUsername = Username user, claimEmail = Email user,
     claimRole = Role user, claimNamespace = UserNamespace (Username user)\<rparr>"

definition GenerateToken :: "'s JWTService \<Rightarrow> User \<Rightarrow> ('s, gerr + string) state" where
  "GenerateToken sv user = do {
     tid \<leftarrow> generateTokenID sv;
     case tid of
       Inl err \<Rightarrow> ret (Inl (errf ''failed to generate token ID: '' err))
     | Inr tokenID \<Rightarrow> do {
         now \<leftarrow> jwtNow sv;
         ret (SignedString (jwtLib sv) ''HS256'' (claimsFor sv user tokenID now) (signingKey sv)) } }"

definition ValidateToken :: "'s JWTService \<Rightarrow> string \<Rightarrow> ('s, gerr + KterodactylClaims) state" where
  "ValidateToken sv tokenString = do {
     parsed \<leftarrow> ParseWithClaims (jwtLib sv) tokenString (signingKey sv) [''HS256''] ''kterodactyl'' True;
     case parsed of
       Inl err \<Rightarrow> ret (Inl (errf ''token validation failed: '' err))
     | Inr (claims, valid) \<Rightarrow>
         if \<not> valid then ret (Inl (ErrNew ''token is not valid'')) else ret (Inr claims) }"

text \<open>\<^verbatim>\<open>time.Until\<close> is the saturating difference to the present.\<close>

definition ShouldRefresh :: "'s JWTService \<Rightarrow> KterodactylClaims \<Rightarrow> ('s, bool) state" where
  "ShouldRefresh sv claims = (case ExpiresAt claims of
       None \<Rightarrow> ret False
     | Some t \<Rightarrow> do { now \<leftarrow> jwtNow sv; ret (Sub t now \<le> refreshThreshold sv) })"

definition EnsureSigningKey :: "('s, Secret) kapi \<Rightarrow> (nat \<Rightarrow> ('s, gerr + string) state) \<Rightarrow> string \<Rightarrow>
    ('s, gerr + string) state" where
  "EnsureSigningKey api rand namespace = do {
     got \<leftarrow> kget api \<lparr>keyNamespace = namespace, keyName = jwtKeySecretName\<rparr>;
     case got of
       Inl err \<Rightarrow>
         if IsNotFound err then do {
           bytes \<leftarrow> rand signingKeyLength;
           case bytes of
             Inl err \<Rightarrow> ret (Inl (errf ''failed to generate signing key: '' err))
           | Inr key \<Rightarrow> do {
               made \<leftarrow> kcreate api \<lparr>secMeta = NewMeta namespace jwtKeySecretName
                   [(''kterodactyl.io/managed-by'', ''kterodactyl''), (''kterodactyl.io/resource-type'', ''jwt-key'')],
                 secType = ''Opaque'', secData = [(''signing-key'', key)]\<rparr>;
               case made of
                 Inl err \<Rightarrow> ret (Inl (errf ''failed to create signing key secret: '' err))
               | Inr _ \<Rightarrow> ret (Inr key) } }
         else ret (Inl (errf ''failed to get signing key secret: '' err))
     | Inr secret \<Rightarrow> (case map_of (secData secret) ''signing-key'' of
         None \<Rightarrow> ret (Inl (ErrNew ''signing key secret exists but missing 'signing-key' data field''))
       | Some key \<Rightarrow> ret (Inr key)) }"

section \<open>Contracts\<close>

text \<open>
  What the library documents: a token it signed parses back, under the same key and an accepted
  method, to the claims it was made from, as valid, while the clock is before the expiry, and is an
  error from then on; truncation to seconds moves a time back by less than a second.
\<close>

locale jwt_library =
  fixes lib :: "'s JWTLib" and clock :: "'s \<Rightarrow> gotime"
  assumes parse_signed: "SignedString lib alg c k = Inr t \<Longrightarrow> alg \<in> set ms \<Longrightarrow> Issuer c = iss \<Longrightarrow>
      ExpiresAt c = Some e \<Longrightarrow> clock s < e \<Longrightarrow> run_state (ParseWithClaims lib t k ms iss ex) s = (Inr (c, True), s)"
    and parse_expired: "SignedString lib alg c k = Inr t \<Longrightarrow> ExpiresAt c = Some e \<Longrightarrow> e \<le> clock s \<Longrightarrow>
      \<exists>err. run_state (ParseWithClaims lib t k ms iss ex) s = (Inl err, s)"
    and truncates: "NewNumericDate lib d \<le> d" "d - second < NewNumericDate lib d"

text \<open>
  What the HTTP layer relies on: a token generated for a user identifies that user until it expires.
\<close>

locale token_service =
  fixes generate :: "User \<Rightarrow> ('s, gerr + string) state"
    and validate :: "string \<Rightarrow> ('s, gerr + KterodactylClaims) state"
    and clock :: "'s \<Rightarrow> gotime"
    and lifetime :: int
  assumes validate_generated: "run_state (generate u) s = (Inr t, s1) \<Longrightarrow>
      \<exists>c e. ExpiresAt c = Some e \<and> e \<le> clock s + lifetime \<and> clock s + lifetime - second < e \<and>
        claimUsername c = Username u \<and> claimEmail c = Email u \<and> claimRole c = Role u \<and>
        claimNamespace c = UserNamespace (Username u) \<and>
        (\<forall>s'. clock s' < e \<longrightarrow> run_state (validate t) s' = (Inr c, s')) \<and>
        (\<forall>s'. e \<le> clock s' \<longrightarrow> (\<exists>err. run_state (validate t) s' = (Inl err, s')))"
begin

text \<open>The namespace of the claims determines the user, so tokens of different users never act on the
  same namespace.\<close>

lemma namespaces_apart:
  assumes "run_state (generate u) s = (Inr t, s1)" "run_state (generate v) s2 = (Inr t', s3)"
    "run_state (validate t) s' = (Inr c, s'')" "run_state (validate t') s4 = (Inr c', s5)"
    "claimNamespace c = claimNamespace c'"
  shows "Username u = Username v"
proof -
  from validate_generated[OF assms(1)] assms(3) have "claimNamespace c = UserNamespace (Username u)"
    by (metis Inl_Inr_False Pair_inject linorder_not_le sum.inject(2))
  moreover from validate_generated[OF assms(2)] assms(4) have "claimNamespace c' = UserNamespace (Username v)"
    by (metis Inl_Inr_False Pair_inject linorder_not_le sum.inject(2))
  ultimately show ?thesis using assms(5) by (simp add: UserNamespace_inj)
qed

end

text \<open>\<^verbatim>\<open>JWTService\<close> over a library that keeps its promises, with a clock that can be read at any time
  and random bytes that do not advance it.\<close>

locale jwt_service = jwt_library "jwtLib sv" clock
  for sv :: "'s JWTService" and clock :: "'s \<Rightarrow> gotime" +
  assumes reads_clock: "run_state (jwtNow sv) s = (clock s, s)"
    and rand_clock: "run_state (jwtRand sv n) s = (b, s') \<Longrightarrow> clock s' = clock s"
begin

lemma GenerateToken_signed:
  assumes "run_state (GenerateToken sv u) s = (Inr t, s1)"
  shows "\<exists>tid. SignedString (jwtLib sv) ''HS256'' (claimsFor sv u tid (clock s)) (signingKey sv) = Inr t"
  using assms reads_clock rand_clock
  by (auto simp: GenerateToken_def generateTokenID_def split: prod.splits sum.splits)

end

sublocale jwt_service \<subseteq> tok: token_service "GenerateToken sv" "ValidateToken sv" clock "tokenExpiration sv"
proof
  fix u s t s1
  assume "run_state (GenerateToken sv u) s = (Inr t, s1)"
  then obtain tid where sig: "SignedString (jwtLib sv) ''HS256'' (claimsFor sv u tid (clock s)) (signingKey sv) = Inr t"
    using GenerateToken_signed by blast
  let ?c = "claimsFor sv u tid (clock s)" and ?e = "NewNumericDate (jwtLib sv) (clock s + tokenExpiration sv)"
  have c: "ExpiresAt ?c = Some ?e" "Issuer ?c = ''kterodactyl''" "claimUsername ?c = Username u"
    "claimEmail ?c = Email u" "claimRole ?c = Role u" "claimNamespace ?c = UserNamespace (Username u)"
    by (simp_all add: claimsFor_def)
  have "run_state (ValidateToken sv t) s' = (Inr ?c, s')" if "clock s' < ?e" for s'
    using parse_signed[OF sig, of "[''HS256'']" "''kterodactyl''" ?e s' True] c that by (simp add: ValidateToken_def)
  moreover have "\<exists>err. run_state (ValidateToken sv t) s' = (Inl err, s')" if "?e \<le> clock s'" for s'
    using parse_expired[OF sig c(1) that, of "[''HS256'']" "''kterodactyl''" True] by (auto simp: ValidateToken_def)
  ultimately show "\<exists>c e. ExpiresAt c = Some e \<and> e \<le> clock s + tokenExpiration sv \<and>
      clock s + tokenExpiration sv - second < e \<and> claimUsername c = Username u \<and> claimEmail c = Email u \<and>
      claimRole c = Role u \<and> claimNamespace c = UserNamespace (Username u) \<and>
      (\<forall>s'. clock s' < e \<longrightarrow> run_state (ValidateToken sv t) s' = (Inr c, s')) \<and>
      (\<forall>s'. e \<le> clock s' \<longrightarrow> (\<exists>err. run_state (ValidateToken sv t) s' = (Inl err, s')))"
    using truncates[of "clock s + tokenExpiration sv"] c by (intro exI[of _ ?c]) auto
qed

section \<open>A library for concrete runs\<close>

text \<open>Tokens that carry method, key and claims in the clear: enough to satisfy the laws.\<close>

definition packStrings :: "string list \<Rightarrow> string" where
  "packStrings ss = concat (map (\<lambda>s. replicate (length s) (CHR ''1'') @ CHR ''0'' # s) ss)"

primrec unpackStrings :: "nat \<Rightarrow> string \<Rightarrow> string list" where
  "unpackStrings 0 s = []"
| "unpackStrings (Suc n) s = (let k = length (takeWhile (\<lambda>c. c = CHR ''1'') s); r = drop (Suc k) s in
     take k r # unpackStrings n (drop k r))"

definition timeText :: "gotime option \<Rightarrow> string" where
  "timeText t = (case t of None \<Rightarrow> [] | Some i \<Rightarrow> (if i < 0 then CHR ''-'' else CHR ''+'') # nat_str (nat \<bar>i\<bar>))"

definition readTime :: "string \<Rightarrow> gotime option" where
  "readTime s = (case s of [] \<Rightarrow> None
     | c # ds \<Rightarrow> map_option (\<lambda>n. if c = CHR ''-'' then - int n else int n) (parse_digits ds))"

definition demoSign :: "string \<Rightarrow> KterodactylClaims \<Rightarrow> string \<Rightarrow> string" where
  "demoSign alg c k = packStrings [alg, k, Subject c, Issuer c, timeText (IssuedAt c), timeText (ExpiresAt c),
     TokenID c, claimUsername c, claimEmail c, claimRole c, claimNamespace c]"

definition demoParse :: "string \<Rightarrow> string \<Rightarrow> string list \<Rightarrow> string \<Rightarrow> gotime \<Rightarrow> gerr + KterodactylClaims \<times> bool" where
  "demoParse t k ms iss now = (let f = unpackStrings 11 t;
       c = \<lparr>Subject = f ! 2, Issuer = f ! 3, IssuedAt = readTime (f ! 4), ExpiresAt = readTime (f ! 5),
         TokenID = f ! 6, claimUsername = f ! 7, claimEmail = f ! 8, claimRole = f ! 9, claimNamespace = f ! 10\<rparr> in
     if f ! 0 \<in> set ms \<and> f ! 1 = k \<and> Issuer c = iss \<and> (\<exists>e \<in> set_option (ExpiresAt c). now < e)
     then Inr (c, True) else Inl (ErrNew ''token is unverifiable''))"

definition demoJWTLib :: "cluster JWTLib" where
  "demoJWTLib = \<lparr>SignedString = (\<lambda>alg c k. Inr (demoSign alg c k)),
     ParseWithClaims = (\<lambda>t k ms iss ex. do { now \<leftarrow> readClock; ret (demoParse t k ms iss now) }),
     NewNumericDate = (\<lambda>d. d - d mod second)\<rparr>"

lemma takeWhile_ones: "takeWhile (\<lambda>c. c = CHR ''1'') (replicate n (CHR ''1'') @ CHR ''0'' # s) = replicate n (CHR ''1'')"
  by (induction n) auto

lemma unpack_pack: "unpackStrings (length ss) (packStrings ss) = ss"
  by (induction ss) (simp_all add: packStrings_def takeWhile_ones)

lemma readTime_timeText [simp]: "readTime (timeText t) = t"
  by (cases t) (auto simp: readTime_def timeText_def)

lemma demoParse_demoSign:
  "demoParse (demoSign alg c k) k ms iss now =
     (if alg \<in> set ms \<and> Issuer c = iss \<and> (\<exists>e \<in> set_option (ExpiresAt c). now < e) then Inr (c, True)
      else Inl (ErrNew ''token is unverifiable''))"
proof -
  let ?ss = "[alg, k, Subject c, Issuer c, timeText (IssuedAt c), timeText (ExpiresAt c),
     TokenID c, claimUsername c, claimEmail c, claimRole c, claimNamespace c]"
  have "length ?ss = 11" by simp
  then have "unpackStrings 11 (demoSign alg c k) = ?ss"
    using unpack_pack[of ?ss] unfolding demoSign_def by (metis)
  then show ?thesis by (auto simp: demoParse_def Let_def)
qed

definition demoJWT :: "cluster JWTService" where
  "demoJWT = NewJWTService demoJWTLib (\<lambda>n. ret (Inr (replicate n CHR ''r''))) readClock ''key'' (24 * hourDuration)"

interpretation dj: jwt_service demoJWT cClock
proof
  fix d
  show "NewNumericDate (jwtLib demoJWT) d \<le> d" "d - second < NewNumericDate (jwtLib demoJWT) d"
    by (simp_all add: demoJWT_def NewJWTService_def demoJWTLib_def second_def)
qed (auto simp: demoJWT_def NewJWTService_def demoJWTLib_def demoParse_demoSign)

section \<open>Properties\<close>

context jwt_service
begin

lemmas token_identifies = tok.validate_generated

end

text \<open>C27: A token identifies its user for its lifetime. With a JWT library that keeps its promises, a token
  generated for a user validates, whenever the clock is before its expiry, to claims with the user's
  name, email and role and the namespace of that user, and is refused from the expiry on; the expiry is the
  configured lifetime after the generation, rounded down to the second.\<close>

theorem token_roundtrip:
  assumes "jwt_service sv clock" "run_state (GenerateToken sv u) s = (Inr t, s1)"
  shows "\<exists>c e. ExpiresAt c = Some e \<and> e \<le> clock s + tokenExpiration sv \<and>
      clock s + tokenExpiration sv - second < e \<and> claimUsername c = Username u \<and> claimEmail c = Email u \<and>
      claimRole c = Role u \<and> claimNamespace c = UserNamespace (Username u) \<and>
      (\<forall>s'. clock s' < e \<longrightarrow> run_state (ValidateToken sv t) s' = (Inr c, s')) \<and>
      (\<forall>s'. e \<le> clock s' \<longrightarrow> (\<exists>err. run_state (ValidateToken sv t) s' = (Inl err, s')))"
  by (rule jwt_service.token_identifies[OF assms])

theorem token_roundtrip_witness:
  "\<exists>t c. run_state (GenerateToken demoJWT demoUser) cluster0 = (Inr t, cluster0) \<and>
     run_state (ValidateToken demoJWT t) cluster0 = (Inr c, cluster0) \<and> claimNamespace c = ''user-alice''"
proof -
  obtain t where t: "run_state (GenerateToken demoJWT demoUser) cluster0 = (Inr t, cluster0)"
    by (auto simp: GenerateToken_def generateTokenID_def demoJWT_def NewJWTService_def demoJWTLib_def)
  have "tokenExpiration demoJWT = 24 * hourDuration" "cClock cluster0 = 0"
    by (simp_all add: demoJWT_def NewJWTService_def cluster0_def)
  with token_roundtrip[OF dj.jwt_service_axioms t] t show ?thesis
    by (force simp: hourDuration_def second_def demoUser_def UserNamespace_def)
qed

text \<open>The signing key is stable. On a healthy store of Secrets, whatever \<^verbatim>\<open>EnsureSigningKey\<close> returns
  when the Secret is missing is stored, and every later call returns the same key and changes nothing.\<close>

theorem signing_key_stable:
  assumes st: "object_store api objects secMeta secret_content"
    and rand: "run_state (rand signingKeyLength) s = (Inr key, s1)" "objects s1 = objects s"
    and free: "objects s \<lparr>keyNamespace = ns, keyName = jwtKeySecretName\<rparr> = None"
  shows "\<exists>s2. run_state (EnsureSigningKey api rand ns) s = (Inr key, s2) \<and>
    run_state (EnsureSigningKey api rand ns) s2 = (Inr key, s2)"
proof -
  let ?k = "\<lparr>keyNamespace = ns, keyName = jwtKeySecretName\<rparr>"
  let ?x = "\<lparr>secMeta = NewMeta ns jwtKeySecretName
      [(''kterodactyl.io/managed-by'', ''kterodactyl''), (''kterodactyl.io/resource-type'', ''jwt-key'')],
    secType = ''Opaque'', secData = [(''signing-key'', key)]\<rparr>"
  have k: "key_of (secMeta ?x) = ?k" by (simp add: key_of_def)
  from object_store.get_missing[OF st free] obtain e where
    e: "run_state (kget api ?k) s = (Inl e, s)" "IsNotFound e" by blast
  from object_store.create_new[OF st, of s1 ?x] k free rand(2) obtain x' s2 where
    x': "run_state (kcreate api ?x) s1 = (Inr x', s2)" "secret_content x' = secret_content ?x" "objects s2 ?k = Some x'"
    by auto
  have "map_of (secData x') ''signing-key'' = Some key" using x'(2) by (simp add: secret_content_def)
  with e x' rand(1) object_store.get_found[OF st x'(3)] show ?thesis by (simp add: EnsureSigningKey_def)
qed

theorem signing_key_stable_witness:
  "\<exists>s2. run_state (EnsureSigningKey (store_api KSecret) (\<lambda>n. ret (Inr (replicate n CHR ''r''))) ''sys'') cluster0 =
      (Inr (replicate 32 CHR ''r''), s2) \<and>
    run_state (EnsureSigningKey (store_api KSecret) (\<lambda>n. ret (Inr (replicate n CHR ''r''))) ''sys'') s2 =
      (Inr (replicate 32 CHR ''r''), s2)"
proof -
  have "object_store (store_api KSecret) (store_find KSecret) secMeta secret_content"
    using cluster_invites_store by (simp add: cluster_invites_def)
  from signing_key_stable[OF this, of "\<lambda>n. ret (Inr (replicate n CHR ''r''))" cluster0 "replicate 32 CHR ''r''" cluster0 "''sys''"]
  show ?thesis by (simp add: signingKeyLength_def store_find_def KSecret_def cluster0_def)
qed

end
