(* ===== verification/Passwords.thy ===== *)
theory Passwords
  imports GoStd
begin

text \<open>
  Password hashes: \<^verbatim>\<open>internal/auth/password.go\<close>, with the parts of \<^verbatim>\<open>encoding/base64\<close> (the raw
  standard encoding) and \<^verbatim>\<open>fmt.Sscanf\<close> it uses. The key derivation \<^verbatim>\<open>argon2.IDKey\<close> and the random
  source are arguments; the derivation panics on some parameters, which is the result \<^term>\<open>None\<close>.
  Byte strings are strings. The texts of base64 errors leave out the position.
\<close>

section \<open>Base64\<close>

definition b64alphabet :: string where
  "b64alphabet = ''ABCDEFGHIJKLMNOPQRSTUVWXYZabcdefghijklmnopqrstuvwxyz0123456789+/''"

definition b64char :: "nat \<Rightarrow> char" where
  "b64char n = b64alphabet ! n"

definition b64val :: "char \<Rightarrow> nat option" where
  "b64val c = (let n = (of_char c :: nat) in
     if 65 \<le> n \<and> n \<le> 90 then Some (n - 65)
     else if 97 \<le> n \<and> n \<le> 122 then Some (n - 71)
     else if 48 \<le> n \<and> n \<le> 57 then Some (n + 4)
     else if n = 43 then Some 62
     else if n = 47 then Some 63 else None)"

fun sextets :: "nat list \<Rightarrow> nat list" where
  "sextets [] = []"
| "sextets [a] = [a div 4, a mod 4 * 16]"
| "sextets [a, b] = [a div 4, a mod 4 * 16 + b div 16, b mod 16 * 4]"
| "sextets (a # b # c # r) =
     [a div 4, a mod 4 * 16 + b div 16, b mod 16 * 4 + c div 64, c mod 64] @ sextets r"

fun octets :: "nat list \<Rightarrow> nat list option" where
  "octets [] = Some []"
| "octets [a] = None"
| "octets [a, b] = Some [a * 4 + b div 16]"
| "octets [a, b, c] = Some [a * 4 + b div 16, b mod 16 * 16 + c div 4]"
| "octets (a # b # c # d # r) = map_option (\<lambda>bs. [a * 4 + b div 16, b mod 16 * 16 + c div 4, c mod 4 * 64 + d] @ bs)
     (octets r)"

definition b64Encode :: "string \<Rightarrow> string" where
  "b64Encode s = map b64char (sextets (map of_char s))"

definition is_newline :: "char \<Rightarrow> bool" where
  "is_newline c \<longleftrightarrow> c = CHR 0x0A \<or> c = CHR 0x0D"

definition b64Decode :: "string \<Rightarrow> gerr + string" where
  "b64Decode s = (let vs = map b64val (filter (\<lambda>c. \<not> is_newline c) s) in
     if None \<in> set vs then Inl (ErrNew ''illegal base64 data'')
     else (case octets (map the vs) of
       None \<Rightarrow> Inl (ErrNew ''illegal base64 data'')
     | Some bs \<Rightarrow> Inr (map char_of bs)))"

lemma sextets_bound: "list_all (\<lambda>b. b < 256) bs \<Longrightarrow> list_all (\<lambda>v. v < 64) (sextets bs)"
  by (induction bs rule: sextets.induct) auto

lemma octets_sextets: "list_all (\<lambda>b. b < 256) bs \<Longrightarrow> octets (sextets bs) = Some bs"
proof (induction bs rule: sextets.induct)
  case (2 a)
  then show ?case by simp
next
  case (3 a b)
  then have "a mod 4 * 16 + b div 16 < 64" "(a mod 4 * 16 + b div 16) div 16 = a mod 4"
    "(a mod 4 * 16 + b div 16) mod 16 = b div 16" by auto
  then show ?case by simp
next
  case (4 a b c r)
  then have "(a mod 4 * 16 + b div 16) div 16 = a mod 4" "(a mod 4 * 16 + b div 16) mod 16 = b div 16"
    "(b mod 16 * 4 + c div 64) div 4 = b mod 16" "(b mod 16 * 4 + c div 64) mod 4 = c div 64" by auto
  with 4 show ?case by simp
qed simp

lemma b64_chars: "n < 64 \<Longrightarrow> b64val (b64char n) = Some n \<and> \<not> is_newline (b64char n) \<and> b64char n \<noteq> CHR ''$''"
proof -
  assume n: "n < 64"
  have "list_all (\<lambda>n. b64val (b64char n) = Some n \<and> \<not> is_newline (b64char n) \<and> b64char n \<noteq> CHR ''$'') [0..<64]"
    by (simp add: upt_rec b64char_def b64alphabet_def b64val_def is_newline_def)
  with n show ?thesis by (simp add: list_all_iff)
qed

lemma sextets_bytes: "\<forall>v \<in> set (sextets (map of_char s)). v < 64"
  using sextets_bound[of "map of_char s"] by (simp add: list_all_iff)

lemma b64Decode_Encode [simp]: "b64Decode (b64Encode s) = Inr s"
proof -
  let ?v = "sextets (map of_char s)"
  have keep: "filter (\<lambda>c. \<not> is_newline c) (b64Encode s) = b64Encode s"
    using b64_chars sextets_bytes[of s] by (auto simp: b64Encode_def filter_id_conv)
  have vals: "map b64val (b64Encode s) = map Some ?v"
    using b64_chars sextets_bytes[of s] by (simp add: b64Encode_def)
  have "octets (map the (map b64val (b64Encode s))) = Some (map of_char s)"
    unfolding vals using octets_sextets[of "map of_char s"] by (simp add: list_all_iff o_def)
  then show ?thesis using keep vals by (auto simp: b64Decode_def Let_def o_def)
qed

lemma b64Encode_no_dollar: "CHR ''$'' \<notin> set (b64Encode s)"
  using b64_chars sextets_bytes[of s] unfolding b64Encode_def by (metis imageE list.set_map)

section \<open>Scanning\<close>

text \<open>
  \<^verbatim>\<open>fmt.Sscanf\<close> for the format \<^verbatim>\<open>"m=%d,t=%d,p=%d"\<close> with unsigned targets: literal bytes must match;
  a number may follow blanks but no newline, has no sign, and must fit its target. Scanning stops at
  the first failure, which leaves the remaining targets at zero.
\<close>

definition scanLiteral :: "string \<Rightarrow> string \<Rightarrow> string option" where
  "scanLiteral l s = (if HasPrefix s l then Some (drop (length l) s) else None)"

definition scanUint :: "nat \<Rightarrow> string \<Rightarrow> (nat \<times> string) option" where
  "scanUint bits s = (let r = dropWhile (\<lambda>c. is_space c \<and> c \<noteq> CHR 0x0A) s in
     case parse_digits (takeWhile is_digit r) of
       None \<Rightarrow> None
     | Some n \<Rightarrow> if n < 2 ^ bits then Some (n, dropWhile is_digit r) else None)"

definition scanField :: "string \<Rightarrow> nat \<Rightarrow> string \<Rightarrow> (nat \<times> string) option" where
  "scanField l bits s = Option.bind (scanLiteral l s) (scanUint bits)"

definition scanParams :: "string \<Rightarrow> nat \<times> nat \<times> nat" where
  "scanParams s = (case scanField ''m='' 32 s of
       None \<Rightarrow> (0, 0, 0)
     | Some (memory, s1) \<Rightarrow> (case scanField '',t='' 32 s1 of
         None \<Rightarrow> (memory, 0, 0)
       | Some (time, s2) \<Rightarrow> (case scanField '',p='' 8 s2 of
           None \<Rightarrow> (memory, time, 0)
         | Some (threads, _) \<Rightarrow> (memory, time, threads))))"

section \<open>Hashing and verifying\<close>

definition argonTime :: nat where "argonTime = 1"
definition argonMemory :: nat where "argonMemory = 64 * 1024"
definition argonThreads :: nat where "argonThreads = 4"
definition argonKeyLen :: nat where "argonKeyLen = 32"
definition argonSaltLen :: nat where "argonSaltLen = 16"

text \<open>\<open>IDKey password salt time memory threads keyLen\<close> and the random bytes.\<close>

type_synonym idkey = "string \<Rightarrow> string \<Rightarrow> nat \<Rightarrow> nat \<Rightarrow> nat \<Rightarrow> nat \<Rightarrow> string option"

definition phcString :: "string \<Rightarrow> string \<Rightarrow> string" where
  "phcString salt hash = ''$argon2id$v='' @ nat_str 19 @ ''$m='' @ nat_str argonMemory @ '',t=''
     @ nat_str argonTime @ '',p='' @ nat_str argonThreads @ ''$'' @ b64Encode salt @ ''$'' @ b64Encode hash"

definition HashPassword :: "idkey \<Rightarrow> (nat \<Rightarrow> ('s, gerr + string) state) \<Rightarrow> string \<Rightarrow>
    ('s, (gerr + string) option) state" where
  "HashPassword IDKey RandRead password = do {
     got \<leftarrow> RandRead argonSaltLen;
     case got of
       Inl err \<Rightarrow> ret (Some (Inl (errf ''failed to generate salt: '' err)))
     | Inr salt \<Rightarrow> ret (map_option (\<lambda>hash. Inr (phcString salt hash))
         (IDKey password salt argonTime argonMemory argonThreads argonKeyLen)) }"

text \<open>
  The version field is scanned into a variable that is never read, so its scan is left out; and
  \<^verbatim>\<open>subtle.ConstantTimeCompare\<close> is equality of the two byte strings.
\<close>

definition VerifyPassword :: "idkey \<Rightarrow> string \<Rightarrow> string \<Rightarrow> (gerr + bool) option" where
  "VerifyPassword IDKey password encodedHash = (let parts = Split encodedHash (CHR ''$'') in
     if length parts \<noteq> 6 then
       Some (Inl (ErrNew (''invalid hash format: expected 6 parts, got '' @ nat_str (length parts))))
     else (case scanParams (parts ! 3) of (memory, time, threads) \<Rightarrow>
       (case b64Decode (parts ! 4) of
          Inl err \<Rightarrow> Some (Inl (errf ''failed to decode salt: '' err))
        | Inr salt \<Rightarrow> (case b64Decode (parts ! 5) of
            Inl err \<Rightarrow> Some (Inl (errf ''failed to decode hash: '' err))
          | Inr expectedHash \<Rightarrow>
              map_option (\<lambda>computedHash. Inr (computedHash = expectedHash))
                (IDKey password salt time memory threads (length expectedHash))))))"

lemma scanParams_phc: "scanParams ''m=65536,t=1,p=4'' = (65536, 1, 4)"
  by (simp add: scanParams_def scanField_def scanLiteral_def scanUint_def HasPrefix_def is_space_def
      is_digit_def parse_digits_def digit_val_def Let_def)

lemma digit_chars:
  "digit_char 1 = CHR ''1''" "digit_char 3 = CHR ''3''" "digit_char 4 = CHR ''4''"
  "digit_char 5 = CHR ''5''" "digit_char 6 = CHR ''6''" "digit_char 9 = CHR ''9''"
  by code_simp+

lemma phcString_text:
  "phcString salt hash = ''$argon2id$v=19$m=65536,t=1,p=4$'' @ b64Encode salt @ ''$'' @ b64Encode hash"
proof -
  have "''$argon2id$v='' @ nat_str 19 @ ''$m='' @ nat_str argonMemory @ '',t='' @ nat_str argonTime
      @ '',p='' @ nat_str argonThreads @ ''$'' = ''$argon2id$v=19$m=65536,t=1,p=4$''"
    by (simp add: nat_str.simps digit_chars[simplified] argonMemory_def argonTime_def argonThreads_def)
  then show ?thesis unfolding phcString_def by (metis append.assoc)
qed

lemma Split_phcString:
  "Split (phcString salt hash) (CHR ''$'') =
     [[], ''argon2id'', ''v=19'', ''m=65536,t=1,p=4'', b64Encode salt, b64Encode hash]"
  using Split_append[OF b64Encode_no_dollar, of salt "b64Encode hash"] Split_free[OF b64Encode_no_dollar, of hash]
  by (simp add: phcString_text)

text \<open>The stored text gives back salt, parameters and hash.\<close>

lemma VerifyPassword_phcString:
  "VerifyPassword IDKey password (phcString salt hash) =
     map_option (\<lambda>computed. Inr (computed = hash)) (IDKey password salt 1 65536 4 (length hash))"
  by (simp add: VerifyPassword_def Split_phcString scanParams_phc)

text \<open>C26: A hash verifies exactly the passwords with the same derived key. For any key derivation that
  returns keys of the length asked for: if \<^verbatim>\<open>HashPassword\<close> returns a text, then verifying the same
  password against it succeeds, and verifying another one gives true exactly when the derivation
  maps it, with the stored salt and the fixed parameters, to the same key. The text survives printing
  and parsing, whatever the bytes of salt and key are.\<close>

theorem password_roundtrip:
  assumes len: "\<And>pw salt t m p n h. IDKey pw salt t m p n = Some h \<Longrightarrow> length h = n"
    and hash: "run_state (HashPassword IDKey RandRead password) s = (Some (Inr encoded), s')"
  shows "VerifyPassword IDKey password encoded = Some (Inr True) \<and>
    (\<exists>salt key. run_state (RandRead argonSaltLen) s = (Inr salt, s') \<and>
      IDKey password salt argonTime argonMemory argonThreads argonKeyLen = Some key \<and>
      (\<forall>other. VerifyPassword IDKey other encoded =
         map_option (\<lambda>k. Inr (k = key)) (IDKey other salt argonTime argonMemory argonThreads argonKeyLen)))"
proof -
  from hash obtain salt key where salt: "run_state (RandRead argonSaltLen) s = (Inr salt, s')" and
    key: "IDKey password salt argonTime argonMemory argonThreads argonKeyLen = Some key" and
    enc: "encoded = phcString salt key"
    by (auto simp: HashPassword_def split: prod.splits sum.splits)
  have "VerifyPassword IDKey other encoded =
      map_option (\<lambda>k. Inr (k = key)) (IDKey other salt argonTime argonMemory argonThreads argonKeyLen)" for other
    using len[OF key] by (simp add: enc VerifyPassword_phcString argonTime_def argonMemory_def argonThreads_def)
  with salt key show ?thesis by auto
qed

text \<open>A derivation of the right shape, for concrete runs: it panics on zero rounds or threads.\<close>

definition demoIDKey :: idkey where
  "demoIDKey password salt time memory threads keyLen =
     (if time = 0 \<or> threads = 0 then None else Some (replicate keyLen (last (CHR 0x00 # password))))"

definition demoRand :: "nat \<Rightarrow> (unit, gerr + string) state" where
  "demoRand n = ret (Inr (replicate n CHR ''s''))"

theorem password_roundtrip_witness:
  "\<exists>encoded. run_state (HashPassword demoIDKey demoRand ''secret'') () = (Some (Inr encoded), ()) \<and>
    VerifyPassword demoIDKey ''secret'' encoded = Some (Inr True) \<and>
    VerifyPassword demoIDKey ''SECRET'' encoded = Some (Inr False)"
proof -
  have len: "\<And>pw salt t m p n h. demoIDKey pw salt t m p n = Some h \<Longrightarrow> length h = n"
    by (auto simp: demoIDKey_def split: if_splits)
  obtain enc where enc: "run_state (HashPassword demoIDKey demoRand ''secret'') () = (Some (Inr enc), ())"
    by (auto simp: HashPassword_def demoRand_def demoIDKey_def argonTime_def argonThreads_def)
  from password_roundtrip[OF len enc] enc show ?thesis
    by (auto simp: demoIDKey_def argonTime_def argonThreads_def argonKeyLen_def)
qed

end
