(* ===== verification/Http.thy ===== *)
theory Http
  imports Tokens Passwords AdminConfig
begin

text \<open>
  The HTTP layer: \<^verbatim>\<open>internal/api/request.go\<close>, \<^verbatim>\<open>response.go\<close>, \<^verbatim>\<open>middleware.go\<close> and
  \<^verbatim>\<open>internal/auth/middleware.go\<close>. A request carries the JSON value of its body (the text syntax of
  JSON is not modelled: a body is absent, malformed or a value), and the decoding of a value into the
  fields of a request struct follows \<^verbatim>\<open>encoding/json\<close>. A handler maps a request to a computation
  that returns a response.
\<close>

section \<open>JSON values\<close>

datatype json =
    JNull
  | JBool bool
  | JNumber int
  | JFraction string
  | JString string
  | JArray "json list"
  | JObject "(string \<times> json) list"

definition lower_char :: "char \<Rightarrow> char" where
  "lower_char c = (let n = (of_char c :: nat) in if 65 \<le> n \<and> n \<le> 90 then char_of (n + 32) else c)"

text \<open>The field a key of an object stands for: by its exact name, or else up to case.\<close>

definition fieldFor :: "string list \<Rightarrow> string \<Rightarrow> string option" where
  "fieldFor fs k = (if k \<in> set fs then Some k
     else List.find (\<lambda>f. map lower_char f = map lower_char k) fs)"

text \<open>
  Decoding an object into a struct: keys in order, unknown ones ignored, a later key overwriting an
  earlier one. A value of the wrong type leaves its field and is reported at the end.
\<close>

definition typeError :: "string \<Rightarrow> gerr" where
  "typeError f = ErrNew (''json: cannot unmarshal value into Go struct field '' @ f)"

primrec decodePairs :: "string list \<Rightarrow> (string \<Rightarrow> json \<Rightarrow> 'r \<Rightarrow> 'r option) \<Rightarrow> (string \<times> json) list \<Rightarrow>
    'r \<times> gerr option \<Rightarrow> 'r \<times> gerr option" where
  "decodePairs fs put [] acc = acc"
| "decodePairs fs put (p # ps) acc = decodePairs fs put ps
     (case fieldFor fs (fst p) of
        None \<Rightarrow> acc
      | Some f \<Rightarrow> (case put f (snd p) (fst acc) of
          None \<Rightarrow> (fst acc, case snd acc of None \<Rightarrow> Some (typeError f) | e \<Rightarrow> e)
        | Some r \<Rightarrow> (r, snd acc)))"

definition decodeStruct :: "string list \<Rightarrow> (string \<Rightarrow> json \<Rightarrow> 'r \<Rightarrow> 'r option) \<Rightarrow> 'r \<Rightarrow> json \<Rightarrow> gerr + 'r" where
  "decodeStruct fs put zero j = (case j of
       JNull \<Rightarrow> Inr zero
     | JObject ps \<Rightarrow> (case decodePairs fs put ps (zero, None) of
         (r, None) \<Rightarrow> Inr r | (r, Some e) \<Rightarrow> Inl e)
     | _ \<Rightarrow> Inl (typeError []))"

definition jsonString :: "json \<Rightarrow> (string \<Rightarrow> 'r) \<Rightarrow> 'r \<Rightarrow> 'r option" where
  "jsonString j f r = (case j of JString s \<Rightarrow> Some (f s) | JNull \<Rightarrow> Some r | _ \<Rightarrow> None)"

definition jsonInt :: "json \<Rightarrow> (int \<Rightarrow> 'r) \<Rightarrow> 'r \<Rightarrow> 'r option" where
  "jsonInt j f r = (case j of
       JNumber i \<Rightarrow> if - (2 ^ 63) \<le> i \<and> i < 2 ^ 63 then Some (f i) else None
     | JNull \<Rightarrow> Some r | _ \<Rightarrow> None)"

text \<open>A \<^verbatim>\<open>map[string]string\<close>: null makes it nil, a null entry is the empty string, entries add to the map.\<close>

fun mapEntries :: "(string \<times> json) list \<Rightarrow> gomap \<Rightarrow> gomap option" where
  "mapEntries [] m = Some m"
| "mapEntries ((k, JString v) # ps) m = mapEntries ps (mput k v m)"
| "mapEntries ((k, JNull) # ps) m = mapEntries ps (mput k [] m)"
| "mapEntries (_ # ps) m = None"

definition jsonMap :: "json \<Rightarrow> gomap \<Rightarrow> (gomap \<Rightarrow> 'r) \<Rightarrow> 'r option" where
  "jsonMap j old f = (case j of JObject ps \<Rightarrow> map_option f (mapEntries ps old) | JNull \<Rightarrow> Some (f []) | _ \<Rightarrow> None)"

section \<open>Requests and responses\<close>

record Request =
  reqMethod :: string
  reqPath :: "string list"
  reqHeader :: gomap
  reqQuery :: gomap
  reqParams :: gomap
  reqBody :: "(gerr + json) option"
  reqForm :: "(gerr + (string \<times> string) option)"  \<comment> \<open>the uploaded file: name and content\<close>
  reqClaims :: "KterodactylClaims option"

record Response =
  respStatus :: nat
  respHeader :: gomap
  respBody :: "json option"

abbreviation URLParam :: "Request \<Rightarrow> string \<Rightarrow> string" where
  "URLParam r k \<equiv> mget (reqParams r) k"

definition respondJSON :: "nat \<Rightarrow> json \<Rightarrow> Response" where
  "respondJSON status data = \<lparr>respStatus = status, respHeader = [(''Content-Type'', ''application/json'')],
     respBody = Some data\<rparr>"

definition respondError :: "nat \<Rightarrow> string \<Rightarrow> Response" where
  "respondError status message = respondJSON status (JObject [(''error'', JString message)])"

definition respondList :: "nat \<Rightarrow> json list \<Rightarrow> Response" where
  "respondList status data = respondJSON status
     (JObject [(''data'', JArray data), (''count'', JNumber (int (length data)))])"

definition respondStatus :: "nat \<Rightarrow> Response" where  \<comment> \<open>\<^verbatim>\<open>w.WriteHeader\<close> alone\<close>
  "respondStatus status = \<lparr>respStatus = status, respHeader = [], respBody = None\<rparr>"

definition httpError :: "string \<Rightarrow> nat \<Rightarrow> Response" where
  "httpError message status = \<lparr>respStatus = status,
     respHeader = [(''Content-Type'', ''text/plain; charset=utf-8''), (''X-Content-Type-Options'', ''nosniff'')],
     respBody = Some (JString (message @ [CHR 0x0A]))\<rparr>"

definition jsonFields :: "gomap \<Rightarrow> json" where
  "jsonFields m = JObject (map (\<lambda>(k, v). (k, JString v)) m)"

text \<open>\<^verbatim>\<open>omitempty\<close>.\<close>

definition unlessEmpty :: "string \<Rightarrow> string \<Rightarrow> (string \<times> json) list" where
  "unlessEmpty k v = (if v = [] then [] else [(k, JString v)])"

lemma respond_simps [simp]:
  "respStatus (respondJSON st j) = st" "respBody (respondJSON st j) = Some j"
  "respStatus (respondError st m) = st" "respStatus (respondList st l) = st"
  "respStatus (respondStatus st) = st" "respBody (respondStatus st) = None" "respStatus (httpError m st) = st"
  by (simp_all add: respondJSON_def respondError_def respondList_def respondStatus_def httpError_def)

section \<open>Request bodies\<close>

definition decodeJSON :: "(json \<Rightarrow> gerr + 'r) \<Rightarrow> Request \<Rightarrow> gerr + 'r" where
  "decodeJSON decode r = (case reqBody r of
       None \<Rightarrow> Inl (ErrNew ''request body is empty'')
     | Some (Inl err) \<Rightarrow> Inl (errf ''invalid JSON: '' err)
     | Some (Inr j) \<Rightarrow> (case decode j of
         Inl err \<Rightarrow> Inl (errf ''invalid JSON: '' err)
       | Inr v \<Rightarrow> Inr v))"

record CreateGameServerRequest =
  cgName :: string
  cgGameType :: string
  cgParameters :: gomap

definition decodeCreateGameServer :: "json \<Rightarrow> gerr + CreateGameServerRequest" where
  "decodeCreateGameServer = decodeStruct [''name'', ''gameType'', ''parameters'']
     (\<lambda>f j r. if f = ''name'' then jsonString j (\<lambda>s. r\<lparr>cgName := s\<rparr>) r
        else if f = ''gameType'' then jsonString j (\<lambda>s. r\<lparr>cgGameType := s\<rparr>) r
        else jsonMap j (cgParameters r) (\<lambda>m. r\<lparr>cgParameters := m\<rparr>))
     \<lparr>cgName = [], cgGameType = [], cgParameters = []\<rparr>"

definition validateCreateGameServer :: "CreateGameServerRequest \<Rightarrow> gerr option" where
  "validateCreateGameServer r =
     (if cgName r = [] then Some (ErrNew ''name is required'')
      else if cgGameType r = [] then Some (ErrNew ''gameType is required'') else None)"

record LoginRequest =
  liUsername :: string
  liPassword :: string

definition decodeLogin :: "json \<Rightarrow> gerr + LoginRequest" where
  "decodeLogin = decodeStruct [''username'', ''password'']
     (\<lambda>f j r. if f = ''username'' then jsonString j (\<lambda>s. r\<lparr>liUsername := s\<rparr>) r
        else jsonString j (\<lambda>s. r\<lparr>liPassword := s\<rparr>) r)
     \<lparr>liUsername = [], liPassword = []\<rparr>"

definition validateLogin :: "LoginRequest \<Rightarrow> gerr option" where
  "validateLogin r =
     (if liUsername r = [] then Some (ErrNew ''username is required'')
      else if liPassword r = [] then Some (ErrNew ''password is required'') else None)"

record RegisterRequest =
  rgUsername :: string
  rgEmail :: string
  rgPassword :: string
  rgInviteToken :: string

definition decodeRegister :: "json \<Rightarrow> gerr + RegisterRequest" where
  "decodeRegister = decodeStruct [''username'', ''email'', ''password'', ''inviteToken'']
     (\<lambda>f j r. if f = ''username'' then jsonString j (\<lambda>s. r\<lparr>rgUsername := s\<rparr>) r
        else if f = ''email'' then jsonString j (\<lambda>s. r\<lparr>rgEmail := s\<rparr>) r
        else if f = ''password'' then jsonString j (\<lambda>s. r\<lparr>rgPassword := s\<rparr>) r
        else jsonString j (\<lambda>s. r\<lparr>rgInviteToken := s\<rparr>) r)
     \<lparr>rgUsername = [], rgEmail = [], rgPassword = [], rgInviteToken = []\<rparr>"

definition validateRegister :: "RegisterRequest \<Rightarrow> gerr option" where
  "validateRegister r =
     (if rgUsername r = [] then Some (ErrNew ''username is required'')
      else if rgEmail r = [] then Some (ErrNew ''email is required'')
      else if rgPassword r = [] then Some (ErrNew ''password is required'')
      else if rgInviteToken r = [] then Some (ErrNew ''inviteToken is required'') else None)"

record CreateInviteRequest =
  ciEmail :: string

definition decodeCreateInvite :: "json \<Rightarrow> gerr + CreateInviteRequest" where
  "decodeCreateInvite = decodeStruct [''email''] (\<lambda>f j r. jsonString j (\<lambda>s. r\<lparr>ciEmail := s\<rparr>) r) \<lparr>ciEmail = []\<rparr>"

definition validateCreateInvite :: "CreateInviteRequest \<Rightarrow> gerr option" where
  "validateCreateInvite r = (if ciEmail r = [] then Some (ErrNew ''email is required'') else None)"

record UpdateGameServerRequest =
  ugParameters :: gomap

definition decodeUpdateGameServer :: "json \<Rightarrow> gerr + UpdateGameServerRequest" where
  "decodeUpdateGameServer = decodeStruct [''parameters'']
     (\<lambda>f j r. jsonMap j (ugParameters r) (\<lambda>m. r\<lparr>ugParameters := m\<rparr>)) \<lparr>ugParameters = []\<rparr>"

definition validateUpdateGameServer :: "UpdateGameServerRequest \<Rightarrow> gerr option" where
  "validateUpdateGameServer r =
     (if length (ugParameters r) = 0 then Some (ErrNew ''at least one field must be provided for update'') else None)"

section \<open>Authentication\<close>

type_synonym 's handler = "Request \<Rightarrow> ('s, Response) state"

text \<open>The text \<^verbatim>\<open>{"error":"..."}\<close> that the middleware passes to \<^verbatim>\<open>http.Error\<close>.\<close>

definition errorObject :: "string \<Rightarrow> string" where
  "errorObject m = ''{'' @ [CHR 0x22] @ ''error'' @ [CHR 0x22] @ '':'' @ [CHR 0x22] @ m @ [CHR 0x22] @ ''}''"

definition extractBearerToken :: "Request \<Rightarrow> string" where
  "extractBearerToken r = (let authHeader = mget (reqHeader r) ''Authorization'' in
     if authHeader = [] then []
     else if \<not> HasPrefix authHeader ''Bearer '' then []
     else TrimPrefix authHeader ''Bearer '')"

definition GetUserFromContext :: "Request \<Rightarrow> KterodactylClaims option" where
  "GetUserFromContext r = reqClaims r"

definition claimsUser :: "KterodactylClaims \<Rightarrow> User" where
  "claimsUser c = \<lparr>Username = claimUsername c, Email = claimEmail c, PasswordHash = [], Role = claimRole c,
     CreatedAt = [], InvitedBy = []\<rparr>"

definition refreshHeader :: "'s JWTService \<Rightarrow> KterodactylClaims \<Rightarrow> ('s, gomap) state" where
  "refreshHeader sv claims = do {
     should \<leftarrow> ShouldRefresh sv claims;
     if should then do {
       made \<leftarrow> GenerateToken sv (claimsUser claims);
       case made of
         Inl _ \<Rightarrow> ret []
       | Inr t \<Rightarrow> ret [(''X-Refresh-Token'', t)] }
     else ret [] }"

definition Authenticate :: "'s JWTService \<Rightarrow> 's handler \<Rightarrow> 's handler" where
  "Authenticate sv next r = (let token = extractBearerToken r in
     if token = [] then ret (httpError (errorObject ''missing authorization header'') 401)
     else do {
       checked \<leftarrow> ValidateToken sv token;
       case checked of
         Inl err \<Rightarrow> ret (httpError (errorObject ''invalid or expired token'') 401)
       | Inr claims \<Rightarrow> do {
           h \<leftarrow> refreshHeader sv claims;
           resp \<leftarrow> next (r\<lparr>reqClaims := Some claims\<rparr>);
           ret (resp\<lparr>respHeader := h @ respHeader resp\<rparr>) } })"

definition RequireAdmin :: "'s handler \<Rightarrow> 's handler" where
  "RequireAdmin next r = (case GetUserFromContext r of
       None \<Rightarrow> ret (httpError (errorObject ''admin access required'') 403)
     | Some claims \<Rightarrow> if claimRole claims \<noteq> RoleAdmin
         then ret (httpError (errorObject ''admin access required'') 403)
         else next r)"

definition namespaceFromContext :: "Request \<Rightarrow> string" where
  "namespaceFromContext r = (case GetUserFromContext r of None \<Rightarrow> [] | Some c \<Rightarrow> claimNamespace c)"

definition usernameFromContext :: "Request \<Rightarrow> string" where
  "usernameFromContext r = (case GetUserFromContext r of None \<Rightarrow> [] | Some c \<Rightarrow> claimUsername c)"

end
