(* ===== verification/Manifest.thy ===== *)
theory Manifest
  imports Http "HOL-Library.List_Lexorder" "HOL-Library.Char_ord" "HOL-Library.Multiset"
begin

text \<open>
  Game manifests: \<^verbatim>\<open>internal/manifest/manifest.go\<close> and \<^verbatim>\<open>validate.go\<close>. The file system, the YAML
  parser, the quantity parser and the JSON Schema library are arguments; a compiled schema is the
  function that validates a set of parameters. Go strings are ordered by bytes, as lists of characters.
\<close>

section \<open>Data\<close>

record GameManifest =
  mName :: string
  mDisplayName :: string
  mImage :: string
  mPorts :: "GameServerPort list"
  mParameters :: gomap
  mResources :: ResourceRequirements
  mModPath :: string
  mBackupPath :: string
  mParameterSchema :: "json option"
  compiledSchema :: "(gomap \<Rightarrow> gerr option) option"

record rawPort =
  rpName :: string
  rpContainerPort :: int
  rpProtocol :: string

record rawResources =
  rawRequests :: gomap
  rawLimits :: gomap

record rawGameManifest =
  rawName :: string
  rawDisplayName :: string
  rawImage :: string
  rawPorts :: "rawPort list"
  rawParameters :: gomap
  rawResourcesOf :: rawResources
  rawModPath :: string
  rawBackupPath :: string
  rawParameterSchema :: "json option"

record ManifestEnv =
  ReadDir :: "string \<Rightarrow> gerr + (string \<times> bool) list"
  ReadFile :: "string \<Rightarrow> gerr + string"
  UnmarshalYAML :: "string \<Rightarrow> gerr + rawGameManifest"
  QuantityOf :: "string \<Rightarrow> gerr + quantity"
  RangeOrder :: "string list \<Rightarrow> string list"
  MarshalSchema :: "json \<Rightarrow> gerr + string"
  UnmarshalSchema :: "string \<Rightarrow> gerr + json"
  AddSchema :: "string \<Rightarrow> json \<Rightarrow> gerr option"
  CompileSchema :: "string \<Rightarrow> json \<Rightarrow> gerr + (gomap \<Rightarrow> gerr option)"

record Loader =
  manifests :: "(string \<times> GameManifest) list"

section \<open>Loading\<close>

primrec parseQuantities :: "ManifestEnv \<Rightarrow> gomap \<Rightarrow> gerr + (string \<times> quantity) list" where
  "parseQuantities env [] = Inr []"
| "parseQuantities env (p # ps) = (case QuantityOf env (snd p) of
       Inl err \<Rightarrow> Inl (errf (''invalid resource quantity for '' @ fst p @ ''='' @ [CHR 0x22] @ snd p @ [CHR 0x22] @ '': '') err)
     | Inr q \<Rightarrow> (case parseQuantities env ps of Inl err \<Rightarrow> Inl err | Inr r \<Rightarrow> Inr ((fst p, q) # r)))"

definition parseResourceList :: "ManifestEnv \<Rightarrow> gomap \<Rightarrow> gerr + (string \<times> quantity) list" where
  "parseResourceList env raw =
     (if length raw = 0 then Inr [] else parseQuantities env (rangeMap (RangeOrder env) raw))"

definition manifestPath :: "string \<Rightarrow> string \<Rightarrow> string \<Rightarrow> string" where
  "manifestPath dir entry file = Join [dir, entry, file]"

text \<open>The manifest file of a directory: the second name is tried when the first cannot be read.\<close>

definition manifestFile :: "ManifestEnv \<Rightarrow> string \<Rightarrow> string \<Rightarrow> (string \<times> string) option" where
  "manifestFile env dir entry = (case ReadFile env (manifestPath dir entry ''manifest.yaml'') of
       Inr data \<Rightarrow> Some (manifestPath dir entry ''manifest.yaml'', data)
     | Inl _ \<Rightarrow> (case ReadFile env (manifestPath dir entry ''manifest.yml'') of
         Inr data \<Rightarrow> Some (manifestPath dir entry ''manifest.yml'', data)
       | Inl _ \<Rightarrow> None))"

definition compileParameterSchema :: "ManifestEnv \<Rightarrow> string \<Rightarrow> rawGameManifest \<Rightarrow>
    gerr + (gomap \<Rightarrow> gerr option) option" where
  "compileParameterSchema env path raw = (case rawParameterSchema raw of
       None \<Rightarrow> Inr None
     | Some schema \<Rightarrow> (case MarshalSchema env schema of
         Inl err \<Rightarrow> Inl (errf (''manifest '' @ path @ '': failed to marshal parameter schema: '') err)
       | Inr text \<Rightarrow> (case UnmarshalSchema env text of
           Inl err \<Rightarrow> Inl (errf (''manifest '' @ path @ '': failed to unmarshal parameter schema JSON: '') err)
         | Inr doc \<Rightarrow> (let url = ''games/'' @ rawName raw @ ''/parameterSchema.json'' in
             case AddSchema env url doc of
               Some err \<Rightarrow> Inl (errf (''manifest '' @ path @ '': invalid parameter schema: '') err)
             | None \<Rightarrow> (case CompileSchema env url doc of
                 Inl err \<Rightarrow> Inl (errf (''manifest '' @ path @ '': failed to compile parameter schema: '') err)
               | Inr c \<Rightarrow> Inr (Some c))))))"

definition parseManifest :: "ManifestEnv \<Rightarrow> string \<Rightarrow> string \<Rightarrow> gerr + GameManifest" where
  "parseManifest env path data = (case UnmarshalYAML env data of
       Inl err \<Rightarrow> Inl (errf (''failed to parse manifest file '' @ path @ '': '') err)
     | Inr raw \<Rightarrow>
         if rawName raw = [] then Inl (ErrNew (''manifest file '' @ path @ '': name field is required''))
         else if rawImage raw = [] then Inl (ErrNew (''manifest file '' @ path @ '': image field is required''))
         else (case parseResourceList env (rawRequests (rawResourcesOf raw)) of
           Inl err \<Rightarrow> Inl (errf (''manifest file '' @ path @ '': invalid requests: '') err)
         | Inr requests \<Rightarrow> (case parseResourceList env (rawLimits (rawResourcesOf raw)) of
             Inl err \<Rightarrow> Inl (errf (''manifest file '' @ path @ '': invalid limits: '') err)
           | Inr limits \<Rightarrow> (case compileParameterSchema env path raw of
               Inl err \<Rightarrow> Inl err
             | Inr schema \<Rightarrow> Inr \<lparr>
                 mName = rawName raw, mDisplayName = rawDisplayName raw, mImage = rawImage raw,
                 mPorts = map (\<lambda>rp. \<lparr>PortName = rpName rp, ContainerPort = rpContainerPort rp,
                   Protocol = rpProtocol rp\<rparr>) (rawPorts raw),
                 mParameters = rawParameters raw,
                 mResources = \<lparr>Requests = requests, Limits = limits\<rparr>,
                 mModPath = rawModPath raw, mBackupPath = rawBackupPath raw,
                 mParameterSchema = rawParameterSchema raw, compiledSchema = schema\<rparr>))))"

primrec loadEntries :: "ManifestEnv \<Rightarrow> string \<Rightarrow> (string \<times> bool) list \<Rightarrow> (string \<times> GameManifest) list \<Rightarrow>
    gerr + (string \<times> GameManifest) list" where
  "loadEntries env dir [] ms = Inr ms"
| "loadEntries env dir (e # es) ms =
     (if \<not> snd e then loadEntries env dir es ms
      else (case manifestFile env dir (fst e) of
          None \<Rightarrow> loadEntries env dir es ms
        | Some (path, data) \<Rightarrow> (case parseManifest env path data of
            Inl err \<Rightarrow> Inl err
          | Inr m \<Rightarrow> loadEntries env dir es (AList.update (mName m) m ms))))"

definition LoadFromDirectory :: "ManifestEnv \<Rightarrow> string \<Rightarrow> gerr + Loader" where
  "LoadFromDirectory env dir = (case ReadDir env dir of
       Inl err \<Rightarrow> Inl (errf (''failed to read games directory '' @ dir @ '': '') err)
     | Inr entries \<Rightarrow> (case loadEntries env dir entries [] of
         Inl err \<Rightarrow> Inl err
       | Inr ms \<Rightarrow>
           if length ms = 0 then Inl (ErrNew (''no valid game manifests found in '' @ dir))
           else Inr \<lparr>manifests = ms\<rparr>))"

section \<open>Access\<close>

definition LoaderGet :: "Loader \<Rightarrow> string \<Rightarrow> GameManifest option" where
  "LoaderGet l name = map_of (manifests l) name"

definition LoaderList :: "Loader \<Rightarrow> GameManifest list" where
  "LoaderList l = sort_key mName (map snd (manifests l))"

definition ValidateParameters :: "GameManifest \<Rightarrow> gomap \<Rightarrow> gerr option" where
  "ValidateParameters m params = (case compiledSchema m of
       None \<Rightarrow> None
     | Some validate \<Rightarrow> map_option (errf ''parameter validation failed: '') (validate params))"

definition HasSchema :: "GameManifest \<Rightarrow> bool" where
  "HasSchema m \<longleftrightarrow> compiledSchema m \<noteq> None"

section \<open>The invariant of a loader\<close>

definition manifest_ok :: "GameManifest \<Rightarrow> bool" where
  "manifest_ok m \<longleftrightarrow> mName m \<noteq> [] \<and> mImage m \<noteq> [] \<and> (HasSchema m \<longleftrightarrow> mParameterSchema m \<noteq> None)"

definition loader_ok :: "(string \<times> GameManifest) list \<Rightarrow> bool" where
  "loader_ok ms \<longleftrightarrow> distinct (map fst ms) \<and> (\<forall>(n, m) \<in> set ms. n = mName m \<and> manifest_ok m)"

lemma parseManifest_ok: "parseManifest env path data = Inr m \<Longrightarrow> manifest_ok m"
  by (auto simp: parseManifest_def compileParameterSchema_def manifest_ok_def HasSchema_def Let_def
      split: sum.splits if_splits option.splits)

lemma set_update_subset: "set (AList.update k v al) \<subseteq> insert (k, v) (set al)"
  by (induction al) auto

lemma loader_ok_update: "loader_ok ms \<Longrightarrow> manifest_ok m \<Longrightarrow> loader_ok (AList.update (mName m) m ms)"
  using set_update_subset[of "mName m" m ms] by (auto simp: loader_ok_def distinct_update)

lemma loadEntries_ok: "loadEntries env dir es ms = Inr ms' \<Longrightarrow> loader_ok ms \<Longrightarrow> loader_ok ms'"
proof (induction es arbitrary: ms)
  case (Cons e es)
  then consider "loadEntries env dir es ms = Inr ms'"
    | path data m where "parseManifest env path data = Inr m"
        "loadEntries env dir es (AList.update (mName m) m ms) = Inr ms'"
    by (auto split: if_splits option.splits sum.splits)
  then show ?case
  proof cases
    case 2
    then show ?thesis using Cons parseManifest_ok loader_ok_update by blast
  qed (use Cons in blast)
qed simp

lemma loaded_ok: "LoadFromDirectory env dir = Inr l \<Longrightarrow> loader_ok (manifests l) \<and> manifests l \<noteq> []"
  by (auto simp: LoadFromDirectory_def loader_ok_def split: sum.splits if_splits
      dest!: loadEntries_ok[of _ _ _ "[]"])


text \<open>A directory with two games, one of them read from the second file name, and a stray file.\<close>

definition demoManifestEnv :: ManifestEnv where
  "demoManifestEnv = \<lparr>
     ReadDir = (\<lambda>d. Inr [(''terraria'', True), (''README'', False), (''minecraft'', True), (''empty'', True)]),
     ReadFile = (\<lambda>p. if p = ''games/terraria/manifest.yml'' then Inr ''terraria''
       else if p = ''games/minecraft/manifest.yaml'' then Inr ''minecraft'' else Inl (ErrNew ''no such file'')),
     UnmarshalYAML = (\<lambda>t. Inr \<lparr>rawName = t, rawDisplayName = t, rawImage = t @ '':latest'',
       rawPorts = [\<lparr>rpName = ''game'', rpContainerPort = 25565, rpProtocol = ''TCP''\<rparr>], rawParameters = [(''EULA'', ''true'')],
       rawResourcesOf = \<lparr>rawRequests = [(''cpu'', ''1'')], rawLimits = []\<rparr>, rawModPath = ''/mods'', rawBackupPath = [],
       rawParameterSchema = (if t = ''minecraft'' then Some (JObject []) else None)\<rparr>),
     QuantityOf = (\<lambda>t. Inr 1), RangeOrder = (\<lambda>ks. ks), MarshalSchema = (\<lambda>j. Inr ''{}''),
     UnmarshalSchema = (\<lambda>t. Inr (JObject [])), AddSchema = (\<lambda>u d. None),
     CompileSchema = (\<lambda>u d. Inr (\<lambda>params. if map_of params ''EULA'' = Some ''true'' then None
       else Some (ErrNew ''EULA not accepted'')))\<rparr>"


end
