(* ===== verification/ApiServer.thy ===== *)
theory ApiServer
  imports Manifest BackupController
begin

text \<open>
  The REST API server: its dependencies (\<^verbatim>\<open>internal/api/server.go\<close>) as the record \<open>Server\<close>, and the handlers
  of \<^verbatim>\<open>handlers_gameserver.go\<close>, \<^verbatim>\<open>handlers_games.go\<close>, \<^verbatim>\<open>handlers_metrics.go\<close> and \<^verbatim>\<open>handlers_health.go\<close>.
  A response body is the JSON value the code encodes.
\<close>

section \<open>The server\<close>

text \<open>
  \<open>srvPodMetrics\<close> is the Metrics API (absent when the client is nil), giving name, CPU and memory of each
  container; \<open>srvMilli\<close> and \<open>srvValue\<close> are the conversions of a quantity.
\<close>

record ('s, 'c) Server =
  srvClient :: "'s client"
  srvRuntime :: "'s runtime"
  srvEnv :: "('s, 'c) BackupEnv"
  srvPodMetrics :: "(string \<Rightarrow> string \<Rightarrow> ('s, gerr + (string \<times> quantity \<times> quantity) list) state) option"
  srvMilli :: "quantity \<Rightarrow> int"
  srvValue :: "quantity \<Rightarrow> int"
  srvJWT :: "'s JWTService"
  srvUsers :: "'s UserStore"
  srvInvites :: "'s InviteService"
  srvManifests :: Loader
  srvNamespace :: string
  srvIDKey :: idkey
  srvRand :: "nat \<Rightarrow> ('s, gerr + string) state"
  srvBindAddress :: string

definition loadAdminConfig :: "('s, 'c) Server \<Rightarrow> ('s, gerr + AdminConfig) state" where
  "loadAdminConfig srv = LoadAdminConfig (srvClient srv) (srvRuntime srv) (srvNamespace srv)"

text \<open>The checks that the handlers share: the caller's namespace, and the game server of that name in it.\<close>

definition withNamespace :: "Request \<Rightarrow> (string \<Rightarrow> ('s, Response) state) \<Rightarrow> ('s, Response) state" where
  "withNamespace r f = (let ns = namespaceFromContext r in
     if ns = [] then ret (respondError 401 ''no namespace in context'') else f ns)"

definition serverKey :: "string \<Rightarrow> Request \<Rightarrow> key" where
  "serverKey ns r = \<lparr>keyNamespace = ns, keyName = URLParam r ''name''\<rparr>"

definition fetchGameServer :: "('s, 'c) Server \<Rightarrow> string \<Rightarrow> Request \<Rightarrow> (GameServer \<Rightarrow> ('s, Response) state) \<Rightarrow>
    ('s, Response) state" where
  "fetchGameServer srv ns r f = do {
     got \<leftarrow> kget (gameservers (srvClient srv)) (serverKey ns r);
     case got of
       Inl err \<Rightarrow>
         if IsNotFound err then ret (respondError 404 (''game server not found: '' @ URLParam r ''name''))
         else ret (respondError 500 ''failed to get game server'')
     | Inr gs \<Rightarrow> f gs }"

section \<open>Game servers\<close>

definition portToJSON :: "GameServerStatusPort \<Rightarrow> json" where
  "portToJSON p = JObject [(''name'', JString (StatusPortName p)), (''port'', JNumber (StatusPort p)),
     (''protocol'', JString (StatusProtocol p))]"

definition timeOf :: "gotime option \<Rightarrow> gotime" where
  "timeOf t = (case t of None \<Rightarrow> zeroTime | Some x \<Rightarrow> x)"

definition gameServerToResponse :: "GameServer \<Rightarrow> json" where
  "gameServerToResponse gs = JObject (
     [(''name'', JString (Name (gsMeta gs))), (''gameType'', JString (GameType (gsSpec gs))),
      (''state'', JString (gs_state_string (gsState gs)))]
     @ unlessEmpty ''address'' (Address (gsStatus gs))
     @ (if StatusPorts (gsStatus gs) = [] then [] else [(''ports'', JArray (map portToJSON (StatusPorts (gsStatus gs))))])
     @ (if Parameters (gsSpec gs) = [] then [] else [(''parameters'', jsonFields (sort_key fst (Parameters (gsSpec gs))))])
     @ [(''createdAt'', JString (FormatRFC3339 (timeOf (CreationTimestamp (gsMeta gs)))))])"

definition mergeMaps :: "gomap \<Rightarrow> gomap \<Rightarrow> gomap" where
  "mergeMaps base override = fold (\<lambda>(k, v). mput k v) override (fold (\<lambda>(k, v). mput k v) base [])"

definition handleListGameServers :: "('s, 'c) Server \<Rightarrow> 's handler" where
  "handleListGameServers srv r = withNamespace r (\<lambda>ns. do {
     l \<leftarrow> klist (gameservers (srvClient srv)) (Some ns) [];
     case l of
       Inl err \<Rightarrow> ret (respondError 500 ''failed to list game servers'')
     | Inr items \<Rightarrow> ret (respondList 200 (map gameServerToResponse items)) })"

definition annotate :: "string \<Rightarrow> string \<Rightarrow> gomap \<Rightarrow> gomap" where
  "annotate k v m = (if v = [] then m else mput k v m)"

definition newGameServer :: "string \<Rightarrow> string \<Rightarrow> CreateGameServerRequest \<Rightarrow> GameManifest \<Rightarrow> gomap \<Rightarrow> GameServer" where
  "newGameServer ns username req m parameters = \<lparr>
     gsMeta = (NewMeta ns (cgName req) (GameServerLabels username (cgGameType req)))
       \<lparr>Annotations := annotate AnnotationBackupPath (mBackupPath m) (annotate AnnotationModPath (mModPath m) [])\<rparr>,
     gsSpec = \<lparr>GameType = cgGameType req, Image = mImage m, Resources = mResources m, Ports = mPorts m,
       Parameters = parameters\<rparr>,
     gsStatus = GameServerStatus0\<rparr>"

definition handleCreateGameServer :: "('s, 'c) Server \<Rightarrow> 's handler" where
  "handleCreateGameServer srv r =
     (let ns = namespaceFromContext r; username = usernameFromContext r in
      if ns = [] \<or> username = [] then ret (respondError 401 ''no namespace or username in context'')
      else (case decodeJSON decodeCreateGameServer r of
        Inl err \<Rightarrow> ret (respondError 400 (error_text err))
      | Inr req \<Rightarrow> (case validateCreateGameServer req of
          Some err \<Rightarrow> ret (respondError 400 (error_text err))
        | None \<Rightarrow> (case LoaderGet (srvManifests srv) (cgGameType req) of
            None \<Rightarrow> ret (respondError 400 (''unknown game type: '' @ cgGameType req))
          | Some m \<Rightarrow> (let parameters = mergeMaps (mParameters m) (cgParameters req) in
              case ValidateParameters m parameters of
                Some err \<Rightarrow> ret (respondError 400 (error_text err))
              | None \<Rightarrow> do {
                  made \<leftarrow> kcreate (gameservers (srvClient srv)) (newGameServer ns username req m parameters);
                  case made of
                    Inl err \<Rightarrow>
                      if IsAlreadyExists err then ret (respondError 409 ''game server with this name already exists'')
                      else ret (respondError 500 ''failed to create game server'')
                  | Inr gs \<Rightarrow> ret (respondJSON 201 (gameServerToResponse gs)) })))))"

definition handleGetGameServer :: "('s, 'c) Server \<Rightarrow> 's handler" where
  "handleGetGameServer srv r = withNamespace r (\<lambda>ns. fetchGameServer srv ns r (\<lambda>gs.
     ret (respondJSON 200 (gameServerToResponse gs))))"

definition setParameters :: "gomap \<Rightarrow> GameServer \<Rightarrow> GameServer" where
  "setParameters ps gs = gs\<lparr>gsSpec := (gsSpec gs)\<lparr>Parameters := ps\<rparr>\<rparr>"

definition handleUpdateGameServer :: "('s, 'c) Server \<Rightarrow> 's handler" where
  "handleUpdateGameServer srv r = withNamespace r (\<lambda>ns.
     case decodeJSON decodeUpdateGameServer r of
       Inl err \<Rightarrow> ret (respondError 400 (error_text err))
     | Inr req \<Rightarrow> (case validateUpdateGameServer req of
         Some err \<Rightarrow> ret (respondError 400 (error_text err))
       | None \<Rightarrow> fetchGameServer srv ns r (\<lambda>gs0.
           let gs = setParameters (mergeMaps (Parameters (gsSpec gs0)) (ugParameters req)) gs0 in
           case Option.bind (LoaderGet (srvManifests srv) (GameType (gsSpec gs)))
               (\<lambda>m. ValidateParameters m (Parameters (gsSpec gs))) of
             Some err \<Rightarrow> ret (respondError 400 (error_text err))
           | None \<Rightarrow> do {
               put \<leftarrow> kupdate (gameservers (srvClient srv)) gs;
               case put of
                 Inl err \<Rightarrow> ret (respondError 500 ''failed to update game server'')
               | Inr gs' \<Rightarrow> ret (respondJSON 200 (gameServerToResponse gs')) })))"

definition handleDeleteGameServer :: "('s, 'c) Server \<Rightarrow> 's handler" where
  "handleDeleteGameServer srv r = withNamespace r (\<lambda>ns. fetchGameServer srv ns r (\<lambda>gs. do {
     del \<leftarrow> kdelete (gameservers (srvClient srv)) gs None;
     case del of
       Inl err \<Rightarrow> ret (respondError 500 ''failed to delete game server'')
     | Inr _ \<Rightarrow> ret (respondStatus 204) }))"

text \<open>Writing a new state, as start, stop and restart do.\<close>

definition putState :: "('s, 'c) Server \<Rightarrow> GameServerState \<Rightarrow> GameServer \<Rightarrow> ('s, Response) state" where
  "putState srv st gs = do {
     put \<leftarrow> kstatus (gameservers (srvClient srv)) (setState st gs);
     case put of
       Inl err \<Rightarrow> ret (respondError 500 ''failed to update game server state'')
     | Inr gs' \<Rightarrow> ret (respondJSON 200 (gameServerToResponse gs')) }"

definition handleStartGameServer :: "('s, 'c) Server \<Rightarrow> 's handler" where
  "handleStartGameServer srv r = withNamespace r (\<lambda>ns. fetchGameServer srv ns r (\<lambda>gs.
     if gsState gs \<in> {GameServerStateCreating, GameServerStateStarting, GameServerStateReady, GameServerStateAllocated}
     then ret (respondError 409 ''server is already running'')
     else putState srv GameServerStateCreating gs))"

definition handleStopGameServer :: "('s, 'c) Server \<Rightarrow> 's handler" where
  "handleStopGameServer srv r = withNamespace r (\<lambda>ns. fetchGameServer srv ns r (\<lambda>gs.
     if gsState gs = GameServerStateShutdown then ret (respondError 409 ''server is already stopped'')
     else if gsState gs = GameServerStateError then ret (respondError 409 ''server is in error state'')
     else putState srv GameServerStateShutdown gs))"

definition handleRestartGameServer :: "('s, 'c) Server \<Rightarrow> 's handler" where
  "handleRestartGameServer srv r = withNamespace r (\<lambda>ns. fetchGameServer srv ns r
     (putState srv GameServerStateCreating))"

section \<open>Games\<close>

definition gamePortToJSON :: "GameServerPort \<Rightarrow> json" where
  "gamePortToJSON p = JObject [(''name'', JString (PortName p)), (''containerPort'', JNumber (ContainerPort p)),
     (''protocol'', JString (Protocol p))]"

definition gameManifestToResponse :: "GameManifest \<Rightarrow> json" where
  "gameManifestToResponse m = JObject (
     [(''name'', JString (mName m)), (''displayName'', JString (mDisplayName m)), (''image'', JString (mImage m)),
      (''ports'', JArray (map gamePortToJSON (mPorts m))), (''parameters'', jsonFields (sort_key fst (mParameters m)))]
     @ (case mParameterSchema m of None \<Rightarrow> [] | Some (JObject []) \<Rightarrow> [] | Some j \<Rightarrow> [(''parameterSchema'', j)]))"

definition handleListGames :: "('s, 'c) Server \<Rightarrow> 's handler" where
  "handleListGames srv r = ret (respondList 200 (map gameManifestToResponse (LoaderList (srvManifests srv))))"

definition handleGetGame :: "('s, 'c) Server \<Rightarrow> 's handler" where
  "handleGetGame srv r = (case LoaderGet (srvManifests srv) (URLParam r ''gameType'') of
       None \<Rightarrow> ret (respondError 404 (''game type not found: '' @ URLParam r ''gameType''))
     | Some m \<Rightarrow> ret (respondJSON 200 (gameManifestToResponse m)))"

section \<open>Metrics and health\<close>

text \<open>Go's integer division truncates towards zero.\<close>

definition quot :: "int \<Rightarrow> int \<Rightarrow> int" where
  "quot a b = (if a < 0 then - (- a div b) else a div b)"

definition metricsToResponse :: "('s, 'c) Server \<Rightarrow> GameServer \<Rightarrow> (string \<times> quantity \<times> quantity) list \<Rightarrow> json" where
  "metricsToResponse srv gs containers =
     (let usage = List.find (\<lambda>(n, _). n = ''gameserver'') containers;
          cpuMillis = (case usage of None \<Rightarrow> 0 | Some (_, cpu, _) \<Rightarrow> srvMilli srv cpu);
          memoryBytes = (case usage of None \<Rightarrow> 0 | Some (_, _, memory) \<Rightarrow> srvValue srv memory);
          limits = Limits (Resources (gsSpec gs));
          cpuLimit = (case map_of limits ''cpu'' of None \<Rightarrow> 0 | Some q \<Rightarrow> srvMilli srv q);
          memoryLimit = (case map_of limits ''memory'' of None \<Rightarrow> 0 | Some q \<Rightarrow> srvValue srv q) in
      JObject [(''cpu'', JNumber cpuMillis), (''memoryMiB'', JNumber (quot memoryBytes 1048576)),
        (''cpuLimit'', JNumber cpuLimit), (''memoryLimitMiB'', JNumber (quot memoryLimit 1048576))])"

definition handleGetMetrics :: "('s, 'c) Server \<Rightarrow> 's handler" where
  "handleGetMetrics srv r = withNamespace r (\<lambda>ns. fetchGameServer srv ns r (\<lambda>gs.
     case srvPodMetrics srv of
       None \<Rightarrow> ret (respondError 503 ''metrics unavailable'')
     | Some get \<Rightarrow> do {
         got \<leftarrow> get ns (URLParam r ''name'');
         case got of
           Inl err \<Rightarrow>
             if IsNotFound err then ret (respondError 404 (''metrics not found for server: '' @ URLParam r ''name''))
             else ret (respondError 503 ''metrics unavailable'')
         | Inr containers \<Rightarrow> ret (respondJSON 200 (metricsToResponse srv gs containers)) }))"

definition handleHealthz :: "'s handler" where
  "handleHealthz r = ret (respondJSON 200 (jsonFields [(''status'', ''ok'')]))"

definition handleReadyz :: "'s handler" where
  "handleReadyz r = ret (respondJSON 200 (jsonFields [(''status'', ''ok'')]))"

end
