(* ===== verification/ApiBackups.thy ===== *)
theory ApiBackups
  imports ApiServer
begin

text \<open>
  The handlers of \<^verbatim>\<open>handlers_backups.go\<close> and \<^verbatim>\<open>handlers_mods.go\<close>. The pipe between the tar writer and the
  exec stream is a value: the archive the writer makes, or its error.
\<close>

section \<open>Pods\<close>

text \<open>The result of \<^verbatim>\<open>execInPod\<close>: output, error output and error.\<close>

definition execInPod :: "('s, 'c) Server \<Rightarrow> string \<Rightarrow> string \<Rightarrow> string list \<Rightarrow> string \<Rightarrow>
    ('s, string \<times> string \<times> gerr option) state" where
  "execInPod srv ns podName command stdin = do {
     res \<leftarrow> PodExec (srvEnv srv) ns podName command stdin;
     case res of
       Inl err \<Rightarrow> ret ([], [], Some (errf ''exec setup failed: '' err))
     | Inr out \<Rightarrow> ret out }"

text \<open>Any error of the lookup counts as a missing server in these handlers.\<close>

definition findGameServer :: "('s, 'c) Server \<Rightarrow> string \<Rightarrow> Request \<Rightarrow> (GameServer \<Rightarrow> ('s, Response) state) \<Rightarrow>
    ('s, Response) state" where
  "findGameServer srv ns r f = do {
     got \<leftarrow> kget (gameservers (srvClient srv)) (serverKey ns r);
     case got of
       Inl err \<Rightarrow> ret (respondError 404 (''game server not found: '' @ URLParam r ''name''))
     | Inr gs \<Rightarrow> f gs }"

text \<open>Restarting: the server is fetched again and set to \<^verbatim>\<open>Creating\<close>; the result says whether it worked.\<close>

definition restartServer :: "('s, 'c) Server \<Rightarrow> string \<Rightarrow> Request \<Rightarrow> ('s, bool) state" where
  "restartServer srv ns r = do {
     got \<leftarrow> kget (gameservers (srvClient srv)) (serverKey ns r);
     case got of
       Inl err \<Rightarrow> ret False
     | Inr gs \<Rightarrow> do {
         put \<leftarrow> kstatus (gameservers (srvClient srv)) (setState GameServerStateCreating gs);
         case put of Inl err \<Rightarrow> ret False | Inr _ \<Rightarrow> ret True } }"

section \<open>Backups\<close>

definition backupToResponse :: "Backup \<Rightarrow> json" where
  "backupToResponse b = JObject (
     [(''name'', JString (Name (bkMeta b))), (''gameServerName'', JString (GameServerName (bkSpec b))),
      (''state'', JString (backup_state_string (bState (bkStatus b))))]
     @ unlessEmpty ''s3Key'' (S3Key (bkStatus b)) @ unlessEmpty ''s3Bucket'' (S3Bucket (bkStatus b))
     @ (if Size (bkStatus b) = 0 then [] else [(''size'', JNumber (Size (bkStatus b)))])
     @ (case StartedAt (bkStatus b) of None \<Rightarrow> [] | Some t \<Rightarrow> unlessEmpty ''startedAt'' (FormatRFC3339 t))
     @ (case CompletedAt (bkStatus b) of None \<Rightarrow> [] | Some t \<Rightarrow> unlessEmpty ''completedAt'' (FormatRFC3339 t))
     @ unlessEmpty ''message'' (Message (bkStatus b))
     @ [(''createdAt'', JString (FormatRFC3339 (timeOf (CreationTimestamp (bkMeta b)))))])"

definition newBackup :: "string \<Rightarrow> string \<Rightarrow> gotime \<Rightarrow> Backup" where
  "newBackup ns serverName now = \<lparr>
     bkMeta = NewMeta ns (serverName @ ''-backup-'' @ FormatCompact now)
       [(LabelBackupGameServer, serverName), (LabelManagedBy, ManagedByValue)],
     bkSpec = \<lparr>GameServerName = serverName, BackupPaths = []\<rparr>, bkStatus = BackupStatus0\<rparr>"

definition setBackupState :: "BackupState \<Rightarrow> Backup \<Rightarrow> Backup" where
  "setBackupState st b = b\<lparr>bkStatus := (bkStatus b)\<lparr>bState := st\<rparr>\<rparr>"

definition submitBackup :: "('s, 'c) Server \<Rightarrow> Backup \<Rightarrow> ('s, Response) state" where
  "submitBackup srv b = do {
     made \<leftarrow> kcreate (backups (srvClient srv)) b;
     case made of
       Inl err \<Rightarrow> ret (respondError 500 ''failed to create backup'')
     | Inr backup \<Rightarrow> do {
         put \<leftarrow> kstatus (backups (srvClient srv)) (setBackupState BackupStatePending backup);
         case put of
           Inl err \<Rightarrow> ret (respondError 500 ''backup created but failed to set initial state'')
         | Inr backup' \<Rightarrow> ret (respondJSON 201 (backupToResponse backup')) } }"

definition handleCreateBackup :: "('s, 'c) Server \<Rightarrow> 's handler" where
  "handleCreateBackup srv r = withNamespace r (\<lambda>ns. findGameServer srv ns r (\<lambda>gs.
     if \<not> running gs then ret (respondError 409 ''server must be running to create backup'')
     else do {
       l \<leftarrow> klist (backups (srvClient srv)) (Some ns) [(LabelBackupGameServer, URLParam r ''name'')];
       case l of
         Inl err \<Rightarrow> ret (respondError 500 ''failed to list backups'')
       | Inr items \<Rightarrow>
           if list_ex (\<lambda>b. bState (bkStatus b) = BackupStateInProgress) items
           then ret (respondError 409 ''backup already in progress'')
           else do {
             now \<leftarrow> Now (srvRuntime srv);
             submitBackup srv (newBackup ns (URLParam r ''name'') now) } }))"

definition handleListBackups :: "('s, 'c) Server \<Rightarrow> 's handler" where
  "handleListBackups srv r = withNamespace r (\<lambda>ns. findGameServer srv ns r (\<lambda>gs. do {
     l \<leftarrow> klist (backups (srvClient srv)) (Some ns) [(LabelBackupGameServer, URLParam r ''name'')];
     case l of
       Inl err \<Rightarrow> ret (respondError 500 ''failed to list backups'')
     | Inr items \<Rightarrow> ret (respondList 200 (map backupToResponse (SortNewest (srvEnv srv) items))) }))"

text \<open>The backup named in the path, if it belongs to the server named there.\<close>

definition findBackup :: "('s, 'c) Server \<Rightarrow> string \<Rightarrow> Request \<Rightarrow> (Backup \<Rightarrow> ('s, Response) state) \<Rightarrow>
    ('s, Response) state" where
  "findBackup srv ns r f = do {
     got \<leftarrow> kget (backups (srvClient srv)) \<lparr>keyNamespace = ns, keyName = URLParam r ''backupName''\<rparr>;
     case got of
       Inl err \<Rightarrow> ret (respondError 404 (''backup not found: '' @ URLParam r ''backupName''))
     | Inr backup \<Rightarrow>
         if GameServerName (bkSpec backup) \<noteq> URLParam r ''name''
         then ret (respondError 404 ''backup not found for this game server'')
         else f backup }"

definition handleDeleteBackup :: "('s, 'c) Server \<Rightarrow> 's handler" where
  "handleDeleteBackup srv r = withNamespace r (\<lambda>ns. findBackup srv ns r (\<lambda>backup. do {
     del \<leftarrow> kdelete (backups (srvClient srv)) backup None;
     case del of
       Inl err \<Rightarrow> ret (respondError 500 ''failed to delete backup'')
     | Inr _ \<Rightarrow> ret (respondStatus 204) }))"

definition createS3Client :: "('s, 'c) Server \<Rightarrow> AdminConfig \<Rightarrow> ('s, gerr + 'c) state" where
  "createS3Client srv cfg = do {
     got \<leftarrow> kget (secrets (srvClient srv)) \<lparr>keyNamespace = srvNamespace srv, keyName = s3CredentialsSecretName\<rparr>;
     case got of
       Inl err \<Rightarrow> ret (Inl (ErrNew ''S3 credentials secret not found''))
     | Inr secret \<Rightarrow>
         (let accessKeyID = mget (secData secret) ''accessKeyID'';
              secretAccessKey = mget (secData secret) ''secretAccessKey'' in
          if accessKeyID = [] \<or> secretAccessKey = [] then
            ret (Inl (ErrNew ''S3 credentials secret missing accessKeyID or secretAccessKey''))
          else (case NewS3 (srvEnv srv) (BackupS3Endpoint cfg) accessKeyID secretAccessKey (BackupS3UseSSL cfg) of
            Inl err \<Rightarrow> ret (Inl (errf ''failed to create S3 client: '' err))
          | Inr c \<Rightarrow> ret (Inr c))) }"

definition restorePath :: "GameServer \<Rightarrow> string" where
  "restorePath gs = (let p = mget (Annotations (gsMeta gs)) AnnotationBackupPath in if p = [] then ''/data'' else p)"

definition restoreMessage :: "Request \<Rightarrow> bool \<Rightarrow> Response" where
  "restoreMessage r restarted = respondJSON 200 (jsonFields [(''message'', ''restored from backup ''
     @ URLParam r ''backupName'' @ (if restarted then '', server restarting'' else '', but failed to restart server''))])"

text \<open>Download, decompress, unpack in the Pod, restart.\<close>

definition restoreFrom :: "('s, 'c) Server \<Rightarrow> string \<Rightarrow> Request \<Rightarrow> GameServer \<Rightarrow> Backup \<Rightarrow> 'c \<Rightarrow> ('s, Response) state" where
  "restoreFrom srv ns r gs backup c = do {
     obj \<leftarrow> GetObject (srvEnv srv) c (S3Bucket (bkStatus backup)) (S3Key (bkStatus backup));
     case obj of
       Inl err \<Rightarrow> ret (respondError 500 ''failed to download backup from S3'')
     | Inr bytes \<Rightarrow> (case Gunzip (srvEnv srv) bytes of
         Inl err \<Rightarrow> ret (respondError 500 ''failed to decompress backup'')
       | Inr tar \<Rightarrow> do {
           out \<leftarrow> execInPod srv ns (URLParam r ''name'') [''tar'', ''-xf'', ''-'', ''-C'', restorePath gs] tar;
           case out of (_, stderr, execErr) \<Rightarrow>
             if execErr \<noteq> None then ret (respondError 500 (''failed to restore backup: '' @ TrimSpace stderr))
             else do {
               ok \<leftarrow> restartServer srv ns r;
               ret (restoreMessage r ok) } }) }"

definition handleRestoreBackup :: "('s, 'c) Server \<Rightarrow> 's handler" where
  "handleRestoreBackup srv r = withNamespace r (\<lambda>ns. findGameServer srv ns r (\<lambda>gs. findBackup srv ns r (\<lambda>backup.
     if bState (bkStatus backup) \<noteq> BackupStateCompleted
     then ret (respondError 409 ''backup must be in Completed state to restore'')
     else if \<not> running gs then ret (respondError 409 ''server must be running to restore from backup'')
     else do {
       load \<leftarrow> loadAdminConfig srv;
       case load of
         Inl err \<Rightarrow> ret (respondError 503 ''S3 backup storage not configured'')
       | Inr cfg \<Rightarrow>
           if BackupS3Endpoint cfg = [] then ret (respondError 503 ''S3 backup storage not configured'')
           else do {
             s3 \<leftarrow> createS3Client srv cfg;
             case s3 of
               Inl err \<Rightarrow> ret (respondError 503 (''failed to initialize S3 client: '' @ error_text err))
             | Inr c \<Rightarrow> restoreFrom srv ns r gs backup c } })))"

record SetBackupScheduleRequest =
  bsSchedule :: string
  bsRetention :: int

definition decodeSetBackupSchedule :: "json \<Rightarrow> gerr + SetBackupScheduleRequest" where
  "decodeSetBackupSchedule = decodeStruct [''schedule'', ''retention'']
     (\<lambda>f j r. if f = ''schedule'' then jsonString j (\<lambda>s. r\<lparr>bsSchedule := s\<rparr>) r
        else jsonInt j (\<lambda>i. r\<lparr>bsRetention := i\<rparr>) r)
     \<lparr>bsSchedule = [], bsRetention = 0\<rparr>"

definition scheduleAnnotations :: "SetBackupScheduleRequest \<Rightarrow> gomap \<Rightarrow> gomap" where
  "scheduleAnnotations req m =
     (if bsSchedule req = [] then mdelete AnnotationBackupRetention (mdelete AnnotationBackupSchedule m)
      else let m1 = mput AnnotationBackupSchedule (bsSchedule req) m in
        if bsRetention req > 0 then mput AnnotationBackupRetention (Itoa (bsRetention req)) m1
        else mdelete AnnotationBackupRetention m1)"

definition setAnnotations :: "gomap \<Rightarrow> GameServer \<Rightarrow> GameServer" where
  "setAnnotations m gs = gs\<lparr>gsMeta := (gsMeta gs)\<lparr>Annotations := m\<rparr>\<rparr>"

definition scheduleResponse :: "Request \<Rightarrow> GameServer \<Rightarrow> json" where
  "scheduleResponse r gs =
     (let retStr = mget (Annotations (gsMeta gs)) AnnotationBackupRetention;
          retention = (if retStr = [] then 0 else case Atoi retStr of None \<Rightarrow> 0 | Some n \<Rightarrow> n) in
      JObject [(''gameServer'', JString (URLParam r ''name'')), (''retention'', JNumber retention),
        (''schedule'', JString (mget (Annotations (gsMeta gs)) AnnotationBackupSchedule))])"

definition handleSetBackupSchedule :: "('s, 'c) Server \<Rightarrow> 's handler" where
  "handleSetBackupSchedule srv r = withNamespace r (\<lambda>ns.
     case decodeJSON decodeSetBackupSchedule r of
       Inl err \<Rightarrow> ret (respondError 400 (error_text err))
     | Inr req \<Rightarrow> findGameServer srv ns r (\<lambda>gs.
         case (if bsSchedule req = [] then None else case CronParse (srvEnv srv) (bsSchedule req) of
             Inl err \<Rightarrow> Some err | Inr _ \<Rightarrow> None) of
           Some err \<Rightarrow> ret (respondError 400 (''invalid cron expression: '' @ error_text err))
         | None \<Rightarrow> do {
             put \<leftarrow> kupdate (gameservers (srvClient srv))
               (setAnnotations (scheduleAnnotations req (Annotations (gsMeta gs))) gs);
             case put of
               Inl err \<Rightarrow> ret (respondError 500 ''failed to update backup schedule'')
             | Inr gs' \<Rightarrow> ret (respondJSON 200 (scheduleResponse r gs')) }))"

section \<open>Mods\<close>

definition modFileToJSON :: "string \<times> int \<Rightarrow> json" where
  "modFileToJSON m = JObject [(''name'', JString (fst m)), (''size'', JNumber (snd m))]"

definition badFilename :: "string \<Rightarrow> bool" where
  "badFilename filename \<longleftrightarrow> filename = ''.'' \<or> filename = ''..'' \<or> ContainsAny filename [CHR ''/'', CHR 0x5C]"

text \<open>
  \<open>reqForm\<close> is the outcome of reading the form, with the size limit: an error, a form without the
  field \<^verbatim>\<open>file\<close>, or the file. \<open>tarOf\<close> is the archive writer: the bytes it writes, and its error.
\<close>

definition handleUploadMod :: "('s, 'c) Server \<Rightarrow> (string \<Rightarrow> string \<Rightarrow> gotime \<Rightarrow> string \<times> gerr option) \<Rightarrow> 's handler" where
  "handleUploadMod srv tarOf r = withNamespace r (\<lambda>ns. findGameServer srv ns r (\<lambda>gs.
     if \<not> running gs then ret (respondError 409 ''server must be running to upload mods'')
     else let modPath = mget (Annotations (gsMeta gs)) AnnotationModPath in
       if modPath = [] then ret (respondError 400 ''game does not support mods'')
       else (case reqForm r of
         Inl err \<Rightarrow> ret (respondError 400 ''file too large or invalid form data'')
       | Inr None \<Rightarrow> ret (respondError 400 ''missing file field in form data'')
       | Inr (Some (formName, content)) \<Rightarrow> (let filename = Base formName in
           if badFilename filename then ret (respondError 400 ''invalid filename'')
           else do {
             now \<leftarrow> Now (srvRuntime srv);
             out \<leftarrow> execInPod srv ns (URLParam r ''name'') [''tar'', ''-xf'', ''-'', ''-C'', modPath]
               (fst (tarOf filename content now));
             case out of (_, stderr, execErr) \<Rightarrow>
               (case (snd (tarOf filename content now), execErr) of
                  (Some tarErr, None) \<Rightarrow> ret (respondError 500 (''failed to stream mod file: '' @ error_text tarErr))
                | (_, Some err) \<Rightarrow> ret (respondError 500 (''failed to upload mod: '' @ TrimSpace stderr))
                | (None, None) \<Rightarrow> do {
                    ok \<leftarrow> restartServer srv ns r;
                    if ok then ret (respondJSON 200 (modFileToJSON (filename, int (length content))))
                    else ret (respondError 500 ''mod uploaded but failed to restart server'') }) }))))"

definition parseLsLine :: "string \<Rightarrow> (string \<times> int) option" where
  "parseLsLine line =
     (if HasPrefix line ''total'' then None
      else let fields = Fields line in
        if length fields < 9 then None
        else let name = last fields in
          if name = ''.'' \<or> name = ''..'' then None
          else Some (name, case Atoi (fields ! 4) of None \<Rightarrow> 0 | Some n \<Rightarrow> n))"

definition parseLsOutput :: "string \<Rightarrow> (string \<times> int) list" where
  "parseLsOutput output = List.map_filter parseLsLine (Split (TrimSpace output) (CHR 0x0A))"

text \<open>A list of no files is the nil slice, which is encoded as null.\<close>

definition respondMods :: "(string \<times> int) list \<Rightarrow> Response" where
  "respondMods mods = respondJSON 200 (JObject [(''data'', if mods = [] then JNull else JArray (map modFileToJSON mods)),
     (''count'', JNumber (int (length mods)))])"

definition handleListMods :: "('s, 'c) Server \<Rightarrow> 's handler" where
  "handleListMods srv r = withNamespace r (\<lambda>ns. findGameServer srv ns r (\<lambda>gs.
     if \<not> running gs then ret (respondError 409 ''server must be running to list mods'')
     else let modPath = mget (Annotations (gsMeta gs)) AnnotationModPath in
       if modPath = [] then ret (respondError 400 ''game does not support mods'')
       else do {
         out \<leftarrow> execInPod srv ns (URLParam r ''name'') [''ls'', ''-la'', modPath] [];
         case out of (stdout, _, err) \<Rightarrow>
           if err \<noteq> None then ret (respondList 200 [])
           else ret (respondMods (parseLsOutput stdout)) }))"

definition handleDeleteMod :: "('s, 'c) Server \<Rightarrow> 's handler" where
  "handleDeleteMod srv r = withNamespace r (\<lambda>ns. let filename = Base (URLParam r ''filename'') in
     if badFilename filename then ret (respondError 400 ''invalid filename'')
     else findGameServer srv ns r (\<lambda>gs.
       if \<not> running gs then ret (respondError 409 ''server must be running to delete mods'')
       else let modPath = mget (Annotations (gsMeta gs)) AnnotationModPath in
         if modPath = [] then ret (respondError 400 ''game does not support mods'')
         else do {
           out \<leftarrow> execInPod srv ns (URLParam r ''name'') [''rm'', ''-f'', modPath @ ''/'' @ filename] [];
           case out of (_, stderr, err) \<Rightarrow>
             if err \<noteq> None then ret (respondError 500 (''failed to delete mod: '' @ TrimSpace stderr))
             else ret (respondStatus 204) }))"

end
