(* ===== verification/ApiAuth.thy ===== *)
theory ApiAuth
  imports ApiServer
begin

text \<open>
  The handlers of \<^verbatim>\<open>handlers_auth.go\<close> and \<^verbatim>\<open>handlers_admin.go\<close>. A panic of the key derivation is turned
  into the bare 500 response of the recovering middleware.
\<close>

definition recovered :: Response where
  "recovered = respondStatus 500"

section \<open>Sessions\<close>

definition respondToken :: "('s, 'c) Server \<Rightarrow> User \<Rightarrow> nat \<Rightarrow> (string \<Rightarrow> gomap) \<Rightarrow> ('s, Response) state" where
  "respondToken srv user status body = do {
     made \<leftarrow> GenerateToken (srvJWT srv) user;
     case made of
       Inl err \<Rightarrow> ret (respondError 500 ''failed to generate token'')
     | Inr token \<Rightarrow> ret (respondJSON status (jsonFields (body token))) }"

definition handleLogin :: "('s, 'c) Server \<Rightarrow> 's handler" where
  "handleLogin srv r = (case decodeJSON decodeLogin r of
       Inl err \<Rightarrow> ret (respondError 400 (error_text err))
     | Inr req \<Rightarrow> (case validateLogin req of
         Some err \<Rightarrow> ret (respondError 400 (error_text err))
       | None \<Rightarrow> do {
           got \<leftarrow> GetUser (srvUsers srv) (liUsername req);
           case got of
             Inl err \<Rightarrow>
               if errors_Is err ErrUserNotFound then ret (respondError 401 ''invalid credentials'')
               else ret (respondError 500 ''failed to look up user'')
           | Inr user \<Rightarrow> (case VerifyPassword (srvIDKey srv) (liPassword req) (PasswordHash user) of
               None \<Rightarrow> ret recovered
             | Some (Inr True) \<Rightarrow> respondToken srv user 200 (\<lambda>token. [(''token'', token)])
             | Some _ \<Rightarrow> ret (respondError 401 ''invalid credentials'')) }))"

definition registeredUser :: "RegisterRequest \<Rightarrow> string \<Rightarrow> string \<Rightarrow> gotime \<Rightarrow> User" where
  "registeredUser req inviteEmail passwordHash now = \<lparr>Username = rgUsername req, Email = inviteEmail,
     PasswordHash = passwordHash, Role = RoleUser, CreatedAt = FormatRFC3339 now, InvitedBy = []\<rparr>"

text \<open>After the invitation is redeemed: the user is validated, hashed, stored, and given a token.\<close>

definition registerInvited :: "('s, 'c) Server \<Rightarrow> RegisterRequest \<Rightarrow> string \<Rightarrow> ('s, Response) state" where
  "registerInvited srv req inviteEmail = (case ValidateUsername (rgUsername req) of
       Some err \<Rightarrow>
         if errors_Is err ErrInvalidUsername then ret (respondError 400 (error_text err))
         else ret (respondError 400 ''invalid username'')
     | None \<Rightarrow> do {
         hashed \<leftarrow> HashPassword (srvIDKey srv) (srvRand srv) (rgPassword req);
         case hashed of
           None \<Rightarrow> ret recovered
         | Some (Inl err) \<Rightarrow> ret (respondError 500 ''failed to process password'')
         | Some (Inr passwordHash) \<Rightarrow> do {
             now \<leftarrow> Now (srvRuntime srv);
             let user = registeredUser req inviteEmail passwordHash now;
             made \<leftarrow> CreateUser (srvUsers srv) user;
             case made of
               Inl err \<Rightarrow>
                 if errors_Is err ErrUserExists then ret (respondError 409 ''username already taken'')
                 else if errors_Is err ErrInvalidUsername then ret (respondError 400 (error_text err))
                 else ret (respondError 500 ''failed to create user'')
             | Inr _ \<Rightarrow> respondToken srv user 201 (\<lambda>token. [(''token'', token), (''username'', Username user)]) } })"

definition handleRegister :: "('s, 'c) Server \<Rightarrow> 's handler" where
  "handleRegister srv r = (case decodeJSON decodeRegister r of
       Inl err \<Rightarrow> ret (respondError 400 (error_text err))
     | Inr req \<Rightarrow> (case validateRegister req of
         Some err \<Rightarrow> ret (respondError 400 (error_text err))
       | None \<Rightarrow> do {
           load \<leftarrow> loadAdminConfig srv;
           case load of
             Inl err \<Rightarrow> ret (respondError 500 ''failed to load configuration'')
           | Inr cfg \<Rightarrow>
               if \<not> RegistrationEnabled cfg then ret (respondError 403 ''registration is disabled'')
               else do {
                 redeemed \<leftarrow> RedeemInvite (srvInvites srv) (rgInviteToken req);
                 case redeemed of
                   Inl err \<Rightarrow>
                     if errors_Is err ErrInvalidToken then ret (respondError 400 ''invalid invite token'')
                     else if errors_Is err ErrInviteExpired then ret (respondError 400 ''invite token has expired'')
                     else ret (respondError 500 ''failed to validate invite token'')
                 | Inr inviteEmail \<Rightarrow> registerInvited srv req inviteEmail } }))"

definition handleRefresh :: "('s, 'c) Server \<Rightarrow> 's handler" where
  "handleRefresh srv r = (case GetUserFromContext r of
       None \<Rightarrow> ret (respondError 401 ''no valid claims in context'')
     | Some claims \<Rightarrow> respondToken srv (claimsUser claims) 200 (\<lambda>token. [(''token'', token)]))"

section \<open>Administration\<close>

definition userToResponse :: "User \<Rightarrow> json" where
  "userToResponse u = jsonFields [(''username'', Username u), (''email'', Email u), (''role'', Role u),
     (''createdAt'', CreatedAt u), (''invitedBy'', InvitedBy u)]"

definition handleCreateInvite :: "('s, 'c) Server \<Rightarrow> 's handler" where
  "handleCreateInvite srv r = (case decodeJSON decodeCreateInvite r of
       Inl err \<Rightarrow> ret (respondError 400 (error_text err))
     | Inr req \<Rightarrow> (case validateCreateInvite req of
         Some err \<Rightarrow> ret (respondError 400 (error_text err))
       | None \<Rightarrow> do {
           load \<leftarrow> loadAdminConfig srv;
           case load of
             Inl err \<Rightarrow> ret (respondError 500 ''failed to load configuration'')
           | Inr cfg \<Rightarrow> do {
               made \<leftarrow> CreateInvite (srvInvites srv) (ciEmail req) (usernameFromContext r) (InviteExpirationHours cfg);
               case made of
                 Inl err \<Rightarrow> ret (respondError 500 ''failed to create invite'')
               | Inr i \<Rightarrow> ret (respondJSON 201 (jsonFields [(''email'', invEmail i), (''expiresAt'', invExpiresAt i),
                   (''token'', invToken i)])) } }))"

definition handleListUsers :: "('s, 'c) Server \<Rightarrow> 's handler" where
  "handleListUsers srv r = do {
     l \<leftarrow> ListUsers (srvUsers srv);
     case l of
       Inl err \<Rightarrow> ret (respondError 500 ''failed to list users'')
     | Inr users \<Rightarrow> ret (respondList 200 (map userToResponse users)) }"

definition handleDeleteUser :: "('s, 'c) Server \<Rightarrow> 's handler" where
  "handleDeleteUser srv r = (let username = URLParam r ''username'' in
     if username = [] then ret (respondError 400 ''username is required'')
     else if usernameFromContext r = username then ret (respondError 400 ''cannot delete yourself'')
     else do {
       del \<leftarrow> DeleteUser (srvUsers srv) username;
       case del of
         Inl err \<Rightarrow>
           if errors_Is err ErrUserNotFound then ret (respondError 404 ''user not found'')
           else ret (respondError 500 ''failed to delete user'')
       | Inr _ \<Rightarrow> ret (respondStatus 204) })"

end
