(* ===== verification/ApiRoutes.thy ===== *)
theory ApiRoutes
  imports ApiAuth ApiBackups
begin

text \<open>
  The router, \<^verbatim>\<open>internal/api/routes.go\<close>, with \<^verbatim>\<open>middleware_metrics.go\<close> and the handshake of the console
  endpoint (\<^verbatim>\<open>handlers_console.go\<close>). A path is the list of its segments. As in chi, a mounted group runs
  its middleware before it looks for a route, so an unknown path below \<^verbatim>\<open>/api/v1\<close> is authenticated
  too. The logging, CORS, timeout and rate-limit middleware of the libraries are not modelled, and the
  embedded frontend is the argument \<open>spa\<close>.
\<close>

section \<open>Request metrics\<close>

record 's HttpMetrics =
  InFlightInc :: "('s, unit) state"
  InFlightDec :: "('s, unit) state"
  RequestsTotal :: "string \<Rightarrow> string \<Rightarrow> string \<Rightarrow> ('s, unit) state"
  RequestDuration :: "string \<Rightarrow> string \<Rightarrow> string \<Rightarrow> int \<Rightarrow> ('s, unit) state"

definition metricsMiddleware :: "'s HttpMetrics \<Rightarrow> ('s, gotime) state \<Rightarrow> string \<Rightarrow> 's handler \<Rightarrow> 's handler" where
  "metricsMiddleware m now pattern next r = do {
     InFlightInc m;
     start \<leftarrow> now;
     resp \<leftarrow> next r;
     finish \<leftarrow> now;
     let routePattern = (if pattern = [] then ''unknown'' else pattern);
     let statusCode = nat_str (respStatus resp);
     RequestsTotal m (reqMethod r) routePattern statusCode;
     RequestDuration m (reqMethod r) routePattern statusCode (Sub finish start);
     InFlightDec m;
     ret resp }"

section \<open>The console\<close>

text \<open>
  The handshake of \<^verbatim>\<open>handleConsole\<close> up to the upgrade: a refusal, or the namespace and Pod of the session.
\<close>

definition handleConsole :: "('s, 'c) Server \<Rightarrow> Request \<Rightarrow> ('s, Response + string \<times> string) state" where
  "handleConsole srv r = (let token = mget (reqQuery r) ''token'' in
     if token = [] then ret (Inl (httpError ''missing token query parameter'' 401))
     else do {
       checked \<leftarrow> ValidateToken (srvJWT srv) token;
       case checked of
         Inl err \<Rightarrow> ret (Inl (httpError ''invalid or expired token'' 401))
       | Inr claims \<Rightarrow> do {
           got \<leftarrow> kget (gameservers (srvClient srv)) (serverKey (claimNamespace claims) r);
           case got of
             Inl err \<Rightarrow> ret (Inl (httpError ''game server not found'' 404))
           | Inr gs \<Rightarrow>
               if \<not> running gs then ret (Inl (httpError ''server not running'' 409))
               else ret (Inr (claimNamespace claims, URLParam r ''name'')) } })"

definition consoleCommand :: "string \<Rightarrow> string list" where
  "consoleCommand command = [''/bin/sh'', ''-c'', ''echo '' @ [CHR 0x27] @ command @ [CHR 0x27] @ '' > /proc/1/fd/0'']"

definition consoleMessage :: "string \<Rightarrow> string \<Rightarrow> json" where
  "consoleMessage t d = JObject ([(''type'', JString t)] @ unlessEmpty ''data'' d)"

text \<open>One command: the messages it offers to the session, in order.\<close>

definition execCommand :: "('s, 'c) Server \<Rightarrow> string \<Rightarrow> string \<Rightarrow> string \<Rightarrow> ('s, json list) state" where
  "execCommand srv ns serverName command = do {
     res \<leftarrow> PodExec (srvEnv srv) ns serverName (consoleCommand command) [];
     case res of
       Inl err \<Rightarrow> ret [consoleMessage ''error'' (''exec setup failed: '' @ error_text err)]
     | Inr (stdout, stderr, Some err) \<Rightarrow> ret [consoleMessage ''error'' (''exec failed: '' @ error_text err)]
     | Inr (stdout, stderr, None) \<Rightarrow> ret ((if stdout = [] then [] else [consoleMessage ''output'' stdout])
         @ (if stderr = [] then [] else [consoleMessage ''error'' stderr])) }"

text \<open>The read loop: what the client sends until it disconnects; anything but a command is skipped.\<close>

definition commandOf :: "gerr + json \<Rightarrow> string option" where
  "commandOf message = (case message of
       Inl _ \<Rightarrow> None
     | Inr j \<Rightarrow> (case decodeStruct [''type'', ''data'']
           (\<lambda>f j r. if f = ''type'' then jsonString j (\<lambda>s. (s, snd r)) r else jsonString j (\<lambda>s. (fst r, s)) r) ([], []) j of
         Inl _ \<Rightarrow> None
       | Inr (t, d) \<Rightarrow> if t \<noteq> ''command'' \<or> d = [] then None else Some d))"

primrec readCommands :: "('s, 'c) Server \<Rightarrow> string \<Rightarrow> string \<Rightarrow> (gerr + json) list \<Rightarrow> ('s, json list) state" where
  "readCommands srv ns serverName [] = ret []"
| "readCommands srv ns serverName (m # ms) = (case commandOf m of
       None \<Rightarrow> readCommands srv ns serverName ms
     | Some command \<Rightarrow> do {
         out \<leftarrow> execCommand srv ns serverName command;
         rest \<leftarrow> readCommands srv ns serverName ms;
         ret (out @ rest) })"

section \<open>Routes\<close>

datatype segment = Lit string | Param string

primrec matchPath :: "segment list \<Rightarrow> string list \<Rightarrow> gomap option" where
  "matchPath [] ss = (if ss = [] then Some [] else None)"
| "matchPath (p # ps) ss = (case ss of
       [] \<Rightarrow> None
     | s # rest \<Rightarrow> (case p of
         Lit l \<Rightarrow> if s = l then matchPath ps rest else None
       | Param x \<Rightarrow> if s = [] then None else map_option (\<lambda>m. (x, s) # m) (matchPath ps rest)))"

text \<open>The endpoints below \<^verbatim>\<open>/api/v1\<close>.\<close>

datatype endpoint =
    Refresh | ListGames | GetGame | ListGameServers | CreateGameServer | GetGameServer | UpdateGameServer
  | DeleteGameServer | StartGameServer | StopGameServer | RestartGameServer | GetMetrics | UploadMod | ListMods
  | DeleteMod | CreateBackup | ListBackups | DeleteBackup | RestoreBackup | SetBackupSchedule | CreateInviteE
  | ListUsersE | DeleteUserE

definition apiRoutes :: "(string \<times> segment list \<times> endpoint) list" where
  "apiRoutes = (let gs = [Lit ''gameservers'']; one = gs @ [Param ''name'']; mods = one @ [Lit ''mods''];
       bks = one @ [Lit ''backups''] in
     [(''POST'', [Lit ''auth'', Lit ''refresh''], Refresh),
      (''GET'', [Lit ''games''], ListGames),
      (''GET'', [Lit ''games'', Param ''gameType''], GetGame),
      (''GET'', gs, ListGameServers),
      (''POST'', gs, CreateGameServer),
      (''GET'', one, GetGameServer),
      (''PUT'', one, UpdateGameServer),
      (''DELETE'', one, DeleteGameServer),
      (''POST'', one @ [Lit ''start''], StartGameServer),
      (''POST'', one @ [Lit ''stop''], StopGameServer),
      (''POST'', one @ [Lit ''restart''], RestartGameServer),
      (''GET'', one @ [Lit ''metrics''], GetMetrics),
      (''POST'', mods, UploadMod),
      (''GET'', mods, ListMods),
      (''DELETE'', mods @ [Param ''filename''], DeleteMod),
      (''POST'', bks, CreateBackup),
      (''GET'', bks, ListBackups),
      (''DELETE'', bks @ [Param ''backupName''], DeleteBackup),
      (''POST'', bks @ [Param ''backupName'', Lit ''restore''], RestoreBackup),
      (''PUT'', one @ [Lit ''backup-schedule''], SetBackupSchedule),
      (''POST'', [Lit ''admin'', Lit ''invites''], CreateInviteE),
      (''GET'', [Lit ''admin'', Lit ''users''], ListUsersE),
      (''DELETE'', [Lit ''admin'', Lit ''users'', Param ''username''], DeleteUserE)])"

primrec patternText :: "segment list \<Rightarrow> string" where
  "patternText [] = []"
| "patternText (p # ps) = ''/'' @ (case p of Lit l \<Rightarrow> l | Param x \<Rightarrow> ''{'' @ x @ ''}'') @ patternText ps"

text \<open>Whether a group that the path lies in requires the admin role, whatever the route inside it.\<close>

definition adminGroup :: "string list \<Rightarrow> bool" where
  "adminGroup path \<longleftrightarrow> (case path of
       ''admin'' # _ \<Rightarrow> True
     | g # _ # x # y \<Rightarrow> g = ''gameservers'' \<and> x = ''backups'' \<and> y \<noteq> []
     | _ \<Rightarrow> False)"

record ('s, 'c) Router =
  rtServer :: "('s, 'c) Server"
  rtMetrics :: "'s HttpMetrics"
  rtTar :: "string \<Rightarrow> string \<Rightarrow> gotime \<Rightarrow> string \<times> gerr option"
  rtSPA :: "'s handler"
  rtConsole :: "string \<Rightarrow> string \<Rightarrow> ('s, Response + (gerr + json) list) state"  \<comment> \<open>the upgrade: the answer when it fails, what the client sends otherwise\<close>

definition endpointHandler :: "('s, 'c) Router \<Rightarrow> endpoint \<Rightarrow> 's handler" where
  "endpointHandler rt e = (let srv = rtServer rt in case e of
       Refresh \<Rightarrow> handleRefresh srv
     | ListGames \<Rightarrow> handleListGames srv
     | GetGame \<Rightarrow> handleGetGame srv
     | ListGameServers \<Rightarrow> handleListGameServers srv
     | CreateGameServer \<Rightarrow> handleCreateGameServer srv
     | GetGameServer \<Rightarrow> handleGetGameServer srv
     | UpdateGameServer \<Rightarrow> handleUpdateGameServer srv
     | DeleteGameServer \<Rightarrow> handleDeleteGameServer srv
     | StartGameServer \<Rightarrow> handleStartGameServer srv
     | StopGameServer \<Rightarrow> handleStopGameServer srv
     | RestartGameServer \<Rightarrow> handleRestartGameServer srv
     | GetMetrics \<Rightarrow> handleGetMetrics srv
     | UploadMod \<Rightarrow> handleUploadMod srv (rtTar rt)
     | ListMods \<Rightarrow> handleListMods srv
     | DeleteMod \<Rightarrow> handleDeleteMod srv
     | CreateBackup \<Rightarrow> handleCreateBackup srv
     | ListBackups \<Rightarrow> handleListBackups srv
     | DeleteBackup \<Rightarrow> handleDeleteBackup srv
     | RestoreBackup \<Rightarrow> handleRestoreBackup srv
     | SetBackupSchedule \<Rightarrow> RequireAdmin (handleSetBackupSchedule srv)
     | CreateInviteE \<Rightarrow> handleCreateInvite srv
     | ListUsersE \<Rightarrow> handleListUsers srv
     | DeleteUserE \<Rightarrow> handleDeleteUser srv)"

text \<open>The first route of the method whose pattern matches, with the path's parameters.\<close>

definition findRoute :: "string \<Rightarrow> string list \<Rightarrow> (segment list \<times> endpoint \<times> gomap) option" where
  "findRoute method path =
     (case List.find (\<lambda>(m, p, e). m = method \<and> matchPath p path \<noteq> None) apiRoutes of
        None \<Rightarrow> None
      | Some (m, p, e) \<Rightarrow> Some (p, e, the (matchPath p path)))"

definition pathKnown :: "string list \<Rightarrow> bool" where
  "pathKnown path \<longleftrightarrow> list_ex (\<lambda>(m, p, e). matchPath p path \<noteq> None) apiRoutes"

definition apiRouter :: "('s, 'c) Router \<Rightarrow> string list \<Rightarrow> 's handler" where
  "apiRouter rt path = (let h = (\<lambda>r. case findRoute (reqMethod r) path of
         Some (p, e, params) \<Rightarrow> endpointHandler rt e (r\<lparr>reqParams := params\<rparr>)
       | None \<Rightarrow> if pathKnown path then ret (respondStatus 405) else rtSPA rt r) in
     if adminGroup path then RequireAdmin h else h)"

definition patternOf :: "Request \<Rightarrow> string list \<Rightarrow> string" where
  "patternOf r path = (case findRoute (reqMethod r) path of
     None \<Rightarrow> [] | Some (p, _, _) \<Rightarrow> ''/api/v1'' @ patternText p)"

definition consoleSession :: "('s, 'c) Router \<Rightarrow> 's handler" where
  "consoleSession rt r = do {
     shake \<leftarrow> handleConsole (rtServer rt) r;
     case shake of
       Inl resp \<Rightarrow> ret resp
     | Inr (ns, name) \<Rightarrow> do {
         upgraded \<leftarrow> rtConsole rt ns name;
         case upgraded of
           Inl resp \<Rightarrow> ret resp
         | Inr sent \<Rightarrow> do {
             _ \<leftarrow> readCommands (rtServer rt) ns name sent;
             ret (respondStatus 101) } } }"

definition consoleParams :: "string list \<Rightarrow> gomap option" where
  "consoleParams = matchPath [Lit ''api'', Lit ''v1'', Lit ''gameservers'', Param ''name'', Lit ''console'']"

definition serve :: "('s, 'c) Router \<Rightarrow> 's handler" where
  "serve rt r = (let srv = rtServer rt; path = reqPath r; m = reqMethod r in
     if m = ''GET'' \<and> path = [''healthz''] then handleHealthz r
     else if m = ''GET'' \<and> path = [''readyz''] then handleReadyz r
     else if m = ''POST'' \<and> path = [''api'', ''v1'', ''auth'', ''login''] then handleLogin srv r
     else if m = ''POST'' \<and> path = [''api'', ''v1'', ''auth'', ''register''] then handleRegister srv r
     else if m = ''GET'' \<and> consoleParams path \<noteq> None then
       consoleSession rt (r\<lparr>reqParams := the (consoleParams path)\<rparr>)
     else if take 2 path = [''api'', ''v1''] then
       metricsMiddleware (rtMetrics rt) (Now (srvRuntime srv)) (patternOf r (drop 2 path))
         (Authenticate (srvJWT srv) (apiRouter rt (drop 2 path))) r
     else rtSPA rt r)"

end
