(* ===== verification/ApiIsolation.thy ===== *)
theory ApiIsolation
  imports ApiRoutes BackupSafety
begin

text \<open>
  Tenant isolation of the API: which calls a request can cause, whatever the services answer. A client is
  only assumed to answer a read with an object of the key or namespace asked for (\<open>keyed_store\<close>), which
  every healthy store does.
\<close>

section \<open>Tracing a server\<close>

definition traced_jwt :: "'s JWTService \<Rightarrow> 's tracing JWTService" where
  "traced_jwt sv = \<lparr>signingKey = signingKey sv, tokenExpiration = tokenExpiration sv,
     refreshThreshold = refreshThreshold sv,
     jwtLib = \<lparr>SignedString = SignedString (jwtLib sv),
       ParseWithClaims = (\<lambda>t k ms iss ex. lift_op (ParseWithClaims (jwtLib sv) t k ms iss ex) (\<lambda>_. [])),
       NewNumericDate = NewNumericDate (jwtLib sv)\<rparr>,
     jwtRand = (\<lambda>n. lift_op (jwtRand sv n) (\<lambda>_. [])), jwtNow = lift_op (jwtNow sv) (\<lambda>_. [])\<rparr>"

definition traced_users :: "'s UserStore \<Rightarrow> 's tracing UserStore" where
  "traced_users st = \<lparr>storeSecrets = traced_api OnSecret (storeSecrets st), storeNamespace = storeNamespace st\<rparr>"

definition traced_server :: "('s, 'c) Server \<Rightarrow> ('s tracing, 'c) Server" where
  "traced_server srv = \<lparr>srvClient = traced_client (srvClient srv), srvRuntime = traced_runtime (srvRuntime srv),
     srvEnv = traced_env (srvEnv srv),
     srvPodMetrics = map_option (\<lambda>f ns n. lift_op (f ns n) (\<lambda>_. [OnMetrics ns n])) (srvPodMetrics srv),
     srvMilli = srvMilli srv, srvValue = srvValue srv, srvJWT = traced_jwt (srvJWT srv),
     srvUsers = traced_users (srvUsers srv), srvInvites = traced_invites (srvInvites srv),
     srvManifests = srvManifests srv, srvNamespace = srvNamespace srv, srvIDKey = srvIDKey srv,
     srvRand = (\<lambda>n. lift_op (srvRand srv n) (\<lambda>_. [])), srvBindAddress = srvBindAddress srv\<rparr>"

definition traced_router :: "('s, 'c) Router \<Rightarrow> ('s tracing, 'c) Router" where
  "traced_router rt = \<lparr>rtServer = traced_server (rtServer rt),
     rtMetrics = \<lparr>InFlightInc = lift_op (InFlightInc (rtMetrics rt)) (\<lambda>_. []),
       InFlightDec = lift_op (InFlightDec (rtMetrics rt)) (\<lambda>_. []),
       RequestsTotal = (\<lambda>a b c. lift_op (RequestsTotal (rtMetrics rt) a b c) (\<lambda>_. [])),
       RequestDuration = (\<lambda>a b c d. lift_op (RequestDuration (rtMetrics rt) a b c d) (\<lambda>_. []))\<rparr>,
     rtTar = rtTar rt, rtSPA = (\<lambda>r. lift_op (rtSPA rt r) (\<lambda>_. [])),
     rtConsole = (\<lambda>ns n. lift_op (rtConsole rt ns n) (\<lambda>_. [OnLogs ns n]))\<rparr>"

lemma traced_server_simps [simp]:
  "srvClient (traced_server srv) = traced_client (srvClient srv)"
  "srvRuntime (traced_server srv) = traced_runtime (srvRuntime srv)"
  "srvEnv (traced_server srv) = traced_env (srvEnv srv)"
  "srvPodMetrics (traced_server srv) =
     map_option (\<lambda>f ns n. lift_op (f ns n) (\<lambda>_. [OnMetrics ns n])) (srvPodMetrics srv)"
  "srvJWT (traced_server srv) = traced_jwt (srvJWT srv)"
  "srvUsers (traced_server srv) = traced_users (srvUsers srv)"
  "srvInvites (traced_server srv) = traced_invites (srvInvites srv)"
  "srvManifests (traced_server srv) = srvManifests srv" "srvNamespace (traced_server srv) = srvNamespace srv"
  "srvIDKey (traced_server srv) = srvIDKey srv" "srvRand (traced_server srv) i = lift_op (srvRand srv i) (\<lambda>_. [])"
  "rtServer (traced_router rt) = traced_server (rtServer rt)" "rtTar (traced_router rt) = rtTar rt"
  "rtSPA (traced_router rt) r = lift_op (rtSPA rt r) (\<lambda>_. [])"
  "rtConsole (traced_router rt) ns n = lift_op (rtConsole rt ns n) (\<lambda>_. [OnLogs ns n])"
  "storeSecrets (traced_users st) = traced_api OnSecret (storeSecrets st)"
  "storeNamespace (traced_users st) = storeNamespace st"
  by (simp_all add: traced_server_def traced_router_def traced_users_def)

lemma traced_jwt_simps [simp]:
  "signingKey (traced_jwt sv) = signingKey sv" "refreshThreshold (traced_jwt sv) = refreshThreshold sv"
  "ParseWithClaims (jwtLib (traced_jwt sv)) t k ms iss ex = lift_op (ParseWithClaims (jwtLib sv) t k ms iss ex) (\<lambda>_. [])"
  "SignedString (jwtLib (traced_jwt sv)) = SignedString (jwtLib sv)"
  "jwtRand (traced_jwt sv) i = lift_op (jwtRand sv i) (\<lambda>_. [])" "jwtNow (traced_jwt sv) = lift_op (jwtNow sv) (\<lambda>_. [])"
  by (simp_all add: traced_jwt_def)

section \<open>Keyed stores\<close>

locale keyed_store =
  fixes api :: "('s, 'o) kapi" and meta :: "'o \<Rightarrow> ObjectMeta"
  assumes get_key: "run_state (kget api k) s = (Inr x, s') \<Longrightarrow> key_of (meta x) = k"
    and create_key: "run_state (kcreate api x) s = (Inr y, s') \<Longrightarrow> key_of (meta y) = key_of (meta x)"
    and list_key: "run_state (klist api (Some ns) sel) s = (Inr xs, s') \<Longrightarrow> x \<in> set xs \<Longrightarrow> Namespace (meta x) = ns"

sublocale object_store \<subseteq> ks: keyed_store api meta
proof
  fix k s x s'
  show "run_state (kget api k) s = (Inr x, s') \<Longrightarrow> key_of (meta x) = k"
    by (cases rule: get_cases[of s k]) (auto simp: object_key)
next
  fix x s y s'
  assume made: "run_state (kcreate api x) s = (Inr y, s')"
  then have "objects s (key_of (meta x)) = None"
    using create_existing by (metis Inl_Inr_False Pair_inject not_None_eq)
  from create_new[OF this] made have "objects s' (key_of (meta x)) = Some y" by auto
  then show "key_of (meta y) = key_of (meta x)" by (rule object_key)
next
  fix ns sel s xs s' x
  assume l: "run_state (klist api (Some ns) sel) s = (Inr xs, s')" "x \<in> set xs"
  then obtain k where "objects s k = Some x" "ns = keyNamespace k"
    using list_objects[of "Some ns" sel s] by auto
  then show "Namespace (meta x) = ns" using object_key[of s k x] by (auto simp: key_of_def)
qed

section \<open>What a caller may cause\<close>

fun ns_event :: "('o \<Rightarrow> ObjectMeta) \<Rightarrow> string \<Rightarrow> 'o kevent \<Rightarrow> bool" where
  "ns_event meta ns (EvGet k _) \<longleftrightarrow> keyNamespace k = ns"
| "ns_event meta ns (EvList n _ _) \<longleftrightarrow> n = Some ns"
| "ns_event meta ns (EvCreate x _) \<longleftrightarrow> Namespace (meta x) = ns"
| "ns_event meta ns (EvUpdate x _) \<longleftrightarrow> Namespace (meta x) = ns"
| "ns_event meta ns (EvStatus x _) \<longleftrightarrow> Namespace (meta x) = ns"
| "ns_event meta ns (EvDelete x _ _) \<longleftrightarrow> Namespace (meta x) = ns"
| "ns_event meta ns (EvCreateOrUpdate x _) \<longleftrightarrow> Namespace (meta x) = ns"

fun config_read :: "string \<Rightarrow> event \<Rightarrow> bool" where
  "config_read op (OnConfigMap (EvGet k _)) \<longleftrightarrow> k = \<lparr>keyNamespace = op, keyName = adminConfigMapName\<rparr>"
| "config_read op _ \<longleftrightarrow> False"

text \<open>
  A tenant's call: on game servers, backups and Pods of the tenant's namespace, besides reading the
  configuration and the S3 credentials, and downloading from S3.
\<close>

fun tenant_event :: "string \<Rightarrow> string \<Rightarrow> event \<Rightarrow> bool" where
  "tenant_event op ns (OnGameServer e) \<longleftrightarrow> ns_event gsMeta ns e"
| "tenant_event op ns (OnBackup e) \<longleftrightarrow> ns_event bkMeta ns e"
| "tenant_event op ns (OnExec n _ _ _) \<longleftrightarrow> n = ns"
| "tenant_event op ns (OnMetrics n _) \<longleftrightarrow> n = ns"
| "tenant_event op ns (OnLogs n _) \<longleftrightarrow> n = ns"
| "tenant_event op ns (OnS3 (EvGetObject _ _ _)) \<longleftrightarrow> True"
| "tenant_event op ns (OnSecret (EvGet k _)) \<longleftrightarrow> k = \<lparr>keyNamespace = op, keyName = s3CredentialsSecretName\<rparr>"
| "tenant_event op ns e \<longleftrightarrow> config_read op e"

text \<open>The user and invitation records: Secrets of the operator's namespace.\<close>

fun account_event :: "string \<Rightarrow> event \<Rightarrow> bool" where
  "account_event op (OnSecret e) \<longleftrightarrow> ns_event secMeta op e"
| "account_event op e \<longleftrightarrow> config_read op e"

definition allowed :: "string \<Rightarrow> KterodactylClaims \<Rightarrow> event \<Rightarrow> bool" where
  "allowed op c e \<longleftrightarrow> tenant_event op (claimNamespace c) e \<or> claimRole c = RoleAdmin \<and> account_event op e"

lemma tenant_allowed: "claimNamespace c = ns \<Longrightarrow> tenant_event op ns e \<Longrightarrow> allowed op c e"
  by (simp add: allowed_def)

lemma keyed_traced: "keyed_store api meta \<Longrightarrow> keyed_store (traced_api on api) meta"
  unfolding keyed_store_def by (auto split: prod.splits) blast+

section \<open>The services that make no call of their own\<close>

lemma emits_silent_services [emits_intros]:
  "emits P (GenerateToken (traced_jwt sv) u)" "emits P (ValidateToken (traced_jwt sv) t)"
  "emits P (ShouldRefresh (traced_jwt sv) c)" "emits P (refreshHeader (traced_jwt sv) c)"
  unfolding GenerateToken_def generateTokenID_def ValidateToken_def ShouldRefresh_def refreshHeader_def
    traced_jwt_simps
  by (intro emits_intros all_events_simps)+

lemma emits_hash [emits_intros]: "emits P (HashPassword k (srvRand (traced_server srv)) pw)"
  unfolding HashPassword_def traced_server_simps by (intro emits_intros all_events_simps)

lemma emits_bool [emits_intros]:
  "(b \<Longrightarrow> emits P m) \<Longrightarrow> (\<not> b \<Longrightarrow> emits P n) \<Longrightarrow> emits P (case b of True \<Rightarrow> m | False \<Rightarrow> n)"
  by (cases b) auto

lemma emits_respondToken [emits_intros]: "emits P (respondToken (traced_server srv) u st body)"
  unfolding respondToken_def traced_server_simps by (intro emits_intros)

lemma emits_withNamespace [emits_intros]:
  "(\<And>ns. ns = namespaceFromContext r \<Longrightarrow> emits P (f ns)) \<Longrightarrow> emits P (withNamespace r f)"
  unfolding withNamespace_def by (intro emits_intros) auto

section \<open>Tenant endpoints\<close>

text \<open>
  A server whose stores are keyed, and whose user and invitation records live in its own namespace, as
  the entry point wires it.
\<close>

locale keyed_server =
  fixes srv :: "('s, 'c) Server"
  assumes keyed: "keyed_store (gameservers (srvClient srv)) gsMeta" "keyed_store (backups (srvClient srv)) bkMeta"
      "keyed_store (storeSecrets (srvUsers srv)) secMeta" "keyed_store (inviteSecrets (srvInvites srv)) secMeta"
    and wired: "storeNamespace (srvUsers srv) = srvNamespace srv" "inviteNamespace (srvInvites srv) = srvNamespace srv"
begin

abbreviation tsrv :: "('s tracing, 'c) Server" where "tsrv \<equiv> traced_server srv"
abbreviation op :: string where "op \<equiv> srvNamespace srv"

lemmas traced_keyed = keyed[THEN keyed_traced]

lemma key_namespace: "key_of m = \<lparr>keyNamespace = ns, keyName = n\<rparr> \<Longrightarrow> Namespace m = ns"
  by (simp add: key_of_def)

lemma emits_get:
  assumes "keyed_store api meta" "\<And>x. all_events P [on (EvGet k x)]" "\<And>e. emits P (f (Inl e))"
    "\<And>x. key_of (meta x) = k \<Longrightarrow> emits P (f (Inr x))"
  shows "emits P (State_Monad.bind (kget (traced_api on api) k) f)"
proof (rule emits_bind_result)
  show "emits P (kget (traced_api on api) k)" using assms(2) by (auto intro: emits_intros)
  fix s tr a s' tr'
  assume "run_state (kget (traced_api on api) k) (s, tr) = (a, s', tr')"
  then show "emits P (f a)"
    using assms(3,4) keyed_store.get_key[OF keyed_traced[OF assms(1)]] by (cases a) blast+
qed

lemma emits_fetchGameServer [emits_intros]:
  assumes "\<And>gs. Namespace (gsMeta gs) = ns \<Longrightarrow> emits (tenant_event op ns) (f gs)"
  shows "emits (tenant_event op ns) (fetchGameServer tsrv ns r f)"
  unfolding fetchGameServer_def traced_server_simps traced_simps serverKey_def
  by (rule emits_get[OF keyed(1)]) (auto intro!: emits_intros assms dest: key_namespace)

lemma emits_findGameServer [emits_intros]:
  assumes "\<And>gs. Namespace (gsMeta gs) = ns \<Longrightarrow> emits (tenant_event op ns) (f gs)"
  shows "emits (tenant_event op ns) (findGameServer tsrv ns r f)"
  unfolding findGameServer_def traced_server_simps traced_simps serverKey_def
  by (rule emits_get[OF keyed(1)]) (auto intro!: emits_intros assms dest: key_namespace)

lemma emits_findBackup [emits_intros]:
  assumes "\<And>b. Namespace (bkMeta b) = ns \<Longrightarrow> emits (tenant_event op ns) (f b)"
  shows "emits (tenant_event op ns) (findBackup tsrv ns r f)"
  unfolding findBackup_def traced_server_simps traced_simps
  by (rule emits_get[OF keyed(2)]) (auto intro!: emits_intros assms dest: key_namespace)

lemma emits_restartServer [emits_intros]: "emits (tenant_event op ns) (restartServer tsrv ns r)"
  unfolding restartServer_def traced_server_simps traced_simps serverKey_def
  by (rule emits_get[OF keyed(1)]) (auto intro!: emits_intros dest: key_namespace simp: setState_def)

lemma emits_putState [emits_intros]:
  "Namespace (gsMeta gs) = ns \<Longrightarrow> emits (tenant_event op ns) (putState tsrv st gs)"
  unfolding putState_def by (auto intro!: emits_intros simp: setState_def)

lemma emits_execInPod [emits_intros]: "emits (tenant_event op ns) (execInPod tsrv ns pod cmd i)"
  unfolding execInPod_def by (auto intro!: emits_intros)

lemma emits_loadAdminConfig [emits_intros]: "emits (tenant_event op ns) (loadAdminConfig tsrv)"
  unfolding loadAdminConfig_def LoadAdminConfig_def by (auto intro!: emits_intros)

lemma emits_createS3Client [emits_intros]: "emits (tenant_event op ns) (createS3Client tsrv cfg)"
  unfolding createS3Client_def Let_def by (auto intro!: emits_intros)

lemma emits_submitBackup [emits_intros]:
  assumes "Namespace (bkMeta b) = ns"
  shows "emits (tenant_event op ns) (submitBackup tsrv b)"
  unfolding submitBackup_def
proof (rule emits_bind_result)
  show "emits (tenant_event op ns) (kcreate (backups (srvClient tsrv)) b)"
    using assms by (auto intro!: emits_intros)
  fix s tr a s' tr'
  assume "run_state (kcreate (backups (srvClient tsrv)) b) (s, tr) = (a, s', tr')"
  then have "Namespace (bkMeta x) = ns" if "a = Inr x" for x
    using keyed_store.create_key[OF traced_keyed(2), of OnBackup b "(s, tr)" x "(s', tr')"] that assms
    by (simp add: key_of_def)
  then show "emits (tenant_event op ns) (case a of
       Inl err \<Rightarrow> ret (respondError 500 ''failed to create backup'')
     | Inr backup \<Rightarrow> do {
         put \<leftarrow> kstatus (backups (srvClient tsrv)) (setBackupState BackupStatePending backup);
         case put of
           Inl err \<Rightarrow> ret (respondError 500 ''backup created but failed to set initial state'')
         | Inr backup' \<Rightarrow> ret (respondJSON 201 (backupToResponse backup')) })"
    by (auto intro!: emits_intros simp: setBackupState_def)
qed

lemma emits_restoreFrom [emits_intros]:
  "emits (tenant_event op ns) (restoreFrom tsrv ns r gs b c)"
  unfolding restoreFrom_def by (auto intro!: emits_intros)

text \<open>Each handler stays within the namespace of the claims.\<close>

lemmas handler_defs = handleListGameServers_def handleCreateGameServer_def handleGetGameServer_def
  handleUpdateGameServer_def handleDeleteGameServer_def handleStartGameServer_def handleStopGameServer_def
  handleRestartGameServer_def handleGetMetrics_def handleListGames_def handleGetGame_def handleRefresh_def
lemmas backup_handler_defs = handleCreateBackup_def handleListBackups_def handleDeleteBackup_def
  handleRestoreBackup_def handleSetBackupSchedule_def handleUploadMod_def handleListMods_def handleDeleteMod_def

lemma emits_gameserver_handlers:
  assumes "namespaceFromContext r = ns"
  shows "emits (tenant_event op ns) (handleListGameServers tsrv r)"
    "emits (tenant_event op ns) (handleCreateGameServer tsrv r)"
    "emits (tenant_event op ns) (handleGetGameServer tsrv r)"
    "emits (tenant_event op ns) (handleUpdateGameServer tsrv r)"
    "emits (tenant_event op ns) (handleDeleteGameServer tsrv r)"
    "emits (tenant_event op ns) (handleStartGameServer tsrv r)"
    "emits (tenant_event op ns) (handleStopGameServer tsrv r)"
    "emits (tenant_event op ns) (handleRestartGameServer tsrv r)"
    "emits (tenant_event op ns) (handleGetMetrics tsrv r)"
    "emits (tenant_event op ns) (handleListGames tsrv r)" "emits (tenant_event op ns) (handleGetGame tsrv r)"
    "emits (tenant_event op ns) (handleRefresh tsrv r)"
  using assms unfolding handler_defs
  by (auto intro!: emits_intros simp: newGameServer_def setParameters_def NewMeta_def Let_def)

lemma emits_backup_handlers:
  assumes "namespaceFromContext r = ns"
  shows "emits (tenant_event op ns) (handleCreateBackup tsrv r)"
    "emits (tenant_event op ns) (handleListBackups tsrv r)"
    "emits (tenant_event op ns) (handleDeleteBackup tsrv r)"
    "emits (tenant_event op ns) (handleRestoreBackup tsrv r)"
    "emits (tenant_event op ns) (handleSetBackupSchedule tsrv r)"
    "emits (tenant_event op ns) (handleUploadMod tsrv tarOf r)"
    "emits (tenant_event op ns) (handleListMods tsrv r)"
    "emits (tenant_event op ns) (handleDeleteMod tsrv r)"
  using assms unfolding backup_handler_defs
  by (auto intro!: emits_intros simp: newBackup_def setAnnotations_def NewMeta_def Let_def)

section \<open>Account endpoints\<close>

lemma emits_account_config [emits_intros]: "emits (account_event op) (loadAdminConfig tsrv)"
  unfolding loadAdminConfig_def LoadAdminConfig_def by (auto intro!: emits_intros)

lemma emits_user_store [emits_intros]:
  "emits (account_event op) (GetUser (traced_users (srvUsers srv)) u)"
  "emits (account_event op) (CreateUser (traced_users (srvUsers srv)) user)"
  "emits (account_event op) (ListUsers (traced_users (srvUsers srv)))"
  unfolding GetUser_def CreateUser_def ListUsers_def
  by (auto intro!: emits_intros simp: wired userKey_def userSecret_def NewMeta_def)

lemma emits_DeleteUser [emits_intros]: "emits (account_event op) (DeleteUser (traced_users (srvUsers srv)) u)"
  unfolding DeleteUser_def traced_server_simps userKey_def wired
  by (rule emits_get[OF keyed(3)]) (auto intro!: emits_intros dest: key_namespace)

lemma emits_inviteExpired [emits_intros]: "emits P (inviteExpired (traced_invites sv) x)"
  unfolding inviteExpired_def by (auto intro!: emits_intros)

lemma emits_RedeemInvite [emits_intros]: "emits (account_event op) (RedeemInvite (traced_invites (srvInvites srv)) token)"
  unfolding RedeemInvite_def
proof (rule emits_bind_result)
  let ?list = "klist (inviteSecrets (traced_invites (srvInvites srv)))
     (Some (inviteNamespace (traced_invites (srvInvites srv)))) inviteLabels"
  show "emits (account_event op) ?list" by (auto intro!: emits_intros simp: wired)
  fix s tr a s' tr'
  assume "run_state ?list (s, tr) = (a, s', tr')"
  then have "Namespace (secMeta x) = op" if "a = Inr xs" "x \<in> set xs" for x xs
    using keyed_store.list_key[OF traced_keyed(4), of OnSecret op inviteLabels "(s, tr)" xs "(s', tr')"] that
    by (simp add: wired)
  then show "emits (account_event op) (case a of
       Inl err \<Rightarrow> ret (Inl (errf ''failed to list invite secrets: '' err))
     | Inr items \<Rightarrow> (case List.find (\<lambda>x. mget (secData x) ''token'' = token) items of
         None \<Rightarrow> ret (Inl ErrInvalidToken)
       | Some secret \<Rightarrow> do {
           expired \<leftarrow> inviteExpired (traced_invites (srvInvites srv)) secret;
           if expired then do {
             _ \<leftarrow> kdelete (inviteSecrets (traced_invites (srvInvites srv))) secret None;
             ret (Inl ErrInviteExpired) }
           else do {
             del \<leftarrow> kdelete (inviteSecrets (traced_invites (srvInvites srv))) secret None;
             case del of
               Inl err \<Rightarrow> ret (Inl (errf ''failed to delete redeemed invite secret: '' err))
             | Inr _ \<Rightarrow> ret (Inr (mget (secData secret) ''email'')) } }))"
    by (auto intro!: emits_intros simp: find_Some_iff)
qed

lemma emits_sendInviteEmail [emits_intros]: "emits P (sendInviteEmail (traced_invites sv) cfg email token)"
  unfolding sendInviteEmail_def Let_def traced_invites_def by (auto intro!: emits_intros)

lemma emits_CreateInvite [emits_intros]: "emits (account_event op) (CreateInvite (traced_invites (srvInvites srv)) e i h)"
  unfolding CreateInvite_def
  by (auto intro!: emits_intros simp: traced_invites_def wired inviteSecret_def NewMeta_def Let_def)

lemma emits_account_handlers:
  "emits (account_event op) (handleLogin tsrv r)" "emits (account_event op) (handleRegister tsrv r)"
  "emits (account_event op) (handleCreateInvite tsrv r)" "emits (account_event op) (handleListUsers tsrv r)"
  "emits (account_event op) (handleDeleteUser tsrv r)"
  unfolding handleLogin_def handleRegister_def registerInvited_def handleCreateInvite_def handleListUsers_def
    handleDeleteUser_def Let_def
  by (auto intro!: emits_intros)

section \<open>The console\<close>

lemma emits_readCommands [emits_intros]: "emits (tenant_event op ns) (readCommands tsrv ns n ms)"
  by (induction ms) (auto intro!: emits_intros simp: execCommand_def split: sum.splits)

end

section \<open>Requests\<close>

text \<open>The claims of a request: those a validated token carries, in the header or, for a console, in the query.\<close>

definition authenticated :: "('s, 'c) Server \<Rightarrow> Request \<Rightarrow> KterodactylClaims \<Rightarrow> bool" where
  "authenticated srv r c \<longleftrightarrow> (\<exists>token s s'. token \<noteq> [] \<and> token \<in> {extractBearerToken r, mget (reqQuery r) ''token''} \<and>
     run_state (ValidateToken (srvJWT srv) token) s = (Inr c, s'))"

lemma ValidateToken_traced:
  "run_state (ValidateToken (traced_jwt sv) token) (s, tr) = (x, (s', tr')) \<Longrightarrow>
   run_state (ValidateToken sv token) s = (x, s')"
  by (auto simp: ValidateToken_def split: prod.splits sum.splits if_splits)

text \<open>A call some claims of the request allow, or a call of the sign-in endpoints on the account records.\<close>

definition justified :: "('s, 'c) Server \<Rightarrow> Request \<Rightarrow> event \<Rightarrow> bool" where
  "justified srv r e \<longleftrightarrow> (\<exists>c. authenticated srv r c \<and> allowed (srvNamespace srv) c e) \<or>
     account_event (srvNamespace srv) e \<and> reqMethod r = ''POST'' \<and>
     reqPath r \<in> {[''api'', ''v1'', ''auth'', ''login''], [''api'', ''v1'', ''auth'', ''register'']}"

lemma emits_Authenticate:
  assumes "\<And>c. authenticated srv r c \<Longrightarrow> emits P (next (r\<lparr>reqClaims := Some c\<rparr>))"
  shows "emits P (Authenticate (traced_jwt (srvJWT srv)) next r)"
proof (cases "extractBearerToken r = []")
  case False
  let ?val = "ValidateToken (traced_jwt (srvJWT srv)) (extractBearerToken r)"
  have "emits P (State_Monad.bind ?val (\<lambda>checked. case checked of
         Inl err \<Rightarrow> ret (httpError (errorObject ''invalid or expired token'') 401)
       | Inr claims \<Rightarrow> do {
           h \<leftarrow> refreshHeader (traced_jwt (srvJWT srv)) claims;
           resp \<leftarrow> next (r\<lparr>reqClaims := Some claims\<rparr>);
           ret (resp\<lparr>respHeader := h @ respHeader resp\<rparr>) }))"
  proof (rule emits_bind_result)
    fix s tr a s' tr'
    assume "run_state ?val (s, tr) = (a, s', tr')"
    then have "a = Inr c \<Longrightarrow> authenticated srv r c" for c
      using False by (auto simp: authenticated_def dest: ValidateToken_traced)
    then show "emits P (case a of
         Inl err \<Rightarrow> ret (httpError (errorObject ''invalid or expired token'') 401)
       | Inr claims \<Rightarrow> do {
           h \<leftarrow> refreshHeader (traced_jwt (srvJWT srv)) claims;
           resp \<leftarrow> next (r\<lparr>reqClaims := Some claims\<rparr>);
           ret (resp\<lparr>respHeader := h @ respHeader resp\<rparr>) })"
      by (auto intro!: emits_intros assms)
  qed (intro emits_intros)
  with False show ?thesis by (simp add: Authenticate_def Let_def)
qed (simp add: Authenticate_def emits_return)

lemma emits_RequireAdmin [emits_intros]:
  "(\<And>c. reqClaims r = Some c \<Longrightarrow> claimRole c = RoleAdmin \<Longrightarrow> emits P (next r)) \<Longrightarrow> emits P (RequireAdmin next r)"
  unfolding RequireAdmin_def GetUserFromContext_def by (intro emits_intros) auto

lemma emits_metricsMiddleware [emits_intros]:
  "emits P (next r) \<Longrightarrow> emits P (metricsMiddleware (rtMetrics (traced_router rt)) (lift_op now (\<lambda>_. [])) pat next r)"
  unfolding metricsMiddleware_def traced_router_def by (auto intro!: emits_intros simp: Let_def)

text \<open>Routes of the administration group lie below its prefix.\<close>

lemma findRoute_member:
  assumes "findRoute m path = Some (p, e, params)"
  shows "(m, p, e) \<in> set apiRoutes" "matchPath p path = Some params"
  using assms by (auto simp: findRoute_def find_Some_iff split: option.splits) (metis nth_mem)

lemma admin_routes:
  "(m, p, e) \<in> set apiRoutes \<Longrightarrow> e \<in> {CreateInviteE, ListUsersE, DeleteUserE} \<Longrightarrow> hd p = Lit ''admin'' \<and> p \<noteq> []"
  unfolding apiRoutes_def Let_def by (elim insertE; simp)

lemma admin_endpoint_group:
  assumes "findRoute m path = Some (p, e, params)" "e \<in> {CreateInviteE, ListUsersE, DeleteUserE}"
  shows "adminGroup path"
proof -
  from findRoute_member[OF assms(1)] admin_routes[of m p e] assms(2) obtain ps where
    "p = Lit ''admin'' # ps" "matchPath p path = Some params" by (cases p) auto
  then obtain rest where "path = ''admin'' # rest" by (cases path) (auto split: if_splits)
  then show ?thesis by (simp add: adminGroup_def)
qed

context keyed_server
begin

lemma emits_tenant_endpoint:
  assumes "rtServer rt = srv" "namespaceFromContext r = ns" "e \<notin> {CreateInviteE, ListUsersE, DeleteUserE}"
  shows "emits (tenant_event op ns) (endpointHandler (traced_router rt) e r)"
  using assms(1,3) emits_gameserver_handlers[OF assms(2)] emits_backup_handlers[OF assms(2)]
  by (cases e) (simp_all add: endpointHandler_def emits_RequireAdmin)

lemma emits_admin_endpoint:
  assumes "rtServer rt = srv" "e \<in> {CreateInviteE, ListUsersE, DeleteUserE}"
  shows "emits (account_event op) (endpointHandler (traced_router rt) e r)"
  using assms emits_account_handlers by (auto simp: endpointHandler_def)

lemma emits_endpoint:
  assumes "rtServer rt = srv" "reqClaims r = Some c"
    "e \<in> {CreateInviteE, ListUsersE, DeleteUserE} \<Longrightarrow> claimRole c = RoleAdmin"
  shows "emits (allowed op c) (endpointHandler (traced_router rt) e r)"
proof (cases "e \<in> {CreateInviteE, ListUsersE, DeleteUserE}")
  case True
  from emits_admin_endpoint[OF assms(1) True] show ?thesis
    by (rule emits_mono) (simp add: allowed_def assms(3)[OF True])
next
  case False
  have "namespaceFromContext r = claimNamespace c"
    using assms(2) by (simp add: namespaceFromContext_def GetUserFromContext_def)
  from emits_tenant_endpoint[OF assms(1) this False] show ?thesis
    by (rule emits_mono) (simp add: allowed_def)
qed

lemma emits_apiRouter:
  assumes "rtServer rt = srv" "reqClaims r = Some c"
  shows "emits (allowed op c) (apiRouter (traced_router rt) path r)"
proof -
  have "emits (allowed op c) (endpointHandler (traced_router rt) e (r\<lparr>reqParams := ps\<rparr>))"
    if "findRoute (reqMethod r) path = Some (p, e, ps)" "adminGroup path \<Longrightarrow> claimRole c = RoleAdmin" for p e ps
    using emits_endpoint[OF assms(1), of "r\<lparr>reqParams := ps\<rparr>" c e] assms(2) that admin_endpoint_group[OF that(1)]
    by simp
  then show ?thesis
    using assms(2) unfolding apiRouter_def by (auto simp: Let_def intro!: emits_intros split: prod.split)
qed

lemma handleConsole_claims:
  assumes "run_state (handleConsole tsrv r') (s, tr) = (Inr (ns, n), (s', tr'))" "reqQuery r' = reqQuery r"
  shows "\<exists>c. authenticated srv r c \<and> ns = claimNamespace c"
  using assms unfolding handleConsole_def authenticated_def
  by (fastforce simp: Let_def dest: ValidateToken_traced split: prod.splits sum.splits if_splits)

lemma emits_handleConsole:
  assumes "reqQuery r' = reqQuery r" "\<And>c e. authenticated srv r c \<Longrightarrow> allowed op c e \<Longrightarrow> P e"
  shows "emits P (handleConsole tsrv r')"
proof (cases "mget (reqQuery r') ''token'' = []")
  case False
  let ?token = "mget (reqQuery r') ''token''"
  let ?val = "ValidateToken (traced_jwt (srvJWT srv)) ?token"
  let ?rest = "\<lambda>checked. case checked of
         Inl err \<Rightarrow> ret (Inl (httpError ''invalid or expired token'' 401))
       | Inr claims \<Rightarrow> do {
           got \<leftarrow> kget (gameservers (srvClient tsrv)) (serverKey (claimNamespace claims) r');
           case got of
             Inl err \<Rightarrow> ret (Inl (httpError ''game server not found'' 404))
           | Inr gs \<Rightarrow>
               if \<not> running gs then ret (Inl (httpError ''server not running'' 409))
               else ret (Inr (claimNamespace claims, URLParam r' ''name'')) }"
  have "emits P (State_Monad.bind ?val ?rest)"
  proof (rule emits_bind_result)
    fix s tr a s' tr'
    assume "run_state ?val (s, tr) = (a, s', tr')"
    then have auth: "a = Inr c \<Longrightarrow> authenticated srv r c" for c
      using False assms(1) by (auto simp: authenticated_def dest: ValidateToken_traced)
    have "a = Inr c \<Longrightarrow> P (OnGameServer (EvGet (serverKey (claimNamespace c) r') x))" for c x
      by (rule assms(2)[OF auth]) (simp_all add: allowed_def serverKey_def)
    then show "emits P (?rest a)" by (auto intro!: emits_intros)
  qed (intro emits_intros)
  with False show ?thesis unfolding handleConsole_def Let_def by (simp only: if_False traced_server_simps)
qed (simp add: handleConsole_def emits_return)

lemma emits_console:
  assumes "rtServer rt = srv" "reqQuery r' = reqQuery r" "\<And>c e. authenticated srv r c \<Longrightarrow> allowed op c e \<Longrightarrow> P e"
  shows "emits P (consoleSession (traced_router rt) r')"
  unfolding consoleSession_def traced_server_simps assms(1)
proof (rule emits_bind_result)
  show "emits P (handleConsole tsrv r')" by (rule emits_handleConsole) (use assms in auto)
  fix s tr a s' tr'
  assume run: "run_state (handleConsole tsrv r') (s, tr) = (a, s', tr')"
  have "emits P (readCommands tsrv ns n sent)" "P (OnLogs ns n)" if "a = Inr (ns, n)" for ns n sent
    using handleConsole_claims[of r' s tr ns n s' tr' r] run that assms(2,3)
      emits_mono[OF emits_readCommands[of ns n sent], of P] by (auto simp: allowed_def)
  then show "emits P (case a of
       Inl resp \<Rightarrow> ret resp
     | Inr (ns, name) \<Rightarrow> do {
         upgraded \<leftarrow> lift_op (rtConsole rt ns name) (\<lambda>_. [OnLogs ns name]);
         case upgraded of
           Inl resp \<Rightarrow> ret resp
         | Inr sent \<Rightarrow> do {
             _ \<leftarrow> readCommands tsrv ns name sent;
             ret (respondStatus 101) } })"
    by (auto intro!: emits_intros)
qed

lemma emits_serve:
  assumes "rtServer rt = srv"
  shows "emits (justified srv r) (serve (traced_router rt) r)"
proof -
  have allow: "authenticated srv r c \<Longrightarrow> allowed op c e \<Longrightarrow> justified srv r e" for c e
    by (auto simp: justified_def)
  have signin: "emits (justified srv r) m"
    if "emits (account_event op) m" "reqMethod r = ''POST''"
      "reqPath r \<in> {[''api'', ''v1'', ''auth'', ''login''], [''api'', ''v1'', ''auth'', ''register'']}"
    for m :: "('s tracing, Response) state"
    using that(1) by (rule emits_mono) (use that(2,3) in \<open>simp add: justified_def\<close>)
  have api: "emits (justified srv r) (Authenticate (traced_jwt (srvJWT srv)) (apiRouter (traced_router rt) path) r)" for path
    by (rule emits_Authenticate, rule emits_mono[OF emits_apiRouter[OF assms]]) (auto intro: allow)
  have console: "emits (justified srv r) (consoleSession (traced_router rt) (r\<lparr>reqParams := ps\<rparr>))" for ps
    by (rule emits_console[OF assms]) (auto intro: allow)
  show ?thesis
    unfolding serve_def Let_def traced_server_simps traced_simps assms handleHealthz_def handleReadyz_def
    by (intro emits_intros api console signin[OF emits_account_handlers(1)] signin[OF emits_account_handlers(2)]) auto
qed

end

text \<open>C1: Tenant isolation. Whatever the request, and whatever the services answer, a call to the cluster
  that the server makes for it is one that the claims of a valid token of the request allow: on game
  servers, backups and Pods of the namespace in the claims, the reading of the configuration and of the
  S3 credentials, downloads from S3, and, only with the admin role, the account records. The sign-in
  and registration endpoints alone touch the account records without a token.\<close>

theorem tenant_isolation:
  assumes "keyed_server (rtServer rt)" "run_state (serve (traced_router rt) r) (s, []) = (resp, (s', tr))" "e \<in> set tr"
  shows "(\<exists>c. authenticated (rtServer rt) r c \<and>
      (tenant_event (srvNamespace (rtServer rt)) (claimNamespace c) e \<or>
       claimRole c = RoleAdmin \<and> account_event (srvNamespace (rtServer rt)) e)) \<or>
    account_event (srvNamespace (rtServer rt)) e \<and> reqMethod r = ''POST'' \<and>
      reqPath r \<in> {[''api'', ''v1'', ''auth'', ''login''], [''api'', ''v1'', ''auth'', ''register'']}"
  using emitsD[OF keyed_server.emits_serve[OF assms(1) refl] assms(2)] assms(3)
  by (auto simp: justified_def allowed_def all_events_def)

end
