(* ===== verification/ApiProperties.thy ===== *)
theory ApiProperties
  imports ApiBackups BackupSafety ApiIsolation
begin

text \<open>
  What single endpoints do: the lifecycle endpoints against an abstract function on states, the object a
  creation submits, the schedule as the backup controller reads it back, and the mod endpoints.
\<close>

section \<open>Starting, stopping and restarting\<close>

datatype power = Start | Stop | Restart

text \<open>The state each request leads to; none where it is refused.\<close>

fun power_target :: "power \<Rightarrow> GameServerState \<Rightarrow> GameServerState option" where
  "power_target Start st = (if st \<in> {GameServerStateCreating, GameServerStateStarting, GameServerStateReady,
     GameServerStateAllocated} then None else Some GameServerStateCreating)"
| "power_target Stop st = (if st \<in> {GameServerStateShutdown, GameServerStateError} then None
     else Some GameServerStateShutdown)"
| "power_target Restart st = Some GameServerStateCreating"

definition power_handler :: "('s, 'c) Server \<Rightarrow> power \<Rightarrow> 's handler" where
  "power_handler srv c = (case c of Start \<Rightarrow> handleStartGameServer srv | Stop \<Rightarrow> handleStopGameServer srv
     | Restart \<Rightarrow> handleRestartGameServer srv)"

text \<open>The endpoints respect the lifecycle but for a stop while the server is being created.\<close>

lemma power_target_lifecycle:
  assumes "power_target c st = Some st'" "st \<in> set gs_states" "st' \<noteq> st"
  shows "IsValidTransition st st' \<or> c = Stop \<and> st = GameServerStateCreating"
  using assms by (cases c; cases st) (auto simp: IsValidTransition_def gs_states_def split: if_splits)

lemma putState_outcome:
  assumes st: "status_store (gameservers (srvClient srv)) objects gsMeta server_content gsStatus"
    and gs: "objects s k = Some gs"
  shows "\<exists>gs' s'. run_state (putState srv st gs) s = (respondJSON 200 (gameServerToResponse gs'), s') \<and>
    gsStatus gs' = (gsStatus gs)\<lparr>State := st\<rparr> \<and> server_content gs' = server_content gs \<and>
    objects s' = (objects s)(k \<mapsto> gs')"
proof -
  from status_store.read_modify_write[OF st gs, of "setState st gs"] obtain x' s' where
    "run_state (kstatus (gameservers (srvClient srv)) (setState st gs)) s = (Inr x', s')"
    "gsStatus x' = gsStatus (setState st gs)" "server_content x' = server_content gs" "objects s' = (objects s)(k \<mapsto> x')"
    by (auto simp: setState_def)
  then show ?thesis by (auto simp: putState_def setState_def)
qed

text \<open>C22: The lifecycle endpoints refine the function on states. On a healthy store, for the game server of the
  caller's namespace named in the path: where the function refuses, the answer is 409 and nothing changes;
  otherwise the answer is 200 with the server as written, whose status has the new state and is the old
  one besides, and no other object changes. A missing server is answered with 404.\<close>

theorem power_refines:
  assumes st: "status_store (gameservers (srvClient srv)) objects gsMeta server_content gsStatus"
    and ns: "namespaceFromContext r = ns" "ns \<noteq> []"
  shows "case objects s (serverKey ns r) of
      None \<Rightarrow> (\<exists>m. run_state (power_handler srv c r) s = (respondError 404 m, s))
    | Some gs \<Rightarrow> (case power_target c (gsState gs) of
        None \<Rightarrow> (\<exists>m. run_state (power_handler srv c r) s = (respondError 409 m, s))
      | Some st' \<Rightarrow> (\<exists>gs' s'. run_state (power_handler srv c r) s = (respondJSON 200 (gameServerToResponse gs'), s') \<and>
          gsStatus gs' = (gsStatus gs)\<lparr>State := st'\<rparr> \<and> server_content gs' = server_content gs \<and>
          objects s' = (objects s)(serverKey ns r \<mapsto> gs')))"
proof -
  note os = status_store.axioms(1)[OF st]
  note defs = power_handler_def handleStartGameServer_def handleStopGameServer_def handleRestartGameServer_def
    withNamespace_def fetchGameServer_def ns
  show ?thesis
  proof (cases "objects s (serverKey ns r)")
    case None
    with object_store.get_missing[OF os None] show ?thesis
      by (cases c) (auto simp: defs Let_def)
  next
    case (Some gs)
    with object_store.get_found[OF os Some] putState_outcome[OF st Some] show ?thesis
      by (cases c) (auto simp: defs Let_def)
  qed
qed

section \<open>Creating a game server\<close>

text \<open>Merging parameter maps overrides the defaults.\<close>

lemma map_of_fold_mput:
  "distinct (map fst o') \<Longrightarrow> map_of (fold (\<lambda>(k, v). mput k v) o' m) = map_of m ++ map_of o'"
proof (induction o' arbitrary: m)
  case (Cons p o')
  obtain k v where p: "p = (k, v)" by fastforce
  with Cons.prems have "map_of o' k = None" by (auto simp: map_of_eq_None_iff)
  with Cons p show ?case by (auto simp: map_add_def fun_eq_iff split: option.split)
qed simp

lemma map_of_mergeMaps:
  assumes "distinct (map fst base)" "distinct (map fst override)"
  shows "map_of (mergeMaps base override) = map_of base ++ map_of override"
  using assms by (simp add: mergeMaps_def map_of_fold_mput)

text \<open>What holds of the zero value and is kept by every field holds of a decoded struct.\<close>

lemma decodePairs_keeps:
  assumes "\<And>f j r r'. put f j r = Some r' \<Longrightarrow> I r \<Longrightarrow> I r'" "I (fst acc)"
  shows "I (fst (decodePairs fs put ps acc))"
  using assms(2) by (induction ps arbitrary: acc) (auto split: option.splits dest: assms(1))

lemma decodeStruct_keeps:
  assumes "decodeStruct fs put zero j = Inr r" "\<And>f j r r'. put f j r = Some r' \<Longrightarrow> I r \<Longrightarrow> I r'" "I zero"
  shows "I r"
proof -
  have "I (fst (decodePairs fs put ps (zero, None)))" for ps
    by (rule decodePairs_keeps) (use assms(2,3) in auto)
  with assms(1,3) show ?thesis
    unfolding decodeStruct_def by (auto split: json.splits prod.splits option.splits) (metis fst_conv)
qed

lemma mapEntries_distinct:
  "mapEntries ps m = Some m' \<Longrightarrow> distinct (map fst m) \<Longrightarrow> distinct (map fst m')"
  by (induction ps m rule: mapEntries.induct) (auto intro: distinct_update)

lemma decodeCreate_distinct:
  assumes "decodeJSON decodeCreateGameServer r = Inr req"
  shows "distinct (map fst (cgParameters req))"
proof -
  from assms obtain j where "decodeCreateGameServer j = Inr req"
    by (auto simp: decodeJSON_def split: option.splits sum.splits)
  then show ?thesis unfolding decodeCreateGameServer_def
    by (rule decodeStruct_keeps)
      (auto simp: jsonString_def jsonMap_def split: json.splits if_splits dest: mapEntries_distinct)
qed

text \<open>C23: What a creation submits, for any client. A request to create a game server causes at most one call:
  the creation, in the caller's namespace and under the requested name, of an object with the caller's
  labels, with image, ports, resources and paths of the manifest of the requested game, and with
  the manifest's parameters overridden by those of the request, which the manifest's schema accepts. The
  answer is 201 if the object was created, 409 if the name is taken and 500 otherwise.\<close>

theorem create_submits:
  assumes run: "run_state (handleCreateGameServer (traced_server srv) r) (s, []) = (resp, (s', tr))" "tr \<noteq> []"
    and defaults: "\<And>t m. LoaderGet (srvManifests srv) t = Some m \<Longrightarrow> distinct (map fst (mParameters m))"
  shows "\<exists>req m gs x. decodeJSON decodeCreateGameServer r = Inr req \<and> LoaderGet (srvManifests srv) (cgGameType req) = Some m \<and>
    tr = [OnGameServer (EvCreate gs x)] \<and>
    respStatus resp = (case x of Inr _ \<Rightarrow> 201 | Inl err \<Rightarrow> if IsAlreadyExists err then 409 else 500) \<and>
    Namespace (gsMeta gs) = namespaceFromContext r \<and> Name (gsMeta gs) = cgName req \<and>
    Labels (gsMeta gs) = GameServerLabels (usernameFromContext r) (cgGameType req) \<and>
    GameType (gsSpec gs) = cgGameType req \<and> Image (gsSpec gs) = mImage m \<and> Ports (gsSpec gs) = mPorts m \<and>
    Resources (gsSpec gs) = mResources m \<and>
    map_of (Parameters (gsSpec gs)) = map_of (mParameters m) ++ map_of (cgParameters req) \<and>
    ValidateParameters m (Parameters (gsSpec gs)) = None \<and>
    mget (Annotations (gsMeta gs)) AnnotationModPath = mModPath m \<and>
    mget (Annotations (gsMeta gs)) AnnotationBackupPath = mBackupPath m"
proof -
  from run obtain req m x where
    req: "decodeJSON decodeCreateGameServer r = Inr req" and m: "LoaderGet (srvManifests srv) (cgGameType req) = Some m" and
    ok: "ValidateParameters m (mergeMaps (mParameters m) (cgParameters req)) = None" and
    tr: "tr = [OnGameServer (EvCreate (newGameServer (namespaceFromContext r) (usernameFromContext r) req m
      (mergeMaps (mParameters m) (cgParameters req))) x)]" and
    resp: "respStatus resp = (case x of Inr _ \<Rightarrow> 201 | Inl err \<Rightarrow> if IsAlreadyExists err then 409 else 500)"
    unfolding handleCreateGameServer_def
    by (auto simp: Let_def split: if_splits sum.splits option.splits prod.splits)
  have "AnnotationModPath \<noteq> AnnotationBackupPath" by (simp add: util_constant_defs)
  with req m ok resp map_of_mergeMaps[OF defaults[OF m] decodeCreate_distinct[OF req]] show ?thesis
    by (intro exI[of _ req] exI[of _ m] exI[of _ x] exI[of _ "newGameServer (namespaceFromContext r) (usernameFromContext r) req m
      (mergeMaps (mParameters m) (cgParameters req))"]) (simp add: tr newGameServer_def NewMeta_def annotate_def)
qed

section \<open>Backup schedules\<close>

lemma decodeSchedule_range:
  assumes "decodeJSON decodeSetBackupSchedule r = Inr req"
  shows "- (2 ^ 63) \<le> bsRetention req \<and> bsRetention req < 2 ^ 63"
proof -
  from assms obtain j where "decodeSetBackupSchedule j = Inr req"
    by (auto simp: decodeJSON_def split: option.splits sum.splits)
  then show ?thesis unfolding decodeSetBackupSchedule_def
    by (rule decodeStruct_keeps) (auto simp: jsonString_def jsonInt_def split: json.splits if_splits)
qed

lemma Itoa_nonempty [simp]: "Itoa i \<noteq> []"
  by (simp add: Itoa_def)

lemma scheduleAnnotations_read:
  fixes gs :: GameServer
  assumes "- (2 ^ 63) \<le> bsRetention req" "bsRetention req < 2 ^ 63"
  defines "gs' \<equiv> setAnnotations (scheduleAnnotations req (Annotations (gsMeta gs))) gs"
  shows "mget (Annotations (gsMeta gs')) AnnotationBackupSchedule = bsSchedule req"
    "retentionOf gs' cfg = (if bsSchedule req \<noteq> [] \<and> 0 < bsRetention req then bsRetention req else BackupRetentionCount cfg)"
    "a \<notin> {AnnotationBackupSchedule, AnnotationBackupRetention} \<Longrightarrow>
      mget (Annotations (gsMeta gs')) a = mget (Annotations (gsMeta gs)) a"
proof -
  have d: "AnnotationBackupSchedule \<noteq> AnnotationBackupRetention" by (simp add: util_constant_defs)
  show "mget (Annotations (gsMeta gs')) AnnotationBackupSchedule = bsSchedule req"
    using d by (simp add: gs'_def setAnnotations_def scheduleAnnotations_def Let_def)
  show "retentionOf gs' cfg = (if bsSchedule req \<noteq> [] \<and> 0 < bsRetention req then bsRetention req else BackupRetentionCount cfg)"
    using d Atoi_Itoa[OF assms(1,2)] by (auto simp: gs'_def setAnnotations_def scheduleAnnotations_def retentionOf_def Let_def)
  show "mget (Annotations (gsMeta gs')) a = mget (Annotations (gsMeta gs)) a"
    if "a \<notin> {AnnotationBackupSchedule, AnnotationBackupRetention}"
    using that by (auto simp: gs'_def setAnnotations_def scheduleAnnotations_def Let_def)
qed

text \<open>C21: The backup controller reads what the schedule endpoint wrote, for any client. When the endpoint answers
  200 it has updated the game server it read, and the object it submitted makes the controller's
  watch request a scheduled backup exactly when a schedule was given, which is one that the cron parser
  accepts; the controller's retention for it is the number in the request, or the default without a positive
  one; every other annotation, the spec and the status are as they were read.\<close>

theorem schedule_roundtrip:
  assumes run: "run_state (handleSetBackupSchedule (traced_server srv) r) (s, []) = (resp, (s', tr))" "respStatus resp = 200"
  shows "\<exists>req gs gs' x. decodeJSON decodeSetBackupSchedule r = Inr req \<and>
    tr = [OnGameServer (EvGet (serverKey (namespaceFromContext r) r) (Inr gs)), OnGameServer (EvUpdate gs' (Inr x))] \<and>
    (scheduleRequests gs' \<noteq> [] \<longleftrightarrow> bsSchedule req \<noteq> []) \<and>
    mget (Annotations (gsMeta gs')) AnnotationBackupSchedule = bsSchedule req \<and>
    (bsSchedule req \<noteq> [] \<longrightarrow> (\<exists>sched. CronParse (srvEnv srv) (bsSchedule req) = Inr sched)) \<and>
    (\<forall>cfg. retentionOf gs' cfg =
       (if bsSchedule req \<noteq> [] \<and> 0 < bsRetention req then bsRetention req else BackupRetentionCount cfg)) \<and>
    (\<forall>a. a \<notin> {AnnotationBackupSchedule, AnnotationBackupRetention} \<longrightarrow>
       mget (Annotations (gsMeta gs')) a = mget (Annotations (gsMeta gs)) a) \<and>
    gsSpec gs' = gsSpec gs \<and> gsStatus gs' = gsStatus gs"
proof -
  from run obtain req gs x where req: "decodeJSON decodeSetBackupSchedule r = Inr req" and
    tr: "tr = [OnGameServer (EvGet (serverKey (namespaceFromContext r) r) (Inr gs)),
      OnGameServer (EvUpdate (setAnnotations (scheduleAnnotations req (Annotations (gsMeta gs))) gs) (Inr x))]" and
    cron: "bsSchedule req \<noteq> [] \<Longrightarrow> \<exists>sched. CronParse (srvEnv srv) (bsSchedule req) = Inr sched"
    unfolding handleSetBackupSchedule_def withNamespace_def findGameServer_def
    by (auto simp: Let_def split: if_splits sum.splits option.splits prod.splits)
  note range = decodeSchedule_range[OF req]
  let ?gs = "setAnnotations (scheduleAnnotations req (Annotations (gsMeta gs))) gs"
  have "gsSpec ?gs = gsSpec gs" "gsStatus ?gs = gsStatus gs" by (simp_all add: setAnnotations_def)
  with req cron scheduleAnnotations_read[OF range[THEN conjunct1] range[THEN conjunct2], where gs = gs] show ?thesis
    unfolding tr scheduleRequests_def by (intro exI[of _ req] exI[of _ gs] exI[of _ ?gs] exI[of _ x]) simp
qed

section \<open>Mods\<close>

text \<open>A file name inside the mod directory: one path element that names neither it nor its parent.\<close>

definition plain_name :: "string \<Rightarrow> bool" where
  "plain_name f \<longleftrightarrow> f \<noteq> [] \<and> f \<noteq> ''.'' \<and> f \<noteq> ''..'' \<and> CHR ''/'' \<notin> set f \<and> CHR 0x5C \<notin> set f"

lemma good_filename: "\<not> badFilename (Base p) \<Longrightarrow> plain_name (Base p)"
  by (auto simp: badFilename_def plain_name_def ContainsAny_def list_ex_iff Base_nonempty)

text \<open>C36: Deleting a mod stays inside the mod directory, for any client. The only command the endpoint runs is one
  \<^verbatim>\<open>rm -f\<close> in the caller's Pod, of a plain file name directly below the mod path of a running game
  server that it has read, whatever file name the request carries; for a name that is no plain one the
  endpoint makes no call at all.\<close>

theorem delete_mod_confined:
  assumes run: "run_state (handleDeleteMod (traced_server srv) r) (s, []) = (resp, (s', tr))" "tr \<noteq> []"
  shows "plain_name (Base (URLParam r ''filename'')) \<and>
    (\<forall>ns pod cmd x. OnExec ns pod cmd x \<in> set tr \<longrightarrow>
      ns = namespaceFromContext r \<and> pod = URLParam r ''name'' \<and>
      (\<exists>gs. OnGameServer (EvGet (serverKey ns r) (Inr gs)) \<in> set tr \<and> running gs \<and>
         mget (Annotations (gsMeta gs)) AnnotationModPath \<noteq> [] \<and>
         cmd = [''rm'', ''-f'', mget (Annotations (gsMeta gs)) AnnotationModPath @ ''/'' @ Base (URLParam r ''filename'')]))"
  using run unfolding handleDeleteMod_def withNamespace_def findGameServer_def execInPod_def
  by (auto simp: Let_def good_filename split: if_splits sum.splits option.splits prod.splits)

text \<open>
  The listing that \<^verbatim>\<open>ls -la\<close> prints: a first line with the total, then a line for each entry with mode,
  links, owner and group, the size, three words of date, and the name.
\<close>

record ls_entry =
  lsHead :: "string list"
  lsSize :: int
  lsDate :: "string list"
  lsName :: string

definition lsWords :: "ls_entry \<Rightarrow> string list" where
  "lsWords e = lsHead e @ [Itoa (lsSize e)] @ lsDate e @ [lsName e]"

definition lsOutput :: "string \<Rightarrow> ls_entry list \<Rightarrow> string" where
  "lsOutput blocks es = joinWith (CHR 0x0A) ((''total '' @ blocks) # map (\<lambda>e. joinWith (CHR '' '') (lsWords e)) es) @ [CHR 0x0A]"

definition word_ok :: "string \<Rightarrow> bool" where
  "word_ok w \<longleftrightarrow> w \<noteq> [] \<and> (\<forall>c \<in> set w. \<not> is_space c)"

definition entry_ok :: "ls_entry \<Rightarrow> bool" where
  "entry_ok e \<longleftrightarrow> length (lsHead e) = 4 \<and> length (lsDate e) = 3 \<and> list_all word_ok (lsHead e @ lsDate e @ [lsName e]) \<and>
     \<not> HasPrefix (hd (lsHead e)) ''total'' \<and> - (2 ^ 63) \<le> lsSize e \<and> lsSize e < 2 ^ 63"

lemma dropWhile_word: "word_ok w \<Longrightarrow> dropWhile is_space (w @ s) = w @ s"
  by (cases w) (auto simp: word_ok_def)

lemma Fields_Nil: "Fields [] = []"
  by (simp add: Fields.simps[of "[]"])

lemma Fields_word: "word_ok w \<Longrightarrow> Fields w = [w]"
proof -
  assume w: "word_ok w"
  then have d: "dropWhile (\<lambda>c. \<not> is_space c) w = []" and t: "takeWhile (\<lambda>c. \<not> is_space c) w = w" and "w \<noteq> []"
    by (auto simp: word_ok_def)
  then have "Fields w = takeWhile (\<lambda>c. \<not> is_space c) w # Fields (dropWhile (\<lambda>c. \<not> is_space c) w)"
    using dropWhile_word[OF w, of "[]"] unfolding Fields.simps[of w] by (simp add: Let_def)
  then show ?thesis unfolding d t Fields_Nil .
qed

lemma Fields_Cons: "word_ok w \<Longrightarrow> is_space c \<Longrightarrow> Fields (w @ c # s) = w # Fields s"
proof -
  assume w: "word_ok w" "is_space c"
  have "Fields (c # s) = Fields s" using w(2) by (simp add: Fields.simps[of "c # s"] Fields.simps[of s])
  moreover have "takeWhile (\<lambda>c. \<not> is_space c) (w @ c # s) = w" "dropWhile (\<lambda>c. \<not> is_space c) (w @ c # s) = c # s"
    using w by (auto simp: word_ok_def takeWhile_append dropWhile_append)
  ultimately show ?thesis
    unfolding Fields.simps[of "w @ c # s"] using w dropWhile_word[OF w(1)] by (simp add: Let_def)
qed

lemma Fields_join: "list_all word_ok ws \<Longrightarrow> is_space c \<Longrightarrow> Fields (joinWith c ws) = ws"
  by (induction c ws rule: joinWith.induct) (simp_all add: Fields_word Fields_Cons Fields_Nil)

lemma Split_join: "ws \<noteq> [] \<Longrightarrow> \<forall>w \<in> set ws. c \<notin> set w \<Longrightarrow> Split (joinWith c ws) c = ws"
  by (induction c ws rule: joinWith.induct) (simp_all add: Split_free Split_append)

lemma set_joinWith: "x \<in> set (joinWith c ws) \<Longrightarrow> x = c \<or> (\<exists>w \<in> set ws. x \<in> set w)"
  by (induction c ws rule: joinWith.induct) auto

lemma last_joinWith: "ws \<noteq> [] \<Longrightarrow> last ws \<noteq> [] \<Longrightarrow> joinWith c ws \<noteq> [] \<and> last (joinWith c ws) = last (last ws)"
  by (induction c ws rule: joinWith.induct) auto

lemma hd_joinWith: "ws \<noteq> [] \<Longrightarrow> hd ws \<noteq> [] \<Longrightarrow> hd (joinWith c ws) = hd (hd ws)"
  by (induction c ws rule: joinWith.induct) auto

lemma Itoa_word [simp]: "word_ok (Itoa i)"
proof -
  have "\<not> is_space c" if "c \<in> set (nat_str n)" for c n
    using nat_str_digits[of n] that by (auto simp: is_space_def is_digit_def list_all_iff)
  then show ?thesis by (auto simp: word_ok_def Itoa_def is_space_def)
qed

lemma TrimSpace_line:
  assumes "x \<noteq> []" "\<not> is_space (hd x)" "\<not> is_space (last x)" "is_space c"
  shows "TrimSpace (x @ [c]) = x"
proof -
  have "dropWhile is_space (x @ [c]) = x @ [c]" using assms(1,2) by (cases x) auto
  moreover have "dropWhile is_space (rev x) = rev x" using assms(1,3) by (cases x rule: rev_cases) auto
  ultimately show ?thesis using assms(4) by (simp add: TrimSpace_def)
qed

lemma prefix_before: "prefix p (a @ c # s) \<Longrightarrow> c \<notin> set p \<Longrightarrow> prefix p a"
  by (auto simp: prefix_append prefix_Cons)

text \<open>A line of words has no line break and does not end in white space.\<close>

lemma line_ok:
  assumes "list_all word_ok ws" "ws \<noteq> []"
  shows "CHR 0x0A \<notin> set (joinWith (CHR '' '') ws)" "joinWith (CHR '' '') ws \<noteq> []" "\<not> is_space (last (joinWith (CHR '' '') ws))"
proof -
  have w: "word_ok (last ws)" using assms by (simp add: list_all_iff)
  then show "joinWith (CHR '' '') ws \<noteq> []" "\<not> is_space (last (joinWith (CHR '' '') ws))"
    using last_joinWith[OF assms(2), of "CHR '' ''"] by (auto simp: word_ok_def)
  show "CHR 0x0A \<notin> set (joinWith (CHR '' '') ws)"
    using assms(1) by (auto dest!: set_joinWith simp: list_all_iff word_ok_def is_space_def)
qed

lemma lsWords_ok: "entry_ok e \<Longrightarrow> list_all word_ok (lsWords e) \<and> lsWords e \<noteq> []"
  by (auto simp: entry_ok_def lsWords_def)

lemma parseLsLine_entry:
  assumes "entry_ok e"
  shows "parseLsLine (joinWith (CHR '' '') (lsWords e)) =
    (if lsName e \<in> {''.'', ''..''} then None else Some (lsName e, lsSize e))"
proof -
  obtain a b c d where h: "lsHead e = [a, b, c, d]"
    using assms by (auto simp: entry_ok_def numeral_eq_Suc length_Suc_conv)
  have ok: "list_all word_ok (lsWords e)" using lsWords_ok[OF assms] by simp
  have "\<not> HasPrefix (joinWith (CHR '' '') (lsWords e)) ''total''"
    using assms h by (auto simp: entry_ok_def lsWords_def HasPrefix_iff dest!: prefix_before)
  moreover have "Fields (joinWith (CHR '' '') (lsWords e)) = lsWords e"
    by (rule Fields_join[OF ok]) (simp add: is_space_def)
  moreover have "length (lsWords e) = 9" "last (lsWords e) = lsName e" "lsWords e ! 4 = Itoa (lsSize e)"
    using assms h by (simp_all add: lsWords_def entry_ok_def)
  ultimately show ?thesis
    using assms Atoi_Itoa[of "lsSize e"] by (simp add: parseLsLine_def entry_ok_def Let_def)
qed



end
