(* ===== verification/Console.thy ===== *)
theory Console
  imports ApiRoutes
begin

text \<open>
  The goroutines of a console session (\<^verbatim>\<open>handlers_console.go\<close>) as a step relation: the writer that serves
  the WebSocket, the ping goroutine, the log streamer, one goroutine per command, and the read loop, which
  on disconnect (an error or the read deadline) cancels the context and closes the write channel. A send on
  a closed channel panics, also in a \<^verbatim>\<open>select\<close> with other cases. A write to the WebSocket takes time:
  it begins in one step and ends, well or with an error (also that of the write deadline), in another.
\<close>

section \<open>Messages and goroutines\<close>

datatype cmsg = LogChunk string | Msg json

definition writeChannelSize :: nat where "writeChannelSize = 256"

text \<open>
  What \<^verbatim>\<open>streamPodLogs\<close> sends: chunks, waiting for room in the channel or for the end of the session,
  and one last message that is dropped if there is no room.
\<close>

datatype lsend = Chunk string | Final json

definition streamPodLogs :: "gerr + string list \<Rightarrow> lsend list" where
  "streamPodLogs stream = (case stream of
       Inl err \<Rightarrow> [Final (consoleMessage ''error'' (''failed to stream logs: '' @ error_text err))]
     | Inr chunks \<Rightarrow> map Chunk chunks @ [Final (consoleMessage ''stream_ended'' [])])"

datatype wphase = WIdle | WWriting | WClosing | WDone
datatype pphase = PWaiting | PPinging | PDone

record session =
  queue :: "cmsg list"
  accepted :: "cmsg list"  \<comment> \<open>everything the channel took, for the specification\<close>
  sent :: "cmsg list"  \<comment> \<open>what the writer handed to the WebSocket\<close>
  writer :: wphase
  pinger :: pphase
  cancelled :: bool
  chClosed :: bool
  logs :: "lsend list"
  execs :: "json list list"  \<comment> \<open>the messages each running command still offers\<close>
  panicked :: bool

definition enqueue :: "cmsg \<Rightarrow> session \<Rightarrow> session" where
  "enqueue m p = p\<lparr>queue := queue p @ [m], accepted := accepted p @ [m]\<rparr>"

definition hasRoom :: "session \<Rightarrow> bool" where
  "hasRoom p \<longleftrightarrow> length (queue p) < writeChannelSize"

text \<open>A send in a \<^verbatim>\<open>select\<close> with a default case.\<close>

definition offer :: "cmsg \<Rightarrow> session \<Rightarrow> session" where
  "offer m p = (if chClosed p then p\<lparr>panicked := True\<rparr> else if hasRoom p then enqueue m p else p)"

text \<open>The state when the goroutines start, with the greeting already in the channel.\<close>

definition session_start :: "gerr + string list \<Rightarrow> session" where
  "session_start stream = enqueue (Msg (consoleMessage ''connected'' ''streaming logs...''))
     \<lparr>queue = [], accepted = [], sent = [], writer = WIdle, pinger = PWaiting, cancelled = False, chClosed = False,
      logs = streamPodLogs stream, execs = [], panicked = False\<rparr>"

section \<open>Steps\<close>

text \<open>\<open>outcomes\<close> gives the message lists that running a command may produce.\<close>

inductive console_step :: "(string \<Rightarrow> json list set) \<Rightarrow> session \<Rightarrow> session \<Rightarrow> bool"
  for outcomes :: "string \<Rightarrow> json list set" where
  command: "\<not> panicked p \<Longrightarrow> \<not> cancelled p \<Longrightarrow> commandOf m = Some c \<Longrightarrow> ms \<in> outcomes c \<Longrightarrow>
    console_step outcomes p (p\<lparr>execs := execs p @ [ms]\<rparr>)"
| disconnect: "\<not> panicked p \<Longrightarrow> \<not> cancelled p \<Longrightarrow> console_step outcomes p (p\<lparr>cancelled := True\<rparr>)"
| close_channel: "\<not> panicked p \<Longrightarrow> cancelled p \<Longrightarrow> \<not> chClosed p \<Longrightarrow> console_step outcomes p (p\<lparr>chClosed := True\<rparr>)"
| write_next: "\<not> panicked p \<Longrightarrow> writer p = WIdle \<Longrightarrow> queue p = m # q \<Longrightarrow>
    console_step outcomes p (p\<lparr>queue := q, sent := sent p @ [m], writer := WWriting\<rparr>)"
| write_done: "\<not> panicked p \<Longrightarrow> writer p = WWriting \<Longrightarrow> console_step outcomes p (p\<lparr>writer := WIdle\<rparr>)"
| write_fails: "\<not> panicked p \<Longrightarrow> writer p = WWriting \<Longrightarrow> console_step outcomes p (p\<lparr>writer := WDone\<rparr>)"
| write_close: "\<not> panicked p \<Longrightarrow> writer p = WIdle \<Longrightarrow> chClosed p \<Longrightarrow> queue p = [] \<Longrightarrow>
    console_step outcomes p (p\<lparr>writer := WClosing\<rparr>)"
| write_closed: "\<not> panicked p \<Longrightarrow> writer p = WClosing \<Longrightarrow> console_step outcomes p (p\<lparr>writer := WDone\<rparr>)"
| writer_ends: "\<not> panicked p \<Longrightarrow> writer p = WIdle \<Longrightarrow> cancelled p \<Longrightarrow> console_step outcomes p (p\<lparr>writer := WDone\<rparr>)"
| ping: "\<not> panicked p \<Longrightarrow> pinger p = PWaiting \<Longrightarrow> console_step outcomes p (p\<lparr>pinger := PPinging\<rparr>)"
| ping_done: "\<not> panicked p \<Longrightarrow> pinger p = PPinging \<Longrightarrow> console_step outcomes p (p\<lparr>pinger := PWaiting\<rparr>)"
| ping_fails: "\<not> panicked p \<Longrightarrow> pinger p = PPinging \<Longrightarrow> console_step outcomes p (p\<lparr>pinger := PDone\<rparr>)"
| ping_ends: "\<not> panicked p \<Longrightarrow> pinger p = PWaiting \<Longrightarrow> cancelled p \<Longrightarrow> console_step outcomes p (p\<lparr>pinger := PDone\<rparr>)"
| log_send: "\<not> panicked p \<Longrightarrow> logs p = Chunk d # ls \<Longrightarrow> \<not> chClosed p \<Longrightarrow> hasRoom p \<Longrightarrow>
    console_step outcomes p (enqueue (LogChunk d) (p\<lparr>logs := ls\<rparr>))"
| log_send_closed: "\<not> panicked p \<Longrightarrow> logs p = Chunk d # ls \<Longrightarrow> chClosed p \<Longrightarrow>
    console_step outcomes p (p\<lparr>panicked := True\<rparr>)"
| log_cancelled: "\<not> panicked p \<Longrightarrow> logs p = Chunk d # ls \<Longrightarrow> cancelled p \<Longrightarrow>
    console_step outcomes p (p\<lparr>logs := []\<rparr>)"
| log_cut: "\<not> panicked p \<Longrightarrow> logs p = Chunk d # ls \<Longrightarrow> cancelled p \<Longrightarrow>
    console_step outcomes p (p\<lparr>logs := [last ls]\<rparr>)"
| log_final: "\<not> panicked p \<Longrightarrow> logs p = Final j # ls \<Longrightarrow>
    console_step outcomes p (offer (Msg j) (p\<lparr>logs := ls\<rparr>))"
| exec_offer: "\<not> panicked p \<Longrightarrow> i < length (execs p) \<Longrightarrow> execs p ! i = j # ms \<Longrightarrow>
    console_step outcomes p (offer (Msg j) (p\<lparr>execs := (execs p)[i := ms]\<rparr>))"

text \<open>The messages of a command, as \<open>execCommand\<close> computes them in some state of the world.\<close>

definition execOutcomes :: "('s, 'c) Server \<Rightarrow> string \<Rightarrow> string \<Rightarrow> string \<Rightarrow> json list set" where
  "execOutcomes srv ns serverName c = {ms. \<exists>s s'. run_state (execCommand srv ns serverName c) s = (ms, s')}"

abbreviation console_run :: "(string \<Rightarrow> json list set) \<Rightarrow> session \<Rightarrow> session \<Rightarrow> bool" where
  "console_run outcomes \<equiv> (console_step outcomes)\<^sup>*\<^sup>*"

section \<open>The channel\<close>

primrec chunksOf :: "cmsg list \<Rightarrow> string list" where
  "chunksOf [] = []"
| "chunksOf (m # ms) = (case m of LogChunk d \<Rightarrow> [d] | Msg _ \<Rightarrow> []) @ chunksOf ms"

primrec chunksLeft :: "lsend list \<Rightarrow> string list" where
  "chunksLeft [] = []"
| "chunksLeft (l # ls) = (case l of Chunk d \<Rightarrow> [d] | Final _ \<Rightarrow> []) @ chunksLeft ls"

lemma chunksOf_append [simp]: "chunksOf (xs @ ys) = chunksOf xs @ chunksOf ys"
  by (induction xs) simp_all

lemma chunksLeft_map [simp]: "chunksLeft (map Chunk ds @ ls) = ds @ chunksLeft ls"
  by (induction ds) simp_all

definition all_chunks :: "gerr + string list \<Rightarrow> string list" where
  "all_chunks stream = chunksLeft (streamPodLogs stream)"

text \<open>The messages a log goroutine has left: none, or chunks and the last message.\<close>

definition log_program :: "lsend list \<Rightarrow> bool" where
  "log_program ls \<longleftrightarrow> ls = [] \<or> (\<exists>ds j. ls = map Chunk ds @ [Final j])"

lemma log_program_Nil [simp]: "log_program []"
  by (simp add: log_program_def)

lemma log_program_Final [simp]: "log_program (Final j # ls) \<longleftrightarrow> ls = []"
  by (auto simp: log_program_def Cons_eq_append_conv Cons_eq_map_conv intro: exI[of _ "[]"])

lemma log_program_Chunk: "log_program (Chunk d # ls) \<Longrightarrow> log_program ls \<and> (\<exists>j. last ls = Final j)"
  by (auto simp: log_program_def Cons_eq_append_conv Cons_eq_map_conv)

lemma log_program_last [simp]: "log_program (Chunk d # ls) \<Longrightarrow> (case last ls of Chunk c \<Rightarrow> [c] | Final j \<Rightarrow> []) = []"
  by (auto dest: log_program_Chunk)

lemma prefix_append2: "prefix (a @ b @ c) d \<Longrightarrow> prefix (a @ b) d"
  by (metis append.assoc append_prefixD)

definition session_inv :: "gerr + string list \<Rightarrow> session \<Rightarrow> bool" where
  "session_inv stream p \<longleftrightarrow> length (queue p) \<le> writeChannelSize \<and> accepted p = sent p @ queue p \<and>
     prefix (chunksOf (accepted p) @ chunksLeft (logs p)) (all_chunks stream) \<and> log_program (logs p) \<and>
     (\<not> cancelled p \<longrightarrow> chunksOf (accepted p) @ chunksLeft (logs p) = all_chunks stream) \<and>
     (chClosed p \<longrightarrow> cancelled p)"

lemma session_inv_start: "session_inv stream (session_start stream)"
  by (auto simp: session_inv_def session_start_def enqueue_def writeChannelSize_def all_chunks_def log_program_def
      streamPodLogs_def split: sum.splits)

lemma session_inv_step: "console_step outcomes p p' \<Longrightarrow> session_inv stream p \<Longrightarrow> session_inv stream p'"
  by (induction rule: console_step.induct)
    (auto simp: session_inv_def enqueue_def offer_def hasRoom_def dest: log_program_Chunk prefix_append2)

lemma session_inv_run: "console_run outcomes p p' \<Longrightarrow> session_inv stream p \<Longrightarrow> session_inv stream p'"
  by (induction rule: rtranclp_induct) (auto intro: session_inv_step)

section \<open>Panics\<close>

definition pending :: "session \<Rightarrow> bool" where
  "pending p \<longleftrightarrow> logs p \<noteq> [] \<or> (\<exists>ms \<in> set (execs p). ms \<noteq> [])"

lemma panicked_closed: "console_run outcomes p p' \<Longrightarrow> (panicked p \<longrightarrow> chClosed p) \<Longrightarrow> panicked p' \<longrightarrow> chClosed p'"
  by (induction rule: rtranclp_induct) (auto elim!: console_step.cases simp: offer_def enqueue_def split: if_splits)

lemma quiet_step:
  assumes "console_step outcomes p p'" "chClosed p" "cancelled p" "\<not> pending p" "\<not> panicked p"
  shows "chClosed p' \<and> cancelled p' \<and> \<not> pending p' \<and> \<not> panicked p'"
  using assms by (cases rule: console_step.cases) (auto simp: pending_def all_set_conv_all_nth)

lemma quiet_run:
  assumes "console_run outcomes p p'" "chClosed p" "cancelled p" "\<not> pending p" "\<not> panicked p"
  shows "\<not> panicked p'"
proof -
  have "chClosed p' \<and> cancelled p' \<and> \<not> pending p' \<and> \<not> panicked p'"
    using assms by (induction rule: rtranclp_induct) (auto dest: quiet_step)
  then show ?thesis by simp
qed

lemma pending_panics:
  assumes "chClosed p" "pending p" "\<not> panicked p"
  shows "\<exists>p'. console_step outcomes p p' \<and> panicked p'"
proof (cases "logs p")
  case (Cons l ls)
  then show ?thesis
    using log_send_closed[OF assms(3), of _ ls outcomes] log_final[OF assms(3), of _ ls outcomes] assms(1)
    by (cases l) (force simp: offer_def)+
next
  case Nil
  with assms(2) obtain i j ms where "i < length (execs p)" "execs p ! i = j # ms"
    by (auto simp: pending_def in_set_conv_nth neq_Nil_conv)
  from exec_offer[OF assms(3) this, of outcomes] assms(1) show ?thesis by (force simp: offer_def)
qed

section \<open>Writers of the WebSocket\<close>

text \<open>
  The WebSocket library allows one writer at a time. The writer and the ping goroutine both call its
  write method.
\<close>

definition both_write :: "session \<Rightarrow> bool" where
  "both_write p \<longleftrightarrow> writer p \<in> {WWriting, WClosing} \<and> pinger p = PPinging"

lemma write_meets_ping:
  assumes "\<not> panicked p" "writer p \<in> {WWriting, WClosing}" "pinger p = PWaiting"
  shows "\<exists>p'. console_step outcomes p p' \<and> both_write p'"
  using ping[OF assms(1,3)] assms(2) by (force simp: both_write_def)

text \<open>The greeting and the first ping suffice.\<close>

lemma start_both_write: "\<exists>p. console_run outcomes (session_start stream) p \<and> both_write p \<and> \<not> cancelled p"
proof -
  let ?p = "session_start stream" and ?m = "Msg (consoleMessage ''connected'' ''streaming logs...'')"
  have start: "\<not> panicked ?p" "writer ?p = WIdle" "queue ?p = [?m]" by (simp_all add: session_start_def enqueue_def)
  let ?q = "?p\<lparr>queue := [], sent := sent ?p @ [?m], writer := WWriting\<rparr>"
  have "console_step outcomes ?p ?q" by (rule write_next[OF start])
  moreover have "console_step outcomes ?q (?q\<lparr>pinger := PPinging\<rparr>)"
    by (rule ping) (simp_all add: session_start_def enqueue_def)
  ultimately have "console_run outcomes ?p (?q\<lparr>pinger := PPinging\<rparr>)" by (meson r_into_rtranclp rtranclp_trans)
  then show ?thesis by (intro exI conjI, assumption) (simp_all add: both_write_def session_start_def enqueue_def)
qed

section \<open>Properties\<close>

text \<open>C29: The console delivers the logs in order. In every reachable state of a session the channel holds at most
  256 messages, the WebSocket was handed exactly the messages the channel took, in that order, less
  those still queued, the log chunks sent are the first ones of the log stream, and as long as the session
  is not cancelled every chunk of the stream is sent, queued or still to come.\<close>

theorem console_channel:
  assumes "console_run outcomes (session_start (Inr chunks)) p"
  shows "length (queue p) \<le> 256 \<and> accepted p = sent p @ queue p \<and> prefix (chunksOf (sent p)) chunks \<and>
    (\<not> cancelled p \<longrightarrow> chunksOf (sent p) @ chunksOf (queue p) @ chunksLeft (logs p) = chunks)"
proof -
  have "session_inv (Inr chunks) p" by (rule session_inv_run[OF assms session_inv_start])
  then show ?thesis
    by (auto simp: session_inv_def writeChannelSize_def all_chunks_def streamPodLogs_def dest: append_prefixD)
qed

text \<open>C30: When the console panics. A session panics only after it closed its channel, and once the channel is
  closed a panic can follow exactly when some goroutine still has a message to send: the log
  streamer, or a command that was running when the client disconnected.\<close>

theorem console_panic_iff:
  assumes run: "console_run (execOutcomes srv ns serverName) (session_start stream) p"
  shows "(panicked p \<longrightarrow> chClosed p) \<and>
    (chClosed p \<and> \<not> panicked p \<longrightarrow>
      (\<exists>p'. console_run (execOutcomes srv ns serverName) p p' \<and> panicked p') = pending p)"
proof -
  let ?o = "execOutcomes srv ns serverName"
  have "session_inv stream p" by (rule session_inv_run[OF run session_inv_start])
  then have "chClosed p \<longrightarrow> cancelled p" by (simp add: session_inv_def)
  moreover have "panicked p \<longrightarrow> chClosed p"
    by (rule panicked_closed[OF run]) (simp add: session_start_def enqueue_def)
  moreover have "(\<exists>p'. console_run ?o p p' \<and> panicked p') = pending p" if "chClosed p" "cancelled p" "\<not> panicked p"
    using quiet_run[OF _ that(1,2) _ that(3)] pending_panics[OF that(1) _ that(3)] by blast
  ultimately show ?thesis by blast
qed

theorem console_channel_witness:
  "\<exists>p. console_run (\<lambda>_. {}) (session_start (Inr [''a'', ''b''])) p \<and> chunksOf (sent p) = [''a''] \<and>
     chunksOf (sent p) @ chunksOf (queue p) @ chunksLeft (logs p) = [''a'', ''b'']"
proof -
  let ?p0 = "session_start (Inr [''a'', ''b''])"
  define p1 where "p1 = enqueue (LogChunk ''a'') (?p0\<lparr>logs := tl (logs ?p0)\<rparr>)"
  define p2 where "p2 = p1\<lparr>queue := tl (queue p1), sent := sent p1 @ [hd (queue p1)], writer := WWriting\<rparr>"
  define p2' where "p2' = p2\<lparr>writer := WIdle\<rparr>"
  define p3 where "p3 = p2'\<lparr>queue := tl (queue p2'), sent := sent p2' @ [hd (queue p2')], writer := WWriting\<rparr>"
  note defs = session_start_def enqueue_def streamPodLogs_def hasRoom_def writeChannelSize_def
  have "console_step (\<lambda>_. {}) ?p0 p1" unfolding p1_def by (rule log_send) (simp_all add: defs)
  moreover have "console_step (\<lambda>_. {}) p1 p2" unfolding p2_def by (rule write_next) (simp_all add: defs p1_def)
  moreover have "console_step (\<lambda>_. {}) p2 p2'" unfolding p2'_def by (rule write_done) (simp_all add: defs p2_def p1_def)
  moreover have "console_step (\<lambda>_. {}) p2' p3" unfolding p3_def by (rule write_next) (simp_all add: defs p2'_def p2_def p1_def)
  ultimately have run: "console_run (\<lambda>_. {}) ?p0 p3" by (meson r_into_rtranclp rtranclp_trans)
  have "\<not> cancelled p3" "chunksOf (sent p3) = [''a'']" by (simp_all add: p3_def p2'_def p2_def p1_def defs)
  with console_channel[OF run] run show ?thesis by blast
qed

end
