(* ===== verification/ApiSession.thy ===== *)
theory ApiSession
  imports ApiAuth
begin

text \<open>
  Registration and login together: the account a registration makes is the one login checks.
\<close>

section \<open>A registration that succeeded\<close>

lemma respondToken_status:
  "run_state (respondToken srv u st body) s = (resp, s') \<Longrightarrow> st \<noteq> 500 \<Longrightarrow> respStatus resp = st \<Longrightarrow>
   \<exists>t. run_state (GenerateToken (srvJWT srv) u) s = (Inr t, s')"
  by (auto simp: respondToken_def split: prod.splits sum.splits)

lemma registerInvited_created:
  assumes "run_state (registerInvited srv req em) s = (resp, s1)" "respStatus resp = 201"
  obtains sa sb sc hash now t where "ValidateUsername (rgUsername req) = None"
    "run_state (HashPassword (srvIDKey srv) (srvRand srv) (rgPassword req)) s = (Some (Inr hash), sa)"
    "run_state (Now (srvRuntime srv)) sa = (now, sb)"
    "run_state (CreateUser (srvUsers srv) (registeredUser req em hash now)) sb = (Inr (), sc)"
    "run_state (GenerateToken (srvJWT srv) (registeredUser req em hash now)) sc = (Inr t, s1)"
  using assms unfolding registerInvited_def
  by (auto simp: recovered_def Let_def split: option.splits sum.splits prod.splits if_splits dest!: respondToken_status)

lemma handleRegister_created:
  assumes "run_state (handleRegister srv r) s = (resp, s1)" "respStatus resp = 201" "decodeJSON decodeRegister r = Inr req"
  obtains em s0 where "validateRegister req = None" "run_state (registerInvited srv req em) s0 = (resp, s1)"
  using assms unfolding handleRegister_def
  by (auto split: option.splits sum.splits prod.splits if_splits)

lemma registeredUser_simps [simp]:
  "Username (registeredUser req em hash now) = rgUsername req" "PasswordHash (registeredUser req em hash now) = hash"
  "Role (registeredUser req em hash now) = RoleUser" "Email (registeredUser req em hash now) = em"
  by (simp_all add: registeredUser_def)

section \<open>The contract the sessions rest on\<close>

text \<open>
  A server over a user service that keeps its contract, with tokens that can be issued and a key
  derivation that returns keys of the length asked for.
\<close>

locale account_server =
  user_service "CreateUser (srvUsers srv)" "GetUser (srvUsers srv)" "DeleteUser (srvUsers srv)" users deletable
  for srv :: "('s, 'c) Server" and users :: "'s \<Rightarrow> string \<Rightarrow> User option" and deletable :: "'s \<Rightarrow> string \<Rightarrow> bool" +
  assumes token_made: "\<exists>t s'. run_state (GenerateToken (srvJWT srv) u) s = (Inr t, s') \<and> users s' = users s"
    and key_length: "srvIDKey srv pw salt tm m p n = Some h \<Longrightarrow> length h = n"
begin

lemma created_user:
  assumes "run_state (CreateUser (srvUsers srv) u) s = (Inr (), s')"
  shows "users s' (Username u) = Some u"
proof (cases "ValidateUsername (Username u)")
  case None
  with create_new[OF None, of s] create_taken[OF None, of s] assms show ?thesis
    by (cases "users s (Username u)") auto
qed (use create_invalid assms in auto)

lemma login_status:
  assumes "users s n = Some u" "decodeJSON decodeLogin r = Inr \<lparr>liUsername = n, liPassword = pw\<rparr>" "n \<noteq> []" "pw \<noteq> []"
    "VerifyPassword (srvIDKey srv) pw (PasswordHash u) = Some (Inr ok)"
  shows "respStatus (fst (run_state (handleLogin srv r) s)) = (if ok then 200 else 401)"
proof -
  obtain t s' where "run_state (GenerateToken (srvJWT srv) u) s = (Inr t, s')" using token_made[of u s] by blast
  then show ?thesis
    using assms lookup_found[OF assms(1)]
    by (cases ok) (simp_all add: handleLogin_def validateLogin_def respondToken_def)
qed

lemma register_login:
  assumes reg: "run_state (handleRegister srv r) s = (resp, s1)" "respStatus resp = 201"
    and req: "decodeJSON decodeRegister r = Inr req"
  shows "\<exists>u salt key. users s1 (rgUsername req) = Some u \<and> Role u = RoleUser \<and>
    srvIDKey srv (rgPassword req) salt argonTime argonMemory argonThreads argonKeyLen = Some key \<and>
    (\<forall>r' pw k. decodeJSON decodeLogin r' = Inr \<lparr>liUsername = rgUsername req, liPassword = pw\<rparr> \<and> pw \<noteq> [] \<and>
       srvIDKey srv pw salt argonTime argonMemory argonThreads argonKeyLen = Some k \<longrightarrow>
       respStatus (fst (run_state (handleLogin srv r') s1)) = (if k = key then 200 else 401))"
proof -
  from handleRegister_created[OF reg req] obtain em s0 where
    valid: "validateRegister req = None" and inv: "run_state (registerInvited srv req em) s0 = (resp, s1)" .
  from registerInvited_created[OF inv reg(2)] obtain sa sb sc hash now t where
    hash: "run_state (HashPassword (srvIDKey srv) (srvRand srv) (rgPassword req)) s0 = (Some (Inr hash), sa)" and
    made: "run_state (CreateUser (srvUsers srv) (registeredUser req em hash now)) sb = (Inr (), sc)" and
    tok: "run_state (GenerateToken (srvJWT srv) (registeredUser req em hash now)) sc = (Inr t, s1)" .
  let ?u = "registeredUser req em hash now"
  have "users s1 = users sc" using token_made[of ?u sc] tok by auto
  then have u: "users s1 (rgUsername req) = Some ?u" using created_user[OF made] by simp
  have name: "rgUsername req \<noteq> []" using valid by (auto simp: validateRegister_def split: if_splits)
  from hash obtain salt key where
    key: "srvIDKey srv (rgPassword req) salt argonTime argonMemory argonThreads argonKeyLen = Some key" and
    enc: "hash = phcString salt key"
    by (auto simp: HashPassword_def split: prod.splits sum.splits)
  have "VerifyPassword (srvIDKey srv) pw (PasswordHash ?u) =
      map_option (\<lambda>k. Inr (k = key)) (srvIDKey srv pw salt argonTime argonMemory argonThreads argonKeyLen)" for pw
    using key_length[OF key] by (simp add: enc VerifyPassword_phcString argonTime_def argonMemory_def argonThreads_def)
  with u key name login_status[OF u] show ?thesis
    by (intro exI[of _ ?u] exI[of _ salt] exI[of _ key]) simp
qed

end

section \<open>Property\<close>

text \<open>C12: Registration and login fit together. After a registration that answered 201, the account exists with the
  role of a plain user, whatever the request asked for; from then on a login under that name
  answers 200 for every password that derives the registered key, in particular the registered one, and
  401 for every other password.\<close>

theorem register_then_login:
  assumes "account_server srv users deletable"
    and "run_state (handleRegister srv r) s = (resp, s1)" "respStatus resp = 201" "decodeJSON decodeRegister r = Inr req"
  shows "\<exists>u salt key. users s1 (rgUsername req) = Some u \<and> Role u = RoleUser \<and>
    srvIDKey srv (rgPassword req) salt argonTime argonMemory argonThreads argonKeyLen = Some key \<and>
    (\<forall>r' pw k. decodeJSON decodeLogin r' = Inr \<lparr>liUsername = rgUsername req, liPassword = pw\<rparr> \<and> pw \<noteq> [] \<and>
       srvIDKey srv pw salt argonTime argonMemory argonThreads argonKeyLen = Some k \<longrightarrow>
       respStatus (fst (run_state (handleLogin srv r') s1)) = (if k = key then 200 else 401))"
  using assms by (rule account_server.register_login)

end
