(* ===== verification/Pipe.thy ===== *)
theory Pipe
  imports ApiBackups BackupSafety
begin

text \<open>
  The goroutines of \<^verbatim>\<open>performBackup\<close> and \<^verbatim>\<open>handleUploadMod\<close>: one goroutine writes an archive into an
  \<^verbatim>\<open>io.Pipe\<close> and reports its error on a channel with one slot, while the caller hands the other end
  of the pipe to a consumer (the S3 upload, the exec stream) and then waits for the report. The reading
  end is never closed. A step relation interleaves the two; the sequential definitions of
  \<open>performBackup\<close> and \<open>handleUploadMod\<close> are what every interleaving computes when the consumer reads to the end.
\<close>

section \<open>The pipe\<close>

text \<open>What a writing goroutine does: a write blocks until all of it is read.\<close>

datatype waction = PWrite string | PClose "gerr option" | PSend "gerr option"

datatype ('u, 'r) phase = Reading | Waiting 'u | Returned 'r

record ('u, 'r) pipeline =
  writer :: "waction list"
  ended :: "gerr option option"
  errCh :: "gerr option list"
  taken :: string
  phase :: "('u, 'r) phase"

text \<open>
  \<open>consume\<close> is the result of the consumer on a whole stream and the error it ended with, \<open>giveup\<close> the
  results it may have without reading to the end, \<open>combine\<close> the value returned by the caller.
\<close>

inductive pipe_step :: "(string \<Rightarrow> gerr option \<Rightarrow> 'u) \<Rightarrow> 'u set \<Rightarrow> ('u \<Rightarrow> gerr option \<Rightarrow> 'r) \<Rightarrow>
    ('u, 'r) pipeline \<Rightarrow> ('u, 'r) pipeline \<Rightarrow> bool"
  for consume :: "string \<Rightarrow> gerr option \<Rightarrow> 'u" and giveup :: "'u set" and combine :: "'u \<Rightarrow> gerr option \<Rightarrow> 'r" where
  read_part: "phase p = Reading \<Longrightarrow> writer p = PWrite b # ws \<Longrightarrow> 0 < k \<Longrightarrow> k < length b \<Longrightarrow>
    pipe_step consume giveup combine p (p\<lparr>writer := PWrite (drop k b) # ws, taken := taken p @ take k b\<rparr>)"
| read_rest: "phase p = Reading \<Longrightarrow> writer p = PWrite b # ws \<Longrightarrow>
    pipe_step consume giveup combine p (p\<lparr>writer := ws, taken := taken p @ b\<rparr>)"
| close_end: "writer p = PClose e # ws \<Longrightarrow>
    pipe_step consume giveup combine p (p\<lparr>writer := ws, ended := (case ended p of None \<Rightarrow> Some e | x \<Rightarrow> x)\<rparr>)"
| report: "writer p = PSend x # ws \<Longrightarrow> errCh p = [] \<Longrightarrow>
    pipe_step consume giveup combine p (p\<lparr>writer := ws, errCh := [x]\<rparr>)"
| eof: "phase p = Reading \<Longrightarrow> ended p = Some e \<Longrightarrow>
    pipe_step consume giveup combine p (p\<lparr>phase := Waiting (consume (taken p) e)\<rparr>)"
| abandon: "phase p = Reading \<Longrightarrow> u \<in> giveup \<Longrightarrow>
    pipe_step consume giveup combine p (p\<lparr>phase := Waiting u\<rparr>)"
| join: "phase p = Waiting u \<Longrightarrow> errCh p = x # xs \<Longrightarrow>
    pipe_step consume giveup combine p (p\<lparr>errCh := xs, phase := Returned (combine u x)\<rparr>)"

definition pipe_start :: "waction list \<Rightarrow> ('u, 'r) pipeline" where
  "pipe_start ws = \<lparr>writer = ws, ended = None, errCh = [], taken = [], phase = Reading\<rparr>"

abbreviation pipe_run :: "(string \<Rightarrow> gerr option \<Rightarrow> 'u) \<Rightarrow> 'u set \<Rightarrow> ('u \<Rightarrow> gerr option \<Rightarrow> 'r) \<Rightarrow>
    ('u, 'r) pipeline \<Rightarrow> ('u, 'r) pipeline \<Rightarrow> bool" where
  "pipe_run consume giveup combine \<equiv> (pipe_step consume giveup combine)\<^sup>*\<^sup>*"

section \<open>The goroutines\<close>

text \<open>
  The goroutine of \<^verbatim>\<open>performBackup\<close>: the compressed output of tar in the writes \<open>cs\<close>, and the rest \<open>ts\<close>
  that closing the gzip writer flushes, before the report if tar failed and after it otherwise.
\<close>

definition backupWriter :: "string list \<Rightarrow> string list \<Rightarrow> gerr option \<Rightarrow> waction list" where
  "backupWriter cs ts err = map PWrite cs
     @ (case err of None \<Rightarrow> [] | Some e \<Rightarrow> map PWrite ts @ [PClose (Some (errf ''tar exec failed: '' e))])
     @ [PSend err]
     @ (case err of None \<Rightarrow> map PWrite ts | Some _ \<Rightarrow> [])
     @ [PClose None]"

text \<open>The value \<^verbatim>\<open>performBackup\<close> returns from the upload's result and the report.\<close>

definition backupResult :: "gerr + int \<Rightarrow> gerr option \<Rightarrow> gerr + int" where
  "backupResult up execErr = (case up of
       Inl uploadErr \<Rightarrow> Inl (errf ''S3 upload failed: '' uploadErr)
     | Inr info \<Rightarrow> (case execErr of
         Some e \<Rightarrow> Inl (errf ''tar exec failed: '' e)
       | None \<Rightarrow> Inr info))"

text \<open>The upload of a whole stream, ended by an error or not, in a given state of the world.\<close>

definition uploadTo :: "('s, 'c) BackupEnv \<Rightarrow> 'c \<times> string \<Rightarrow> string \<Rightarrow> 's \<Rightarrow> string \<Rightarrow> gerr option \<Rightarrow> gerr + int" where
  "uploadTo env cb k s stream e = fst (run_state (PutObject env (fst cb) (snd cb) k (stream, e)) s)"

text \<open>
  The goroutine of \<^verbatim>\<open>handleUploadMod\<close>: header and content in the writes \<open>cs\<close>, then the report, then
  the footer \<open>ts\<close> of the archive, which closing the tar writer adds.
\<close>

definition modWriter :: "string list \<Rightarrow> string list \<Rightarrow> gerr option \<Rightarrow> waction list" where
  "modWriter cs ts err = map PWrite cs @ [PSend err] @ map PWrite ts @ [PClose None]"

section \<open>What every goroutine keeps\<close>

primrec written :: "waction list \<Rightarrow> string" where
  "written [] = []"
| "written (a # ws) = (case a of PWrite b \<Rightarrow> b | _ \<Rightarrow> []) @ written ws"

primrec reports :: "waction list \<Rightarrow> gerr option list" where
  "reports [] = []"
| "reports (a # ws) = (case a of PSend x \<Rightarrow> [x] | _ \<Rightarrow> []) @ reports ws"

primrec end_of :: "waction list \<Rightarrow> gerr option option" where
  "end_of [] = None"
| "end_of (a # ws) = (case a of PClose e \<Rightarrow> Some e | _ \<Rightarrow> end_of ws)"

definition writes :: "waction list \<Rightarrow> bool" where
  "writes ws \<longleftrightarrow> (\<exists>b. PWrite b \<in> set ws)"

primrec orderly :: "waction list \<Rightarrow> bool" where
  "orderly [] = True"
| "orderly (a # ws) \<longleftrightarrow> (case a of PClose _ \<Rightarrow> \<not> writes ws | _ \<Rightarrow> True) \<and> orderly ws"

lemma writes_simps [simp]:
  "\<not> writes []" "writes (PWrite b # ws)" "writes (PClose e # ws) = writes ws" "writes (PSend x # ws) = writes ws"
  by (auto simp: writes_def)

lemma writes_append [simp]: "writes (xs @ ys) \<longleftrightarrow> writes xs \<or> writes ys"
  by (auto simp: writes_def)

lemma no_writes_written: "\<not> writes ws \<Longrightarrow> written ws = []"
  by (induction ws) (auto split: waction.splits)

lemma map_PWrite_simps [simp]:
  "written (map PWrite cs @ ws) = concat cs @ written ws" "reports (map PWrite cs @ ws) = reports ws"
  "end_of (map PWrite cs @ ws) = end_of ws" "orderly (map PWrite cs @ ws) = orderly ws"
  by (induction cs) simp_all

text \<open>
  A goroutine that reports once, closes its end of the pipe, and writes nothing afterwards.
\<close>

locale reporting_writer =
  fixes ws :: "waction list" and stream :: string and failure :: "gerr option" and err :: "gerr option"
  assumes writes_stream: "written ws = stream"
    and closes: "end_of ws = Some failure"
    and reports_once: "reports ws = [err]"
    and orderly: "orderly ws"
begin

text \<open>The invariant of the runs in which the consumer reads to the end.\<close>

definition pipe_inv :: "(string \<Rightarrow> gerr option \<Rightarrow> 'u) \<Rightarrow> ('u \<Rightarrow> gerr option \<Rightarrow> 'r) \<Rightarrow> ('u, 'r) pipeline \<Rightarrow> bool" where
  "pipe_inv consume combine p \<longleftrightarrow> orderly (writer p) \<and> taken p @ written (writer p) = stream \<and>
     (case ended p of None \<Rightarrow> end_of (writer p) = Some failure \<and> phase p = Reading
      | Some e \<Rightarrow> e = failure \<and> \<not> writes (writer p)) \<and>
     (case phase p of
        Reading \<Rightarrow> errCh p @ reports (writer p) = [err]
      | Waiting u \<Rightarrow> u = consume stream failure \<and> errCh p @ reports (writer p) = [err]
      | Returned r \<Rightarrow> r = combine (consume stream failure) err \<and> errCh p = [] \<and> reports (writer p) = [])"

lemma pipe_inv_start: "pipe_inv consume combine (pipe_start ws)"
  by (simp add: pipe_inv_def pipe_start_def writes_stream closes reports_once orderly)

lemma pipe_inv_step:
  "pipe_step consume {} combine p p' \<Longrightarrow> pipe_inv consume combine p \<Longrightarrow> pipe_inv consume combine p'"
  by (induction rule: pipe_step.induct)
    (auto simp: pipe_inv_def no_writes_written append_eq_Cons_conv split: option.splits phase.splits)

lemma pipe_inv_run:
  "pipe_run consume {} combine p p' \<Longrightarrow> pipe_inv consume combine p \<Longrightarrow> pipe_inv consume combine p'"
  by (induction rule: rtranclp_induct) (auto intro: pipe_inv_step)

lemma pipe_progress:
  assumes inv: "pipe_inv consume combine p" and stuck: "\<And>p'. pipe_step consume {} combine p p' \<Longrightarrow> False"
  shows "phase p = Returned (combine (consume stream failure) err)"
proof (cases "phase p")
  case Reading
  then obtain a w where w: "writer p = a # w"
    using inv stuck[OF eof[OF Reading]] by (cases "writer p") (auto simp: pipe_inv_def split: option.splits)
  moreover have "a \<noteq> PWrite b" for b using stuck[OF read_rest[OF Reading]] w by blast
  moreover have "a \<noteq> PClose e" for e using stuck[OF close_end] w by blast
  moreover have "a \<noteq> PSend x" for x
    using stuck[OF report, of x w] w inv Reading by (auto simp: pipe_inv_def append_eq_Cons_conv)
  ultimately show ?thesis by (cases a) blast+
next
  case (Waiting u)
  have "errCh p = []" using stuck[OF join[OF Waiting]] by (cases "errCh p") blast+
  moreover from this inv Waiting have "writer p \<noteq> []" "\<not> writes (writer p)"
    by (auto simp: pipe_inv_def split: option.splits)
  then obtain a w where w: "writer p = a # w" "\<And>b. a \<noteq> PWrite b" by (cases "writer p") (auto simp: writes_def)
  moreover have "a \<noteq> PClose e" for e using stuck[OF close_end] w by blast
  moreover have "a \<noteq> PSend x" for x using stuck[OF report, of x w] w calculation(1) by blast
  ultimately show ?thesis by (cases a) blast+
qed (use inv in \<open>simp add: pipe_inv_def\<close>)

end

text \<open>Every run is finite, whatever the consumer does: a step makes the remaining work smaller.\<close>

primrec action_size :: "waction \<Rightarrow> nat" where
  "action_size (PWrite b) = Suc (length b)" | "action_size (PClose e) = 1" | "action_size (PSend x) = 1"

definition pipe_size :: "('u, 'r) pipeline \<Rightarrow> nat" where
  "pipe_size p = (\<Sum>a\<leftarrow>writer p. action_size a) +
     (case phase p of Reading \<Rightarrow> 2 | Waiting _ \<Rightarrow> 1 | Returned _ \<Rightarrow> 0)"

lemma pipe_step_decreases: "pipe_step consume giveup combine p p' \<Longrightarrow> pipe_size p' < pipe_size p"
  by (induction rule: pipe_step.induct) (auto simp: pipe_size_def)

context reporting_writer
begin

text \<open>From every state that can come up, the caller can return and any run that stops has it returned.\<close>

lemma pipe_returns:
  assumes "pipe_inv consume combine p"
  shows "\<exists>p'. pipe_run consume {} combine p p' \<and> phase p' = Returned (combine (consume stream failure) err)"
  using assms
proof (induction "pipe_size p" arbitrary: p rule: less_induct)
  case less
  show ?case
  proof (cases "\<exists>p'. pipe_step consume {} combine p p'")
    case True
    then obtain p' where s: "pipe_step consume {} combine p p'" by blast
    from less.hyps[OF pipe_step_decreases[OF s] pipe_inv_step[OF s less.prems]] s show ?thesis
      by (meson converse_rtranclp_into_rtranclp)
  qed (use pipe_progress[OF less.prems] in blast)
qed

lemma pipe_result:
  assumes "pipe_run consume {} combine (pipe_start ws) p"
  shows "\<exists>p'. pipe_run consume {} combine p p' \<and> phase p' = Returned (combine (consume stream failure) err)"
    "phase p = Returned r \<Longrightarrow> r = combine (consume stream failure) err"
  using pipe_returns pipe_inv_run[OF assms pipe_inv_start] by (auto simp: pipe_inv_def)

end

interpretation bw: reporting_writer "backupWriter cs ts err" "concat cs @ concat ts"
  "map_option (errf ''tar exec failed: '') err" err for cs ts err
  by unfold_locales (auto simp: backupWriter_def split: option.split)

interpretation mw: reporting_writer "modWriter cs ts err" "concat cs @ concat ts" None err for cs ts err
  by unfold_locales (auto simp: modWriter_def)

section \<open>A consumer that gives up\<close>

text \<open>A write comes before the report: the goroutine cannot report while nobody reads.\<close>

fun blocked :: "waction list \<Rightarrow> bool" where
  "blocked [] = False"
| "blocked (PWrite b # ws) = (reports ws \<noteq> [])"
| "blocked (PClose e # ws) = blocked ws"
| "blocked (PSend x # ws) = False"

lemma blocked_stays:
  assumes "pipe_step consume giveup combine p p'" "phase p = Waiting u" "errCh p = []" "blocked (writer p)"
  shows "phase p' = Waiting u \<and> errCh p' = [] \<and> blocked (writer p')"
  using assms by (cases rule: pipe_step.cases) auto

lemma blocked_forever:
  assumes "pipe_run consume giveup combine p p'" "phase p = Waiting u" "errCh p = []" "blocked (writer p)"
  shows "phase p' = Waiting u"
proof -
  have "phase p' = Waiting u \<and> errCh p' = [] \<and> blocked (writer p')"
    using assms by (induction rule: rtranclp_induct) (auto dest: blocked_stays)
  then show ?thesis by simp
qed

lemma report_pending:
  assumes "pipe_run consume giveup combine p p'" "errCh p @ reports (writer p) = [err]" "phase p \<in> {Reading, Waiting u}"
    "phase p' \<in> {Reading, Waiting u}"
  shows "errCh p' @ reports (writer p') = [err]"
proof -
  have step: "phase a \<notin> range Returned \<and> errCh a @ reports (writer a) = [err]"
    if "pipe_step consume giveup combine a b" "phase b \<notin> range Returned"
      "phase a \<notin> range Returned \<longrightarrow> errCh a @ reports (writer a) = [err]" for a b
    using that by (cases rule: pipe_step.cases) auto
  have "phase p' \<notin> range Returned \<longrightarrow> errCh p' @ reports (writer p') = [err]"
    using assms(1) by (induction rule: rtranclp_induct) (use assms(2) step in \<open>auto elim!: pipe_step.cases\<close>)
  then show ?thesis using assms(4) by auto
qed

lemma unreported: "reports ws = [] \<Longrightarrow> \<not> blocked ws"
  by (induction ws rule: blocked.induct) simp_all

lemma join_returns:
  assumes "phase p = Waiting u" "errCh p = [err]"
  shows "\<exists>p'. pipe_run consume giveup combine p p' \<and> phase p' = Returned (combine u err)"
proof -
  have "pipe_step consume giveup combine p (p\<lparr>errCh := [], phase := Returned (combine u err)\<rparr>)"
    using assms by (auto intro: join)
  then have "pipe_run consume giveup combine p (p\<lparr>errCh := [], phase := Returned (combine u err)\<rparr>)" ..
  then show ?thesis by force
qed

lemma unblocked_returns:
  assumes "phase p = Waiting u" "errCh p @ reports (writer p) = [err]" "\<not> blocked (writer p)"
  shows "\<exists>p'. pipe_run consume giveup combine p p' \<and> phase p' = Returned (combine u err)"
  using assms
proof (induction "writer p" arbitrary: p)
  case Nil
  then show ?case by (simp add: join_returns)
next
  case (Cons a w)
  show ?case
  proof (cases "errCh p = [err]")
    case True
    with Cons.prems(1) show ?thesis by (rule join_returns)
  next
    case False
    with Cons.prems(2) have none: "errCh p = []" "reports (a # w) = [err]"
      by (auto simp: append_eq_Cons_conv Cons.hyps(2))
    obtain q where q: "pipe_step consume giveup combine p q" "writer q = w" "phase q = Waiting u"
      "errCh q @ reports w = [err]" "\<not> blocked w"
    proof (cases a)
      case (PWrite b)
      with Cons.prems(3) none show ?thesis by (simp flip: Cons.hyps(2))
    next
      case (PClose e)
      then have w: "writer p = PClose e # w" using Cons.hyps(2) by simp
      show ?thesis by (rule that[OF close_end[OF w]]) (use w Cons.prems(1,3) none PClose in simp_all)
    next
      case (PSend x)
      then have w: "writer p = PSend x # w" using Cons.hyps(2) by simp
      show ?thesis by (rule that[OF report[OF w none(1)]]) (use Cons.prems(1) none(2) PSend in \<open>simp_all add: unreported\<close>)
    qed
    then show ?thesis using Cons.hyps(1)[of q] by (metis converse_rtranclp_into_rtranclp)
  qed
qed

context reporting_writer
begin

lemma returns_iff:
  assumes run: "pipe_run consume giveup combine (pipe_start ws) p" "phase p = Waiting u"
  shows "(\<exists>p' r. pipe_run consume giveup combine p p' \<and> phase p' = Returned r) \<longleftrightarrow> \<not> blocked (writer p)"
proof -
  have rep: "errCh p @ reports (writer p) = [err]"
    by (rule report_pending[OF run(1)]) (use run(2) reports_once in \<open>auto simp: pipe_start_def\<close>)
  show ?thesis
  proof
    assume "\<exists>p' r. pipe_run consume giveup combine p p' \<and> phase p' = Returned r"
    then obtain p' r where p': "pipe_run consume giveup combine p p'" "phase p' = Returned r" by blast
    show "\<not> blocked (writer p)"
    proof
      assume b: "blocked (writer p)"
      then have "errCh p = []" using rep unreported by (auto simp: append_eq_Cons_conv)
      with blocked_forever[OF p'(1) run(2) _ b] p'(2) show False by simp
    qed
  qed (use unblocked_returns[OF run(2) rep] in blast)
qed

end

section \<open>Properties\<close>

text \<open>C13: The two goroutines of \<^verbatim>\<open>performBackup\<close> compute its sequential definition. However the compressed
  archive is cut into writes and however the reads and writes interleave, when the upload reads the pipe
  to its end every run is finite, from every state of it the function can still return, and it
  returns nothing but the result of the sequential definition.\<close>

theorem performBackup_interleaved:
  assumes exec: "run_state (execTarFromPod env ns pod path) s = ((out, err), s1)"
    and gz: "concat cs @ concat ts = Gzip env out"
    and upload: "upload = uploadTo env cb k s1"
    and run: "pipe_run upload {} backupResult (pipe_start (backupWriter cs ts err)) p"
  shows "(\<exists>p'. pipe_run upload {} backupResult p p' \<and>
      phase p' = Returned (fst (run_state (performBackup env cb ns pod path k) s))) \<and>
    (\<forall>r. phase p = Returned r \<longrightarrow> r = fst (run_state (performBackup env cb ns pod path k) s)) \<and>
    (\<forall>p'. pipe_step upload {} backupResult p p' \<longrightarrow> pipe_size p' < pipe_size p)"
proof -
  have "fst (run_state (performBackup env cb ns pod path k) s) =
      backupResult (upload (concat cs @ concat ts) (map_option (errf ''tar exec failed: '') err)) err"
    by (auto simp: performBackup_def exec gz upload uploadTo_def backupResult_def split: prod.split sum.split)
  with bw.pipe_result[OF run] pipe_step_decreases show ?thesis by auto
qed

text \<open>C31: When the upload returns without having read the whole stream, \<^verbatim>\<open>performBackup\<close> returns if and only
  if the goroutine has no write left to do before its report: with one left it waits for ever, in
  every interleaving, for a report that the blocked goroutine cannot make.\<close>

theorem performBackup_returns_iff:
  assumes "pipe_run upload giveup backupResult (pipe_start (backupWriter cs ts err)) p" "phase p = Waiting u"
  shows "(\<exists>p' r. pipe_run upload giveup backupResult p p' \<and> phase p' = Returned r) \<longleftrightarrow> \<not> blocked (writer p)"
  using assms by (rule bw.returns_iff)

text \<open>The same holds of the upload of a mod.\<close>

lemma uploadMod_returns_iff:
  assumes "pipe_run exec giveup combine (pipe_start (modWriter cs ts err)) p" "phase p = Waiting u"
  shows "(\<exists>p' r. pipe_run exec giveup combine p p' \<and> phase p' = Returned r) \<longleftrightarrow> \<not> blocked (writer p)"
  using assms by (rule mw.returns_iff)

theorem performBackup_interleaved_witness:
  "\<exists>p'. pipe_run (uploadTo demoEnv ((), ''b'') ''k'' cluster0) {} backupResult
     (pipe_start (backupWriter [''arch''] [''ive''] None)) p' \<and> phase p' = Returned (Inr 7)"
proof -
  have exec: "run_state (execTarFromPod demoEnv ''ns'' ''mc'' ''/data'') cluster0 = ((''archive'', None), cluster0)"
    by (simp add: execTarFromPod_def demoEnv_def execError_def)
  have gz: "concat [''arch''] @ concat [''ive''] = Gzip demoEnv ''archive''" by (simp add: demoEnv_def)
  have "fst (run_state (performBackup demoEnv ((), ''b'') ''ns'' ''mc'' ''/data'' ''k'') cluster0) = Inr 7"
    by (simp add: performBackup_def exec) (simp add: demoEnv_def)
  with performBackup_interleaved[OF exec gz refl, of "((), ''b'')" "''k''"] show ?thesis by auto
qed

theorem performBackup_returns_iff_witness:
  "\<exists>p. pipe_run (\<lambda>_ _. Inr 0) {Inl (ErrNew ''connection reset'')} backupResult (pipe_start (backupWriter [''archive''] [] None)) p \<and>
     \<not> (\<exists>p' r. pipe_run (\<lambda>_ _. Inr 0) {Inl (ErrNew ''connection reset'')} backupResult p p' \<and> phase p' = Returned r)"
proof -
  let ?p = "pipe_start (backupWriter [''archive''] [] None) :: (gerr + int, gerr + int) pipeline"
  let ?q = "?p\<lparr>phase := Waiting (Inl (ErrNew ''connection reset''))\<rparr>"
  have "pipe_step (\<lambda>_ _. Inr 0) {Inl (ErrNew ''connection reset'')} backupResult ?p ?q"
    by (rule abandon) (simp_all add: pipe_start_def)
  then have run: "pipe_run (\<lambda>_ _. Inr 0) {Inl (ErrNew ''connection reset'')} backupResult ?p ?q" ..
  have "blocked (writer ?q)" by (simp add: pipe_start_def backupWriter_def)
  with performBackup_returns_iff[OF run] run show ?thesis by auto
qed

end
