(* ===== verification/ApiDemo.thy ===== *)
theory ApiDemo
  imports ApiProperties Console ApiSession Pipe
begin

text \<open>
  The API server over the concrete cluster, on which the properties of the endpoints are exercised.
\<close>

definition demoLoader :: Loader where
  "demoLoader = (case LoadFromDirectory demoManifestEnv ''games'' of Inl _ \<Rightarrow> \<lparr>manifests = []\<rparr> | Inr l \<Rightarrow> l)"

definition demoServer :: "(cluster, unit) Server" where
  "demoServer = \<lparr>srvClient = cluster_client, srvRuntime = cluster_runtime, srvEnv = demoEnv, srvPodMetrics = None,
     srvMilli = (\<lambda>q. q), srvValue = (\<lambda>q. q), srvJWT = demoJWT, srvUsers = cluster_users,
     srvInvites = cluster_invites, srvManifests = demoLoader, srvNamespace = ''kterodactyl-system'',
     srvIDKey = demoIDKey, srvRand = (\<lambda>n. ret (Inr (replicate n CHR ''s''))), srvBindAddress = '':8080''\<rparr>"

definition demoRouter :: "(cluster, unit) Router" where
  "demoRouter = \<lparr>rtServer = demoServer,
     rtMetrics = \<lparr>InFlightInc = ret (), InFlightDec = ret (), RequestsTotal = (\<lambda>_ _ _. ret ()),
       RequestDuration = (\<lambda>_ _ _ _. ret ())\<rparr>,
     rtTar = (\<lambda>_ c _. (c, None)), rtSPA = (\<lambda>_. ret (respondStatus 200)), rtConsole = (\<lambda>_ _. ret (Inr []))\<rparr>"

lemma demoServer_simps [simp]:
  "rtServer demoRouter = demoServer" "srvClient demoServer = cluster_client" "srvJWT demoServer = demoJWT"
  "srvRuntime demoServer = cluster_runtime" "srvNamespace demoServer = ''kterodactyl-system''"
  by (simp_all add: demoRouter_def demoServer_def)

interpretation dk: keyed_server demoServer
proof (rule keyed_server.intro)
  have "keyed_store (store_api KGameServer) gsMeta" "keyed_store (store_api KBackup) bkMeta"
    using kgs.st.ks.keyed_store_axioms kbk.st.ks.keyed_store_axioms by simp_all
  moreover have "keyed_store (store_api KSecret) secMeta"
    using ksec.st.ks.keyed_store_axioms by simp
  ultimately show "keyed_store (gameservers (srvClient demoServer)) gsMeta" "keyed_store (backups (srvClient demoServer)) bkMeta"
    "keyed_store (storeSecrets (srvUsers demoServer)) secMeta" "keyed_store (inviteSecrets (srvInvites demoServer)) secMeta"
    by (simp_all add: demoServer_def cluster_client_def cluster_users_def cluster_invites_def)
qed (simp_all add: demoServer_def cluster_users_def cluster_invites_def)

section \<open>A signed-in request\<close>

definition demoClaims :: "string \<Rightarrow> KterodactylClaims" where
  "demoClaims role = \<lparr>Subject = ''alice'', Issuer = ''kterodactyl'', IssuedAt = Some 0, ExpiresAt = Some (24 * hourDuration),
     TokenID = ''id'', claimUsername = ''alice'', claimEmail = ''alice@example.org'', claimRole = role,
     claimNamespace = ''user-alice''\<rparr>"

definition demoToken :: "string \<Rightarrow> string" where
  "demoToken role = demoSign ''HS256'' (demoClaims role) ''key''"

definition demoRequest :: "string \<Rightarrow> string \<Rightarrow> string list \<Rightarrow> (gerr + json) option \<Rightarrow> Request" where
  "demoRequest role method path body = \<lparr>reqMethod = method, reqPath = path,
     reqHeader = [(''Authorization'', ''Bearer '' @ demoToken role)], reqQuery = [], reqParams = [], reqBody = body,
     reqForm = Inr None, reqClaims = None\<rparr>"

lemma demoToken_nonempty [simp]: "demoToken role \<noteq> []"
  by (simp add: demoToken_def demoSign_def packStrings_def)

lemma demo_bearer [simp]: "extractBearerToken (demoRequest role m p b) = demoToken role"
  by (simp add: extractBearerToken_def demoRequest_def HasPrefix_def TrimPrefix_def)

lemma demo_valid [simp]:
  "cClock s < 24 * hourDuration \<Longrightarrow> run_state (ValidateToken demoJWT (demoToken role)) s = (Inr (demoClaims role), s)"
  by (simp add: ValidateToken_def demoJWT_def NewJWTService_def demoJWTLib_def demoToken_def demoParse_demoSign
      demoClaims_def)

lemma findRoute_stop:
  "findRoute ''POST'' [''gameservers'', ''mc'', ''stop''] =
     Some ([Lit ''gameservers'', Param ''name'', Lit ''stop''], StopGameServer, [(''name'', ''mc'')])"
  by code_simp

lemma demo_request_simps [simp]:
  "reqMethod (demoRequest role m p b) = m" "reqPath (demoRequest role m p b) = p"
  "reqBody (demoRequest role m p b) = b"
  by (simp_all add: demoRequest_def)

lemma run_validate:
  "cClock s < 24 * hourDuration \<Longrightarrow>
   run_state (ValidateToken (traced_jwt demoJWT) (demoToken role)) (s, tr) = (Inr (demoClaims role), (s, tr))"
  by (simp add: ValidateToken_def demoJWT_def NewJWTService_def demoJWTLib_def demoToken_def demoParse_demoSign
      demoClaims_def)

lemma run_refresh:
  "cClock s = 0 \<Longrightarrow>
   run_state (refreshHeader (traced_jwt demoJWT) (demoClaims role)) (s, tr) = ([], (s, tr))"
  by (simp add: refreshHeader_def ShouldRefresh_def demoClaims_def demoJWT_def NewJWTService_def Sub_def
      hourDuration_def second_def defaultRefreshThreshold_def)

text \<open>What a signed-in request does, once the clock and the token are settled.\<close>

lemma run_api:
  assumes "cClock s = 0" "\<not> adminGroup path" "findRoute m path = Some (p, e, ps)"
    "run_state (endpointHandler (traced_router demoRouter) e
       (demoRequest role m (''api'' # ''v1'' # path) b\<lparr>reqClaims := Some (demoClaims role), reqParams := ps\<rparr>)) (s, tr) = (resp, st)"
  shows "run_state (Authenticate (traced_jwt demoJWT) (apiRouter (traced_router demoRouter) path)
     (demoRequest role m (''api'' # ''v1'' # path) b)) (s, tr) = (resp, st)"
  using assms run_refresh[of s role] run_validate[of s role]
  by (simp add: Authenticate_def apiRouter_def hourDuration_def second_def)

lemma run_metrics:
  "run_state (next r) (s, tr) = (resp, (s', tr')) \<Longrightarrow>
   run_state (metricsMiddleware (rtMetrics (traced_router demoRouter)) (Now (srvRuntime (rtServer (traced_router demoRouter)))) pat next r) (s, tr) = (resp, (s', tr'))"
  by (simp add: metricsMiddleware_def traced_router_def demoRouter_def demoServer_def traced_server_def cluster_runtime_def)

text \<open>The requests that reach the authenticated group.\<close>

definition restPath :: "string list \<Rightarrow> bool" where
  "restPath path \<longleftrightarrow> path \<notin> {[''auth'', ''login''], [''auth'', ''register'']} \<and> consoleParams (''api'' # ''v1'' # path) = None"

lemma run_serve:
  assumes "restPath path" "cClock s = 0" "\<not> adminGroup path" "findRoute m path = Some (p, e, ps)"
    "run_state (endpointHandler (traced_router demoRouter) e
       (demoRequest role m (''api'' # ''v1'' # path) b\<lparr>reqClaims := Some (demoClaims role), reqParams := ps\<rparr>)) (s, tr) = (resp, (s', tr'))"
  shows "run_state (serve (traced_router demoRouter) (demoRequest role m (''api'' # ''v1'' # path) b)) (s, tr) = (resp, (s', tr'))"
proof -
  have "run_state (metricsMiddleware (rtMetrics (traced_router demoRouter))
      (Now (srvRuntime (rtServer (traced_router demoRouter)))) (patternOf (demoRequest role m (''api'' # ''v1'' # path) b) path)
      (Authenticate (traced_jwt demoJWT) (apiRouter (traced_router demoRouter) path))
      (demoRequest role m (''api'' # ''v1'' # path) b)) (s, tr) = (resp, (s', tr'))"
    by (rule run_metrics, rule run_api[OF assms(2-5)])
  with assms(1) show ?thesis
    by (simp add: serve_def Let_def restPath_def)
qed

section \<open>Stopping a server\<close>

definition stopRequest :: Request where
  "stopRequest = demoRequest RoleUser ''POST'' [''api'', ''v1'', ''gameservers'', ''mc'', ''stop''] None"

lemma stop_run:
  "\<exists>gs gs' x s'. run_state (endpointHandler (traced_router demoRouter) StopGameServer
     (demoRequest RoleUser ''POST'' [''api'', ''v1'', ''gameservers'', ''mc'', ''stop''] None
        \<lparr>reqClaims := Some (demoClaims RoleUser), reqParams := [(''name'', ''mc'')]\<rparr>)) (demoCluster GameServerStateReady, []) =
     (respondJSON 200 (gameServerToResponse gs'), (s', [OnGameServer (EvGet demoKey x), OnGameServer (EvStatus gs (Inr gs'))]))"
  by (simp add: endpointHandler_def handleStopGameServer_def withNamespace_def namespaceFromContext_def
    GetUserFromContext_def demoClaims_def fetchGameServer_def serverKey_def demoCluster_def demoGS_def demoMeta_def putState_def cluster_run_defs
     setState_def cluster0_def NewMeta_def Let_def demoKey_def demoRequest_def)

lemma stop_serve:
  "\<exists>resp gs gs' x s'. run_state (serve (traced_router demoRouter) stopRequest) (demoCluster GameServerStateReady, []) =
     (resp, (s', [OnGameServer (EvGet demoKey x), OnGameServer (EvStatus gs (Inr gs'))]))"
proof -
  have "restPath [''gameservers'', ''mc'', ''stop'']" "\<not> adminGroup [''gameservers'', ''mc'', ''stop'']"
    by code_simp+
  moreover have "cClock (demoCluster GameServerStateReady) = 0" by (simp add: demoCluster_def cluster0_def)
  ultimately show ?thesis
    using stop_run run_serve[OF _ _ _ findRoute_stop] unfolding stopRequest_def by metis
qed

theorem tenant_isolation_witness:
  "\<exists>resp s' tr gs x c. run_state (serve (traced_router demoRouter) stopRequest) (demoCluster GameServerStateReady, []) =
      (resp, (s', tr)) \<and> OnGameServer (EvStatus gs (Inr x)) \<in> set tr \<and>
    authenticated demoServer stopRequest c \<and> claimNamespace c = Namespace (gsMeta gs)"
proof -
  obtain resp gs gs' x s' tr where
    run: "run_state (serve (traced_router demoRouter) stopRequest) (demoCluster GameServerStateReady, []) = (resp, (s', tr))"
    and e: "OnGameServer (EvStatus gs (Inr gs')) \<in> set tr" using stop_serve by fastforce
  from tenant_isolation[OF _ run e] dk.keyed_server_axioms obtain c where
    "authenticated demoServer stopRequest c" "claimNamespace c = Namespace (gsMeta gs)"
    by (auto simp: stopRequest_def)
  with run e show ?thesis by blast
qed

section \<open>Leaving a console while a command runs\<close>

theorem console_panic_iff_witness:
  "\<exists>p p'. console_run (execOutcomes demoServer ''user-alice'' ''mc'') (session_start (Inr [])) p \<and> \<not> panicked p \<and>
     console_run (execOutcomes demoServer ''user-alice'' ''mc'') p p' \<and> panicked p'"
proof -
  let ?o = "execOutcomes demoServer ''user-alice'' ''mc''" and ?p0 = "session_start (Inr [])"
  let ?m = "Inr (JObject [(''type'', JString ''command''), (''data'', JString ''save'')]) :: gerr + json"
  define p1 where "p1 = ?p0\<lparr>execs := execs ?p0 @ [[consoleMessage ''output'' ''archive'']]\<rparr>"
  define p2 where "p2 = p1\<lparr>cancelled := True\<rparr>"
  define p3 where "p3 = p2\<lparr>chClosed := True\<rparr>"
  note defs = session_start_def enqueue_def
  have "commandOf ?m = Some ''save''" by code_simp
  moreover have "[consoleMessage ''output'' ''archive''] \<in> ?o ''save''"
    by (simp add: execOutcomes_def execCommand_def demoServer_def demoEnv_def)
  ultimately have "console_step ?o ?p0 p1" unfolding p1_def by (intro command) (simp_all add: defs)
  moreover have "console_step ?o p1 p2" unfolding p2_def by (rule disconnect) (simp_all add: defs p1_def)
  moreover have "console_step ?o p2 p3" unfolding p3_def by (rule close_channel) (simp_all add: defs p2_def p1_def)
  ultimately have run: "console_run ?o ?p0 p3" by (meson r_into_rtranclp rtranclp_trans)
  have "chClosed p3" "\<not> panicked p3" "pending p3" by (simp_all add: p3_def p2_def p1_def defs pending_def)
  with console_panic_iff[OF run] run show ?thesis by blast
qed

section \<open>Registering and signing in\<close>

interpretation da: account_server demoServer cu.users_of cu.deletable_of
proof (rule account_server.intro)
  show "user_service (CreateUser (srvUsers demoServer)) (GetUser (srvUsers demoServer)) (DeleteUser (srvUsers demoServer))
      cu.users_of cu.deletable_of"
    using cu.svc.user_service_axioms by (simp add: demoServer_def)
  show "account_server_axioms demoServer cu.users_of"
    by unfold_locales (auto simp: demoServer_def demoIDKey_def GenerateToken_def generateTokenID_def demoJWT_def
        NewJWTService_def demoJWTLib_def split: if_splits)
qed

definition registerRequest :: Request where
  "registerRequest = \<lparr>reqMethod = ''POST'', reqPath = [''api'', ''v1'', ''auth'', ''register''], reqHeader = [], reqQuery = [],
     reqParams = [], reqBody = Some (Inr (JObject [(''username'', JString ''bob''), (''email'', JString ''x@example.org''),
       (''password'', JString ''secret''), (''inviteToken'', JString ''0123456789abcdef'')])),
     reqForm = Inr None, reqClaims = None\<rparr>"

definition loginRequest :: "string \<Rightarrow> Request" where
  "loginRequest pw = registerRequest\<lparr>reqPath := [''api'', ''v1'', ''auth'', ''login''],
     reqBody := Some (Inr (JObject [(''username'', JString ''bob''), (''password'', JString pw)]))\<rparr>"

definition bobRequest :: RegisterRequest where
  "bobRequest = \<lparr>rgUsername = ''bob'', rgEmail = ''x@example.org'', rgPassword = ''secret'', rgInviteToken = ''0123456789abcdef''\<rparr>"

lemma register_decoded:
  "decodeJSON decodeRegister registerRequest = Inr bobRequest"
  "decodeJSON decodeLogin (loginRequest pw) = Inr \<lparr>liUsername = ''bob'', liPassword = pw\<rparr>"
  by (code_simp, simp add: decodeJSON_def decodeLogin_def loginRequest_def decodeStruct_def fieldFor_def jsonString_def)

lemma srvIDKey_demo: "srvIDKey demoServer = demoIDKey"
  by (simp add: demoServer_def)

lemma storeNamespace_cluster: "storeNamespace cluster_users = ''kterodactyl-system''"
  by (simp add: cluster_users_def)

lemma redeem_run:
  "\<exists>s'. run_state (RedeemInvite cluster_invites ''0123456789abcdef'') invitedCluster = (Inr ''bob@example.org'', s') \<and>
     store_find KSecret s' (userKey ''kterodactyl-system'' ''bob'') = None"
proof -
  have "fst (run_state (RedeemInvite cluster_invites ''0123456789abcdef'') invitedCluster) = Inr ''bob@example.org''"
    "store_find KSecret (snd (run_state (RedeemInvite cluster_invites ''0123456789abcdef'') invitedCluster))
       (userKey ''kterodactyl-system'' ''bob'') = None"
    by code_simp+
  then show ?thesis by (metis prod.collapse)
qed

lemma register_run: "\<exists>resp s1. run_state (handleRegister demoServer registerRequest) invitedCluster = (resp, s1) \<and> respStatus resp = 201"
proof -
  obtain s' where red: "run_state (RedeemInvite cluster_invites ''0123456789abcdef'') invitedCluster = (Inr ''bob@example.org'', s')"
    "store_find KSecret s' (userKey ''kterodactyl-system'' ''bob'') = None" using redeem_run by blast
  have load: "run_state (loadAdminConfig demoServer) invitedCluster = (Inr (DefaultAdminConfig cluster_runtime), invitedCluster)"
    by (simp add: loadAdminConfig_def LoadAdminConfig_def cluster_run_defs invitedCluster_def cluster0_def demoServer_def)
  have enabled: "RegistrationEnabled (DefaultAdminConfig cluster_runtime)" by (simp add: DefaultAdminConfig_def)
  have valid: "ValidateUsername ''bob'' = None" "validateRegister bobRequest = None" by code_simp+
  obtain hash where hash: "run_state (HashPassword demoIDKey (srvRand demoServer) ''secret'') s' = (Some (Inr hash), s')"
    by (simp add: HashPassword_def demoServer_def demoIDKey_def argonTime_def argonThreads_def)
  let ?u = "registeredUser bobRequest ''bob@example.org'' hash (cClock s')"
  have name: "Username ?u = ''bob''" by (simp add: bobRequest_def)
  have "cu.users_of s' ''bob'' = None" using red(2) by (simp add: cu.users_of_def storeNamespace_cluster)
  with cu.CreateUser_new[of ?u s'] valid(1) obtain s2 where
    made: "run_state (CreateUser cluster_users ?u) s' = (Inr (), s2)" unfolding name by blast
  obtain t s3 where tok: "run_state (GenerateToken demoJWT ?u) s2 = (Inr t, s3)"
    using da.token_made[of ?u s2] by auto
  show ?thesis
    using red(1) load enabled valid hash made tok
    by (simp add: handleRegister_def register_decoded registerInvited_def respondToken_def bobRequest_def
        demoServer_def cluster_runtime_def Let_def)
qed

theorem register_then_login_witness:
  "\<exists>resp s1. run_state (handleRegister demoServer registerRequest) invitedCluster = (resp, s1) \<and>
     respStatus (fst (run_state (handleLogin demoServer (loginRequest ''secret'')) s1)) = 200 \<and>
     respStatus (fst (run_state (handleLogin demoServer (loginRequest ''guess'')) s1)) = 401"
proof -
  obtain resp s1 where reg: "run_state (handleRegister demoServer registerRequest) invitedCluster = (resp, s1)"
    "respStatus resp = 201" using register_run by blast
  from register_then_login[OF da.account_server_axioms reg register_decoded(1)] obtain salt key where
    key: "demoIDKey ''secret'' salt argonTime argonMemory argonThreads argonKeyLen = Some key" and
    login: "\<forall>r' pw k. decodeJSON decodeLogin r' = Inr \<lparr>liUsername = ''bob'', liPassword = pw\<rparr> \<and> pw \<noteq> [] \<and>
       demoIDKey pw salt argonTime argonMemory argonThreads argonKeyLen = Some k \<longrightarrow>
       respStatus (fst (run_state (handleLogin demoServer r') s1)) = (if k = key then 200 else 401)"
    by (auto simp: bobRequest_def srvIDKey_demo)
  obtain other where other: "demoIDKey ''guess'' salt argonTime argonMemory argonThreads argonKeyLen = Some other" "other \<noteq> key"
    using key by (auto simp: demoIDKey_def argonTime_def argonThreads_def argonKeyLen_def)
  from login[rule_format, OF conjI[OF register_decoded(2) conjI[OF _ key]]]
    login[rule_format, OF conjI[OF register_decoded(2) conjI[OF _ other(1)]]] other(2) reg(1)
  show ?thesis by auto
qed

section \<open>Endpoints\<close>

definition aliceRequest :: "gomap \<Rightarrow> (gerr + json) option \<Rightarrow> Request" where
  "aliceRequest params body = \<lparr>reqMethod = ''POST'', reqPath = [], reqHeader = [], reqQuery = [], reqParams = params,
     reqBody = body, reqForm = Inr None, reqClaims = Some (demoClaims RoleAdmin)\<rparr>"

lemma alice_simps [simp]:
  "namespaceFromContext (aliceRequest params body) = ''user-alice''" "usernameFromContext (aliceRequest params body) = ''alice''"
  "reqParams (aliceRequest params body) = params" "reqBody (aliceRequest params body) = body"
  by (simp_all add: aliceRequest_def namespaceFromContext_def usernameFromContext_def GetUserFromContext_def demoClaims_def)

lemma store_find_demo: "store_find KGameServer (demoCluster st) demoKey = Some (demoGS st)"
  by (simp add: demoCluster_def cluster_run_defs demoGS_def demoMeta_def demoKey_def cluster0_def)

lemma serverKey_alice: "serverKey ''user-alice'' (aliceRequest [(''name'', ''mc'')] b) = demoKey"
  by (simp add: serverKey_def demoKey_def)

theorem power_refines_witness:
  "\<exists>gs' s'. run_state (power_handler demoServer Stop (aliceRequest [(''name'', ''mc'')] None)) (demoCluster GameServerStateReady) =
      (respondJSON 200 (gameServerToResponse gs'), s') \<and> gsState gs' = GameServerStateShutdown \<and>
      store_find KGameServer s' demoKey = Some gs'"
proof -
  have st: "status_store (gameservers (srvClient demoServer)) (store_find KGameServer) gsMeta server_content gsStatus"
    using kgs.st.status_store_axioms by (simp add: cluster_client_def)
  have t: "power_target Stop (gsState (demoGS GameServerStateReady)) = Some GameServerStateShutdown" by (simp add: demoGS_def)
  from power_refines[OF st, where r = "aliceRequest [(''name'', ''mc'')] None" and ns = "''user-alice''" and c = Stop and
      s = "demoCluster GameServerStateReady", unfolded serverKey_alice store_find_demo option.case t]
  show ?thesis by auto
qed

definition createBody :: json where
  "createBody = JObject [(''name'', JString ''survival''), (''gameType'', JString ''minecraft''),
     (''parameters'', JObject [(''MOTD'', JString ''hi'')])]"

lemma create_decoded:
  "decodeJSON decodeCreateGameServer (aliceRequest [] (Some (Inr createBody))) =
     Inr \<lparr>cgName = ''survival'', cgGameType = ''minecraft'', cgParameters = [(''MOTD'', ''hi'')]\<rparr>"
  by (simp add: decodeJSON_def decodeCreateGameServer_def createBody_def decodeStruct_def fieldFor_def jsonString_def jsonMap_def)

lemma demoLoader_get:
  "\<exists>m. LoaderGet demoLoader ''minecraft'' = Some m \<and> mParameters m = [(''EULA'', ''true'')] \<and>
     (\<forall>ps. map_of ps ''EULA'' = Some ''true'' \<longrightarrow> ValidateParameters m ps = None)"
  by (simp add: demoLoader_def LoadFromDirectory_def demoManifestEnv_def manifestFile_def manifestPath_def Join_def Clean_def Let_def parseManifest_def
      parseResourceList_def rangeMap_def compileParameterSchema_def LoaderGet_def ValidateParameters_def)

lemma demoLoader_distinct: "LoaderGet demoLoader t = Some m \<Longrightarrow> distinct (map fst (mParameters m))"
  by (auto simp: demoLoader_def LoadFromDirectory_def demoManifestEnv_def manifestFile_def manifestPath_def Join_def Clean_def Let_def parseManifest_def
      parseResourceList_def rangeMap_def compileParameterSchema_def LoaderGet_def split: if_splits)

theorem create_submits_witness:
  "\<exists>gs x. snd (snd (run_state (handleCreateGameServer (traced_server demoServer) (aliceRequest [] (Some (Inr createBody)))) (cluster0, []))) =
      [OnGameServer (EvCreate gs x)] \<and> map_of (Parameters (gsSpec gs)) ''MOTD'' = Some ''hi'' \<and>
      map_of (Parameters (gsSpec gs)) ''EULA'' = Some ''true''"
proof -
  let ?r = "aliceRequest [] (Some (Inr createBody))"
  obtain resp s' tr where run: "run_state (handleCreateGameServer (traced_server demoServer) ?r) (cluster0, []) = (resp, (s', tr))"
    by (metis prod.collapse)
  obtain m where m: "LoaderGet demoLoader ''minecraft'' = Some m" "mParameters m = [(''EULA'', ''true'')]"
    "\<And>ps. map_of ps ''EULA'' = Some ''true'' \<Longrightarrow> ValidateParameters m ps = None" using demoLoader_get by blast
  have man: "srvManifests demoServer = demoLoader" by (simp add: demoServer_def)
  have "tr \<noteq> []"
    using run m by (auto simp: handleCreateGameServer_def create_decoded validateCreateGameServer_def man mergeMaps_def
        Let_def split: prod.splits sum.splits if_splits)
  from create_submits[OF run this] m create_decoded man demoLoader_distinct run show ?thesis by fastforce
qed

definition scheduleBody :: json where
  "scheduleBody = JObject [(''schedule'', JString ''0 * * * *''), (''retention'', JNumber 3)]"

lemma schedule_decoded:
  "decodeJSON decodeSetBackupSchedule (aliceRequest ps (Some (Inr scheduleBody))) = Inr \<lparr>bsSchedule = ''0 * * * *'', bsRetention = 3\<rparr>"
  by (simp add: decodeJSON_def decodeSetBackupSchedule_def scheduleBody_def decodeStruct_def fieldFor_def jsonString_def jsonInt_def)

lemma store_update_demo: "\<exists>x s'. store_update KGameServer (setAnnotations a (demoGS st)) (demoCluster st) = (Inr x, s')"
  by (simp add: setAnnotations_def demoCluster_def cluster_run_defs demoGS_def demoMeta_def cluster0_def NewMeta_def Let_def)

theorem schedule_roundtrip_witness:
  "\<exists>gs' x cfg. OnGameServer (EvUpdate gs' x) \<in> set (snd (snd (run_state (handleSetBackupSchedule (traced_server demoServer)
      (aliceRequest [(''name'', ''mc'')] (Some (Inr scheduleBody)))) (demoCluster GameServerStateReady, [])))) \<and>
    scheduleRequests gs' \<noteq> [] \<and> retentionOf gs' cfg = 3"
proof -
  let ?r = "aliceRequest [(''name'', ''mc'')] (Some (Inr scheduleBody))"
  obtain resp s' tr where run: "run_state (handleSetBackupSchedule (traced_server demoServer) ?r) (demoCluster GameServerStateReady, []) =
      (resp, (s', tr))" by (metis prod.collapse)
  have get: "run_state (kget (gameservers cluster_client) demoKey) (demoCluster GameServerStateReady) =
      (Inr (demoGS GameServerStateReady), demoCluster GameServerStateReady)"
    by (simp add: cluster_client_def store_find_demo)
  obtain x s2 where upd: "run_state (kupdate (gameservers cluster_client) (setAnnotations
      (scheduleAnnotations \<lparr>bsSchedule = ''0 * * * *'', bsRetention = 3\<rparr> (Annotations (gsMeta (demoGS GameServerStateReady))))
      (demoGS GameServerStateReady))) (demoCluster GameServerStateReady) = (Inr x, s2)"
    using store_update_demo by (simp add: cluster_client_def) metis
  have cron: "CronParse (srvEnv demoServer) ''0 * * * *'' = Inr (\<lambda>t. (t div hour + 1) * hour)"
    by (simp add: demoServer_def demoEnv_def)
  have "respStatus resp = 200"
    using run get upd cron by (auto simp: handleSetBackupSchedule_def withNamespace_def findGameServer_def schedule_decoded
        serverKey_alice Let_def)
  from schedule_roundtrip[OF run this] schedule_decoded run show ?thesis by fastforce
qed

definition moddedCluster :: cluster where
  "moddedCluster = cluster0\<lparr>cGameServers := [setAnnotations [(AnnotationModPath, ''/mods'')] (demoGS GameServerStateReady)]\<rparr>"

theorem delete_mod_confined_witness:
  "\<exists>x. OnExec ''user-alice'' ''mc'' [''rm'', ''-f'', ''/mods/passwd''] x \<in> set (snd (snd (run_state (handleDeleteMod (traced_server demoServer)
      (aliceRequest [(''name'', ''mc''), (''filename'', ''../../etc/passwd'')] None)) (moddedCluster, [])))) \<and> plain_name ''passwd''"
proof -
  let ?r = "aliceRequest [(''name'', ''mc''), (''filename'', ''../../etc/passwd'')] None"
  obtain resp s' tr where run: "run_state (handleDeleteMod (traced_server demoServer) ?r) (moddedCluster, []) = (resp, (s', tr))"
    by (metis prod.collapse)
  have base: "Base ''../../etc/passwd'' = ''passwd''" by code_simp
  have "store_find KGameServer moddedCluster demoKey = Some (setAnnotations [(AnnotationModPath, ''/mods'')] (demoGS GameServerStateReady))"
    by (simp add: moddedCluster_def cluster_run_defs demoGS_def demoMeta_def demoKey_def cluster0_def setAnnotations_def)
  moreover have "running (setAnnotations a (demoGS GameServerStateReady))" "Annotations (gsMeta (setAnnotations a gs)) = a" for a gs
    by (simp_all add: running_def demoGS_def setAnnotations_def)
  moreover have "srvEnv demoServer = demoEnv" "\<And>ns n c i. PodExec demoEnv ns n c i = ret (Inr (''archive'', [], None))"
    by (simp_all add: demoServer_def demoEnv_def)
  moreover have "\<not> badFilename ''passwd''" by code_simp
  ultimately have tr: "tr = [OnGameServer (EvGet demoKey (Inr (setAnnotations [(AnnotationModPath, ''/mods'')] (demoGS GameServerStateReady)))),
      OnExec ''user-alice'' ''mc'' [''rm'', ''-f'', ''/mods/passwd''] (Inr (''archive'', [], None))]"
    using run by (simp add: handleDeleteMod_def withNamespace_def findGameServer_def execInPod_def base
        cluster_client_def serverKey_def demoKey_def Let_def)
  have "plain_name ''passwd''" using delete_mod_confined[OF run, THEN conjunct1] base tr by simp
  with tr run show ?thesis by simp
qed

end
