(* ===== verification/Startup.thy ===== *)
theory Startup
  imports ApiIsolation
begin

text \<open>
  How the process puts the API server together, from \<^verbatim>\<open>cmd/main.go\<close>: the operator namespace, the
  signing key, the initial configuration, the services and the manifests. The clients, the clock, the random
  source and the libraries are given.
\<close>

section \<open>Constructors\<close>

definition NewUserStore :: "('s, Secret) kapi \<Rightarrow> string \<Rightarrow> 's UserStore" where
  "NewUserStore secretApi namespace = \<lparr>storeSecrets = secretApi, storeNamespace = namespace\<rparr>"

text \<open>What the process is given.\<close>

record ('s, 'c) Platform =
  mgrClient :: "'s client"
  directClient :: "'s client"
  platRuntime :: "'s runtime"
  platEnv :: "('s, 'c) BackupEnv"
  platPodMetrics :: "string \<Rightarrow> string \<Rightarrow> ('s, gerr + (string \<times> quantity \<times> quantity) list) state"
  platMilli :: "quantity \<Rightarrow> int"
  platValue :: "quantity \<Rightarrow> int"
  platJWTLib :: "'s JWTLib"
  platMailer :: "'s Mailer"
  platRand :: "nat \<Rightarrow> ('s, gerr + string) state"
  platIDKey :: idkey
  platFiles :: ManifestEnv
  platGetenv :: "string \<Rightarrow> string"

definition NewInviteService :: "('s, 'c) Platform \<Rightarrow> string \<Rightarrow> SMTPConfig option \<Rightarrow> string \<Rightarrow> 's InviteService" where
  "NewInviteService pf namespace smtpCfg url = \<lparr>inviteSecrets = secrets (mgrClient pf), inviteNamespace = namespace,
     smtp = smtpCfg, panelURL = url, inviteMailer = platMailer pf, inviteRand = platRand pf, inviteNow = Now (platRuntime pf)\<rparr>"

definition operatorNamespaceOf :: "('s, 'c) Platform \<Rightarrow> string" where
  "operatorNamespaceOf pf = (let ns = platGetenv pf ''OPERATOR_NAMESPACE'' in if ns = [] then ''kterodactyl-system'' else ns)"

section \<open>Starting\<close>

text \<open>
  The dependencies of the API server. The clients for Pods and their metrics, the conversions of quantities,
  the clock and the random source come with the platform.
\<close>

record ('s, 'c) Config =
  cfgClient :: "'s client"
  cfgClientset :: "('s, 'c) BackupEnv"
  cfgMetricsClient :: "(string \<Rightarrow> string \<Rightarrow> ('s, gerr + (string \<times> quantity \<times> quantity) list) state) option"
  cfgJWTService :: "'s JWTService"
  cfgUserStore :: "'s UserStore"
  cfgInviteService :: "'s InviteService"
  cfgManifestLoader :: Loader
  cfgOperatorNamespace :: string
  cfgBindAddress :: string

definition NewServer :: "('s, 'c) Platform \<Rightarrow> ('s, 'c) Config \<Rightarrow> ('s, 'c) Server" where
  "NewServer pf cfg = \<lparr>srvClient = cfgClient cfg, srvRuntime = platRuntime pf, srvEnv = cfgClientset cfg,
     srvPodMetrics = cfgMetricsClient cfg, srvMilli = platMilli pf, srvValue = platValue pf,
     srvJWT = cfgJWTService cfg, srvUsers = cfgUserStore cfg, srvInvites = cfgInviteService cfg,
     srvManifests = cfgManifestLoader cfg, srvNamespace = cfgOperatorNamespace cfg, srvIDKey = platIDKey pf,
     srvRand = platRand pf, srvBindAddress = cfgBindAddress cfg\<rparr>"

text \<open>The error is the one that is logged before the process exits.\<close>

definition startServer :: "('s, 'c) Platform \<Rightarrow> string \<Rightarrow> ('s, gerr + ('s, 'c) Server) state" where
  "startServer pf apiBindAddress = (let operatorNamespace = operatorNamespaceOf pf in do {
     key \<leftarrow> EnsureSigningKey (secrets (directClient pf)) (platRand pf) operatorNamespace;
     case key of
       Inl err \<Rightarrow> ret (Inl (errf ''failed to ensure JWT signing key: '' err))
     | Inr jwtKey \<Rightarrow> do {
         cfg \<leftarrow> LoadAdminConfig (directClient pf) (platRuntime pf) operatorNamespace;
         case cfg of
           Inl err \<Rightarrow> ret (Inl (errf ''failed to load initial admin config: '' err))
         | Inr adminCfg \<Rightarrow> (case LoadFromDirectory (platFiles pf) ''games/'' of
             Inl err \<Rightarrow> ret (Inl (errf ''failed to load game manifests from games/ directory: '' err))
           | Inr manifestLoader \<Rightarrow> ret (Inr (NewServer pf \<lparr>
               cfgClient = mgrClient pf, cfgClientset = platEnv pf, cfgMetricsClient = Some (platPodMetrics pf),
               cfgJWTService = NewJWTService (platJWTLib pf) (platRand pf) (Now (platRuntime pf)) jwtKey
                 (wrap64 (JWTExpirationHours adminCfg * hourDuration)),
               cfgUserStore = NewUserStore (secrets (mgrClient pf)) operatorNamespace,
               cfgInviteService = NewInviteService pf operatorNamespace None (PanelURL adminCfg),
               cfgManifestLoader = manifestLoader, cfgOperatorNamespace = operatorNamespace,
               cfgBindAddress = apiBindAddress\<rparr>))) } })"

text \<open>
  The server it makes meets the hypotheses of tenant isolation as soon as the client's stores are
  keyed, and its namespace is never empty. It never sends mail, whatever the configuration says.
\<close>

lemma startServer_address:
  assumes "run_state (startServer pf addr) s = (Inr srv, s')"
  shows "srvBindAddress srv = addr"
  using assms unfolding startServer_def Let_def NewServer_def by (auto split: sum.splits prod.splits)

lemma startServer_keyed:
  assumes "run_state (startServer pf addr) s = (Inr srv, s')"
    and "keyed_store (gameservers (mgrClient pf)) gsMeta" "keyed_store (backups (mgrClient pf)) bkMeta"
      "keyed_store (secrets (mgrClient pf)) secMeta"
  shows "keyed_server srv" "srvNamespace srv \<noteq> []" "smtp (srvInvites srv) = None"
proof -
  from assms(1) have srv: "srvClient srv = mgrClient pf" "srvNamespace srv = operatorNamespaceOf pf"
    "srvUsers srv = NewUserStore (secrets (mgrClient pf)) (operatorNamespaceOf pf)"
    "\<exists>url. srvInvites srv = NewInviteService pf (operatorNamespaceOf pf) None url"
    unfolding startServer_def Let_def NewServer_def by (auto split: sum.splits prod.splits)
  with assms(2-4) show "keyed_server srv"
    by (intro keyed_server.intro) (auto simp: NewUserStore_def NewInviteService_def)
  show "srvNamespace srv \<noteq> []" "smtp (srvInvites srv) = None"
    using srv by (auto simp: operatorNamespaceOf_def NewInviteService_def Let_def)
qed

end
