(* ===== verification/Operator.thy ===== *)
theory Operator
  imports ApiDemo GameServerRefinement BackupSchedule
begin

text \<open>
  The watches of the three controllers, from their \<^verbatim>\<open>SetupWithManager\<close> functions, and the work queue they
  feed: which changes of the cluster lead to a reconcile. The predicates and the queue are code of
  controller-runtime; the predicates are an argument, with their documented behaviour as the locale
  \<open>watch_predicates\<close>. On top of them a step relation follows one game server through reconciles,
  requests of users and changes made by others.
\<close>

section \<open>Events and watches\<close>

datatype object_kind = KindGameServer | KindBackup | KindPod | KindService | KindHTTPRoute

datatype watch_event = Created ObjectMeta | Updated ObjectMeta ObjectMeta | Removed ObjectMeta

record predicates =
  GenerationChangedPredicate :: "watch_event \<Rightarrow> bool"
  AnnotationChangedPredicate :: "watch_event \<Rightarrow> bool"
  PredicateOr :: "(watch_event \<Rightarrow> bool) list \<Rightarrow> watch_event \<Rightarrow> bool"

text \<open>What a controller is built from: the kind it is for, the kinds it owns, further watches, the filter.\<close>

record controller =
  setupName :: string
  setupFor :: object_kind
  setupOwns :: "object_kind list"
  setupWatches :: "(object_kind \<times> (ObjectMeta \<Rightarrow> key list)) list"
  setupFilter :: "watch_event \<Rightarrow> bool"
  MaxConcurrentReconciles :: nat

definition setupGameServer :: "predicates \<Rightarrow> controller" where
  "setupGameServer lib = \<lparr>setupName = ''gameserver'', setupFor = KindGameServer, setupOwns = [KindPod],
     setupWatches = [],
     setupFilter = PredicateOr lib [GenerationChangedPredicate lib, AnnotationChangedPredicate lib],
     MaxConcurrentReconciles = 3\<rparr>"

definition setupDNS :: controller where
  "setupDNS = \<lparr>setupName = ''dns'', setupFor = KindGameServer, setupOwns = [KindService, KindHTTPRoute],
     setupWatches = [], setupFilter = (\<lambda>_. True), MaxConcurrentReconciles = 1\<rparr>"

text \<open>The mapping function reads only the metadata of the game server.\<close>

definition scheduleWatch :: "ObjectMeta \<Rightarrow> key list" where
  "scheduleWatch m =
     (if mget (Annotations m) AnnotationBackupSchedule = [] then []
      else [\<lparr>keyNamespace = Namespace m, keyName = ''schedule-'' @ Name m\<rparr>])"

definition setupBackup :: controller where
  "setupBackup = \<lparr>setupName = ''backup'', setupFor = KindBackup, setupOwns = [],
     setupWatches = [(KindGameServer, scheduleWatch)], setupFilter = (\<lambda>_. True), MaxConcurrentReconciles = 1\<rparr>"

lemma scheduleWatch_requests: "scheduleWatch (gsMeta gs) = scheduleRequests gs"
  by (simp add: scheduleWatch_def scheduleRequests_def)

text \<open>The requests an event leads to. The owner is the controlling owner, a game server.\<close>

primrec eventMetas :: "watch_event \<Rightarrow> ObjectMeta list" where
  "eventMetas (Created m) = [m]"
| "eventMetas (Updated m m') = [m, m']"
| "eventMetas (Removed m) = [m]"

definition ownerRequests :: "ObjectMeta \<Rightarrow> key list" where
  "ownerRequests m = map (\<lambda>ref. \<lparr>keyNamespace = Namespace m, keyName = refName ref\<rparr>)
     (filter (\<lambda>ref. refController ref \<and> refKind ref = ''GameServer'') (OwnerReferences m))"

definition requestsOf :: "controller \<Rightarrow> object_kind \<Rightarrow> watch_event \<Rightarrow> key list" where
  "requestsOf c k ev = (if \<not> setupFilter c ev then []
     else concat (map (\<lambda>m. (if k = setupFor c then [key_of m] else [])
       @ (if k \<in> set (setupOwns c) then ownerRequests m else [])
       @ concat (map (\<lambda>(k', f). if k' = k then f m else []) (setupWatches c))) (eventMetas ev)))"

text \<open>The event of a change of one object.\<close>

definition changeEvent :: "('o \<Rightarrow> ObjectMeta) \<Rightarrow> 'o option \<Rightarrow> 'o option \<Rightarrow> watch_event option" where
  "changeEvent meta x y = (case (x, y) of
       (None, None) \<Rightarrow> None
     | (None, Some n) \<Rightarrow> Some (Created (meta n))
     | (Some o', None) \<Rightarrow> Some (Removed (meta o'))
     | (Some o', Some n) \<Rightarrow> if o' = n then None else Some (Updated (meta o') (meta n)))"

definition requestsOfChange :: "controller \<Rightarrow> object_kind \<Rightarrow> ('o \<Rightarrow> ObjectMeta) \<Rightarrow> 'o option \<Rightarrow> 'o option \<Rightarrow> key list" where
  "requestsOfChange c k meta x y = (case changeEvent meta x y of None \<Rightarrow> [] | Some ev \<Rightarrow> requestsOf c k ev)"

text \<open>
  The documented behaviour of the predicates: creations and deletions pass, an update passes when the
  generation, respectively the annotations, differ.
\<close>

locale watch_predicates =
  fixes lib :: predicates
  assumes generation_changed:
      "GenerationChangedPredicate lib (Created m)" "GenerationChangedPredicate lib (Removed m)"
      "GenerationChangedPredicate lib (Updated m m') \<longleftrightarrow> Generation m \<noteq> Generation m'"
    and annotation_changed:
      "AnnotationChangedPredicate lib (Updated m m') \<longleftrightarrow> map_of (Annotations m) \<noteq> map_of (Annotations m')"
    and predicate_or: "PredicateOr lib ps ev \<longleftrightarrow> (\<exists>p \<in> set ps. p ev)"
begin

lemma gameserver_filter:
  "setupFilter (setupGameServer lib) (Created m)" "setupFilter (setupGameServer lib) (Removed m)"
  "setupFilter (setupGameServer lib) (Updated m m') \<longleftrightarrow>
     Generation m \<noteq> Generation m' \<or> map_of (Annotations m) \<noteq> map_of (Annotations m')"
  by (simp_all add: setupGameServer_def predicate_or generation_changed annotation_changed)

lemma gameserver_setup:
  "setupFor (setupGameServer lib) = KindGameServer" "setupOwns (setupGameServer lib) = [KindPod]"
  "setupWatches (setupGameServer lib) = []"
  by (simp_all add: setupGameServer_def)

lemma gameserver_requests:
  "requestsOfChange (setupGameServer lib) KindGameServer gsMeta None (Some gs) = [gsKey gs]"
  "requestsOfChange (setupGameServer lib) KindGameServer gsMeta (Some gs) None = [gsKey gs]"
  "set (requestsOfChange (setupGameServer lib) KindGameServer gsMeta (Some gs) (Some gs')) =
    (if gs \<noteq> gs' \<and> (Generation (gsMeta gs) \<noteq> Generation (gsMeta gs') \<or>
        map_of (Annotations (gsMeta gs)) \<noteq> map_of (Annotations (gsMeta gs')))
     then {gsKey gs, gsKey gs'} else {})"
  by (simp_all add: requestsOfChange_def changeEvent_def requestsOf_def gameserver_filter gameserver_setup gsKey_def) auto

end

text \<open>A concrete instance; maps are compared on their keys.\<close>

definition sameMap :: "gomap \<Rightarrow> gomap \<Rightarrow> bool" where
  "sameMap a b \<longleftrightarrow> list_all (\<lambda>k. map_of a k = map_of b k) (map fst a @ map fst b)"

lemma sameMap_iff: "sameMap a b \<longleftrightarrow> map_of a = map_of b"
proof
  assume same: "sameMap a b"
  show "map_of a = map_of b"
  proof (rule ext)
    fix k
    show "map_of a k = map_of b k"
      using same map_of_eq_None_iff[of a k] map_of_eq_None_iff[of b k]
      by (cases "k \<in> set (map fst a @ map fst b)") (auto simp: sameMap_def list_all_iff)
  qed
qed (simp add: sameMap_def list_all_iff)

definition clusterPredicates :: predicates where
  "clusterPredicates = \<lparr>
     GenerationChangedPredicate = (\<lambda>ev. case ev of Updated m m' \<Rightarrow> Generation m \<noteq> Generation m' | _ \<Rightarrow> True),
     AnnotationChangedPredicate = (\<lambda>ev. case ev of Updated m m' \<Rightarrow> \<not> sameMap (Annotations m) (Annotations m') | _ \<Rightarrow> True),
     PredicateOr = (\<lambda>ps ev. list_ex (\<lambda>p. p ev) ps)\<rparr>"

interpretation kpred: watch_predicates clusterPredicates
  by unfold_locales (simp_all add: clusterPredicates_def list_ex_iff sameMap_iff)

section \<open>When a reconcile is the last one\<close>

text \<open>A result that puts the request back into the queue; so does every error.\<close>

definition requeues :: "gerr + Result \<Rightarrow> bool" where
  "requeues res \<longleftrightarrow> (case res of Inl _ \<Rightarrow> True | Inr x \<Rightarrow> Requeue x \<or> RequeueAfter x > 0)"

lemma requeues_simps [simp]:
  "requeues (Inl e)" "requeues (Inr ResultRequeue)" "\<not> requeues (Inr Result0)"
  "requeues (Inr (ResultAfter requeueDelay))"
  by (simp_all add: requeues_def ResultRequeue_def Result0_def ResultAfter_def requeueDelay_def)

definition in_progress :: "GameServerState \<Rightarrow> bool" where
  "in_progress st \<longleftrightarrow> st = GameServerStateUnset \<or> st = GameServerStateCreating \<or> st = GameServerStateStarting"

text \<open>A computation every result of which asks for another run.\<close>

definition always_requeues :: "('s, gerr + Result) state \<Rightarrow> bool" where
  "always_requeues m \<longleftrightarrow> (\<forall>s. requeues (fst (run_state m s)))"

lemma always_requeuesD: "always_requeues m \<Longrightarrow> run_state m s = (res, s') \<Longrightarrow> requeues res"
  unfolding always_requeues_def by (metis fst_conv)

named_theorems requeue_intros

lemma always_requeues_return [requeue_intros]: "requeues x \<Longrightarrow> always_requeues (ret x)"
  by (simp add: always_requeues_def)

lemma always_requeues_bind [requeue_intros]: "(\<And>x. always_requeues (f x)) \<Longrightarrow> always_requeues (State_Monad.bind m f)"
  by (auto simp: always_requeues_def split: prod.splits)

lemma always_requeues_splits [requeue_intros]:
  "(b \<Longrightarrow> always_requeues m) \<Longrightarrow> (\<not> b \<Longrightarrow> always_requeues n) \<Longrightarrow> always_requeues (if b then m else n)"
  "(\<And>e. x = Inl e \<Longrightarrow> always_requeues (f e)) \<Longrightarrow> (\<And>a. x = Inr a \<Longrightarrow> always_requeues (g a)) \<Longrightarrow>
    always_requeues (case x of Inl e \<Rightarrow> f e | Inr a \<Rightarrow> g a)"
  "always_requeues (h y) \<Longrightarrow> always_requeues (let z = y in h z)"
  by (auto split: sum.splits)

lemma transitionState_requeues [requeue_intros]: "always_requeues (transitionState r gs st re m)"
  unfolding transitionState_def by (intro requeue_intros) simp_all

lemma in_progress_requeues:
  assumes "in_progress (gsState gs)" "DeletionTimestamp (gsMeta gs) = None"
  shows "always_requeues (reconcileFetched r gs)"
proof -
  have "always_requeues (initializeState r gs)" "always_requeues (createServerObjects r gs own cfg)"
    "always_requeues (reconcileStarting r gs)" for own cfg
    unfolding initializeState_def createServerObjects_def reconcileStarting_def by (intro requeue_intros; simp)+
  moreover from this have "always_requeues (reconcileCreating r gs)"
    unfolding reconcileCreating_def by (intro requeue_intros) simp_all
  moreover have "always_requeues (do { x \<leftarrow> m; updateGameServerGauge r; ret x })" if "always_requeues m" for m
    using that by (auto simp: always_requeues_def split: prod.splits) (metis fst_conv)
  ultimately show ?thesis
    using assms by (auto simp: reconcileFetched_def dispatchState_def in_progress_def intro!: requeue_intros)
qed

section \<open>One game server and its queue\<close>

text \<open>The world and whether the request of the server waits in the queue of the GameServer controller.\<close>

record 's operator =
  world :: 's
  queued :: bool

definition notified :: "predicates \<Rightarrow> key \<Rightarrow> (key \<Rightarrow> GameServer option) \<Rightarrow> (key \<Rightarrow> Pod option) \<Rightarrow>
    (key \<Rightarrow> GameServer option) \<Rightarrow> (key \<Rightarrow> Pod option) \<Rightarrow> bool" where
  "notified lib k g p g' p' \<longleftrightarrow>
     (\<exists>j. k \<in> set (requestsOfChange (setupGameServer lib) KindGameServer gsMeta (g j) (g' j))) \<or>
     (\<exists>j. k \<in> set (requestsOfChange (setupGameServer lib) KindPod podMeta (p j) (p' j)))"

text \<open>
  A change by somebody else, such as the kubelet, a user who edits the spec or the annotations, or another
  reconcile, that does not write the state of this server.
\<close>

definition keeps_state :: "GameServer option \<Rightarrow> GameServer option \<Rightarrow> bool" where
  "keeps_state x y \<longleftrightarrow> (case (x, y) of
       (Some gs, Some gs') \<Rightarrow> gsState gs' = gsState gs \<and> (DeletionTimestamp (gsMeta gs) \<noteq> None \<longrightarrow> DeletionTimestamp (gsMeta gs') \<noteq> None)
     | _ \<Rightarrow> True)"

inductive op_step :: "'s Reconciler \<Rightarrow> predicates \<Rightarrow> ('s \<Rightarrow> key \<Rightarrow> GameServer option) \<Rightarrow> ('s \<Rightarrow> key \<Rightarrow> Pod option) \<Rightarrow>
    key \<Rightarrow> 's operator \<Rightarrow> 's operator \<Rightarrow> bool"
  for r lib gobjs pobjs k where
  reconciled: "queued p \<Longrightarrow> run_state (Reconcile r k) (world p) = (res, s') \<Longrightarrow>
    op_step r lib gobjs pobjs k p \<lparr>world = s', queued = requeues res \<or>
      notified lib k (gobjs (world p)) (pobjs (world p)) (gobjs s') (pobjs s')\<rparr>"
| changed: "keeps_state (gobjs (world p) k) (gobjs s' k) \<Longrightarrow>
    op_step r lib gobjs pobjs k p \<lparr>world = s', queued = queued p \<or>
      notified lib k (gobjs (world p)) (pobjs (world p)) (gobjs s') (pobjs s')\<rparr>"

inductive_cases op_stepE: "op_step r lib gobjs pobjs k p p'"

text \<open>When the controller starts, it sees every stored object as created.\<close>

definition op_start :: "predicates \<Rightarrow> ('s \<Rightarrow> key \<Rightarrow> GameServer option) \<Rightarrow> key \<Rightarrow> 's \<Rightarrow> 's operator" where
  "op_start lib gobjs k s = \<lparr>world = s,
     queued = (k \<in> set (requestsOfChange (setupGameServer lib) KindGameServer gsMeta None (gobjs s k)))\<rparr>"

definition op_inv :: "('s \<Rightarrow> key \<Rightarrow> GameServer option) \<Rightarrow> key \<Rightarrow> 's operator \<Rightarrow> bool" where
  "op_inv gobjs k p \<longleftrightarrow> (case gobjs (world p) k of None \<Rightarrow> True
     | Some gs \<Rightarrow> DeletionTimestamp (gsMeta gs) = None \<and> in_progress (gsState gs) \<longrightarrow> queued p)"

text \<open>
  The cluster of the refinement, with the laws on generations and the documented predicates.
\<close>

locale watched_cluster =
  healthy_cluster r gobjs server_content pobjs pcontent clock +
  gen: generation_store "gameservers (Client r)" gobjs gsMeta server_content gsStatus +
  watch_predicates lib
  for r :: "'s Reconciler" and gobjs :: "'s \<Rightarrow> key \<Rightarrow> GameServer option"
    and pobjs :: "'s \<Rightarrow> key \<Rightarrow> Pod option" and pcontent :: "Pod \<Rightarrow> 'b" and clock :: "'s \<Rightarrow> gotime"
    and lib :: predicates
begin

lemma handleDeletion_keeps: "preserves (\<lambda>s. no_longer gsMeta (gobjs s k)) (handleDeletion r gs)"
proof -
  have "preserves (\<lambda>s. no_longer gsMeta (gobjs s k)) (kget (pods (Client r)) j)" for j
    by (rule preservesI) (metis Pair_inject podapi.get_cases)
  moreover have "preserves (\<lambda>s. no_longer gsMeta (gobjs s k)) (kdelete (pods (Client r)) p g)" for p g
    using preservesD[OF delete_frame refl] by (intro preservesI) metis
  moreover have "preserves (\<lambda>s. no_longer gsMeta (gobjs s k)) (Event (Runtime r) j ty re m)" for j ty re m
    by (rule preservesI) (auto dest: event_gs)
  ultimately show ?thesis
    unfolding handleDeletion_def by (intro preserves_intros gen.update_deleting) assumption+
qed

lemma settled_stays:
  assumes gs: "gobjs s k = Some gs" "DeletionTimestamp (gsMeta gs) = None" "\<not> in_progress (gsState gs)"
    and run: "run_state (Reconcile r k) s = (res, s')" "\<not> requeues res"
  shows "\<exists>gs'. gobjs s' k = Some gs' \<and> \<not> in_progress (gsState gs')"
proof (cases "ContainsFinalizer (Runtime r) (gsMeta gs) FinalizerName")
  case True
  with gs have "moves (Reconcile r k) s gs (next_state (clock s) gs (pobjs s k))"
    by (intro Reconcile_moves) (auto simp: in_progress_def)
  moreover have "\<not> in_progress (next_state (clock s) gs (pobjs s k))"
    using gs(3) by (auto simp: next_state_def in_progress_def split: GameServerState.splits option.splits)
  moreover from gsapi.object_key[OF gs(1)] have "gsKey gs = k" by (simp add: gsKey_def)
  ultimately show ?thesis using run(1) by (auto simp: moves_def)
next
  case False
  with gs(2) have "always_requeues (reconcileFetched r gs)"
    by (auto simp: reconcileFetched_def intro!: requeue_intros)
  moreover from run(1) gsapi.get_found[OF gs(1)] have "run_state (reconcileFetched r gs) s = (res, s')"
    by (simp add: Reconcile_def)
  ultimately have "requeues res" by (rule always_requeuesD)
  with run(2) show ?thesis by simp
qed

lemma reconcile_inv:
  assumes run: "run_state (Reconcile r k) s = (res, s')" "\<not> requeues res"
  shows "case gobjs s' k of None \<Rightarrow> True | Some gs \<Rightarrow> DeletionTimestamp (gsMeta gs) \<noteq> None \<or> \<not> in_progress (gsState gs)"
proof (cases rule: gsapi.get_cases[of s k])
  case (missing e)
  with run have "s' = s" by (simp add: Reconcile_def)
  with missing show ?thesis by simp
next
  case (found gs)
  with run have fetched: "run_state (reconcileFetched r gs) s = (res, s')" by (simp add: Reconcile_def)
  show ?thesis
  proof (cases "DeletionTimestamp (gsMeta gs) = None")
    case True
    have "\<not> in_progress (gsState gs)"
      using always_requeuesD[OF in_progress_requeues[OF _ True] fetched] run(2) by blast
    from settled_stays[OF found(1) True this run] show ?thesis by auto
  next
    case False
    with fetched have "run_state (handleDeletion r gs) s = (res, s')" by (simp add: reconcileFetched_def)
    from preservesD[OF handleDeletion_keeps _ this, of k] found(1) False show ?thesis
      by (auto simp: no_longer_def split: option.splits)
  qed
qed

lemma created_notified:
  assumes "gobjs s k = None" "gobjs s' k = Some gs"
  shows "notified lib k (gobjs s) p (gobjs s') p'"
proof -
  from gsapi.object_key[OF assms(2)] have "gsKey gs = k" by (simp add: gsKey_def)
  with assms gameserver_requests(1)[of gs] show ?thesis unfolding notified_def by (intro disjI1 exI[of _ k]) simp
qed

lemma op_inv_step:
  assumes "op_step r lib gobjs pobjs k p p'" "op_inv gobjs k p"
  shows "op_inv gobjs k p'"
  using assms
proof (cases rule: op_step.cases)
  case (reconciled res s')
  with reconcile_inv[OF reconciled(3)] show ?thesis
    by (cases "requeues res") (auto simp: op_inv_def split: option.splits)
next
  case (changed s')
  with assms(2) created_notified[of "world p" k s'] show ?thesis
    by (auto simp: op_inv_def keeps_state_def split: option.splits)
qed

lemma op_inv_start: "op_inv gobjs k (op_start lib gobjs k s)"
proof (cases "gobjs s k")
  case (Some gs)
  with gsapi.object_key[OF Some] gameserver_requests(1)[of gs] show ?thesis
    by (auto simp: op_inv_def op_start_def gsKey_def)
qed (simp add: op_inv_def op_start_def)

lemma op_inv_run: "(op_step r lib gobjs pobjs k)\<^sup>*\<^sup>* (op_start lib gobjs k s) p \<Longrightarrow> op_inv gobjs k p"
  by (induction rule: rtranclp_induct) (auto intro: op_inv_start op_inv_step)

text \<open>A change of one game server that neither the generation nor the annotations show is not noticed.\<close>

lemma unnoticed:
  assumes "gobjs s' = (gobjs s)(k \<mapsto> gs')" "pobjs s' = pobjs s" "gobjs s k = Some gs"
    and "Generation (gsMeta gs') = Generation (gsMeta gs)" "Annotations (gsMeta gs') = Annotations (gsMeta gs)"
  shows "\<not> notified lib j (gobjs s) (pobjs s) (gobjs s') (pobjs s')"
proof -
  have "requestsOfChange (setupGameServer lib) KindGameServer gsMeta (gobjs s i) (gobjs s' i) = []" for i
    using assms gameserver_requests(3)[of gs gs'] by (cases "i = k") (auto simp: requestsOfChange_def changeEvent_def split: option.splits)
  moreover have "requestsOfChange (setupGameServer lib) KindPod podMeta (pobjs s i) (pobjs s' i) = []" for i
    using assms(2) by (simp add: requestsOfChange_def changeEvent_def split: option.splits)
  ultimately show ?thesis by (simp add: notified_def)
qed

lemma noticed:
  assumes "gobjs s k = Some gs" "gobjs s' k = None \<or> (\<exists>gs'. gobjs s' k = Some gs' \<and> Generation (gsMeta gs') \<noteq> Generation (gsMeta gs))"
  shows "notified lib k (gobjs s) p (gobjs s') p'"
proof -
  from gsapi.object_key[OF assms(1)] have "gsKey gs = k" by (simp add: gsKey_def)
  with assms gameserver_requests(2)[of gs] gameserver_requests(3)[of gs] show ?thesis
    unfolding notified_def by (intro disjI1 exI[of _ k]) auto
qed

lemma putState_unnoticed:
  assumes srv: "gameservers (srvClient srv) = gameservers (Client r)" and gs: "gobjs s k = Some gs"
  shows "\<exists>gs' s'. run_state (putState srv st gs) s = (respondJSON 200 (gameServerToResponse gs'), s') \<and>
    gobjs s' = (gobjs s)(k \<mapsto> gs') \<and> pobjs s' = pobjs s \<and> gsState gs' = st \<and>
    \<not> notified lib k (gobjs s) (pobjs s) (gobjs s') (pobjs s')"
proof -
  from status_write[OF gs, of "setState st gs"] obtain x s' where
    w: "run_state (kstatus (gameservers (Client r)) (setState st gs)) s = (Inr x, s')"
    and wr: "written s k gs (gsStatus (setState st gs)) s'" by (auto simp: setState_def)
  from gsapi.read_modify_write[OF gs, of "setState st gs"] w have x: "gsStatus x = gsStatus (setState st gs)"
    "server_content x = server_content gs" "gobjs s' = (gobjs s)(k \<mapsto> x)" "Generation (gsMeta x) = Generation (gsMeta gs)"
    by (auto simp: setState_def)
  from wr have "pobjs s' = pobjs s" by (auto simp: written_def)
  moreover from x(2) have "Annotations (gsMeta x) = Annotations (gsMeta gs)" by (simp add: user_meta_def)
  ultimately show ?thesis using x w srv unnoticed[OF x(3) _ gs]
    by (intro exI[of _ x] exI[of _ s']) (simp add: putState_def setState_def)
qed

lemma delete_changes:
  assumes gs: "gobjs s k = Some gs" "DeletionTimestamp (gsMeta gs) = None"
  shows "\<exists>s'. run_state (kdelete (gameservers (Client r)) gs g) s = (Inr (), s') \<and>
    (gobjs s' k = None \<or> (\<exists>gs'. gobjs s' k = Some gs' \<and> Generation (gsMeta gs') \<noteq> Generation (gsMeta gs)))"
proof -
  from gsapi.object_key[OF gs(1)] have k: "key_of (gsMeta gs) = k" by simp
  show ?thesis
  proof (cases "Finalizers (gsMeta gs) = []")
    case True
    with gsapi.delete_existing[of s gs gs g] gs(1) k show ?thesis by auto
  next
    case False
    with gsapi.delete_finalized[of s gs gs g] gs(1) k obtain y' s' where
      d: "run_state (kdelete (gameservers (Client r)) gs g) s = (Inr (), s')" "gobjs s' k = Some y'" by auto
    with gen.delete_generation[of s gs gs g s' y'] gs k False have "Generation (gsMeta y') \<noteq> Generation (gsMeta gs)"
      by simp
    with d show ?thesis by blast
  qed
qed

text \<open>The DNS controller has no filter.\<close>

lemma dns_notified:
  assumes "gobjs s k = Some gs" "gobjs s' k \<noteq> Some gs"
  shows "k \<in> set (requestsOfChange setupDNS KindGameServer gsMeta (gobjs s k) (gobjs s' k))"
  using assms gsapi.object_key[OF assms(1)]
  by (auto simp: requestsOfChange_def changeEvent_def requestsOf_def setupDNS_def split: option.splits)

end

section \<open>Properties\<close>


text \<open>C9: What the controllers see of a request. Starting, stopping and restarting succeed and store the new state,
  but write only the status: the event filter of the GameServer controller drops the change, so a server
  that is at rest is not reconciled in its new state and its Pod stays as it was; the DNS controller, which
  has no filter, is told. Deleting a live server is seen by both.\<close>

theorem request_noticed:
  assumes w: "watched_cluster r gobjs pobjs pcontent clock lib"
    and srv: "gameservers (srvClient srv) = gameservers (Client r)"
    and ns: "namespaceFromContext q = ns" "ns \<noteq> []" "k = serverKey ns q"
    and gs: "gobjs s k = Some gs" "DeletionTimestamp (gsMeta gs) = None"
  shows "(\<forall>c st'. power_target c (gsState gs) = Some st' \<and> st' \<noteq> gsState gs \<longrightarrow>
      (\<exists>gs' s'. run_state (power_handler srv c q) s = (respondJSON 200 (gameServerToResponse gs'), s') \<and>
        gobjs s' = (gobjs s)(k \<mapsto> gs') \<and> gsState gs' = st' \<and> pobjs s' = pobjs s \<and>
        \<not> notified lib k (gobjs s) (pobjs s) (gobjs s') (pobjs s') \<and>
        k \<in> set (requestsOfChange setupDNS KindGameServer gsMeta (gobjs s k) (gobjs s' k)))) \<and>
    (\<exists>s'. run_state (handleDeleteGameServer srv q) s = (respondStatus 204, s') \<and>
        notified lib k (gobjs s) (pobjs s) (gobjs s') (pobjs s') \<and>
        k \<in> set (requestsOfChange setupDNS KindGameServer gsMeta (gobjs s k) (gobjs s' k)))"
proof (intro conjI allI impI)
  have get: "run_state (kget (gameservers (Client r)) k) s = (Inr gs, s)"
    using w gs(1) by (meson watched_cluster_def healthy_cluster_def status_store.axioms(1) object_store.get_found)
  note defs = power_handler_def handleStartGameServer_def handleStopGameServer_def handleRestartGameServer_def
    handleDeleteGameServer_def withNamespace_def fetchGameServer_def ns(1,2) srv get[unfolded ns(3)]
  {
    fix c st'
    assume c: "power_target c (gsState gs) = Some st' \<and> st' \<noteq> gsState gs"
    then have "run_state (power_handler srv c q) s = run_state (putState srv st' gs) s"
      by (cases c) (auto simp: defs Let_def split: if_splits)
    moreover obtain gs' s' where put: "run_state (putState srv st' gs) s = (respondJSON 200 (gameServerToResponse gs'), s')"
        "gobjs s' = (gobjs s)(k \<mapsto> gs')" "pobjs s' = pobjs s" "gsState gs' = st'"
        "\<not> notified lib k (gobjs s) (pobjs s) (gobjs s') (pobjs s')"
      using watched_cluster.putState_unnoticed[OF w srv gs(1), of st'] by blast
    moreover from put c have "gobjs s' k \<noteq> Some gs" by auto
    then have "k \<in> set (requestsOfChange setupDNS KindGameServer gsMeta (gobjs s k) (gobjs s' k))"
      by (rule watched_cluster.dns_notified[OF w gs(1)])
    ultimately show "\<exists>gs' s'. run_state (power_handler srv c q) s = (respondJSON 200 (gameServerToResponse gs'), s') \<and>
        gobjs s' = (gobjs s)(k \<mapsto> gs') \<and> gsState gs' = st' \<and> pobjs s' = pobjs s \<and>
        \<not> notified lib k (gobjs s) (pobjs s) (gobjs s') (pobjs s') \<and>
        k \<in> set (requestsOfChange setupDNS KindGameServer gsMeta (gobjs s k) (gobjs s' k))"
      by (intro exI[of _ gs'] exI[of _ s']) simp
  }
  from watched_cluster.delete_changes[OF w gs, of None] obtain s' where
    d: "run_state (kdelete (gameservers (Client r)) gs None) s = (Inr (), s')"
      "gobjs s' k = None \<or> (\<exists>gs'. gobjs s' k = Some gs' \<and> Generation (gsMeta gs') \<noteq> Generation (gsMeta gs))" by blast
  then have "run_state (handleDeleteGameServer srv q) s = (respondStatus 204, s')"
    by (simp add: defs Let_def)
  moreover from d(2) have "gobjs s' k \<noteq> Some gs" by auto
  then have "k \<in> set (requestsOfChange setupDNS KindGameServer gsMeta (gobjs s k) (gobjs s' k))"
    by (rule watched_cluster.dns_notified[OF w gs(1)])
  ultimately show "\<exists>s'. run_state (handleDeleteGameServer srv q) s = (respondStatus 204, s') \<and>
        notified lib k (gobjs s) (pobjs s) (gobjs s') (pobjs s') \<and>
        k \<in> set (requestsOfChange setupDNS KindGameServer gsMeta (gobjs s k) (gobjs s' k))"
    using watched_cluster.noticed[OF w gs(1) d(2), of "pobjs s" "pobjs s'"] by (intro exI[of _ s']) simp
qed

section \<open>The reference cluster\<close>

interpretation watched: watched_cluster cluster_reconciler "store_find KGameServer" "store_find KPod"
    "\<lambda>x. (user_meta (podMeta x), podSpec x)" cClock clusterPredicates
proof (rule watched_cluster.intro)
  show "healthy_cluster cluster_reconciler (store_find KGameServer) server_content (store_find KPod)
      (\<lambda>x. (user_meta (podMeta x), podSpec x)) cClock" by (rule healthy.healthy_cluster_axioms)
  show "generation_store (gameservers (Client cluster_reconciler)) (store_find KGameServer) gsMeta server_content gsStatus"
    using kgs.gen.generation_store_axioms by simp
  show "watch_predicates clusterPredicates" by (rule kpred.watch_predicates_axioms)
qed


theorem request_noticed_witness:
  "\<exists>s' gs'. run_state (power_handler demoServer Stop (aliceRequest [(''name'', ''mc'')] None)) (demoCluster GameServerStateReady) =
      (respondJSON 200 (gameServerToResponse gs'), s') \<and> store_find KGameServer s' demoKey = Some gs' \<and>
      gsState gs' = GameServerStateShutdown \<and> store_find KPod s' demoKey = Some demoPod \<and>
      \<not> notified clusterPredicates demoKey (store_find KGameServer (demoCluster GameServerStateReady))
        (store_find KPod (demoCluster GameServerStateReady)) (store_find KGameServer s') (store_find KPod s')"
proof -
  have t: "power_target Stop (gsState (demoGS GameServerStateReady)) = Some GameServerStateShutdown"
    "GameServerStateShutdown \<noteq> gsState (demoGS GameServerStateReady)" by (simp_all add: demoGS_def)
  have "gameservers (srvClient demoServer) = gameservers (Client cluster_reconciler)"
    "DeletionTimestamp (gsMeta (demoGS GameServerStateReady)) = None"
    "store_find KPod (demoCluster GameServerStateReady) demoKey = Some demoPod"
    by (simp, code_simp, code_simp)
  note noticed = request_noticed[OF watched.watched_cluster_axioms this(1) _ _ _ store_find_demo this(2),
      of "aliceRequest [(''name'', ''mc'')] None" "''user-alice''"]
  from noticed[THEN conjunct1, rule_format, of Stop GameServerStateShutdown] t serverKey_alice
  obtain gs' s' where "run_state (power_handler demoServer Stop (aliceRequest [(''name'', ''mc'')] None)) (demoCluster GameServerStateReady) =
      (respondJSON 200 (gameServerToResponse gs'), s')" "store_find KGameServer s' = (store_find KGameServer (demoCluster GameServerStateReady))(demoKey \<mapsto> gs')"
      "gsState gs' = GameServerStateShutdown" "store_find KPod s' = store_find KPod (demoCluster GameServerStateReady)"
      "\<not> notified clusterPredicates demoKey (store_find KGameServer (demoCluster GameServerStateReady))
        (store_find KPod (demoCluster GameServerStateReady)) (store_find KGameServer s') (store_find KPod s')"
    by auto
  with \<open>store_find KPod _ _ = _\<close> show ?thesis by (intro exI[of _ s'] exI[of _ gs']) simp
qed

end
