(* ===== verification/GameServerCreation.thy ===== *)
theory GameServerCreation
  imports GameServerRefinement
begin

text \<open>
  The \<^verbatim>\<open>Creating\<close> step of the GameServer controller on a healthy cluster, which completes the refinement:
  the server is admitted or refused by the two limits, its namespace, volume and Pod are made, and it moves on
  to \<^verbatim>\<open>Starting\<close>. Together with the other steps this gives the way of a new server to \<^verbatim>\<open>Ready\<close>.
\<close>

section \<open>The specification\<close>

definition servers_in :: "(key \<Rightarrow> GameServer option) \<Rightarrow> string option \<Rightarrow> nat" where
  "servers_in g ns = card {k. g k \<noteq> None \<and> (ns = None \<or> ns = Some (keyNamespace k))}"

definition creating_state :: "AdminConfig \<Rightarrow> GameServer \<Rightarrow> (key \<Rightarrow> GameServer option) \<Rightarrow> GameServerState" where
  "creating_state cfg gs g = (let owner = mget (Labels (gsMeta gs)) LabelOwner in
     if owner = [] \<or> int (servers_in g None) > MaxServersGlobal cfg \<or>
       int (servers_in g (Some (UserNamespace owner))) > MaxServersPerUser cfg
     then GameServerStateError else GameServerStateStarting)"

text \<open>The game server may become the controller of an object with these metadata.\<close>

definition adoptable :: "'s Reconciler \<Rightarrow> GameServer \<Rightarrow> ObjectMeta \<Rightarrow> bool" where
  "adoptable r gs m \<longleftrightarrow> DeletionTimestamp m = None \<and>
     (\<forall>ls. \<exists>m'. SetControllerReference (Runtime r) gs (m\<lparr>Labels := ls\<rparr>) = Inr m')"

lemma adoptable_self: "adoptable r gs m \<Longrightarrow> \<exists>m'. SetControllerReference (Runtime r) gs m = Inr m'"
  unfolding adoptable_def by (drule conjunct2, drule spec[of _ "Labels m"]) simp

definition runs_server :: "'s Reconciler \<Rightarrow> GameServer \<Rightarrow> Pod \<Rightarrow> bool" where
  "runs_server r gs pod \<longleftrightarrow> podSpec pod = gsPodSpec (RangeKeys (Runtime r)) gs \<and>
     Labels (podMeta pod) = GameServerLabels (mget (Labels (gsMeta gs)) LabelOwner) (GameType (gsSpec gs))"

section \<open>A cluster that provisions\<close>

text \<open>Applying a change that always succeeds and keeps the identity of the object.\<close>

definition applies :: "('s, 'o) kapi \<Rightarrow> ('o \<Rightarrow> ObjectMeta) \<Rightarrow> ('s \<Rightarrow> 'w) \<Rightarrow> bool" where
  "applies api meta view \<longleftrightarrow> (\<forall>x f s. (\<forall>y. \<exists>z. f y = Inr z \<and> key_of (meta z) = key_of (meta y) \<and>
     ResourceVersion (meta z) = ResourceVersion (meta y)) \<longrightarrow>
     (\<exists>z s'. run_state (kcou api x f) s = (Inr z, s') \<and> view s' = view s))"

lemma appliesD:
  assumes "applies api meta view" and "\<And>y. \<exists>z. f y = Inr z \<and> key_of (meta z) = key_of (meta y) \<and>
     ResourceVersion (meta z) = ResourceVersion (meta y)"
  shows "\<exists>z s'. run_state (kcou api x f) s = (Inr z, s') \<and> view s' = view s"
    and "\<exists>s'. run_state (discard (kcou api x f)) s = (Inr (), s') \<and> view s' = view s"
proof -
  show "\<exists>z s'. run_state (kcou api x f) s = (Inr z, s') \<and> view s' = view s"
    using assms unfolding applies_def by blast
  then show "\<exists>s'. run_state (discard (kcou api x f)) s = (Inr (), s') \<and> view s' = view s"
    by (auto simp: discard_def)
qed

locale provisioning_cluster =
  healthy_cluster r gobjs server_content pobjs pod_content clock +
  pvcapi: object_store "pvcs (Client r)" vobjs pvcMeta vcontent
  for r :: "'s Reconciler" and gobjs :: "'s \<Rightarrow> key \<Rightarrow> GameServer option"
    and pobjs :: "'s \<Rightarrow> key \<Rightarrow> Pod option" and clock :: "'s \<Rightarrow> gotime"
    and vobjs :: "'s \<Rightarrow> key \<Rightarrow> PVC option" and vcontent :: "PVC \<Rightarrow> 'c" +
  fixes config :: "'s \<Rightarrow> AdminConfig"
  assumes config_loaded: "run_state (LoadAdminConfig (Client r) (Runtime r) (operatorNs r)) s = (Inr (config s), s)"
    and config_frame: "preserves (\<lambda>s. (vobjs s, config s) = c) (kstatus (gameservers (Client r)) g)"
      "preserves (\<lambda>s. (vobjs s, config s) = c) (Event (Runtime r) k t re m)"
    and finalizers: "ContainsFinalizer (Runtime r) mt fin \<longleftrightarrow> fin \<in> set (Finalizers mt)"
    and apply_namespace: "applies (namespaces (Client r)) nsMeta (\<lambda>s. (gobjs s, pobjs s, vobjs s))"
    and apply_quota: "applies (resourcequotas (Client r)) rqMeta (\<lambda>s. (gobjs s, pobjs s, vobjs s))"
    and apply_limits: "applies (limitranges (Client r)) lrMeta (\<lambda>s. (gobjs s, pobjs s, vobjs s))"
    and apply_policy: "applies (networkpolicies (Client r)) npMeta (\<lambda>s. (gobjs s, pobjs s, vobjs s))"
    and pvc_frame: "preserves (\<lambda>s. (gobjs s, pobjs s) = w) (kcou (pvcs (Client r)) v fv)"
    and pod_frame: "preserves (\<lambda>s. gobjs s = q) (kcou (pods (Client r)) x f)"
    and owner_ref: "SetControllerReference (Runtime r) gs mt = Inr mt' \<Longrightarrow> \<exists>refs. mt' = mt\<lparr>OwnerReferences := refs\<rparr>"
    and owner_new: "OwnerReferences mt = [] \<Longrightarrow> \<exists>mt'. SetControllerReference (Runtime r) gs mt = Inr mt'"
begin

lemma ensureUserNamespace_ok:
  obtains s' where "run_state (ensureUserNamespace r owner cfg) s = (Inr (), s')"
    "gobjs s' = gobjs s" "pobjs s' = pobjs s" "vobjs s' = vobjs s"
proof -
  let ?ns = "UserNamespace owner" and ?v = "\<lambda>s. (gobjs s, pobjs s, vobjs s)"
  have "\<exists>z s'. run_state (kcou (namespaces (Client r)) \<lparr>nsMeta = NewMeta [] ?ns []\<rparr> (namespaceMutate owner)) s = (Inr z, s')
      \<and> ?v s' = ?v s"
    by (rule appliesD(1)[OF apply_namespace]) (simp add: namespaceMutate_def key_of_def)
  then obtain z1 s1 where 1: "run_state (kcou (namespaces (Client r)) \<lparr>nsMeta = NewMeta [] ?ns []\<rparr> (namespaceMutate owner)) s = (Inr z1, s1)"
      "?v s1 = ?v s" by blast
  have "\<exists>s'. run_state (ensureResourceQuota r ?ns cfg) s1 = (Inr (), s') \<and> ?v s' = ?v s1"
    unfolding ensureResourceQuota_def by (rule appliesD(2)[OF apply_quota]) simp
  then obtain s2 where 2: "run_state (ensureResourceQuota r ?ns cfg) s1 = (Inr (), s2)" "?v s2 = ?v s1" by blast
  have "\<exists>s'. run_state (ensureLimitRange r ?ns cfg) s2 = (Inr (), s') \<and> ?v s' = ?v s2"
    unfolding ensureLimitRange_def by (rule appliesD(2)[OF apply_limits]) simp
  then obtain s3 where 3: "run_state (ensureLimitRange r ?ns cfg) s2 = (Inr (), s3)" "?v s3 = ?v s2" by blast
  have "\<exists>s'. run_state (ensureNetworkPolicy r ?ns cfg) s3 = (Inr (), s') \<and> ?v s' = ?v s3"
    unfolding ensureNetworkPolicy_def by (rule appliesD(2)[OF apply_policy]) simp
  then obtain s4 where 4: "run_state (ensureNetworkPolicy r ?ns cfg) s3 = (Inr (), s4)" "?v s4 = ?v s3" by blast
  from 1 2 3 4 show thesis
    by (intro that[of s4]) (simp_all add: ensureUserNamespace_def Let_def)
qed

lemma owner_keeps:
  assumes "SetControllerReference (Runtime r) gs m = Inr m'"
  shows "key_of m' = key_of m" "ResourceVersion m' = ResourceVersion m" "Labels m' = Labels m" "user_meta m' = user_meta m"
  using owner_ref[OF assms] by (auto simp: key_of_def user_meta_def)

lemma reconcilePod_ok:
  assumes adopt: "\<And>p. pobjs s (gsKey gs) = Some p \<Longrightarrow> adoptable r gs (podMeta p)"
  obtains s' pod where "run_state (reconcilePod r gs) s = (Inr (), s')" "gobjs s' = gobjs s"
    "pobjs s' = (pobjs s)(gsKey gs \<mapsto> pod)" "runs_server r gs pod"
proof -
  let ?x = "Pod0 (Namespace (gsMeta gs)) (Name (gsMeta gs))"
  have k: "key_of (podMeta ?x) = gsKey gs" by (simp add: Pod0_def key_of_def gsKey_def)
  define p where "p = (case pobjs s (gsKey gs) of None \<Rightarrow> ?x | Some q \<Rightarrow> q)"
  have pk: "key_of (podMeta p) = gsKey gs"
    using k podapi.object_key[of s "gsKey gs"] by (auto simp: p_def split: option.splits)
  have "\<exists>m'. SetControllerReference (Runtime r) gs ((podMeta p)\<lparr>Labels :=
      GameServerLabels (mget (Labels (gsMeta gs)) LabelOwner) (GameType (gsSpec gs))\<rparr>) = Inr m'"
    using adopt owner_new by (auto simp: p_def adoptable_def Pod0_def split: option.splits)
  then obtain m' where m': "SetControllerReference (Runtime r) gs ((podMeta p)\<lparr>Labels :=
      GameServerLabels (mget (Labels (gsMeta gs)) LabelOwner) (GameType (gsSpec gs))\<rparr>) = Inr m'" by blast
  let ?y = "p\<lparr>podMeta := m', podSpec := gsPodSpec (RangeKeys (Runtime r)) gs\<rparr>"
  have y: "podMutate r gs p = Inr ?y" by (simp add: podMutate_def Let_def m')
  have yk: "key_of (podMeta ?y) = gsKey gs" "ResourceVersion (podMeta ?y) = ResourceVersion (podMeta p)"
    using owner_keeps[OF m'] pk by (simp_all add: key_of_def)
  have "\<exists>z result s'. run_state (kcou (pods (Client r)) ?x (podMutate r gs)) s = (Inr (z, result), s') \<and>
      pod_content z = pod_content ?y \<and> pobjs s' = (pobjs s)(gsKey gs \<mapsto> z)"
  proof (cases "pobjs s (gsKey gs)")
    case None
    with podapi.cou_new[of s ?x "podMutate r gs" ?y] k y yk show ?thesis by (force simp: p_def)
  next
    case (Some q)
    with adopt have "DeletionTimestamp (podMeta q) = None" by (simp add: adoptable_def)
    with Some podapi.cou_existing[of s ?x q "podMutate r gs" ?y] k y yk show ?thesis by (simp add: p_def)
  qed
  then obtain z result s1 where z: "run_state (kcou (pods (Client r)) ?x (podMutate r gs)) s = (Inr (z, result), s1)"
    "pod_content z = pod_content ?y" "pobjs s1 = (pobjs s)(gsKey gs \<mapsto> z)" by blast
  obtain s2 where e: "run_state (Event (Runtime r) (gsKey gs) ''Normal'' ''PodReconciled''
      (''Pod '' @ Name (podMeta z) @ '' '' @ result)) s1 = ((), s2)" by (rule run_unit)
  have "gobjs s1 = gobjs s" using preservesD[OF pod_frame _ z(1)] by blast
  moreover have "runs_server r gs z"
    using z(2) owner_keeps(3)[OF m'] by (simp add: runs_server_def user_meta_def)
  ultimately show thesis
    using z event_gs[OF e] e by (intro that[of s2 z]) (simp_all add: reconcilePod_def)
qed

lemma reconcileModPVC_ok:
  assumes adopt: "\<And>v. vobjs s \<lparr>keyNamespace = Namespace (gsMeta gs), keyName = Name (gsMeta gs) @ ''-mods''\<rparr> = Some v \<Longrightarrow>
      adoptable r gs (pvcMeta v)"
  obtains s' where "run_state (reconcileModPVC r gs cfg) s = (Inr (), s')" "gobjs s' = gobjs s" "pobjs s' = pobjs s"
proof -
  let ?x = "\<lparr>pvcMeta = NewMeta (Namespace (gsMeta gs)) (Name (gsMeta gs) @ ''-mods'') [], pvcSpec = None\<rparr>"
  let ?k = "\<lparr>keyNamespace = Namespace (gsMeta gs), keyName = Name (gsMeta gs) @ ''-mods''\<rparr>"
  have k: "key_of (pvcMeta ?x) = ?k" by (simp add: key_of_def)
  define v where "v = (case vobjs s ?k of None \<Rightarrow> ?x | Some q \<Rightarrow> q)"
  have vk: "key_of (pvcMeta v) = ?k" using k pvcapi.object_key[of s ?k] by (auto simp: v_def split: option.splits)
  have "\<exists>m'. SetControllerReference (Runtime r) gs (pvcMeta v) = Inr m'"
    using adoptable_self[OF adopt] owner_new by (auto simp: v_def split: option.splits)
  then obtain m' where m': "SetControllerReference (Runtime r) gs (pvcMeta v) = Inr m'" by blast
  then obtain y where y: "pvcMutate r gs cfg v = Inr y" "pvcMeta y = m'"
    by (auto simp: pvcMutate_def split: if_splits)
  have yk: "key_of (pvcMeta y) = ?k" "ResourceVersion (pvcMeta y) = ResourceVersion (pvcMeta v)"
    using owner_keeps[OF m'] vk y(2) by simp_all
  have "\<exists>z result s'. run_state (kcou (pvcs (Client r)) ?x (pvcMutate r gs cfg)) s = (Inr (z, result), s')"
  proof (cases "vobjs s ?k")
    case None
    with y have "pvcMutate r gs cfg ?x = Inr y" by (simp add: v_def)
    from pvcapi.cou_new[of s ?x "pvcMutate r gs cfg" y, unfolded k, OF None this yk(1)] show ?thesis by blast
  next
    case (Some q)
    with adopt have "DeletionTimestamp (pvcMeta q) = None" by (simp add: adoptable_def)
    with Some pvcapi.cou_existing[of s ?x q "pvcMutate r gs cfg" y] k y yk show ?thesis by (auto simp: v_def)
  qed
  then obtain z result s1 where z: "run_state (kcou (pvcs (Client r)) ?x (pvcMutate r gs cfg)) s = (Inr (z, result), s1)" by blast
  obtain s2 where e: "run_state (Event (Runtime r) (gsKey gs) ''Normal'' ''ModPVCReconciled''
      (''Mod PVC '' @ Name (pvcMeta z) @ '' '' @ result)) s1 = ((), s2)" by (rule run_unit)
  have "(gobjs s1, pobjs s1) = (gobjs s, pobjs s)" using preservesD[OF pvc_frame refl z] .
  with z event_gs[OF e] e show thesis by (intro that[of s2]) (simp_all add: reconcileModPVC_def)
qed

text \<open>A handler that leaves the server in state \<open>st\<close>; a starting server has its Pod.\<close>

definition creates :: "('s, gerr + Result) state \<Rightarrow> 's \<Rightarrow> GameServer \<Rightarrow> GameServerState \<Rightarrow> bool" where
  "creates m s gs st \<longleftrightarrow> (\<exists>res s' gs'. run_state m s = (Inr res, s') \<and> gobjs s' = (gobjs s)(gsKey gs \<mapsto> gs') \<and>
     server_content gs' = server_content gs \<and> gsState gs' = st \<and>
     DeletionTimestamp (gsMeta gs') = DeletionTimestamp (gsMeta gs) \<and>
     (if st = GameServerStateStarting then \<exists>pod. pobjs s' = (pobjs s)(gsKey gs \<mapsto> pod) \<and> runs_server r gs pod
      else pobjs s' = pobjs s))"

lemma creates_refused:
  assumes "gobjs s (gsKey gs) = Some gs" "gsState gs = GameServerStateCreating"
  shows "creates (transitionState r gs GameServerStateError re m) s gs GameServerStateError"
  by (rule transitionState_ok[OF assms(1), of GameServerStateError re m])
    (auto simp: creates_def written_def assms(2) IsValidTransition_def)

lemma createServerObjects_creates:
  assumes gs: "gobjs s (gsKey gs) = Some gs" "gsState gs = GameServerStateCreating"
    and pod: "\<And>p. pobjs s (gsKey gs) = Some p \<Longrightarrow> adoptable r gs (podMeta p)"
    and pvc: "\<And>v. vobjs s \<lparr>keyNamespace = Namespace (gsMeta gs), keyName = Name (gsMeta gs) @ ''-mods''\<rparr> = Some v \<Longrightarrow>
      adoptable r gs (pvcMeta v)"
  shows "creates (createServerObjects r gs owner cfg) s gs GameServerStateStarting"
proof -
  obtain s1 where ens: "run_state (ensureUserNamespace r owner cfg) s = (Inr (), s1)"
    "gobjs s1 = gobjs s" "pobjs s1 = pobjs s" "vobjs s1 = vobjs s" by (rule ensureUserNamespace_ok)
  have "\<exists>s2. run_state (if mget (Annotations (gsMeta gs)) AnnotationModPath \<noteq> []
      then reconcileModPVC r gs cfg else ret (Inr ())) s1 = (Inr (), s2) \<and> gobjs s2 = gobjs s \<and> pobjs s2 = pobjs s"
  proof (cases "mget (Annotations (gsMeta gs)) AnnotationModPath = []")
    case True
    then show ?thesis using ens by simp
  next
    case False
    show ?thesis by (rule reconcileModPVC_ok[of s1 gs cfg]) (use pvc ens False in auto)
  qed
  then obtain s2 where vol: "run_state (if mget (Annotations (gsMeta gs)) AnnotationModPath \<noteq> []
      then reconcileModPVC r gs cfg else ret (Inr ())) s1 = (Inr (), s2)" "gobjs s2 = gobjs s" "pobjs s2 = pobjs s" by blast
  obtain s3 p where p: "run_state (reconcilePod r gs) s2 = (Inr (), s3)" "gobjs s3 = gobjs s2"
    "pobjs s3 = (pobjs s2)(gsKey gs \<mapsto> p)" "runs_server r gs p"
    using reconcilePod_ok[of s2 gs] pod vol(3) by auto
  have "gobjs s3 (gsKey gs) = Some gs" using gs(1) p(2) vol(2) by simp
  moreover have "IsValidTransition (gsState gs) GameServerStateStarting" by (simp add: gs(2) IsValidTransition_def)
  ultimately obtain s4 cs where t: "run_state (transitionState r gs GameServerStateStarting ''PodCreated''
        ''Pod created, waiting for it to become ready'') s3 = (Inr (ResultAfter requeueDelay), s4)"
      "written s3 (gsKey gs) gs (gsStatus (withConditions cs (setState GameServerStateStarting gs))) s4"
    by (rule transitionState_ok[of s3 gs gs GameServerStateStarting "''PodCreated''" "''Pod created, waiting for it to become ready''"]) simp
  from t(2) obtain gs' where "gobjs s4 = (gobjs s)(gsKey gs \<mapsto> gs')" "pobjs s4 = pobjs s3" "server_content gs' = server_content gs"
      "gsState gs' = GameServerStateStarting" "DeletionTimestamp (gsMeta gs') = DeletionTimestamp (gsMeta gs)"
    using p(2) vol(2) by (auto simp: written_def)
  with t(1) ens vol p show ?thesis
    unfolding creates_def createServerObjects_def by (intro exI[of _ "ResultAfter requeueDelay"] exI[of _ s4] exI[of _ gs']) auto
qed

lemma list_servers:
  obtains xs where "run_state (klist (gameservers (Client r)) ns []) s = (Inr xs, s)" "length xs = servers_in (gobjs s) ns"
proof -
  from gsapi.list_objects[of ns "[]" s] obtain xs where xs: "run_state (klist (gameservers (Client r)) ns []) s = (Inr xs, s)" by blast
  from gsapi.list_length[OF xs] that[OF xs] show thesis by (simp add: servers_in_def)
qed

lemma reconcileCreating_creates:
  assumes gs: "gobjs s (gsKey gs) = Some gs" "gsState gs = GameServerStateCreating"
    and pod: "\<And>p. pobjs s (gsKey gs) = Some p \<Longrightarrow> adoptable r gs (podMeta p)"
    and pvc: "\<And>v. vobjs s \<lparr>keyNamespace = Namespace (gsMeta gs), keyName = Name (gsMeta gs) @ ''-mods''\<rparr> = Some v \<Longrightarrow>
      adoptable r gs (pvcMeta v)"
  shows "creates (reconcileCreating r gs) s gs (creating_state (config s) gs (gobjs s))"
proof -
  let ?owner = "mget (Labels (gsMeta gs)) LabelOwner"
  obtain xs where xs: "run_state (klist (gameservers (Client r)) None []) s = (Inr xs, s)" "length xs = servers_in (gobjs s) None"
    by (rule list_servers)
  obtain ys where ys: "run_state (klist (gameservers (Client r)) (Some (UserNamespace ?owner)) []) s = (Inr ys, s)"
    "length ys = servers_in (gobjs s) (Some (UserNamespace ?owner))" by (rule list_servers)
  note steps = creates_refused[OF gs] createServerObjects_creates[OF gs pod pvc]
  have read: "creates (State_Monad.bind m f) s gs st \<longleftrightarrow> creates (f a) s gs st"
    if "run_state m s = (a, s)" for m :: "('s, 'x) state" and f a st
    using that by (simp add: creates_def)
  show ?thesis
    unfolding reconcileCreating_def Let_def
    by (simp add: creating_state_def read[OF config_loaded] read[OF xs(1)] read[OF ys(1)] xs(2) ys(2) steps Let_def)
qed

lemma Reconcile_creates:
  assumes gs: "gobjs s k = Some gs" "DeletionTimestamp (gsMeta gs) = None"
      "ContainsFinalizer (Runtime r) (gsMeta gs) FinalizerName" "gsState gs = GameServerStateCreating"
    and pod: "\<And>p. pobjs s k = Some p \<Longrightarrow> adoptable r gs (podMeta p)"
    and pvc: "\<And>v. vobjs s (k\<lparr>keyName := keyName k @ ''-mods''\<rparr>) = Some v \<Longrightarrow> adoptable r gs (pvcMeta v)"
  shows "creates (Reconcile r k) s gs (creating_state (config s) gs (gobjs s))"
proof -
  from gsapi.object_key[OF gs(1)] have k: "gsKey gs = k" "\<lparr>keyNamespace = Namespace (gsMeta gs), keyName = Name (gsMeta gs) @ ''-mods''\<rparr>
    = k\<lparr>keyName := keyName k @ ''-mods''\<rparr>" by (auto simp: gsKey_def key_of_def)
  have "creates (reconcileCreating r gs) s gs (creating_state (config s) gs (gobjs s))"
    by (rule reconcileCreating_creates) (use gs pod pvc k in auto)
  then obtain res s1 gs' where c: "run_state (reconcileCreating r gs) s = (Inr res, s1)" "gobjs s1 = (gobjs s)(k \<mapsto> gs')"
      "server_content gs' = server_content gs" "gsState gs' = creating_state (config s) gs (gobjs s)"
      "DeletionTimestamp (gsMeta gs') = DeletionTimestamp (gsMeta gs)"
      "if creating_state (config s) gs (gobjs s) = GameServerStateStarting
       then \<exists>pod. pobjs s1 = (pobjs s)(k \<mapsto> pod) \<and> runs_server r gs pod else pobjs s1 = pobjs s"
    unfolding creates_def k by blast
  obtain s2 where g: "run_state (updateGameServerGauge r) s1 = ((), s2)" by (rule run_unit)
  have "(gobjs s2, pobjs s2) = (gobjs s1, pobjs s1)" using preservesD[OF gauge_silent_run refl g] .
  with c g gs gsapi.get_found[OF gs(1)] show ?thesis
    unfolding creates_def k by (intro exI[of _ res] exI[of _ s2] exI[of _ gs']) (simp add: Reconcile_def reconcileFetched_def dispatchState_def)
qed

text \<open>The last two steps of a start: a ready Pod makes the server ready, and its address is recorded.\<close>

lemma starting_to_ready:
  assumes gs: "gobjs s k = Some gs" "DeletionTimestamp (gsMeta gs) = None"
      "ContainsFinalizer (Runtime r) (gsMeta gs) FinalizerName" "gsState gs = GameServerStateStarting"
    and pod: "pobjs s k = Some pod" "pod_up pod"
  obtains s' gs' where "run_state (Reconcile r k) s = (Inr ResultRequeue, s')" "gobjs s' = (gobjs s)(k \<mapsto> gs')"
    "pobjs s' = pobjs s" "server_content gs' = server_content gs" "gsState gs' = GameServerStateReady"
    "DeletionTimestamp (gsMeta gs') = DeletionTimestamp (gsMeta gs)"
proof -
  from gsapi.object_key[OF gs(1)] have k: "gsKey gs = k" by (simp add: gsKey_def)
  let ?t = "transitionState r gs GameServerStateReady ''PodReady'' ''Pod is running and all containers are ready''"
  have "gobjs s (gsKey gs) = Some gs" "IsValidTransition (gsState gs) GameServerStateReady"
    using gs k by (simp_all add: IsValidTransition_def)
  then obtain s1 cs where t: "run_state ?t s = (Inr ResultRequeue, s1)"
      "written s (gsKey gs) gs (gsStatus (withConditions cs (setState GameServerStateReady gs))) s1"
    by (rule transitionState_ok[of s gs gs GameServerStateReady "''PodReady''" "''Pod is running and all containers are ready''"]) simp
  obtain s2 where g: "run_state (updateGameServerGauge r) s1 = ((), s2)" by (rule run_unit)
  have g2: "(gobjs s2, pobjs s2) = (gobjs s1, pobjs s1)" using preservesD[OF gauge_silent_run refl g] .
  from t(2) obtain gs' where w: "gobjs s1 = (gobjs s)(k \<mapsto> gs')" "pobjs s1 = pobjs s" "server_content gs' = server_content gs"
      "gsState gs' = GameServerStateReady" "DeletionTimestamp (gsMeta gs') = DeletionTimestamp (gsMeta gs)" by (auto simp: written_def k)
  have "run_state (reconcileStarting r gs) s = (Inr ResultRequeue, s1)"
    using t(1) podapi.get_found[OF pod(1)] pod(2) by (simp add: reconcileStarting_def k pod_up_def)
  with g gs gsapi.get_found[OF gs(1)] have "run_state (Reconcile r k) s = (Inr ResultRequeue, s2)"
    by (simp add: Reconcile_def reconcileFetched_def dispatchState_def)
  with w g2 show thesis by (intro that[of s2 gs']) simp_all
qed

lemma ready_settles:
  assumes gs: "gobjs s k = Some gs" "DeletionTimestamp (gsMeta gs) = None"
      "ContainsFinalizer (Runtime r) (gsMeta gs) FinalizerName" "gsState gs = GameServerStateReady" "\<not> allocated gs"
    and pod: "pobjs s k = Some pod" "pod_up pod"
  obtains s' gs' where "run_state (Reconcile r k) s = (Inr Result0, s')" "gobjs s' = (gobjs s)(k \<mapsto> gs')"
    "server_content gs' = server_content gs" "gsState gs' = GameServerStateReady" "Address (gsStatus gs') = PodIP (podStatus pod)"
    "StatusPorts (gsStatus gs') = statusPortsOf (Ports (gsSpec gs))"
proof -
  from gsapi.object_key[OF gs(1)] have k: "gsKey gs = k" by (simp add: gsKey_def)
  obtain s1 status where u: "run_state (updateReadyStatus r gs pod) s = (Inr (), s1)" "written s k gs status s1"
    "State status = gsState gs" "Address status = PodIP (podStatus pod)" "StatusPorts status = statusPortsOf (Ports (gsSpec gs))"
    by (rule updateReadyStatus_ok[of s gs gs pod]) (use gs(1) k in auto)
  obtain s2 where g: "run_state (updateGameServerGauge r) s1 = ((), s2)" by (rule run_unit)
  have g2: "(gobjs s2, pobjs s2) = (gobjs s1, pobjs s1)" using preservesD[OF gauge_silent_run refl g] .
  from u(2) obtain gs' where w: "gobjs s1 = (gobjs s)(k \<mapsto> gs')" "server_content gs' = server_content gs" "gsStatus gs' = status"
    by (auto simp: written_def)
  have "run_state (reconcileReady r gs) s = (Inr Result0, s1)"
    using u(1) podapi.get_found[OF pod(1)] pod(2) gs(5) by (simp add: reconcileReady_def k pod_up_def allocated_def)
  with g gs gsapi.get_found[OF gs(1)] have "run_state (Reconcile r k) s = (Inr Result0, s2)"
    by (simp add: Reconcile_def reconcileFetched_def dispatchState_def)
  with w u g2 gs(4) show thesis by (intro that[of s2 gs']) simp_all
qed

lemma content_finalizer:
  "server_content gs' = server_content gs \<Longrightarrow>
    ContainsFinalizer (Runtime r) (gsMeta gs') fin = ContainsFinalizer (Runtime r) (gsMeta gs) fin"
  by (simp add: finalizers user_meta_def)

text \<open>The first step of a new server touches nothing else.\<close>

lemma setCondition_state: "preserves P (setCondition r ty st re m g)"
proof (rule preservesI)
  fix s a s'
  assume "P s" "run_state (setCondition r ty st re m g) s = (a, s')"
  with setCondition_sets[of ty st re m g s] show "P s'" by (auto simp: sets_conditions_def)
qed

lemma initializeState_frame: "preserves (\<lambda>s. pobjs s = p \<and> (vobjs s, config s) = c) (initializeState r gs)"
proof -
  have "preserves (\<lambda>s. pobjs s = p \<and> (vobjs s, config s) = c) (kstatus (gameservers (Client r)) g)" for g
    using preservesD[OF status_frame refl] preservesD[OF config_frame(1) refl] by (intro preservesI) metis
  moreover have "preserves (\<lambda>s. pobjs s = p \<and> (vobjs s, config s) = c) (Event (Runtime r) k ty re m)" for k ty re m
    using event_gs preservesD[OF config_frame(2) refl] by (intro preservesI) metis
  ultimately show ?thesis
    unfolding initializeState_def by (intro preserves_intros setCondition_state)
qed

lemma unset_to_creating:
  assumes gs: "gobjs s k = Some gs" "DeletionTimestamp (gsMeta gs) = None"
      "ContainsFinalizer (Runtime r) (gsMeta gs) FinalizerName" "gsState gs = GameServerStateUnset"
  obtains res s' gs' where "run_state (Reconcile r k) s = (Inr res, s')" "gobjs s' = (gobjs s)(k \<mapsto> gs')"
    "server_content gs' = server_content gs" "gsState gs' = GameServerStateCreating"
    "DeletionTimestamp (gsMeta gs') = None" "pobjs s' = pobjs s" "vobjs s' = vobjs s" "config s' = config s"
proof -
  from gsapi.object_key[OF gs(1)] have k: "gsKey gs = k" by (simp add: gsKey_def)
  from gs gsapi.get_found[OF gs(1)] have eq: "run_state (Reconcile r k) s = run_state (initializeState r gs) s"
    by (simp add: Reconcile_def reconcileFetched_def)
  from initializeState_moves[of s gs] gs(1) k obtain res s' gs' where
    m: "run_state (initializeState r gs) s = (Inr res, s')" "gobjs s' = (gobjs s)(k \<mapsto> gs')"
      "server_content gs' = server_content gs" "gsState gs' = GameServerStateCreating"
      "DeletionTimestamp (gsMeta gs') = DeletionTimestamp (gsMeta gs)" by (auto simp: moves_def)
  have "pobjs s' = pobjs s \<and> (vobjs s', config s') = (vobjs s, config s)"
    using preservesD[OF initializeState_frame _ m(1), of "pobjs s" "(vobjs s, config s)"] by simp
  with m eq gs(2) show thesis by (intro that[of res s' gs']) simp_all
qed

end

lemma servers_in_write: "g k \<noteq> None \<Longrightarrow> servers_in (g(k \<mapsto> gs)) ns = servers_in g ns"
  unfolding servers_in_def by (rule arg_cong[of _ _ card]) auto

lemma creating_state_write:
  "server_content gs' = server_content gs \<Longrightarrow> g k \<noteq> None \<Longrightarrow> creating_state cfg gs' (g(k \<mapsto> x)) = creating_state cfg gs g"
  by (simp add: creating_state_def user_meta_def servers_in_write)

lemma runs_server_content: "server_content gs' = server_content gs \<Longrightarrow> runs_server r gs' = runs_server r gs"
  by (simp add: runs_server_def fun_eq_iff gsPodSpec_def user_meta_def Let_def)

section \<open>Properties\<close>


text \<open>A new server becomes ready. On a healthy cluster a new game server that the limits admit needs two
  reconciles until its Pod exists, with the container of its spec. Whenever from then on its Pod runs with all
  containers ready, two more make it \<^verbatim>\<open>Ready\<close>, with the Pod's address and the ports of its spec in its
  status, and leave the controller at rest.\<close>

theorem startup_converges:
  assumes c: "provisioning_cluster r gobjs pobjs clock vobjs vcontent config"
    and gs: "gobjs s k = Some gs" "DeletionTimestamp (gsMeta gs) = None"
      "ContainsFinalizer (Runtime r) (gsMeta gs) FinalizerName" "gsState gs = GameServerStateUnset" "\<not> allocated gs"
    and new: "pobjs s k = None" "vobjs s (k\<lparr>keyName := keyName k @ ''-mods''\<rparr>) = None"
    and admitted: "creating_state (config s) gs (gobjs s) = GameServerStateStarting"
  shows "\<exists>res1 res2 s1 s2 gs2 pod. run_state (Reconcile r k) s = (Inr res1, s1) \<and> run_state (Reconcile r k) s1 = (Inr res2, s2) \<and>
    gobjs s2 k = Some gs2 \<and> gsState gs2 = GameServerStateStarting \<and> pobjs s2 k = Some pod \<and> runs_server r gs pod \<and>
    (\<forall>s3 pod'. gobjs s3 k = Some gs2 \<and> pobjs s3 k = Some pod' \<and> pod_up pod' \<longrightarrow>
      (\<exists>s4 s5 gs'. run_state (Reconcile r k) s3 = (Inr ResultRequeue, s4) \<and> run_state (Reconcile r k) s4 = (Inr Result0, s5) \<and>
        gobjs s5 k = Some gs' \<and> server_content gs' = server_content gs \<and> gsState gs' = GameServerStateReady \<and>
        Address (gsStatus gs') = PodIP (podStatus pod') \<and> StatusPorts (gsStatus gs') = statusPortsOf (Ports (gsSpec gs))))"
proof -
  note fin = provisioning_cluster.content_finalizer[OF c]
  obtain res1 s1 gs1 where 1: "run_state (Reconcile r k) s = (Inr res1, s1)" "gobjs s1 = (gobjs s)(k \<mapsto> gs1)"
      "server_content gs1 = server_content gs" "gsState gs1 = GameServerStateCreating" "DeletionTimestamp (gsMeta gs1) = None"
      "pobjs s1 = pobjs s" "vobjs s1 = vobjs s" "config s1 = config s"
    by (rule provisioning_cluster.unset_to_creating[OF c gs(1-4)])
  have "creating_state (config s1) gs1 (gobjs s1) = GameServerStateStarting"
    using admitted gs(1) creating_state_write[OF 1(3), of "gobjs s" k "config s" gs1] 1(2,8) by simp
  with provisioning_cluster.Reconcile_creates[OF c, of s1 k gs1] 1 new gs(3) fin[OF 1(3)]
  have "provisioning_cluster.creates r gobjs pobjs (Reconcile r k) s1 gs1 GameServerStateStarting" by simp
  moreover have "gsKey gs1 = k"
    using object_store.object_key[OF status_store.axioms(1)[OF healthy_cluster.axioms(1)[OF provisioning_cluster.axioms(1)[OF c]]], of s1 k gs1] 1(2)
    by (simp add: gsKey_def)
  ultimately obtain res2 s2 gs2 pod where 2: "run_state (Reconcile r k) s1 = (Inr res2, s2)" "gobjs s2 = (gobjs s1)(k \<mapsto> gs2)"
      "server_content gs2 = server_content gs" "gsState gs2 = GameServerStateStarting" "DeletionTimestamp (gsMeta gs2) = None"
      "pobjs s2 = (pobjs s1)(k \<mapsto> pod)" "runs_server r gs pod"
    unfolding provisioning_cluster.creates_def[OF c] using 1(3,5) runs_server_content[OF 1(3), of r] by (auto split: if_splits)
  have "\<exists>s4 s5 gs'. run_state (Reconcile r k) s3 = (Inr ResultRequeue, s4) \<and> run_state (Reconcile r k) s4 = (Inr Result0, s5) \<and>
        gobjs s5 k = Some gs' \<and> server_content gs' = server_content gs \<and> gsState gs' = GameServerStateReady \<and>
        Address (gsStatus gs') = PodIP (podStatus pod') \<and> StatusPorts (gsStatus gs') = statusPortsOf (Ports (gsSpec gs))"
    if 3: "gobjs s3 k = Some gs2" "pobjs s3 k = Some pod'" "pod_up pod'" for s3 pod'
  proof -
    obtain s4 gs4 where 4: "run_state (Reconcile r k) s3 = (Inr ResultRequeue, s4)" "gobjs s4 = (gobjs s3)(k \<mapsto> gs4)"
        "pobjs s4 = pobjs s3" "server_content gs4 = server_content gs2" "gsState gs4 = GameServerStateReady"
        "DeletionTimestamp (gsMeta gs4) = DeletionTimestamp (gsMeta gs2)"
      by (rule provisioning_cluster.starting_to_ready[OF c 3(1) 2(5) _ 2(4) 3(2,3)]) (use gs(3) fin[OF 2(3)] in simp)
    have f4: "server_content gs4 = server_content gs" using 4(4) 2(3) by simp
    then have "\<not> allocated gs4" using gs(5) by (simp add: allocated_def user_meta_def)
    then obtain s5 gs5 where "run_state (Reconcile r k) s4 = (Inr Result0, s5)" "gobjs s5 = (gobjs s4)(k \<mapsto> gs5)"
        "server_content gs5 = server_content gs4" "gsState gs5 = GameServerStateReady" "Address (gsStatus gs5) = PodIP (podStatus pod')"
        "StatusPorts (gsStatus gs5) = statusPortsOf (Ports (gsSpec gs4))"
      by (rule provisioning_cluster.ready_settles[OF c, of s4 k gs4 pod', rotated 4])
        (use 4 3 2(5) gs(3) fin[OF f4] in simp_all)
    with 4(1) f4 show ?thesis by (intro exI[of _ s4] exI[of _ s5] exI[of _ gs5]) simp
  qed
  with 1(1) 2 show ?thesis by (intro exI[of _ res1] exI[of _ res2] exI[of _ s1] exI[of _ s2] exI[of _ gs2] exI[of _ pod]) simp
qed

section \<open>The reference cluster provisions\<close>

lemma preserves_view: "(\<And>s. view (snd (run_state m s)) = view s) \<Longrightarrow> preserves (\<lambda>s. view s = w) m"
  by (simp add: preserves_def)

context kind_laws
begin

lemma applies_store:
  assumes "\<And>xs c. view (kPut K xs c) = view c" "\<And>c. view (kBump K c) = view c"
  shows "applies (store_api K) (kMeta K) view"
  unfolding applies_def
proof (intro allI impI)
  fix x :: 'o and s and f :: "'o \<Rightarrow> gerr + 'o"
  assume f: "\<forall>y. \<exists>z. f y = Inr z \<and> key_of (kMeta K z) = key_of (kMeta K y) \<and>
     ResourceVersion (kMeta K z) = ResourceVersion (kMeta K y)"
  have views: "view (store_put K y s) = view s" "view (store_remove K k s) = view s" for y k
    using assms by (simp_all add: store_put_def store_remove_def)
  show "\<exists>z s'. run_state (kcou (store_api K) x f) s = (Inr z, s') \<and> view s' = view s"
  proof (cases "store_find K s (key_of (kMeta K x))")
    case None
    moreover obtain y where "f x = Inr y" "key_of (kMeta K y) = key_of (kMeta K x)" using f by blast
    ultimately show ?thesis by (simp add: store_cou_def store_create_def Let_def views)
  next
    case (Some cur)
    moreover obtain y where "f cur = Inr y" "key_of (kMeta K y) = key_of (kMeta K x)"
        "ResourceVersion (kMeta K y) = ResourceVersion (kMeta K cur)"
      using f store_find_key[OF Some] by metis
    ultimately show ?thesis by (simp add: store_cou_def store_update_def Let_def views)
  qed
qed

end

interpretation kpvc: kind_laws KPVC "\<lambda>x. (user_meta (pvcMeta x), pvcSpec x)" "\<lambda>x. ()"
  by unfold_locales (simp_all add: kind_defs)

interpretation kns: kind_laws KKNamespace "\<lambda>x. user_meta (nsMeta x)" "\<lambda>x. ()"
  by unfold_locales (simp_all add: kind_defs)

interpretation krq: kind_laws KResourceQuota "\<lambda>x. (user_meta (rqMeta x), Hard x)" "\<lambda>x. ()"
  by unfold_locales (simp_all add: kind_defs)

interpretation klr: kind_laws KLimitRange "\<lambda>x. (user_meta (lrMeta x), lrLimits x)" "\<lambda>x. ()"
  by unfold_locales (simp_all add: kind_defs)

interpretation knp: kind_laws KNetworkPolicy "\<lambda>x. (user_meta (npMeta x), Ingress x, Egress x)" "\<lambda>x. ()"
  by unfold_locales (simp_all add: kind_defs)

definition cluster_config :: "cluster \<Rightarrow> AdminConfig" where
  "cluster_config c = (case store_find KConfigMap c \<lparr>keyNamespace = ''kterodactyl-system'', keyName = adminConfigMapName\<rparr> of
     None \<Rightarrow> DefaultAdminConfig cluster_runtime
   | Some cm \<Rightarrow> applyConfigMap cluster_runtime (cmData cm) (DefaultAdminConfig cluster_runtime))"

text \<open>The views of the cluster depend on their own lists of objects only.\<close>

lemma cluster_views:
  "cGameServers c' = cGameServers c \<Longrightarrow> cPods c' = cPods c \<Longrightarrow> cPVCs c' = cPVCs c \<Longrightarrow>
    (store_find KGameServer c', store_find KPod c', store_find KPVC c') = (store_find KGameServer c, store_find KPod c, store_find KPVC c)"
  "cPVCs c' = cPVCs c \<Longrightarrow> cConfigMaps c' = cConfigMaps c \<Longrightarrow>
    (store_find KPVC c', cluster_config c') = (store_find KPVC c, cluster_config c)"
  "cGameServers c' = cGameServers c \<Longrightarrow> cPods c' = cPods c \<Longrightarrow>
    (store_find KGameServer c', store_find KPod c') = (store_find KGameServer c, store_find KPod c)"
  by (simp_all add: store_find_def kind_defs fun_eq_iff cluster_config_def)

lemma cou_frames:
  "cGameServers (snd (store_cou KPVC x f c)) = cGameServers c" "cPods (snd (store_cou KPVC x f c)) = cPods c"
  "cGameServers (snd (store_cou KPod y g c)) = cGameServers c"
  "cPVCs (snd (store_status KGameServer z c)) = cPVCs c" "cConfigMaps (snd (store_status KGameServer z c)) = cConfigMaps c"
  by (simp_all add: store_cou_def store_create_def store_update_def store_status_def store_put_def store_remove_def kind_defs
      Let_def split: option.split sum.split)

lemma provision_frames:
  "cGameServers (kPut KKNamespace a c) = cGameServers c" "cPods (kPut KKNamespace a c) = cPods c" "cPVCs (kPut KKNamespace a c) = cPVCs c"
  "cGameServers (kPut KResourceQuota b c) = cGameServers c" "cPods (kPut KResourceQuota b c) = cPods c" "cPVCs (kPut KResourceQuota b c) = cPVCs c"
  "cGameServers (kPut KLimitRange d c) = cGameServers c" "cPods (kPut KLimitRange d c) = cPods c" "cPVCs (kPut KLimitRange d c) = cPVCs c"
  "cGameServers (kPut KNetworkPolicy e c) = cGameServers c" "cPods (kPut KNetworkPolicy e c) = cPods c" "cPVCs (kPut KNetworkPolicy e c) = cPVCs c"
  "kMeta KKNamespace = nsMeta" "kMeta KResourceQuota = rqMeta" "kMeta KLimitRange = lrMeta" "kMeta KNetworkPolicy = npMeta"
  "cGameServers (kBump KKNamespace c) = cGameServers c" "cPods (kBump KKNamespace c) = cPods c" "cPVCs (kBump KKNamespace c) = cPVCs c"
  "cGameServers (kBump KResourceQuota c) = cGameServers c" "cPods (kBump KResourceQuota c) = cPods c" "cPVCs (kBump KResourceQuota c) = cPVCs c"
  "cGameServers (kBump KLimitRange c) = cGameServers c" "cPods (kBump KLimitRange c) = cPods c" "cPVCs (kBump KLimitRange c) = cPVCs c"
  "cGameServers (kBump KNetworkPolicy c) = cGameServers c" "cPods (kBump KNetworkPolicy c) = cPods c" "cPVCs (kBump KNetworkPolicy c) = cPVCs c"
  by (simp_all add: kind_defs)

interpretation provisioning: provisioning_cluster cluster_reconciler "store_find KGameServer" "store_find KPod" cClock
    "store_find KPVC" "\<lambda>x. (user_meta (pvcMeta x), pvcSpec x)" cluster_config
proof (intro provisioning_cluster.intro provisioning_cluster_axioms.intro)
  show "healthy_cluster cluster_reconciler (store_find KGameServer) server_content (store_find KPod) pod_content cClock"
    by (rule healthy.healthy_cluster_axioms)
  show "object_store (pvcs (Client cluster_reconciler)) (store_find KPVC) pvcMeta (\<lambda>x. (user_meta (pvcMeta x), pvcSpec x))"
    using kpvc.st.object_store_axioms by (simp add: KPVC_def)
  let ?view = "\<lambda>s. (store_find KGameServer s, store_find KPod s, store_find KPVC s)"
  show "applies (namespaces (Client cluster_reconciler)) nsMeta ?view"
    using kns.applies_store[of ?view, OF cluster_views(1) cluster_views(1)] by (simp add: provision_frames)
  show "applies (resourcequotas (Client cluster_reconciler)) rqMeta ?view"
    using krq.applies_store[of ?view, OF cluster_views(1) cluster_views(1)] by (simp add: provision_frames)
  show "applies (limitranges (Client cluster_reconciler)) lrMeta ?view"
    using klr.applies_store[of ?view, OF cluster_views(1) cluster_views(1)] by (simp add: provision_frames)
  show "applies (networkpolicies (Client cluster_reconciler)) npMeta ?view"
    using knp.applies_store[of ?view, OF cluster_views(1) cluster_views(1)] by (simp add: provision_frames)
  show "run_state (LoadAdminConfig (Client cluster_reconciler) (Runtime cluster_reconciler) (operatorNs cluster_reconciler)) s =
      (Inr (cluster_config s), s)" for s
    by (simp add: LoadAdminConfig_def cluster_config_def operatorNs_def cluster_reconciler_def split: option.split)
  show "preserves (\<lambda>s. (store_find KPVC s, cluster_config s) = c) (kstatus (gameservers (Client cluster_reconciler)) g)" for c g
    by (rule preserves_view) (simp only: cluster_reconciler_simps cluster_client_simps run_store_api cluster_views(2)[OF cou_frames(4,5)])
  show "preserves (\<lambda>s. (store_find KPVC s, cluster_config s) = c) (Event (Runtime cluster_reconciler) k ty re m)" for c k ty re m
    by (rule preserves_view, rule cluster_views(2)) (simp_all add: cluster_runtime_def)
  show "preserves (\<lambda>s. (store_find KGameServer s, store_find KPod s) = w) (kcou (pvcs (Client cluster_reconciler)) v f)" for w v f
    by (rule preserves_view) (simp only: cluster_reconciler_simps cluster_client_simps run_store_api cluster_views(3)[OF cou_frames(1,2)])
  show "preserves (\<lambda>s. store_find KGameServer s = q) (kcou (pods (Client cluster_reconciler)) x f)" for q x f
    by (rule preserves_view) (simp only: cluster_reconciler_simps cluster_client_simps run_store_api store_find_cong(1)[OF cou_frames(3)])
  show "\<exists>refs. mt' = mt\<lparr>OwnerReferences := refs\<rparr>"
    if "SetControllerReference (Runtime cluster_reconciler) gs mt = Inr mt'" for gs mt mt'
  proof (cases "controllerRef gs \<in> set (OwnerReferences mt)")
    case True
    with that have "mt' = mt\<lparr>OwnerReferences := OwnerReferences mt\<rparr>"
      by (simp add: cluster_runtime_def setControllerReference_def split: if_splits)
    then show ?thesis ..
  next
    case False
    with that show ?thesis by (auto simp: cluster_runtime_def setControllerReference_def split: if_splits)
  qed
qed (simp_all add: cluster_runtime_def setControllerReference_def)

section \<open>A concrete start\<close>

definition newCluster :: "GameServerState \<Rightarrow> cluster" where
  "newCluster st = cluster0\<lparr>cGameServers := [demoGS st]\<rparr>"

lemma servers_in_store: "servers_in (store_find K c) ns =
    length (remdups (filter (\<lambda>k. ns = None \<or> ns = Some (keyNamespace k)) (map (\<lambda>x. key_of (kMeta K x)) (kObjs K c))))"
proof -
  have "{k. store_find K c k \<noteq> None \<and> (ns = None \<or> ns = Some (keyNamespace k))} =
      set (remdups (filter (\<lambda>k. ns = None \<or> ns = Some (keyNamespace k)) (map (\<lambda>x. key_of (kMeta K x)) (kObjs K c))))"
    by (auto simp: store_find_def find_None_iff)
  then show ?thesis unfolding servers_in_def by (simp only: distinct_card[OF distinct_remdups])
qed

lemma new_admitted:
  "creating_state (cluster_config (newCluster st)) (demoGS st) (store_find KGameServer (newCluster st)) = GameServerStateStarting"
proof -
  have "cluster_config (newCluster st) = DefaultAdminConfig cluster_runtime"
    by (simp add: cluster_config_def newCluster_def cluster0_def store_find_def kind_defs)
  moreover have "kObjs KGameServer (newCluster st) = [demoGS st]" by (simp add: newCluster_def kind_defs)
  moreover have "mget (Labels (gsMeta (demoGS st))) LabelOwner \<noteq> []"
    by (simp add: demoGS_def demoMeta_def) code_simp
  moreover have "MaxServersGlobal (DefaultAdminConfig cluster_runtime) \<ge> 1" "MaxServersPerUser (DefaultAdminConfig cluster_runtime) \<ge> 1"
    by (simp_all add: DefaultAdminConfig_def) code_simp+
  ultimately show ?thesis by (simp add: creating_state_def servers_in_store Let_def)
qed


theorem startup_converges_witness:
  "\<exists>res1 res2 s1 s2 gs2 pod. run_state (Reconcile cluster_reconciler demoKey) (newCluster GameServerStateUnset) = (Inr res1, s1) \<and>
     run_state (Reconcile cluster_reconciler demoKey) s1 = (Inr res2, s2) \<and> store_find KGameServer s2 demoKey = Some gs2 \<and>
     gsState gs2 = GameServerStateStarting \<and> store_find KPod s2 demoKey = Some pod \<and>
     runs_server cluster_reconciler (demoGS GameServerStateUnset) pod"
proof -
  let ?c = "newCluster GameServerStateUnset" and ?g = "demoGS GameServerStateUnset"
  have "store_find KGameServer ?c demoKey = Some ?g" "DeletionTimestamp (gsMeta ?g) = None"
    "ContainsFinalizer (Runtime cluster_reconciler) (gsMeta ?g) FinalizerName" "gsState ?g = GameServerStateUnset" "\<not> allocated ?g"
    "store_find KPod ?c demoKey = None" "store_find KPVC ?c (demoKey\<lparr>keyName := keyName demoKey @ ''-mods''\<rparr>) = None"
    by code_simp+
  note start = startup_converges[OF provisioning.provisioning_cluster_axioms, where s = ?c and k = demoKey and gs = ?g,
      OF this new_admitted[of GameServerStateUnset]]
  from start show ?thesis by (elim exE conjE) (intro exI conjI, assumption+)
qed

end
