(* ===== verification/OperatorMain.thy ===== *)
theory OperatorMain
  imports Startup Operator
begin

text \<open>
  The process: \<^verbatim>\<open>cmd/main.go\<close> from the command line to the start of the manager. Flags are parsed as Go's \<^verbatim>\<open>flag\<close>
  package does; the flags that libraries register on the same command line, the manager and the creation of
  clients are arguments. A run gives the exit code of the process.
\<close>

section \<open>Flags\<close>

definition ParseBool :: "string \<Rightarrow> bool option" where
  "ParseBool s = (if s \<in> {''1'', ''t'', ''T'', ''TRUE'', ''true'', ''True''} then Some True
     else if s \<in> {''0'', ''f'', ''F'', ''FALSE'', ''false'', ''False''} then Some False else None)"

record Flags =
  metricsAddr :: string
  probeAddr :: string
  enableLeaderElection :: bool
  secureMetrics :: bool
  webhookCertPath :: string
  webhookCertName :: string
  webhookCertKey :: string
  metricsCertPath :: string
  metricsCertName :: string
  metricsCertKey :: string
  apiBindAddress :: string
  enableHTTP2 :: bool
  libraryFlags :: gomap

definition DefaultFlags :: Flags where
  "DefaultFlags = \<lparr>metricsAddr = ''0'', probeAddr = '':8081'', enableLeaderElection = False, secureMetrics = True,
     webhookCertPath = [], webhookCertName = ''tls.crt'', webhookCertKey = ''tls.key'',
     metricsCertPath = [], metricsCertName = ''tls.crt'', metricsCertKey = ''tls.key'',
     apiBindAddress = '':8080'', enableHTTP2 = False, libraryFlags = []\<rparr>"

text \<open>The flags of \<^verbatim>\<open>main\<close>: how a value is stored.\<close>

datatype flag_var = StringFlag "string \<Rightarrow> Flags \<Rightarrow> Flags" | BoolFlag "bool \<Rightarrow> Flags \<Rightarrow> Flags"

definition mainFlags :: "(string \<times> flag_var) list" where
  "mainFlags = [
     (''metrics-bind-address'', StringFlag (\<lambda>v f. f\<lparr>metricsAddr := v\<rparr>)),
     (''health-probe-bind-address'', StringFlag (\<lambda>v f. f\<lparr>probeAddr := v\<rparr>)),
     (''leader-elect'', BoolFlag (\<lambda>v f. f\<lparr>enableLeaderElection := v\<rparr>)),
     (''metrics-secure'', BoolFlag (\<lambda>v f. f\<lparr>secureMetrics := v\<rparr>)),
     (''webhook-cert-path'', StringFlag (\<lambda>v f. f\<lparr>webhookCertPath := v\<rparr>)),
     (''webhook-cert-name'', StringFlag (\<lambda>v f. f\<lparr>webhookCertName := v\<rparr>)),
     (''webhook-cert-key'', StringFlag (\<lambda>v f. f\<lparr>webhookCertKey := v\<rparr>)),
     (''metrics-cert-path'', StringFlag (\<lambda>v f. f\<lparr>metricsCertPath := v\<rparr>)),
     (''metrics-cert-name'', StringFlag (\<lambda>v f. f\<lparr>metricsCertName := v\<rparr>)),
     (''metrics-cert-key'', StringFlag (\<lambda>v f. f\<lparr>metricsCertKey := v\<rparr>)),
     (''api-bind-address'', StringFlag (\<lambda>v f. f\<lparr>apiBindAddress := v\<rparr>)),
     (''enable-http2'', BoolFlag (\<lambda>v f. f\<lparr>enableHTTP2 := v\<rparr>))]"

text \<open>A flag of a library: whether it needs no value, and which values it takes.\<close>

record lib_flag =
  flagIsBool :: bool
  flagAccepts :: "string \<Rightarrow> bool"

datatype flag_error = BadSyntax string | NotDefined string | HelpRequested | NeedsArgument string | InvalidValue string string

text \<open>The loop of \<^verbatim>\<open>flag.Parse\<close>: the remaining arguments are cut at the first one that is no flag.\<close>

definition splitFlag :: "string \<Rightarrow> string \<times> string option" where
  "splitFlag name = (case dropWhile (\<lambda>c. c \<noteq> CHR ''='') name of [] \<Rightarrow> (name, None)
     | _ # v \<Rightarrow> (takeWhile (\<lambda>c. c \<noteq> CHR ''='') name, Some v))"

text \<open>Whether a flag may stand without a value, and the effect of its value.\<close>

definition formalFlag :: "(string \<rightharpoonup> lib_flag) \<Rightarrow> string \<Rightarrow> (bool \<times> (string \<Rightarrow> Flags \<Rightarrow> Flags option)) option" where
  "formalFlag lib name = (case map_of mainFlags name of
       Some (StringFlag f) \<Rightarrow> Some (False, \<lambda>v fl. Some (f v fl))
     | Some (BoolFlag f) \<Rightarrow> Some (True, \<lambda>v fl. map_option (\<lambda>b. f b fl) (ParseBool v))
     | None \<Rightarrow> (case lib name of
         None \<Rightarrow> None
       | Some l \<Rightarrow> Some (flagIsBool l, \<lambda>v fl. if flagAccepts l v then Some (fl\<lparr>libraryFlags := mput name v (libraryFlags fl)\<rparr>) else None)))"

function (sequential) parseFlags :: "(string \<rightharpoonup> lib_flag) \<Rightarrow> string list \<Rightarrow> Flags \<Rightarrow> flag_error + Flags" where
  "parseFlags lib [] fl = Inr fl"
| "parseFlags lib (s # args) fl =
     (if length s < 2 \<or> hd s \<noteq> CHR ''-'' then Inr fl
      else if s = ''--'' then Inr fl
      else let name = (if s ! 1 = CHR ''-'' then drop 2 s else tl s) in
        if name = [] \<or> hd name = CHR ''-'' \<or> hd name = CHR ''='' then Inl (BadSyntax s)
        else (case splitFlag name of (n, v) \<Rightarrow>
          (case formalFlag lib n of
             None \<Rightarrow> Inl (if n = ''help'' \<or> n = ''h'' then HelpRequested else NotDefined n)
           | Some (isBool, store) \<Rightarrow>
               (case (if isBool then Inr (case v of None \<Rightarrow> ''true'' | Some x \<Rightarrow> x, args)
                      else (case (v, args) of
                          (Some x, _) \<Rightarrow> Inr (x, args)
                        | (None, x # rest) \<Rightarrow> Inr (x, rest)
                        | (None, []) \<Rightarrow> Inl (NeedsArgument n))) of
                  Inl e \<Rightarrow> Inl e
                | Inr (x, rest) \<Rightarrow>
                    (case store x fl of
                       None \<Rightarrow> Inl (InvalidValue x n)
                     | Some fl' \<Rightarrow> parseFlags lib rest fl')))))"
  by pat_completeness auto
termination
  by (relation "measure (\<lambda>(_, args, _). length args)") (auto split: if_splits option.splits list.splits)

section \<open>Options of the servers\<close>

record TLSConfig =
  NextProtos :: "string list"

definition disableHTTP2 :: "TLSConfig \<Rightarrow> TLSConfig" where
  "disableHTTP2 c = c\<lparr>NextProtos := [''http/1.1'']\<rparr>"

definition tlsOptsOf :: "Flags \<Rightarrow> (TLSConfig \<Rightarrow> TLSConfig) list" where
  "tlsOptsOf fl = (if enableHTTP2 fl then [] else [disableHTTP2])"

record ServerOptions =
  CertDir :: string
  CertName :: string
  KeyName :: string
  TLSOpts :: "(TLSConfig \<Rightarrow> TLSConfig) list"
  BindAddress :: string
  SecureServing :: bool
  FilterProvider :: bool  \<comment> \<open>requests are authenticated and authorized\<close>

definition ServerOptions0 :: ServerOptions where
  "ServerOptions0 = \<lparr>CertDir = [], CertName = [], KeyName = [], TLSOpts = [], BindAddress = [], SecureServing = False,
     FilterProvider = False\<rparr>"

definition webhookServerOptions :: "Flags \<Rightarrow> ServerOptions" where
  "webhookServerOptions fl = (let opts = ServerOptions0\<lparr>TLSOpts := tlsOptsOf fl\<rparr> in
     if webhookCertPath fl \<noteq> [] then opts\<lparr>CertDir := webhookCertPath fl, CertName := webhookCertName fl, KeyName := webhookCertKey fl\<rparr>
     else opts)"

definition metricsServerOptions :: "Flags \<Rightarrow> ServerOptions" where
  "metricsServerOptions fl = (let
       opts = ServerOptions0\<lparr>BindAddress := metricsAddr fl, SecureServing := secureMetrics fl, TLSOpts := tlsOptsOf fl\<rparr>;
       opts' = (if secureMetrics fl then opts\<lparr>FilterProvider := True\<rparr> else opts) in
     if metricsCertPath fl \<noteq> [] then opts'\<lparr>CertDir := metricsCertPath fl, CertName := metricsCertName fl, KeyName := metricsCertKey fl\<rparr>
     else opts')"

record ManagerOptions =
  mgrMetrics :: ServerOptions
  mgrWebhook :: ServerOptions
  HealthProbeBindAddress :: string
  LeaderElection :: bool
  LeaderElectionID :: string

definition managerOptions :: "Flags \<Rightarrow> ManagerOptions" where
  "managerOptions fl = \<lparr>mgrMetrics = metricsServerOptions fl, mgrWebhook = webhookServerOptions fl,
     HealthProbeBindAddress = probeAddr fl, LeaderElection = enableLeaderElection fl,
     LeaderElectionID = ''kterodactyl-operator.kterodactyl.io''\<rparr>"

text \<open>The HTTP server of the API.\<close>

record HTTPServerConfig =
  Addr :: string
  ReadHeaderTimeout :: int
  IdleTimeout :: int

definition HTTPServer :: "('s, 'c) Server \<Rightarrow> HTTPServerConfig" where
  "HTTPServer srv = \<lparr>Addr = srvBindAddress srv, ReadHeaderTimeout = 10 * second, IdleTimeout = 120 * second\<rparr>"

section \<open>The process\<close>

text \<open>What the libraries do for \<^verbatim>\<open>main\<close>: each call may fail.\<close>

record ('s, 'c) ManagerLib =
  GetConfig :: "('s, gerr + unit) state"  \<comment> \<open>\<^verbatim>\<open>GetConfigOrDie\<close> exits when it fails\<close>
  NewManager :: "ManagerOptions \<Rightarrow> ('s, gerr + unit) state"
  AddController :: "controller \<Rightarrow> string \<Rightarrow> ('s, gerr + unit) state"
  NewDirectClient :: "('s, gerr + unit) state"
  NewClientset :: "('s, gerr + unit) state"
  NewMetricsClient :: "('s, gerr + unit) state"
  AddServer :: "HTTPServerConfig \<Rightarrow> ('s, 'c) Server \<Rightarrow> ('s, gerr + unit) state"
  AddHealthzCheck :: "string \<Rightarrow> ('s, gerr + unit) state"
  AddReadyzCheck :: "string \<Rightarrow> ('s, gerr + unit) state"
  MgrStart :: "('s, gerr + unit) state"
  mgrPredicates :: predicates

text \<open>A step that ends the process with code 1 when it fails.\<close>

definition orExit :: "('s, gerr + 'a) state \<Rightarrow> ('a \<Rightarrow> ('s, int) state) \<Rightarrow> ('s, int) state" where
  "orExit m f = do { x \<leftarrow> m; case x of Inl err \<Rightarrow> ret 1 | Inr a \<Rightarrow> f a }"

definition main :: "('s, 'c) ManagerLib \<Rightarrow> ('s, 'c) Platform \<Rightarrow> (string \<rightharpoonup> lib_flag) \<Rightarrow> string list \<Rightarrow> ('s, int) state" where
  "main lib pf libFlags args = (case parseFlags libFlags args DefaultFlags of
       Inl e \<Rightarrow> ret (if e = HelpRequested then 0 else 2)
     | Inr fl \<Rightarrow> let operatorNamespace = operatorNamespaceOf pf in
         orExit (GetConfig lib) (\<lambda>_.
         orExit (NewManager lib (managerOptions fl)) (\<lambda>_.
         orExit (AddController lib (setupGameServer (mgrPredicates lib)) operatorNamespace) (\<lambda>_.
         orExit (AddController lib setupDNS operatorNamespace) (\<lambda>_.
         orExit (NewDirectClient lib) (\<lambda>_.
         orExit (NewClientset lib) (\<lambda>_.
         orExit (AddController lib setupBackup operatorNamespace) (\<lambda>_.
         orExit (NewMetricsClient lib) (\<lambda>_.
         orExit (startServer pf (apiBindAddress fl)) (\<lambda>apiServer.
         orExit (AddServer lib (HTTPServer apiServer) apiServer) (\<lambda>_.
         orExit (AddHealthzCheck lib ''healthz'') (\<lambda>_.
         orExit (AddReadyzCheck lib ''readyz'') (\<lambda>_.
         orExit (MgrStart lib) (\<lambda>_. ret 0))))))))))))))"

section \<open>The password tool\<close>

text \<open>
  \<^verbatim>\<open>hack/hash-password.go\<close>: standard output, standard error and exit code, for the arguments after the program's name.
  The result is absent when the key derivation panics.
\<close>

definition hashPasswordMain :: "idkey \<Rightarrow> (nat \<Rightarrow> ('s, gerr + string) state) \<Rightarrow> string list \<Rightarrow>
    ('s, (string \<times> string \<times> int) option) state" where
  "hashPasswordMain IDKey RandRead args = (case args of
       [] \<Rightarrow> ret (Some ([], ''usage: hash-password <password>'' @ [CHR 0x0A], 1))
     | pw # _ \<Rightarrow> do {
         hash \<leftarrow> HashPassword IDKey RandRead pw;
         ret (map_option (\<lambda>h. case h of
             Inl err \<Rightarrow> ([], error_text err @ [CHR 0x0A], 1)
           | Inr text \<Rightarrow> (text, [], 0)) hash) })"

text \<open>What it prints with code 0 is a text the server accepts the password for.\<close>

lemma hashPasswordMain_accepted:
  assumes "\<And>pw salt t m p n h. IDKey pw salt t m p n = Some h \<Longrightarrow> length h = n"
    and "run_state (hashPasswordMain IDKey RandRead args) s = (Some (out, err, 0), s')"
  shows "\<exists>pw rest. args = pw # rest \<and> VerifyPassword IDKey pw out = Some (Inr True) \<and> err = []"
proof -
  from assms(2) obtain pw rest where args: "args = pw # rest" by (cases args) (simp_all add: hashPasswordMain_def)
  obtain got s1 where rand: "run_state (RandRead argonSaltLen) s = (got, s1)" by (cases "run_state (RandRead argonSaltLen) s")
  from assms(2) args rand obtain salt where salt: "got = Inr salt"
    by (cases got) (simp_all add: hashPasswordMain_def HashPassword_def)
  from assms(2) args rand salt obtain hash where "out = phcString salt hash" "err = []"
    "IDKey pw salt argonTime argonMemory argonThreads argonKeyLen = Some hash"
    by (auto simp: hashPasswordMain_def HashPassword_def)
  moreover from this assms(1) have "length hash = argonKeyLen" by blast
  ultimately show ?thesis by (simp add: VerifyPassword_phcString argonTime_def argonMemory_def argonThreads_def args)
qed

section \<open>The command line\<close>

definition boolText :: "bool \<Rightarrow> string" where
  "boolText b = (if b then ''true'' else ''false'')"

text \<open>Every flag, written out.\<close>

definition flagArgs :: "Flags \<Rightarrow> string list" where
  "flagArgs fl = [''--metrics-bind-address='' @ metricsAddr fl, ''--health-probe-bind-address='' @ probeAddr fl,
     ''--leader-elect='' @ boolText (enableLeaderElection fl), ''--metrics-secure='' @ boolText (secureMetrics fl),
     ''--webhook-cert-path='' @ webhookCertPath fl, ''--webhook-cert-name='' @ webhookCertName fl,
     ''--webhook-cert-key='' @ webhookCertKey fl, ''--metrics-cert-path='' @ metricsCertPath fl,
     ''--metrics-cert-name='' @ metricsCertName fl, ''--metrics-cert-key='' @ metricsCertKey fl,
     ''--api-bind-address='' @ apiBindAddress fl, ''--enable-http2='' @ boolText (enableHTTP2 fl)]"

lemma ParseBool_text [simp]: "ParseBool (boolText b) = Some b"
  by (simp add: ParseBool_def boolText_def)

lemma parseFlags_roundtrip:
  assumes "libraryFlags fl = []"
  shows "parseFlags lib (flagArgs fl) DefaultFlags = Inr fl"
proof -
  have "parseFlags lib (flagArgs fl) f = Inr (fl\<lparr>libraryFlags := libraryFlags f\<rparr>)" for f
    unfolding flagArgs_def
    by (simp add: splitFlag_def formalFlag_def mainFlags_def)
  from this[of DefaultFlags] assms show ?thesis by (simp add: DefaultFlags_def)
qed

section \<open>What the process does before it serves\<close>

datatype mgr_call =
    CallManager ManagerOptions
  | CallController string string  \<comment> \<open>name and operator namespace\<close>
  | CallClient string
  | CallServer HTTPServerConfig
  | CallHealthz string
  | CallReadyz string
  | CallStart

text \<open>The log of the calls of \<^verbatim>\<open>main\<close> with their success: every operation adds its own entry.\<close>

definition recorded :: "('s \<Rightarrow> (mgr_call \<times> bool) list) \<Rightarrow> mgr_call \<Rightarrow> ('s, gerr + unit) state \<Rightarrow> bool" where
  "recorded log c m \<longleftrightarrow> (\<forall>s x s'. run_state m s = (x, s') \<longrightarrow> log s' = log s @ [(c, \<not> isl x)])"

definition records :: "('s, 'c) ManagerLib \<Rightarrow> ('s \<Rightarrow> (mgr_call \<times> bool) list) \<Rightarrow> bool" where
  "records lib log \<longleftrightarrow> recorded log (CallClient ''config'') (GetConfig lib) \<and> (\<forall>opts. recorded log (CallManager opts) (NewManager lib opts)) \<and>
     (\<forall>c ns. recorded log (CallController (setupName c) ns) (AddController lib c ns)) \<and>
     recorded log (CallClient ''direct'') (NewDirectClient lib) \<and> recorded log (CallClient ''clientset'') (NewClientset lib) \<and>
     recorded log (CallClient ''metrics'') (NewMetricsClient lib) \<and>
     (\<forall>cfg srv. recorded log (CallServer cfg) (AddServer lib cfg srv)) \<and>
     (\<forall>n. recorded log (CallHealthz n) (AddHealthzCheck lib n)) \<and> (\<forall>n. recorded log (CallReadyz n) (AddReadyzCheck lib n)) \<and>
     recorded log CallStart (MgrStart lib)"

definition startup_calls :: "Flags \<Rightarrow> string \<Rightarrow> mgr_call list" where
  "startup_calls fl ns = [CallClient ''config'', CallManager (managerOptions fl), CallController ''gameserver'' ns, CallController ''dns'' ns,
     CallClient ''direct'', CallClient ''clientset'', CallController ''backup'' ns, CallClient ''metrics'',
     CallServer \<lparr>Addr = apiBindAddress fl, ReadHeaderTimeout = 10 * second, IdleTimeout = 120 * second\<rparr>,
     CallHealthz ''healthz'', CallReadyz ''readyz'', CallStart]"

text \<open>A chain makes its calls in order up to the first that fails, and returns 0 when none does.\<close>

definition chain :: "('s \<Rightarrow> (mgr_call \<times> bool) list) \<Rightarrow> ('s, int) state \<Rightarrow> mgr_call list \<Rightarrow> bool" where
  "chain log m cs \<longleftrightarrow> (\<forall>s code s'. run_state m s = (code, s') \<longrightarrow> (\<exists>tr. log s' = log s @ tr \<and> prefix (map fst tr) cs \<and>
     list_all snd (butlast tr) \<and> (code = 0 \<longleftrightarrow> tr = map (\<lambda>c. (c, True)) cs) \<and> code \<in> {0, 1}))"

lemma chain_end: "chain log (ret 0) []"
  by (simp add: chain_def)

lemma chain_call:
  assumes "recorded log c m" "\<And>a. chain log (f a) cs"
  shows "chain log (orExit m f) (c # cs)"
  unfolding chain_def
proof (intro allI impI)
  fix s code s'
  assume run: "run_state (orExit m f) s = (code, s')"
  obtain x s1 where m: "run_state m s = (x, s1)" by (cases "run_state m s")
  with assms(1) have l: "log s1 = log s @ [(c, \<not> isl x)]" by (simp add: recorded_def)
  show "\<exists>tr. log s' = log s @ tr \<and> prefix (map fst tr) (c # cs) \<and> list_all snd (butlast tr) \<and>
      (code = 0 \<longleftrightarrow> tr = map (\<lambda>c. (c, True)) (c # cs)) \<and> code \<in> {0, 1}"
  proof (cases x)
    case (Inl e)
    with run m l show ?thesis by (intro exI[of _ "[(c, False)]"]) (auto simp: orExit_def)
  next
    case (Inr a)
    with run m have "run_state (f a) s1 = (code, s')" by (simp add: orExit_def)
    with assms(2)[of a] obtain tr where "log s' = log s1 @ tr" "prefix (map fst tr) cs" "list_all snd (butlast tr)"
      "code = 0 \<longleftrightarrow> tr = map (\<lambda>c. (c, True)) cs" "code \<in> {0, 1}" unfolding chain_def by blast
    with l Inr show ?thesis by (intro exI[of _ "(c, True) # tr"]) auto
  qed
qed

lemma chain_quiet:
  assumes "\<And>l. preserves (\<lambda>s. log s = l) m"
    "\<And>a s s'. run_state m s = (Inr a, s') \<Longrightarrow> chain log (f a) cs" "cs \<noteq> []"
  shows "chain log (orExit m f) cs"
  unfolding chain_def
proof (intro allI impI)
  fix s code s'
  assume run: "run_state (orExit m f) s = (code, s')"
  obtain x s1 where m: "run_state m s = (x, s1)" by (cases "run_state m s")
  have l: "log s1 = log s" using preservesD[OF assms(1) refl m] .
  show "\<exists>tr. log s' = log s @ tr \<and> prefix (map fst tr) cs \<and> list_all snd (butlast tr) \<and>
      (code = 0 \<longleftrightarrow> tr = map (\<lambda>c. (c, True)) cs) \<and> code \<in> {0, 1}"
  proof (cases x)
    case (Inl e)
    with run m l assms(3) show ?thesis by (intro exI[of _ "[]"]) (auto simp: orExit_def)
  next
    case (Inr a)
    with run m have "run_state (f a) s1 = (code, s')" by (simp add: orExit_def)
    moreover from m Inr have "chain log (f a) cs" using assms(2) by blast
    ultimately show ?thesis using l unfolding chain_def by force
  qed
qed

text \<open>The protocols a server offers after its options are applied.\<close>

definition servedProtos :: "ServerOptions \<Rightarrow> TLSConfig \<Rightarrow> string list" where
  "servedProtos opts cfg = NextProtos (fold (\<lambda>f c. f c) (TLSOpts opts) cfg)"

lemma server_options:
  "\<not> enableHTTP2 fl \<Longrightarrow> servedProtos (mgrMetrics (managerOptions fl)) cfg = [''http/1.1'']"
  "\<not> enableHTTP2 fl \<Longrightarrow> servedProtos (mgrWebhook (managerOptions fl)) cfg = [''http/1.1'']"
  "FilterProvider (mgrMetrics (managerOptions fl)) \<longleftrightarrow> SecureServing (mgrMetrics (managerOptions fl))"
  by (simp_all add: servedProtos_def managerOptions_def metricsServerOptions_def webhookServerOptions_def tlsOptsOf_def
      disableHTTP2_def ServerOptions0_def Let_def)

text \<open>C33: Start of the process. Bad flags end it with code 2 and a request for help with 0, before any call. Otherwise
  it makes the calls of its startup in order and stops at the first failure, so the manager is started only
  after the three controllers, in the operator's namespace, the API server on its address and both probes
  are registered; it returns 0 exactly when all succeeded, 1 otherwise. Metrics and webhooks are offered
  without HTTP/2 unless it was asked for, and metrics served securely are filtered by authorization.\<close>

theorem main_starts:
  assumes rec: "records lib log" and quiet: "\<And>addr l. preserves (\<lambda>s. log s = l) (startServer pf addr)"
    and run: "run_state (main lib pf libFlags args) s = (code, s')" "log s = []"
  shows "case parseFlags libFlags args DefaultFlags of
      Inl e \<Rightarrow> log s' = [] \<and> code = (if e = HelpRequested then 0 else 2)
    | Inr fl \<Rightarrow> prefix (map fst (log s')) (startup_calls fl (operatorNamespaceOf pf)) \<and> list_all snd (butlast (log s')) \<and>
        code = (if log s' = map (\<lambda>c. (c, True)) (startup_calls fl (operatorNamespaceOf pf)) then 0 else 1) \<and>
        (\<forall>cfg. \<not> enableHTTP2 fl \<longrightarrow> servedProtos (mgrMetrics (managerOptions fl)) cfg = [''http/1.1''] \<and>
          servedProtos (mgrWebhook (managerOptions fl)) cfg = [''http/1.1'']) \<and>
        (SecureServing (mgrMetrics (managerOptions fl)) \<longrightarrow> FilterProvider (mgrMetrics (managerOptions fl)))"
proof (cases "parseFlags libFlags args DefaultFlags")
  case (Inl e)
  with run show ?thesis by (auto simp: main_def)
next
  case (Inr fl)
  have r: "recorded log (CallController ''gameserver'' ns) (AddController lib (setupGameServer (mgrPredicates lib)) ns)"
    "recorded log (CallController ''dns'' ns) (AddController lib setupDNS ns)"
    "recorded log (CallController ''backup'' ns) (AddController lib setupBackup ns)" for ns
    using rec by (auto simp: records_def setupGameServer_def setupDNS_def setupBackup_def) (metis controller.select_convs(1))+
  have "chain log (main lib pf libFlags args) (startup_calls fl (operatorNamespaceOf pf))"
    unfolding main_def Inr sum.case Let_def startup_calls_def
    by (intro chain_call chain_end chain_quiet quiet r)
      (use rec in \<open>simp_all add: records_def HTTPServer_def startServer_address\<close>)
  with run obtain tr where "log s' = tr" "prefix (map fst tr) (startup_calls fl (operatorNamespaceOf pf))" "list_all snd (butlast tr)"
      "code = 0 \<longleftrightarrow> tr = map (\<lambda>c. (c, True)) (startup_calls fl (operatorNamespaceOf pf))" "code \<in> {0, 1}"
    unfolding chain_def by fastforce
  with server_options[of fl] Inr show ?thesis by auto
qed

section \<open>A concrete start\<close>

text \<open>An empty cluster whose calls leave the log alone.\<close>

definition quietApi :: "('s, 'o) kapi" where
  "quietApi = \<lparr>kget = (\<lambda>_. ret (Inl err_not_found)), klist = (\<lambda>_ _. ret (Inr [])), kcreate = (\<lambda>x. ret (Inr x)),
     kupdate = (\<lambda>_. ret (Inl err_not_found)), kstatus = (\<lambda>_. ret (Inl err_not_found)),
     kdelete = (\<lambda>_ _. ret (Inl err_not_found)), kcou = (\<lambda>x f. ret (case f x of Inl e \<Rightarrow> Inl e | Inr y \<Rightarrow> Inr (y, ''created'')))\<rparr>"

definition quietClient :: "'s client" where
  "quietClient = \<lparr>gameservers = quietApi, backups = quietApi, pods = quietApi, pvcs = quietApi, namespaces = quietApi,
     resourcequotas = quietApi, limitranges = quietApi, networkpolicies = quietApi, services = quietApi,
     httproutes = quietApi, secrets = quietApi, configmaps = quietApi\<rparr>"

definition quietRuntime :: "'s runtime" where
  "quietRuntime = \<lparr>Now = ret 0, Event = (\<lambda>_ _ _ _. ret ()), GaugeReset = ret (), GaugeSet = (\<lambda>_ _ _. ret ()),
     SetStatusCondition = (\<lambda>cs c. ret cs), SetControllerReference = (\<lambda>_ m. Inr m), ParseQuantity = quantity_of,
     MustParse = (\<lambda>t. case quantity_of t of Some q \<Rightarrow> q | None \<Rightarrow> 0), ContainsFinalizer = (\<lambda>m f. f \<in> set (Finalizers m)),
     AddFinalizer = (\<lambda>m _. m), RemoveFinalizer = (\<lambda>m _. m), RangeKeys = (\<lambda>ks. ks)\<rparr>"

definition quietEnv :: "('s, unit) BackupEnv" where
  "quietEnv = \<lparr>NewS3 = (\<lambda>_ _ _ _. Inr ()), BucketExists = (\<lambda>_ _. ret (Inr True)), MakeBucket = (\<lambda>_ _ _. ret (Inr ())),
     PutObject = (\<lambda>_ _ _ _. ret (Inr 0)), GetObject = (\<lambda>_ _ _. ret (Inr [])), RemoveObject = (\<lambda>_ _ _. ret (Inr ())),
     PodExec = (\<lambda>_ _ _ _. ret (Inr ([], [], None))), Gzip = (\<lambda>x. x), Gunzip = Inr, CronParse = (\<lambda>_. Inr (\<lambda>t. t)),
     SortNewest = (\<lambda>bs. bs)\<rparr>"

definition quietPlatform :: "('s, unit) Platform" where
  "quietPlatform = \<lparr>mgrClient = quietClient, directClient = quietClient, platRuntime = quietRuntime, platEnv = quietEnv,
     platPodMetrics = (\<lambda>_ _. ret (Inr [])), platMilli = (\<lambda>q. q), platValue = (\<lambda>q. q),
     platJWTLib = \<lparr>SignedString = (\<lambda>_ _ _. Inr []), ParseWithClaims = (\<lambda>_ _ _ _ _. ret (Inl (ErrNew ''no token''))),
       NewNumericDate = (\<lambda>t. t)\<rparr>,
     platMailer = \<lparr>CheckFrom = (\<lambda>_. None), CheckTo = (\<lambda>_. None), NewMailClient = (\<lambda>_ _. None),
       DialAndSend = (\<lambda>_ _ _ _. ret None)\<rparr>,
     platRand = (\<lambda>n. ret (Inr (replicate n CHR ''k''))), platIDKey = demoIDKey, platFiles = demoManifestEnv,
     platGetenv = (\<lambda>_. [])\<rparr>"

definition logCall :: "mgr_call \<Rightarrow> ((mgr_call \<times> bool) list, gerr + unit) state" where
  "logCall c = State_Monad.State (\<lambda>l. (Inr (), l @ [(c, True)]))"

definition loggingLib :: "((mgr_call \<times> bool) list, unit) ManagerLib" where
  "loggingLib = \<lparr>GetConfig = logCall (CallClient ''config''), NewManager = (\<lambda>opts. logCall (CallManager opts)),
     AddController = (\<lambda>c ns. logCall (CallController (setupName c) ns)),
     NewDirectClient = logCall (CallClient ''direct''), NewClientset = logCall (CallClient ''clientset''),
     NewMetricsClient = logCall (CallClient ''metrics''), AddServer = (\<lambda>cfg _. logCall (CallServer cfg)),
     AddHealthzCheck = (\<lambda>n. logCall (CallHealthz n)), AddReadyzCheck = (\<lambda>n. logCall (CallReadyz n)),
     MgrStart = logCall CallStart, mgrPredicates = clusterPredicates\<rparr>"

lemma loggingLib_records: "records loggingLib (\<lambda>l. l)"
  by (auto simp: records_def recorded_def loggingLib_def logCall_def)

lemma quiet_get [simp]: "run_state (kget quietApi k) s = (Inl err_not_found, s)" "run_state (kcreate quietApi x) s = (Inr x, s)"
  by (simp_all add: quietApi_def)

lemma quietPlatform_starts: "\<exists>srv. run_state (startServer quietPlatform addr) s = (Inr srv, s)"
proof -
  have "\<exists>l. LoadFromDirectory demoManifestEnv ''games/'' = Inr l"
    by (simp add: LoadFromDirectory_def demoManifestEnv_def manifestFile_def manifestPath_def Join_def Clean_def Let_def parseManifest_def
        parseResourceList_def rangeMap_def compileParameterSchema_def)
  then show ?thesis
    by (auto simp: startServer_def quietPlatform_def EnsureSigningKey_def LoadAdminConfig_def quietClient_def NewServer_def Let_def)
qed

text \<open>The calls of a successful start.\<close>

definition demo_args :: "string list" where
  "demo_args = [''--leader-elect'', ''-api-bind-address'', '':9090'']"

definition demo_flags :: Flags where
  "demo_flags = DefaultFlags\<lparr>enableLeaderElection := True, apiBindAddress := '':9090''\<rparr>"

lemma demo_parsed: "parseFlags (\<lambda>_. None) demo_args DefaultFlags = Inr demo_flags"
  by (simp add: demo_args_def demo_flags_def splitFlag_def formalFlag_def mainFlags_def ParseBool_def)

lemma quietPlatform_quiet: "preserves (\<lambda>s. s = l) (startServer quietPlatform addr)"
proof (rule preservesI)
  fix s x s'
  assume "s = l" "run_state (startServer quietPlatform addr) s = (x, s')"
  then show "s' = l" using quietPlatform_starts[of addr l] by auto
qed

theorem main_starts_witness:
  "\<exists>code l. run_state (main loggingLib quietPlatform (\<lambda>_. None) demo_args) [] = (code, l) \<and>
     prefix (map fst l) (startup_calls demo_flags ''kterodactyl-system'') \<and> list_all snd (butlast l) \<and>
     code = (if l = map (\<lambda>c. (c, True)) (startup_calls demo_flags ''kterodactyl-system'') then 0 else 1)"
proof -
  obtain code l where run: "run_state (main loggingLib quietPlatform (\<lambda>_. None) demo_args) [] = (code, l)"
    by (cases "run_state (main loggingLib quietPlatform (\<lambda>_. None) demo_args) []")
  have ns: "operatorNamespaceOf (quietPlatform :: ((mgr_call \<times> bool) list, unit) Platform) = ''kterodactyl-system''"
    by (simp add: operatorNamespaceOf_def quietPlatform_def)
  from main_starts[OF loggingLib_records quietPlatform_quiet run refl] run show ?thesis
    by (simp add: demo_parsed ns)
qed

end
