(* ===== verification/Metrics.thy ===== *)
theory Metrics
  imports Complex_Main OperatorMain
begin

text \<open>
  The metrics, \<^verbatim>\<open>internal/metrics/metrics.go\<close>, and their use by the request middleware and the GameServer
  controller. The Prometheus client is an argument. As it documents, it panics when a metric is used with
  another number of label values than it was declared with, or when it is registered with a name, labels or
  buckets that are not valid; that it does not otherwise is a hypothesis.
\<close>

section \<open>Definitions\<close>

datatype metric_kind = GaugeVec | HistogramVec | CounterVec | GaugeMetric

record Metric =
  metricKind :: metric_kind
  metricName :: string
  metricHelp :: string
  metricBuckets :: "rat list"
  metricLabels :: "string list"

definition GameServersByState :: Metric where
  "GameServersByState = \<lparr>metricKind = GaugeVec, metricName = ''kterodactyl_gameservers_by_state'',
     metricHelp = ''Number of GameServer resources by state and game type.'', metricBuckets = [],
     metricLabels = [''state'', ''game_type'']\<rparr>"

definition ReconciliationDuration :: Metric where
  "ReconciliationDuration = \<lparr>metricKind = HistogramVec, metricName = ''kterodactyl_reconciliation_duration_seconds'',
     metricHelp = ''Duration of reconciliation in seconds.'',
     metricBuckets = [1/100, 5/100, 1/10, 25/100, 5/10, 1, 25/10, 5, 10], metricLabels = [''controller'']\<rparr>"

definition HTTPRequestsTotal :: Metric where
  "HTTPRequestsTotal = \<lparr>metricKind = CounterVec, metricName = ''kterodactyl_http_requests_total'',
     metricHelp = ''Total number of HTTP requests by method, route pattern, and status code.'', metricBuckets = [],
     metricLabels = [''method'', ''route'', ''status_code'']\<rparr>"

definition HTTPRequestDuration :: "rat list \<Rightarrow> Metric" where
  "HTTPRequestDuration defBuckets = \<lparr>metricKind = HistogramVec, metricName = ''kterodactyl_http_request_duration_seconds'',
     metricHelp = ''HTTP request duration in seconds.'', metricBuckets = defBuckets,
     metricLabels = [''method'', ''route'', ''status_code'']\<rparr>"

definition HTTPRequestsInFlight :: Metric where
  "HTTPRequestsInFlight = \<lparr>metricKind = GaugeMetric, metricName = ''kterodactyl_http_requests_inflight'',
     metricHelp = ''Number of HTTP requests currently being served.'', metricBuckets = [], metricLabels = []\<rparr>"

section \<open>The client library\<close>

datatype metric_use = Inc Metric "string list" | Dec Metric "string list" | Set Metric "string list" nat
  | Observe Metric "string list" int | Reset Metric

record 's PromLib =
  MustRegister :: "Metric list \<Rightarrow> ('s, unit) state"
  UseMetric :: "metric_use \<Rightarrow> ('s, unit) state"
  DefBuckets :: "rat list"

definition initMetrics :: "'s PromLib \<Rightarrow> ('s, unit) state" where
  "initMetrics lib = MustRegister lib [GameServersByState, ReconciliationDuration, HTTPRequestsTotal,
     HTTPRequestDuration (DefBuckets lib), HTTPRequestsInFlight]"

text \<open>The metrics of the middleware, of the gauge and of the deferred observation of \<^verbatim>\<open>Reconcile\<close>.\<close>

definition httpMetrics :: "'s PromLib \<Rightarrow> 's HttpMetrics" where
  "httpMetrics lib = \<lparr>InFlightInc = UseMetric lib (Inc HTTPRequestsInFlight []),
     InFlightDec = UseMetric lib (Dec HTTPRequestsInFlight []),
     RequestsTotal = (\<lambda>method route status. UseMetric lib (Inc HTTPRequestsTotal [method, route, status])),
     RequestDuration = (\<lambda>method route status d.
       UseMetric lib (Observe (HTTPRequestDuration (DefBuckets lib)) [method, route, status] d))\<rparr>"

definition gaugeRuntime :: "'s PromLib \<Rightarrow> 's Reconciler \<Rightarrow> 's Reconciler" where
  "gaugeRuntime lib r = r\<lparr>Runtime := (Runtime r)\<lparr>GaugeReset := UseMetric lib (Reset GameServersByState),
     GaugeSet := (\<lambda>st gameType count. UseMetric lib (Set GameServersByState [st, gameType] count))\<rparr>\<rparr>"

definition timedReconcile :: "'s PromLib \<Rightarrow> 's Reconciler \<Rightarrow> key \<Rightarrow> ('s, gerr + Result) state" where
  "timedReconcile lib r req = do {
     start \<leftarrow> Now (Runtime r);
     res \<leftarrow> Reconcile (gaugeRuntime lib r) req;
     finish \<leftarrow> Now (Runtime r);
     UseMetric lib (Observe ReconciliationDuration [''gameserver''] (Sub finish start));
     ret res }"

section \<open>Valid uses\<close>

text \<open>The documented conditions: an operation fits the kind of its metric and gives a value to each label.\<close>

definition fits :: "Metric \<Rightarrow> metric_kind set \<Rightarrow> string list \<Rightarrow> bool" where
  "fits m kinds vs \<longleftrightarrow> metricKind m \<in> kinds \<and> length vs = length (metricLabels m)"

fun valid_use :: "metric_use \<Rightarrow> bool" where
  "valid_use (Inc m vs) = fits m {GaugeVec, CounterVec, GaugeMetric} vs"
| "valid_use (Dec m vs) = fits m {GaugeVec, GaugeMetric} vs"
| "valid_use (Set m vs n) = fits m {GaugeVec, GaugeMetric} vs"
| "valid_use (Observe m vs d) = fits m {HistogramVec} vs"
| "valid_use (Reset m) = (metricKind m \<in> {GaugeVec, CounterVec, HistogramVec})"

text \<open>Names are identifiers, a histogram has no label of its own name \<^verbatim>\<open>le\<close>, buckets increase, nothing is registered twice.\<close>

definition ident :: "string \<Rightarrow> bool" where
  "ident s \<longleftrightarrow> s \<noteq> [] \<and> list_all (\<lambda>c. c = CHR ''_'' \<or> c \<in> set ''abcdefghijklmnopqrstuvwxyz'') s \<and> take 2 s \<noteq> ''__''"

definition registrable :: "Metric list \<Rightarrow> bool" where
  "registrable ms \<longleftrightarrow> distinct (map metricName ms) \<and>
     list_all (\<lambda>m. ident (metricName m) \<and> list_all ident (metricLabels m) \<and> distinct (metricLabels m) \<and>
       ''le'' \<notin> set (metricLabels m) \<and> sorted_wrt (<) (metricBuckets m)) ms"

text \<open>A property that valid uses keep, such as that the client has not panicked.\<close>

definition prom_keeps :: "('s \<Rightarrow> bool) \<Rightarrow> 's PromLib \<Rightarrow> bool" where
  "prom_keeps P lib \<longleftrightarrow> sorted_wrt (<) (DefBuckets lib) \<and> (\<forall>ms. registrable ms \<longrightarrow> preserves P (MustRegister lib ms)) \<and>
     (\<forall>u. valid_use u \<longrightarrow> preserves P (UseMetric lib u))"

lemmas metric_defs = GameServersByState_def ReconciliationDuration_def HTTPRequestsTotal_def HTTPRequestDuration_def
  HTTPRequestsInFlight_def

lemma prom_keepsD:
  assumes "prom_keeps P lib"
  shows "sorted_wrt (<) (DefBuckets lib)" "registrable ms \<Longrightarrow> preserves P (MustRegister lib ms)"
    "valid_use u \<Longrightarrow> preserves P (UseMetric lib u)"
  using assms by (auto simp: prom_keeps_def)


section \<open>A client that records a panic\<close>

definition strictProm :: "bool PromLib" where
  "strictProm = \<lparr>MustRegister = (\<lambda>ms. State_Monad.State (\<lambda>p. ((), p \<or> \<not> registrable ms))),
     UseMetric = (\<lambda>u. State_Monad.State (\<lambda>p. ((), p \<or> \<not> valid_use u))),
     DefBuckets = [5/1000, 1/100, 25/1000, 5/100, 1/10, 25/100, 5/10, 1, 25/10, 5, 10]\<rparr>"

definition quietReconciler :: "'s Reconciler" where
  "quietReconciler = \<lparr>Client = quietClient, Runtime = quietRuntime, OperatorNamespace = ''kterodactyl-system''\<rparr>"

definition demoKey :: key where
  "demoKey = \<lparr>keyNamespace = ''ns'', keyName = ''gs''\<rparr>"

definition healthzRequest :: Request where
  "healthzRequest = \<lparr>reqMethod = ''GET'', reqPath = [''healthz''], reqHeader = [], reqQuery = [], reqParams = [], reqBody = None,
     reqForm = Inr None, reqClaims = None\<rparr>"

lemma strictProm_keeps: "prom_keeps Not strictProm"
  by (auto simp: prom_keeps_def strictProm_def preserves_def)


end
