(* ===== verification/Frontend.thy ===== *)
theory Frontend
  imports ApiProperties
begin

text \<open>
  The embedded frontend, \<^verbatim>\<open>internal/api/spa.go\<close>. The embedded files are a map from paths to files and directories;
  opening one follows \<^verbatim>\<open>io/fs\<close> and \<^verbatim>\<open>embed\<close>, and serving one the file server of \<^verbatim>\<open>net/http\<close>. Ranges and
  conditional requests are left to \<open>ServeContent\<close>, the page of a directory to \<open>DirList\<close>, and both are arguments.
\<close>

section \<open>Files\<close>

datatype node = File string | Dir

type_synonym filesystem = "string \<rightharpoonup> node"

text \<open>\<^verbatim>\<open>fs.ValidPath\<close>; names that are not UTF-8 are in no embedded file system.\<close>

definition ValidPath :: "string \<Rightarrow> bool" where
  "ValidPath name \<longleftrightarrow> name = ''.'' \<or> list_all (\<lambda>e. e \<noteq> [] \<and> e \<noteq> ''.'' \<and> e \<noteq> ''..'') (Split name (CHR ''/''))"

definition Open :: "filesystem \<Rightarrow> string \<Rightarrow> node option" where
  "Open fs name = (if \<not> ValidPath name then None else if name = ''.'' then Some Dir else fs name)"

definition HasSuffix :: "string \<Rightarrow> string \<Rightarrow> bool" where
  "HasSuffix s p \<longleftrightarrow> HasPrefix (rev s) (rev p)"

definition TrimSuffix :: "string \<Rightarrow> string \<Rightarrow> string" where
  "TrimSuffix s p = rev (TrimPrefix (rev s) (rev p))"

section \<open>The file server\<close>

datatype served = ServeFile string string | Redirect string | ListDir string | Failed nat

text \<open>\<^verbatim>\<open>http.FS\<close>: names start with a slash.\<close>

definition OpenHTTP :: "filesystem \<Rightarrow> string \<Rightarrow> node option" where
  "OpenHTTP fs name = Open fs (if name = ''/'' then ''.'' else TrimPrefix name ''/'')"

definition serveFile :: "filesystem \<Rightarrow> string \<Rightarrow> string \<Rightarrow> served" where
  "serveFile fs url name = (let indexPage = ''/index.html''; ends = (url \<noteq> [] \<and> last url = (CHR ''/'')) in
     if HasSuffix url indexPage then Redirect ''./''
     else (case OpenHTTP fs name of
         None \<Rightarrow> Failed 404
       | Some Dir \<Rightarrow> if \<not> ends then Redirect (Base url @ ''/'')
           else let index = TrimSuffix name ''/'' @ indexPage in (case OpenHTTP fs index of
               Some (File content) \<Rightarrow> ServeFile (Base index) content
             | _ \<Rightarrow> ListDir name)
       | Some (File content) \<Rightarrow> if ends then (if Base url = ''/'' \<or> Base url = ''.'' then Failed 500 else Redirect (''../'' @ Base url))
           else ServeFile (Base name) content))"

record FileLib =
  ServeContent :: "Request \<Rightarrow> gomap \<Rightarrow> string \<Rightarrow> string \<Rightarrow> Response"  \<comment> \<open>headers set before, name, content\<close>
  DirList :: "Request \<Rightarrow> string \<Rightarrow> Response"
  RawQuery :: "Request \<Rightarrow> string"

definition localRedirect :: "FileLib \<Rightarrow> Request \<Rightarrow> string \<Rightarrow> Response" where
  "localRedirect lib r newPath = (respondStatus 301)\<lparr>respHeader :=
     [(''Location'', newPath @ (if RawQuery lib r = [] then [] else ''?'' @ RawQuery lib r))]\<rparr>"

definition respondServed :: "FileLib \<Rightarrow> Request \<Rightarrow> served \<Rightarrow> Response" where
  "respondServed lib r s = (case s of
       ServeFile name content \<Rightarrow> ServeContent lib r [] name content
     | Redirect newPath \<Rightarrow> localRedirect lib r newPath
     | ListDir dir \<Rightarrow> DirList lib r dir
     | Failed status \<Rightarrow> httpError (if status = 404 then ''404 page not found'' else ''500 Internal Server Error'') status)"

definition FileServer :: "FileLib \<Rightarrow> filesystem \<Rightarrow> Request \<Rightarrow> string \<Rightarrow> Response" where
  "FileServer lib fs r url = respondServed lib r (serveFile fs url (Clean url))"

section \<open>The single-page application\<close>

definition URLPath :: "Request \<Rightarrow> string" where
  "URLPath r = CHR ''/'' # joinWith (CHR ''/'') (reqPath r)"

text \<open>Without a page to fall back on the handler panics.\<close>

definition serveSPA :: "FileLib \<Rightarrow> filesystem \<Rightarrow> Request \<Rightarrow> Response option" where
  "serveSPA lib distFS r = (let path = TrimPrefix (URLPath r) ''/'' in
     case Open distFS path of
       None \<Rightarrow> (case Open distFS ''index.html'' of
           Some (File content) \<Rightarrow> Some (ServeContent lib r [(''Content-Type'', ''text/html; charset=utf-8'')] ''index.html'' content)
         | _ \<Rightarrow> None)
     | Some _ \<Rightarrow> Some (FileServer lib distFS r (URLPath r)))"

text \<open>The router's \<^verbatim>\<open>Recoverer\<close> turns a panic into status 500.\<close>

definition spaHandler :: "FileLib \<Rightarrow> filesystem \<Rightarrow> 's handler" where
  "spaHandler lib distFS r = ret (case serveSPA lib distFS r of Some resp \<Rightarrow> resp | None \<Rightarrow> respondStatus 500)"

section \<open>What is served\<close>

lemma join_Cons: "ws \<noteq> [] \<Longrightarrow> joinWith c (w # ws) = w @ c # joinWith c ws"
  by (cases ws) simp_all

lemma join_Split: "joinWith c (Split p c) = p"
proof (induction p)
  case (Cons x xs)
  obtain y ys where s: "Split xs c = y # ys" by (cases "Split xs c") auto
  with Cons.IH show ?case by (cases ys) (auto simp: join_Cons)
qed simp

lemma cleanElems_kept:
  "list_all (\<lambda>e. e \<noteq> [] \<and> e \<noteq> ''.'' \<and> e \<noteq> ''..'') es \<Longrightarrow> cleanElems rooted st es = rev st @ es"
  by (induction es arbitrary: st) auto

lemma Clean_valid:
  assumes "ValidPath p" "p \<noteq> ''.''"
  shows "Clean (CHR ''/'' # p) = CHR ''/'' # p"
  using assms by (simp add: Clean_def Let_def ValidPath_def cleanElems_kept join_Split)

lemma ValidPath_ends:
  assumes "ValidPath p"
  shows "p \<noteq> []" "last p \<noteq> (CHR ''/'')"
proof -
  have "p \<noteq> [] \<and> last p \<noteq> (CHR ''/'')"
  proof (cases "p = ''.''")
    case False
    let ?e = "last (Split p (CHR ''/''))"
    have e: "?e \<in> set (Split p (CHR ''/''))" by simp
    with False assms have "?e \<noteq> []" by (auto simp: ValidPath_def list_all_iff)
    moreover from this have "last ?e \<noteq> (CHR ''/'')" using bspec[OF Split_no_sep e] last_in_set by metis
    ultimately show ?thesis using last_joinWith[of "Split p (CHR ''/'')" "CHR ''/''"] by (simp add: join_Split)
  qed simp
  then show "p \<noteq> []" "last p \<noteq> (CHR ''/'')" by auto
qed

text \<open>What a path that opens is answered with: the file server opens the same file again.\<close>

lemma FileServer_opened:
  assumes "Open fs p = Some d"
  shows "FileServer lib fs r (CHR ''/'' # p) = (if HasSuffix (CHR ''/'' # p) ''/index.html'' then localRedirect lib r ''./''
    else case d of Dir \<Rightarrow> localRedirect lib r (Base (CHR ''/'' # p) @ ''/'')
    | File content \<Rightarrow> ServeContent lib r [] (Base (CHR ''/'' # p)) content)"
proof -
  from assms have v: "ValidPath p" by (auto simp: Open_def split: if_splits)
  have name: "(if Clean (CHR ''/'' # p) = ''/'' then ''.'' else TrimPrefix (Clean (CHR ''/'' # p)) ''/'') = p"
  proof (cases "p = ''.''")
    case True
    then show ?thesis by (simp add: Clean_def)
  next
    case False
    with v ValidPath_ends[OF v] show ?thesis by (simp add: Clean_valid TrimPrefix_def HasPrefix_def)
  qed
  have same: "OpenHTTP fs (Clean (CHR ''/'' # p)) = Some d" unfolding OpenHTTP_def name by (rule assms)
  have "d = Dir \<or> Clean (CHR ''/'' # p) = CHR ''/'' # p"
    using v Clean_valid assms by (auto simp: Open_def split: if_splits)
  with same ValidPath_ends[OF v] show ?thesis
    by (auto simp: FileServer_def serveFile_def respondServed_def Let_def split: node.splits)
qed

text \<open>C34: The embedded frontend. A path that names an embedded file is answered with that file, a directory with a
  redirect, an index page with a redirect to its directory, and every other path with the application's
  page, never with an error or a listing of a directory.\<close>

theorem serveSPA_exact:
  assumes "distFS ''index.html'' = Some (File page)"
  shows "serveSPA lib distFS r = Some (case Open distFS (joinWith (CHR ''/'') (reqPath r)) of
      None \<Rightarrow> ServeContent lib r [(''Content-Type'', ''text/html; charset=utf-8'')] ''index.html'' page
    | Some d \<Rightarrow> if HasSuffix (URLPath r) ''/index.html'' then localRedirect lib r ''./''
        else (case d of Dir \<Rightarrow> localRedirect lib r (Base (URLPath r) @ ''/'')
          | File content \<Rightarrow> ServeContent lib r [] (Base (URLPath r)) content))"
proof -
  have "TrimPrefix (URLPath r) ''/'' = joinWith (CHR ''/'') (reqPath r)" by (simp add: URLPath_def TrimPrefix_def HasPrefix_def)
  moreover have "Open distFS ''index.html'' = Some (File page)" using assms by (simp add: Open_def ValidPath_def)
  ultimately show ?thesis
    by (auto simp: serveSPA_def URLPath_def FileServer_opened split: option.splits node.splits)
qed

section \<open>A frontend\<close>

definition demoFS :: filesystem where
  "demoFS = [''index.html'' \<mapsto> File ''<html>'', ''assets'' \<mapsto> Dir, ''assets/app.js'' \<mapsto> File ''run()'']"

definition plainFiles :: FileLib where
  "plainFiles = \<lparr>ServeContent = (\<lambda>r h name content. \<lparr>respStatus = 200, respHeader = h, respBody = Some (JString content)\<rparr>),
     DirList = (\<lambda>_ _. respondStatus 200), RawQuery = (\<lambda>_. [])\<rparr>"

definition getPath :: "string list \<Rightarrow> Request" where
  "getPath p = \<lparr>reqMethod = ''GET'', reqPath = p, reqHeader = [], reqQuery = [], reqParams = [], reqBody = None,
     reqForm = Inr None, reqClaims = None\<rparr>"

theorem serveSPA_exact_witness:
  "map_option respBody (serveSPA plainFiles demoFS (getPath [''assets'', ''app.js''])) = Some (Some (JString ''run()'')) \<and>
   map_option respHeader (serveSPA plainFiles demoFS (getPath [''assets''])) = Some [(''Location'', ''assets/'')] \<and>
   map_option respBody (serveSPA plainFiles demoFS (getPath [''assets'', []])) = Some (Some (JString ''<html>'')) \<and>
   map_option respHeader (serveSPA plainFiles demoFS (getPath [''index.html''])) = Some [(''Location'', ''./'')] \<and>
   map_option respBody (serveSPA plainFiles demoFS (getPath [''..'', ''secret''])) = Some (Some (JString ''<html>''))"
proof -
  have i: "demoFS ''index.html'' = Some (File ''<html>'')" by (simp add: demoFS_def)
  show ?thesis
    unfolding serveSPA_exact[where distFS = demoFS, OF i]
    by (simp add: demoFS_def plainFiles_def getPath_def URLPath_def Open_def ValidPath_def HasSuffix_def HasPrefix_def Base_def
        localRedirect_def respondStatus_def)
qed

end
