(* ===== verification/BackupRestore.thy ===== *)
theory BackupRestore
  imports ApiDemo GameServerCreation
begin

text \<open>
  A backup from the request that orders it to the request that restores it: the backup endpoints and the
  backup controller together, over S3 and the file systems of the Pods. What the services document is the
  locale \<open>backup_cluster\<close>: an object that was uploaded is downloaded again, gzip is inverted by gunzip, and
  \<^verbatim>\<open>tar\<close> packs the files of a directory and unpacks them over the files that are there.
\<close>

section \<open>The services\<close>

abbreviation backup_content where
  "backup_content x \<equiv> (user_meta (bkMeta x), bkSpec x)"

type_synonym directory = "string \<times> string \<times> string"  \<comment> \<open>namespace, Pod, path\<close>

locale backup_cluster =
  gsapi: status_store "gameservers (Client r)" gobjs gsMeta server_content gsStatus +
  bkapi: status_store "backups (Client r)" bobjs bkMeta backup_content bkStatus +
  secapi: object_store "secrets (Client r)" sobjs secMeta scontent +
  conds: status_conditions "SetStatusCondition (Runtime r)"
  for r :: "'s Reconciler" and gobjs :: "'s \<Rightarrow> key \<Rightarrow> GameServer option" and bobjs :: "'s \<Rightarrow> key \<Rightarrow> Backup option"
    and sobjs :: "'s \<Rightarrow> key \<Rightarrow> Secret option" and scontent :: "Secret \<Rightarrow> 'e" +
  fixes env :: "('s, 'c) BackupEnv" and clock :: "'s \<Rightarrow> gotime" and config :: "'s \<Rightarrow> AdminConfig"
    and stored :: "'s \<Rightarrow> string \<times> string \<Rightarrow> string option"
    and files :: "'s \<Rightarrow> directory \<Rightarrow> string \<Rightarrow> string option"
    and untar :: "string \<Rightarrow> (string \<Rightarrow> string option) option"
  assumes now: "run_state (Now (Runtime r)) s = (clock s, s)"
    and config_loaded: "run_state (LoadAdminConfig (Client r) (Runtime r) (opNsOrDefault r)) s = (Inr (config s), s)"
    and event_frame: "preserves (\<lambda>s. (gobjs s, bobjs s, sobjs s, config s, stored s, files s) = w) (Event (Runtime r) k ty re m)"
    and create_frame: "preserves (\<lambda>s. (gobjs s, sobjs s, config s, stored s, files s) = w1) (kcreate (backups (Client r)) b)"
    and status_frame: "preserves (\<lambda>s. (gobjs s, sobjs s, config s, stored s, files s) = w1) (kstatus (backups (Client r)) b)"
    and server_frame: "preserves (\<lambda>s. (bobjs s, files s) = w2) (kstatus (gameservers (Client r)) g)"
    and client_made: "\<exists>c. NewS3 env endpoint access secret ssl = Inr c"
    and bucket_checked: "\<exists>e. run_state (BucketExists env c bucket) s = (Inr e, s)"
    and bucket_made: "\<exists>s'. run_state (MakeBucket env c bucket region) s = (Inr (), s') \<and>
      (gobjs s', bobjs s', sobjs s', config s', stored s', files s') = (gobjs s, bobjs s, sobjs s, config s, stored s, files s)"
    and object_put: "\<exists>n s'. run_state (PutObject env c bucket key (bytes, None)) s = (Inr n, s') \<and>
      stored s' = (stored s)((bucket, key) \<mapsto> bytes) \<and>
      (gobjs s', bobjs s', sobjs s', config s', files s') = (gobjs s, bobjs s, sobjs s, config s, files s)"
    and object_got: "stored s (bucket, key) = Some bytes \<Longrightarrow> run_state (GetObject env c bucket key) s = (Inr bytes, s)"
    and gunzip_gzip: "Gunzip env (Gzip env bytes) = Inr bytes"
    and tar_packs: "\<exists>tar stderr. untar tar = Some (files s (ns, pod, path)) \<and>
      run_state (PodExec env ns pod [''tar'', ''-cf'', ''-'', ''-C'', path, ''.''] []) s = (Inr (tar, stderr, None), s)"
    and tar_unpacks: "untar tar = Some d \<Longrightarrow> \<exists>out stderr s'.
      run_state (PodExec env ns pod [''tar'', ''-xf'', ''-'', ''-C'', path] tar) s = (Inr (out, stderr, None), s') \<and>
      files s' = (files s)((ns, pod, path) := files s (ns, pod, path) ++ d) \<and>
      (gobjs s', bobjs s') = (gobjs s, bobjs s)"
begin

abbreviation others where
  "others s \<equiv> (gobjs s, sobjs s, config s, files s)"

lemma setBackupCondition_ok:
  obtains cs where "run_state (setBackupCondition r st re m b) s = (b\<lparr>bkStatus := (bkStatus b)\<lparr>bConditions := cs\<rparr>\<rparr>, s)"
proof -
  let ?c = "\<lparr>cType = BackupConditionReady, cStatus = st, cReason = re, cMessage = m,
      cObservedGeneration = Generation (bkMeta b), cLastTransitionTime = None\<rparr>"
  obtain cs where "run_state (SetStatusCondition (Runtime r) (bConditions (bkStatus b)) ?c) s = (cs, s)"
    using conds.set_condition[of ?c "bConditions (bkStatus b)" s] by auto
  then show thesis by (intro that[of cs]) (simp add: setBackupCondition_def)
qed

text \<open>Writing the status of a stored backup.\<close>

lemma status_ok:
  assumes "bobjs s k = Some b" "bkMeta b' = bkMeta b"
  obtains x s' where "run_state (kstatus (backups (Client r)) b') s = (Inr x, s')" "bobjs s' = (bobjs s)(k \<mapsto> x)"
    "bkStatus x = bkStatus b'" "backup_content x = backup_content b" "others s' = others s" "stored s' = stored s"
proof -
  from bkapi.read_modify_write[OF assms] obtain x s' where w: "run_state (kstatus (backups (Client r)) b') s = (Inr x, s')"
      "bkStatus x = bkStatus b'" "backup_content x = backup_content b" "bobjs s' = (bobjs s)(k \<mapsto> x)" by blast
  moreover have "(gobjs s', sobjs s', config s', stored s', files s') = (gobjs s, sobjs s, config s, stored s, files s)"
    by (rule preservesD[OF status_frame refl w(1)])
  ultimately show thesis by (intro that[of x s']) simp_all
qed

lemma event_ok:
  obtains s' where "run_state (Event (Runtime r) k ty re m) s = ((), s')" "bobjs s' = bobjs s" "others s' = others s" "stored s' = stored s"
proof -
  obtain s' where e: "run_state (Event (Runtime r) k ty re m) s = ((), s')" by (metis (full_types) old.unit.exhaust surj_pair)
  from preservesD[OF event_frame refl e] show thesis by (intro that[OF e]) simp_all
qed

section \<open>Ordering a backup\<close>

definition none_in_progress :: "'s \<Rightarrow> string \<Rightarrow> string \<Rightarrow> bool" where
  "none_in_progress s ns n \<longleftrightarrow> (\<forall>k b. bobjs s k = Some b \<and> keyNamespace k = ns \<and>
     matches_labels [(LabelBackupGameServer, n)] (Labels (bkMeta b)) \<longrightarrow> bState (bkStatus b) \<noteq> BackupStateInProgress)"

lemma listed_in_progress:
  assumes "none_in_progress s ns n"
  obtains items where "run_state (klist (backups (Client r)) (Some ns) [(LabelBackupGameServer, n)]) s = (Inr items, s)"
    "\<forall>b \<in> set items. bState (bkStatus b) \<noteq> BackupStateInProgress"
proof -
  obtain items where "run_state (klist (backups (Client r)) (Some ns) [(LabelBackupGameServer, n)]) s = (Inr items, s)"
      "set items = {x. \<exists>k. bobjs s k = Some x \<and> (Some ns = None \<or> Some ns = Some (keyNamespace k)) \<and>
        matches_labels [(LabelBackupGameServer, n)] (Labels (bkMeta x))}"
    using bkapi.list_objects by blast
  with assms show thesis by (intro that[of items]) (auto simp: none_in_progress_def)
qed

lemma order_ok:
  assumes srv: "srvClient srv = Client r" "srvRuntime srv = Runtime r"
    and q: "namespaceFromContext q = ns" "ns \<noteq> []" "URLParam q ''name'' = n"
    and gs: "gobjs s \<lparr>keyNamespace = ns, keyName = n\<rparr> = Some gs" "running gs"
    and kb: "kb = \<lparr>keyNamespace = ns, keyName = n @ ''-backup-'' @ FormatCompact (clock s)\<rparr>"
    and free: "none_in_progress s ns n" "bobjs s kb = None"
  obtains b s' where "run_state (handleCreateBackup srv q) s = (respondJSON 201 (backupToResponse b), s')"
    "bobjs s' = (bobjs s)(kb \<mapsto> b)" "bState (bkStatus b) = BackupStatePending"
    "backup_content b = backup_content (newBackup ns n (clock s))" "others s' = others s" "stored s' = stored s"
proof -
  let ?b = "newBackup ns n (clock s)"
  have key: "key_of (bkMeta ?b) = kb" by (simp add: newBackup_def kb key_of_def NewMeta_def)
  obtain items where l: "run_state (klist (backups (Client r)) (Some ns) [(LabelBackupGameServer, n)]) s = (Inr items, s)"
      "\<forall>b \<in> set items. bState (bkStatus b) \<noteq> BackupStateInProgress"
    by (rule listed_in_progress[OF free(1)])
  obtain b1 s1 where c: "run_state (kcreate (backups (Client r)) ?b) s = (Inr b1, s1)" "backup_content b1 = backup_content ?b"
      "bobjs s1 = (bobjs s)(kb \<mapsto> b1)"
    using bkapi.create_new[of s ?b] free(2) key by auto
  have f: "(gobjs s1, sobjs s1, config s1, stored s1, files s1) = (gobjs s, sobjs s, config s, stored s, files s)"
    by (rule preservesD[OF create_frame refl c(1)])
  obtain b2 s2 where w: "run_state (kstatus (backups (Client r)) (setBackupState BackupStatePending b1)) s1 = (Inr b2, s2)"
      "bobjs s2 = (bobjs s1)(kb \<mapsto> b2)" "bkStatus b2 = bkStatus (setBackupState BackupStatePending b1)"
      "backup_content b2 = backup_content b1" "others s2 = others s1" "stored s2 = stored s1"
    by (rule status_ok[of s1 kb b1 "setBackupState BackupStatePending b1"]) (simp_all add: c(3) setBackupState_def)
  have "run_state (handleCreateBackup srv q) s = (respondJSON 201 (backupToResponse b2), s2)"
    using l(2) by (simp add: handleCreateBackup_def withNamespace_def findGameServer_def serverKey_def q srv
      gsapi.get_found[OF gs(1)] gs(2) l(1) now submitBackup_def c(1) w(1) list_ex_iff Let_def)
  then show thesis by (rule that[of b2 s2]) (use w c f in \<open>simp_all add: setBackupState_def\<close>)
qed

section \<open>Making it\<close>

lemma backup_key:
  assumes "bobjs s k = Some b"
  shows "bkKey b = k" "Namespace (bkMeta b) = keyNamespace k" "Name (bkMeta b) = keyName k"
  using bkapi.object_key[OF assms] by (auto simp: bkKey_def key_of_def)

lemma pending_ok:
  assumes b: "bobjs s k = Some b" "bState (bkStatus b) = BackupStatePending" "\<not> HasPrefix (keyName k) ''schedule-''"
    and gs: "gobjs s (bkServerKey b) = Some gs" "running gs"
    and cfg: "BackupS3Endpoint (config s) \<noteq> []"
    and free: "none_in_progress s (keyNamespace k) (GameServerName (bkSpec b))"
  obtains b' s' where "run_state (backupReconcile env r cell k) s = ((Inr ResultRequeue, cell), s')"
    "bobjs s' = (bobjs s)(k \<mapsto> b')" "bState (bkStatus b') = BackupStateInProgress" "backup_content b' = backup_content b"
    "others s' = others s" "stored s' = stored s"
proof -
  note key = backup_key[OF b(1)]
  obtain items where l: "run_state (klist (backups (Client r)) (Some (keyNamespace k)) [(LabelBackupGameServer, GameServerName (bkSpec b))]) s = (Inr items, s)"
      "\<forall>b \<in> set items. bState (bkStatus b) \<noteq> BackupStateInProgress"
    by (rule listed_in_progress[OF free])
  then have alone: "concurrentBackup b items = None" by (auto simp: concurrentBackup_def find_None_iff)
  let ?b = "b\<lparr>bkStatus := (bkStatus b)\<lparr>bState := BackupStateInProgress, StartedAt := Some (clock s), Message := ''Backup in progress''\<rparr>\<rparr>"
  obtain cs where c: "run_state (setBackupCondition r ConditionFalse ''BackupStarted'' ''Backup operation started'' ?b) s =
      (?b\<lparr>bkStatus := (bkStatus ?b)\<lparr>bConditions := cs\<rparr>\<rparr>, s)"
    by (rule setBackupCondition_ok)
  let ?b' = "?b\<lparr>bkStatus := (bkStatus ?b)\<lparr>bConditions := cs\<rparr>\<rparr>"
  obtain x s1 where w: "run_state (kstatus (backups (Client r)) ?b') s = (Inr x, s1)" "bobjs s1 = (bobjs s)(k \<mapsto> x)"
      "bkStatus x = bkStatus ?b'" "backup_content x = backup_content b" "others s1 = others s" "stored s1 = stored s"
    by (rule status_ok[OF b(1), of ?b']) simp_all
  obtain s2 where e: "run_state (Event (Runtime r) k ''Normal'' ''BackupStarted''
        (''Backup started for GameServer '' @ GameServerName (bkSpec b))) s1 = ((), s2)"
      "bobjs s2 = bobjs s1" "others s2 = others s1" "stored s2 = stored s1"
    by (rule event_ok)
  have "run_state (startBackup r b) s = (Inr ResultRequeue, s2)"
    using c w(1) e(1) by (simp add: startBackup_def now key(1) bkapi.get_found[OF b(1)])
  then have "run_state (backupReconcile env r cell k) s = ((Inr ResultRequeue, cell), s2)"
    by (simp add: backupReconcile_def b(2,3) bkapi.get_found[OF b(1)] reconcileBackup_def IsBackupTerminal_def config_loaded
        reconcilePending_def cfg gsapi.get_found[OF gs(1)] gs(2) key(2) l(1) alone)
  then show thesis by (rule that[of s2 x]) (use w e in simp_all)
qed

lemma client_ok:
  assumes "sobjs s \<lparr>keyNamespace = OperatorNamespace r, keyName = s3CredentialsSecretName\<rparr> = Some sec"
    "mget (secData sec) ''accessKeyID'' \<noteq> []" "mget (secData sec) ''secretAccessKey'' \<noteq> []"
  obtains cb where "run_state (ensureS3Client env r cell cfg) s = (Inr cb, s)"
proof (cases cell)
  case None
  obtain c where "NewS3 env (BackupS3Endpoint cfg) (mget (secData sec) ''accessKeyID'') (mget (secData sec) ''secretAccessKey'')
      (BackupS3UseSSL cfg) = Inr c" using client_made by blast
  with None show thesis
    by (intro that[of "(c, BackupS3Bucket cfg)"]) (simp add: ensureS3Client_def secapi.get_found[OF assms(1)] assms Let_def)
qed (auto intro: that simp: ensureS3Client_def)

text \<open>The archive that is uploaded unpacks to the files of the directory.\<close>

lemma performBackup_ok:
  obtains n s' tar where "run_state (performBackup env cb ns pod path k) s = (Inr n, s')" "untar tar = Some (files s (ns, pod, path))"
    "stored s' = (stored s)((snd cb, k) \<mapsto> Gzip env tar)" "bobjs s' = bobjs s" "others s' = others s"
proof -
  obtain tar stderr where t: "untar tar = Some (files s (ns, pod, path))"
      "run_state (PodExec env ns pod [''tar'', ''-cf'', ''-'', ''-C'', path, ''.''] []) s = (Inr (tar, stderr, None), s)"
    using tar_packs by blast
  obtain n s' where p: "run_state (PutObject env (fst cb) (snd cb) k (Gzip env tar, None)) s = (Inr n, s')"
      "stored s' = (stored s)((snd cb, k) \<mapsto> Gzip env tar)"
      "(gobjs s', bobjs s', sobjs s', config s', files s') = (gobjs s, bobjs s, sobjs s, config s, files s)"
    using object_put by blast
  show thesis
    by (rule that[of n s' tar]) (use t p in \<open>simp_all add: performBackup_def execTarFromPod_def execError_def\<close>)
qed

lemma complete_ok:
  assumes b: "bobjs s k = Some b"
  obtains b' s' where "run_state (completeBackup r b gs bucket key n) s = (Inr Result0, s')" "bobjs s' = (bobjs s)(k \<mapsto> b')"
    "bState (bkStatus b') = BackupStateCompleted" "S3Bucket (bkStatus b') = bucket" "S3Key (bkStatus b') = key"
    "backup_content b' = backup_content b" "others s' = others s" "stored s' = stored s"
proof -
  let ?m = "''Backup completed, size: '' @ Itoa n @ '' bytes''"
  let ?b = "b\<lparr>bkStatus := (bkStatus b)\<lparr>bState := BackupStateCompleted, S3Key := key, S3Bucket := bucket, Size := n,
    CompletedAt := Some (clock s), Message := ''Backup completed successfully''\<rparr>\<rparr>"
  obtain cs where c: "run_state (setBackupCondition r ConditionTrue ''BackupCompleted'' ?m ?b) s =
      (?b\<lparr>bkStatus := (bkStatus ?b)\<lparr>bConditions := cs\<rparr>\<rparr>, s)"
    by (rule setBackupCondition_ok)
  let ?b' = "?b\<lparr>bkStatus := (bkStatus ?b)\<lparr>bConditions := cs\<rparr>\<rparr>"
  obtain x s1 where w: "run_state (kstatus (backups (Client r)) ?b') s = (Inr x, s1)" "bobjs s1 = (bobjs s)(k \<mapsto> x)"
      "bkStatus x = bkStatus ?b'" "backup_content x = backup_content b" "others s1 = others s" "stored s1 = stored s"
    by (rule status_ok[OF b, of ?b']) simp_all
  obtain s2 where e: "run_state (Event (Runtime r) k ''Normal'' ''BackupCompleted'' (''Backup completed for GameServer '' @
        Name (gsMeta gs) @ '' (size: '' @ Itoa n @ '' bytes, key: '' @ key @ '')'')) s1 = ((), s2)"
      "bobjs s2 = bobjs s1" "others s2 = others s1" "stored s2 = stored s1"
    by (rule event_ok)
  have "run_state (completeBackup r b gs bucket key n) s = (Inr Result0, s2)"
    using c w(1) e(1) by (simp add: completeBackup_def now backup_key(1)[OF b] bkapi.get_found[OF b])
  then show thesis by (rule that[of s2 x]) (use w e in simp_all)
qed

lemma in_progress_ok:
  assumes b: "bobjs s k = Some b" "bState (bkStatus b) = BackupStateInProgress" "\<not> HasPrefix (keyName k) ''schedule-''"
    and gs: "gobjs s (bkServerKey b) = Some gs" "running gs"
    and sec: "sobjs s \<lparr>keyNamespace = OperatorNamespace r, keyName = s3CredentialsSecretName\<rparr> = Some sec"
      "mget (secData sec) ''accessKeyID'' \<noteq> []" "mget (secData sec) ''secretAccessKey'' \<noteq> []"
  obtains b' s' tar cb where "run_state (backupReconcile env r cell k) s = ((Inr Result0, Some cb), s')"
    "bobjs s' = (bobjs s)(k \<mapsto> b')" "bState (bkStatus b') = BackupStateCompleted" "backup_content b' = backup_content b"
    "stored s' (S3Bucket (bkStatus b'), S3Key (bkStatus b')) = Some (Gzip env tar)"
    "untar tar = Some (files s (keyNamespace (bkServerKey b), keyName (bkServerKey b), backupPathOf gs b))" "others s' = others s"
proof -
  let ?ns = "Namespace (gsMeta gs)" and ?n = "Name (gsMeta gs)"
  have "bkServerKey b = key_of (gsMeta gs)" using gsapi.object_key[OF gs(1)] by simp
  then have server: "keyNamespace (bkServerKey b) = ?ns" "keyName (bkServerKey b) = ?n" by (simp_all add: key_of_def)
  obtain cb where c: "run_state (ensureS3Client env r cell (config s)) s = (Inr cb, s)" by (rule client_ok[OF sec])
  obtain e where ex: "run_state (BucketExists env (fst cb) (snd cb)) s = (Inr e, s)" using bucket_checked by blast
  obtain s1 where m: "run_state (if e then ret (Inr ()) else MakeBucket env (fst cb) (snd cb) (BackupS3Region (config s))) s = (Inr (), s1)"
      "bobjs s1 = bobjs s" "others s1 = others s" "stored s1 = stored s"
    using bucket_made[of "fst cb" "snd cb" "BackupS3Region (config s)" s] by (cases e) auto
  let ?key = "backupObjectKey gs (clock s1)"
  obtain n s2 tar where p: "run_state (performBackup env cb ?ns ?n (backupPathOf gs b) ?key) s1 = (Inr n, s2)"
      "untar tar = Some (files s1 (?ns, ?n, backupPathOf gs b))" "stored s2 = (stored s1)((snd cb, ?key) \<mapsto> Gzip env tar)"
      "bobjs s2 = bobjs s1" "others s2 = others s1"
    by (rule performBackup_ok)
  have b2: "bobjs s2 k = Some b" using b(1) m(2) p(4) by simp
  obtain b' s3 where f: "run_state (completeBackup r b gs (snd cb) ?key n) s2 = (Inr Result0, s3)" "bobjs s3 = (bobjs s2)(k \<mapsto> b')"
      "bState (bkStatus b') = BackupStateCompleted" "S3Bucket (bkStatus b') = snd cb" "S3Key (bkStatus b') = ?key"
      "backup_content b' = backup_content b" "others s3 = others s2" "stored s3 = stored s2"
    by (rule complete_ok[OF b2])
  have "run_state (transferBackup env r cb b gs (config s)) s = (Inr Result0, s3)"
    using m(1) by (simp add: transferBackup_def ex now p(1) f(1))
  then have "run_state (backupReconcile env r cell k) s = ((Inr Result0, Some cb), s3)"
    by (simp add: backupReconcile_def b(2,3) bkapi.get_found[OF b(1)] reconcileBackup_def IsBackupTerminal_def config_loaded
        reconcileInProgress_def gsapi.get_found[OF gs(1)] gs(2) c)
  then show thesis by (rule that[of cb s3 b' tar]) (use m p f server in simp_all)
qed

section \<open>Restoring it\<close>

lemma restore_ok:
  assumes srv: "srvClient srv = Client r" "srvRuntime srv = Runtime r" "srvEnv srv = env" "srvNamespace srv = OperatorNamespace r"
      "OperatorNamespace r \<noteq> []"
    and q: "namespaceFromContext q = ns" "ns \<noteq> []" "URLParam q ''name'' = n" "URLParam q ''backupName'' = keyName kb" "keyNamespace kb = ns"
    and gs: "gobjs s \<lparr>keyNamespace = ns, keyName = n\<rparr> = Some gs" "running gs"
    and b: "bobjs s kb = Some b" "bState (bkStatus b) = BackupStateCompleted" "GameServerName (bkSpec b) = n"
    and cfg: "BackupS3Endpoint (config s) \<noteq> []"
    and sec: "sobjs s \<lparr>keyNamespace = OperatorNamespace r, keyName = s3CredentialsSecretName\<rparr> = Some sec"
      "mget (secData sec) ''accessKeyID'' \<noteq> []" "mget (secData sec) ''secretAccessKey'' \<noteq> []"
    and tar: "stored s (S3Bucket (bkStatus b), S3Key (bkStatus b)) = Some (Gzip env tar)" "untar tar = Some d"
  obtains s' gs' where "run_state (handleRestoreBackup srv q) s = (restoreMessage q True, s')"
    "files s' = (files s)((ns, n, restorePath gs) := files s (ns, n, restorePath gs) ++ d)"
    "gobjs s' = (gobjs s)(\<lparr>keyNamespace = ns, keyName = n\<rparr> \<mapsto> gs')" "gsState gs' = GameServerStateCreating"
    "server_content gs' = server_content gs" "bobjs s' = bobjs s"
proof -
  let ?k = "\<lparr>keyNamespace = ns, keyName = n\<rparr>"
  obtain c where c: "NewS3 env (BackupS3Endpoint (config s)) (mget (secData sec) ''accessKeyID'') (mget (secData sec) ''secretAccessKey'')
      (BackupS3UseSSL (config s)) = Inr c" using client_made by blast
  obtain out stderr s1 where x: "run_state (PodExec env ns n [''tar'', ''-xf'', ''-'', ''-C'', restorePath gs] tar) s = (Inr (out, stderr, None), s1)"
      "files s1 = (files s)((ns, n, restorePath gs) := files s (ns, n, restorePath gs) ++ d)" "(gobjs s1, bobjs s1) = (gobjs s, bobjs s)"
    using tar_unpacks[OF tar(2)] by blast
  have gs1: "gobjs s1 ?k = Some gs" using x(3) gs(1) by simp
  obtain gs' s2 where w: "run_state (kstatus (gameservers (Client r)) (setState GameServerStateCreating gs)) s1 = (Inr gs', s2)"
      "gsStatus gs' = gsStatus (setState GameServerStateCreating gs)" "server_content gs' = server_content gs" "gobjs s2 = (gobjs s1)(?k \<mapsto> gs')"
    using gsapi.read_modify_write[OF gs1, of "setState GameServerStateCreating gs"] by (auto simp: setState_def)
  have f: "(bobjs s2, files s2) = (bobjs s1, files s1)" by (rule preservesD[OF server_frame refl w(1)])
  have kb: "\<lparr>keyNamespace = ns, keyName = keyName kb\<rparr> = kb" using q(5) by (cases kb) simp
  have load: "run_state (loadAdminConfig srv) s = (Inr (config s), s)"
    using config_loaded[of s] srv by (simp add: loadAdminConfig_def opNsOrDefault_def)
  have client: "run_state (createS3Client srv (config s)) s = (Inr c, s)"
    by (simp add: createS3Client_def srv secapi.get_found[OF sec(1)] sec(2,3) c Let_def)
  have "run_state (handleRestoreBackup srv q) s = (restoreMessage q True, s2)"
    using x(1) w(1) by (simp add: handleRestoreBackup_def withNamespace_def findGameServer_def findBackup_def serverKey_def q kb srv
        gsapi.get_found[OF gs(1)] gsapi.get_found[OF gs1] gs(2) bkapi.get_found[OF b(1)] b(2,3) load cfg client restoreFrom_def
        object_got[OF tar(1)] gunzip_gzip execInPod_def restartServer_def Let_def)
  then show thesis
    by (rule that[of s2 gs']) (use w x f in \<open>simp_all add: setState_def\<close>)
qed

end

section \<open>From order to restoration\<close>


section \<open>The reference cluster keeps backups\<close>

text \<open>An archive is the list of its names and contents, each with its length, after their number.\<close>

fun pairUp :: "string list \<Rightarrow> (string \<times> string) list" where
  "pairUp (k # v # ss) = (k, v) # pairUp ss"
| "pairUp _ = []"

definition tarFiles :: "(string \<times> string) list \<Rightarrow> string" where
  "tarFiles fs = (let ss = concat (map (\<lambda>(k, v). [k, v]) fs) in packStrings (replicate (length ss) (CHR ''x'') # ss))"

definition untarFiles :: "string \<Rightarrow> (string \<times> string) list" where
  "untarFiles t = pairUp (tl (unpackStrings (Suc (length (hd (unpackStrings 1 t)))) t))"

lemma unpack_first: "unpackStrings 1 (packStrings (s # ss)) = [s]"
  by (simp add: packStrings_def takeWhile_ones)

lemma untar_tar: "untarFiles (tarFiles fs) = fs"
proof -
  let ?ss = "concat (map (\<lambda>(k, v). [k, v]) fs)"
  let ?all = "replicate (length ?ss) (CHR ''x'') # ?ss"
  have "unpackStrings (Suc (length ?ss)) (packStrings ?all) = ?all" using unpack_pack[of ?all] by simp
  moreover have "pairUp ?ss = fs" by (induction fs) auto
  ultimately show ?thesis by (simp add: untarFiles_def tarFiles_def Let_def unpack_first[simplified])
qed

definition podFiles :: "cluster \<Rightarrow> directory \<Rightarrow> (string \<times> string) list" where
  "podFiles c d = (case map_of (cFiles c) d of None \<Rightarrow> [] | Some l \<Rightarrow> l)"

definition podTar :: "string \<Rightarrow> string \<Rightarrow> string list \<Rightarrow> string \<Rightarrow> cluster \<Rightarrow> (gerr + string \<times> string \<times> gerr option) \<times> cluster" where
  "podTar ns pod cmd stdin c = (case cmd of
       [_, _, _, _, path, _] \<Rightarrow> (Inr (tarFiles (podFiles c (ns, pod, path)), [], None), c)
     | [_, _, _, _, path] \<Rightarrow> (Inr ([], [], None), c\<lparr>cFiles := AList.update (ns, pod, path)
         (untarFiles stdin @ podFiles c (ns, pod, path)) (cFiles c)\<rparr>)
     | _ \<Rightarrow> (Inr ([], [], None), c))"

definition storageEnv :: "(cluster, unit) BackupEnv" where
  "storageEnv = demoEnv\<lparr>
     PutObject := (\<lambda>_ b k st. State_Monad.State (\<lambda>c. case snd st of
         None \<Rightarrow> (Inr (int (length (fst st))), c\<lparr>cBuckets := AList.update (b, k) (fst st) (cBuckets c)\<rparr>)
       | Some e \<Rightarrow> (Inl e, c))),
     GetObject := (\<lambda>_ b k. State_Monad.State (\<lambda>c. (case map_of (cBuckets c) (b, k) of
         None \<Rightarrow> Inl (ErrNew ''no such key'') | Some x \<Rightarrow> Inr x, c))),
     PodExec := (\<lambda>ns pod cmd stdin. State_Monad.State (podTar ns pod cmd stdin)),
     Gzip := (\<lambda>x. CHR ''z'' # x),
     Gunzip := (\<lambda>x. case x of [] \<Rightarrow> Inl (ErrNew ''unexpected EOF'') | _ # y \<Rightarrow> Inr y)\<rparr>"

interpretation kbackup: backup_cluster cluster_reconciler "store_find KGameServer" "store_find KBackup" "store_find KSecret"
    "\<lambda>x. (user_meta (secMeta x), secType x, secData x)" storageEnv cClock cluster_config "\<lambda>c. map_of (cBuckets c)"
    "\<lambda>c d. map_of (podFiles c d)" "\<lambda>t. Some (map_of (untarFiles t))"
proof (intro backup_cluster.intro backup_cluster_axioms.intro)
  show "status_store (gameservers (Client cluster_reconciler)) (store_find KGameServer) gsMeta server_content gsStatus"
    using kgs.st.status_store_axioms by simp
  show "status_store (backups (Client cluster_reconciler)) (store_find KBackup) bkMeta backup_content bkStatus"
    using kbk.st.status_store_axioms by simp
  show "object_store (secrets (Client cluster_reconciler)) (store_find KSecret) secMeta (\<lambda>x. (user_meta (secMeta x), secType x, secData x))"
    using ksec.st.object_store_axioms by simp
  show "status_conditions (SetStatusCondition (Runtime cluster_reconciler))"
    using kcond.status_conditions_axioms by simp
  let ?v = "\<lambda>s. (store_find KGameServer s, store_find KBackup s, store_find KSecret s, cluster_config s, map_of (cBuckets s), \<lambda>d. map_of (podFiles s d))"
  let ?v1 = "\<lambda>s. (store_find KGameServer s, store_find KSecret s, cluster_config s, map_of (cBuckets s), \<lambda>d. map_of (podFiles s d))"
  have v1: "?v1 (kPut KBackup xs c) = ?v1 c" "?v1 (kBump KBackup c) = ?v1 c" for c xs
    by (simp_all add: store_find_def kind_defs fun_eq_iff cluster_config_def podFiles_def)
  show "preserves (\<lambda>s. ?v s = w) (Event (Runtime cluster_reconciler) k ty re m)" for w k ty re m
    by (rule preserves_view) (simp add: cluster_runtime_def store_find_def kind_defs fun_eq_iff cluster_config_def podFiles_def)
  show "preserves (\<lambda>s. ?v1 s = w) (kcreate (backups (Client cluster_reconciler)) b)" for w b
    by (rule preserves_view) (simp only: cluster_reconciler_simps cluster_client_simps run_store_api kbk.write_frames[where view = ?v1, OF v1])
  show "preserves (\<lambda>s. ?v1 s = w) (kstatus (backups (Client cluster_reconciler)) b)" for w b
    by (rule preserves_view) (simp only: cluster_reconciler_simps cluster_client_simps run_store_api kbk.write_frames[where view = ?v1, OF v1])
  let ?v2 = "\<lambda>s. (store_find KBackup s, \<lambda>d. map_of (podFiles s d))"
  have v2: "?v2 (kPut KGameServer xs c) = ?v2 c" "?v2 (kBump KGameServer c) = ?v2 c" for c xs
    by (simp_all add: store_find_def kind_defs fun_eq_iff podFiles_def)
  show "preserves (\<lambda>s. ?v2 s = w) (kstatus (gameservers (Client cluster_reconciler)) g)" for w g
    by (rule preserves_view) (simp only: cluster_reconciler_simps cluster_client_simps run_store_api kgs.write_frames[where view = ?v2, OF v2])
  show "run_state (LoadAdminConfig (Client cluster_reconciler) (Runtime cluster_reconciler) (opNsOrDefault cluster_reconciler)) s =
      (Inr (cluster_config s), s)" for s
    by (simp add: LoadAdminConfig_def cluster_config_def opNsOrDefault_def cluster_reconciler_def split: option.split)
  show "\<exists>n s'. run_state (PutObject storageEnv c b k (bytes, None)) s = (Inr n, s') \<and>
      map_of (cBuckets s') = (map_of (cBuckets s))((b, k) \<mapsto> bytes) \<and>
      (store_find KGameServer s', store_find KBackup s', store_find KSecret s', cluster_config s', \<lambda>d. map_of (podFiles s' d)) =
      (store_find KGameServer s, store_find KBackup s, store_find KSecret s, cluster_config s, \<lambda>d. map_of (podFiles s d))" for c b k bytes s
    by (simp add: storageEnv_def update_conv' store_find_def kind_defs fun_eq_iff cluster_config_def podFiles_def)
  show "\<exists>tar stderr. Some (map_of (untarFiles tar)) = Some (map_of (podFiles s (ns, pod, path))) \<and>
      run_state (PodExec storageEnv ns pod [''tar'', ''-cf'', ''-'', ''-C'', path, ''.''] []) s = (Inr (tar, stderr, None), s)" for s ns pod path
    by (simp add: storageEnv_def podTar_def untar_tar)
  show "\<exists>out stderr s'. run_state (PodExec storageEnv ns pod [''tar'', ''-xf'', ''-'', ''-C'', path] tar) s = (Inr (out, stderr, None), s') \<and>
      (\<lambda>d. map_of (podFiles s' d)) = (\<lambda>d. map_of (podFiles s d))((ns, pod, path) := map_of (podFiles s (ns, pod, path)) ++ d) \<and>
      (store_find KGameServer s', store_find KBackup s') = (store_find KGameServer s, store_find KBackup s)"
    if "Some (map_of (untarFiles tar)) = Some d" for tar d ns pod path s
    using that by (auto simp: storageEnv_def podTar_def podFiles_def update_conv' map_add_def store_find_def kind_defs fun_eq_iff
        split: option.split)
qed (auto simp: cluster_runtime_def storageEnv_def demoEnv_def)

section \<open>A concrete backup\<close>

definition storageServer :: "(cluster, unit) Server" where
  "storageServer = demoServer\<lparr>srvEnv := storageEnv\<rparr>"

definition worldFiles :: "(string \<times> string) list \<Rightarrow> ((string \<times> string \<times> string) \<times> (string \<times> string) list) list" where
  "worldFiles fs = [((''user-alice'', ''mc'', ''/data''), fs)]"

definition storageCluster :: cluster where
  "storageCluster = (backupCluster BackupStatePending)\<lparr>cBackups := [], cFiles := worldFiles [(''world'', ''v1'')],
     cConfigMaps := [\<lparr>cmMeta = NewMeta ''kterodactyl-system'' adminConfigMapName [], cmData = [(''backupS3Endpoint'', ''s3.local'')]\<rparr>]\<rparr>"

definition storageKey :: key where
  "storageKey = \<lparr>keyNamespace = ''user-alice'', keyName = ''mc-backup-'' @ FormatCompact 0\<rparr>"

lemma storageServer_simps [simp]:
  "srvClient storageServer = cluster_client" "srvRuntime storageServer = cluster_runtime" "srvEnv storageServer = storageEnv"
  "srvNamespace storageServer = ''kterodactyl-system''" "OperatorNamespace cluster_reconciler = ''kterodactyl-system''"
  by (simp_all add: storageServer_def cluster_reconciler_def)

definition storageSecret :: Secret where
  "storageSecret = \<lparr>secMeta = NewMeta ''kterodactyl-system'' s3CredentialsSecretName [], secType = [],
     secData = [(''accessKeyID'', ''k''), (''secretAccessKey'', ''s'')]\<rparr>"

definition secretKey :: key where
  "secretKey = \<lparr>keyNamespace = ''kterodactyl-system'', keyName = s3CredentialsSecretName\<rparr>"

lemma storageCluster_objects:
  "store_find KGameServer storageCluster demoKey = Some (demoGS GameServerStateReady)" "running (demoGS GameServerStateReady)"
  "BackupS3Endpoint (cluster_config storageCluster) \<noteq> []" "store_find KSecret storageCluster secretKey = Some storageSecret"
  "restorePath (demoGS GameServerStateReady) = ''/data''"
  by code_simp+

lemma storageCluster_backups: "store_find KBackup storageCluster j = None"
  by (simp add: store_find_def storageCluster_def kind_defs)

lemma storageKey_facts:
  "storageKey = \<lparr>keyNamespace = ''user-alice'', keyName = ''mc'' @ ''-backup-'' @ FormatCompact (cClock storageCluster)\<rparr>"
  "\<not> HasPrefix (keyName storageKey) ''schedule-''"
  by (simp_all add: storageKey_def storageCluster_def backupCluster_def demoCluster_def cluster0_def HasPrefix_def)

lemma podFiles_world: "podFiles (c\<lparr>cFiles := worldFiles fs\<rparr>) (''user-alice'', ''mc'', ''/data'') = fs"
  "podFiles storageCluster (''user-alice'', ''mc'', ''/data'') = [(''world'', ''v1'')]"
  by (simp_all add: podFiles_def worldFiles_def storageCluster_def)

text \<open>Replacing the files leaves the objects alone.\<close>

lemma files_frame:
  "store_find KBackup (c\<lparr>cFiles := fs\<rparr>) = store_find KBackup c" "store_find KSecret (c\<lparr>cFiles := fs\<rparr>) = store_find KSecret c"
  "store_find KGameServer (c\<lparr>cFiles := fs\<rparr>) = store_find KGameServer c" "cluster_config (c\<lparr>cFiles := fs\<rparr>) = cluster_config c"
  by (simp_all add: store_find_def kind_defs fun_eq_iff cluster_config_def)


end
