(* ===== verification/ServerLife.thy ===== *)
theory ServerLife
  imports ApiDemo GameServerCreation
begin

text \<open>
  A game server from the request that creates it to the request that deletes it: the endpoints of the API and
  the GameServer controller together. \<open>managed_cluster\<close> adds to a cluster that provisions what the API server
  documents of creation, update and deletion of game servers.
\<close>

section \<open>The cluster\<close>

locale managed_cluster = provisioning_cluster r gobjs pobjs clock vobjs vcontent config
  for r :: "'s Reconciler" and gobjs :: "'s \<Rightarrow> key \<Rightarrow> GameServer option"
    and pobjs :: "'s \<Rightarrow> key \<Rightarrow> Pod option" and clock :: "'s \<Rightarrow> gotime"
    and vobjs :: "'s \<Rightarrow> key \<Rightarrow> PVC option" and vcontent :: "PVC \<Rightarrow> 'c" and config :: "'s \<Rightarrow> AdminConfig" +
  assumes created: "run_state (kcreate (gameservers (Client r)) x) s = (Inr x', s') \<Longrightarrow> gsStatus x = GameServerStatus0 \<Longrightarrow>
      DeletionTimestamp (gsMeta x) = None \<Longrightarrow> gsStatus x' = GameServerStatus0 \<and> DeletionTimestamp (gsMeta x') = None"
    and create_frame: "preserves (\<lambda>s. (pobjs s, vobjs s, config s) = w) (kcreate (gameservers (Client r)) x)"
    and update_live: "gobjs s (key_of (gsMeta x)) = Some cur \<Longrightarrow> ResourceVersion (gsMeta x) = ResourceVersion (gsMeta cur) \<Longrightarrow>
      DeletionTimestamp (gsMeta cur) = None \<Longrightarrow>
      \<exists>x' s'. run_state (kupdate (gameservers (Client r)) x) s = (Inr x', s') \<and> server_content x' = server_content x \<and>
        gsStatus x' = gsStatus cur \<and> DeletionTimestamp (gsMeta x') = None \<and> gobjs s' = (gobjs s)(key_of (gsMeta x) \<mapsto> x')"
    and update_collects: "gobjs s (key_of (gsMeta x)) = Some cur \<Longrightarrow> ResourceVersion (gsMeta x) = ResourceVersion (gsMeta cur) \<Longrightarrow>
      DeletionTimestamp (gsMeta cur) \<noteq> None \<Longrightarrow> Finalizers (gsMeta x) = [] \<Longrightarrow>
      \<exists>x' s'. run_state (kupdate (gameservers (Client r)) x) s = (Inr x', s') \<and> gobjs s' = (gobjs s)(key_of (gsMeta x) := None)"
    and update_frame: "preserves (\<lambda>s. (pobjs s, vobjs s, config s) = w) (kupdate (gameservers (Client r)) x)"
    and delete_waits: "gobjs s (key_of (gsMeta x)) = Some cur \<Longrightarrow> Finalizers (gsMeta cur) \<noteq> [] \<Longrightarrow>
      run_state (kdelete (gameservers (Client r)) x g) s = (Inr (), s') \<Longrightarrow>
      \<exists>x'. gobjs s' (key_of (gsMeta x)) = Some x' \<and> server_content x' = server_content cur"
    and server_delete_frame: "preserves (\<lambda>s. pobjs s = p) (kdelete (gameservers (Client r)) x g)"
    and add_finalizer: "f \<notin> set (Finalizers m) \<Longrightarrow> AddFinalizer (Runtime r) m f = m\<lparr>Finalizers := Finalizers m @ [f]\<rparr>"
    and remove_finalizer: "RemoveFinalizer (Runtime r) m f = m\<lparr>Finalizers := filter (\<lambda>x. x \<noteq> f) (Finalizers m)\<rparr>"
begin

lemma create_ok:
  assumes srv: "gameservers (srvClient srv) = gameservers (Client r)"
    and q: "namespaceFromContext q = ns" "ns \<noteq> []" "usernameFromContext q = user" "user \<noteq> []"
      "decodeJSON decodeCreateGameServer q = Inr req" "validateCreateGameServer req = None"
      "LoaderGet (srvManifests srv) (cgGameType req) = Some m"
      "ValidateParameters m (mergeMaps (mParameters m) (cgParameters req)) = None"
    and new: "gs = newGameServer ns user req m (mergeMaps (mParameters m) (cgParameters req))" "k = key_of (gsMeta gs)" "gobjs s k = None"
  obtains gs' s' where "run_state (handleCreateGameServer srv q) s = (respondJSON 201 (gameServerToResponse gs'), s')"
    "gobjs s' = (gobjs s)(k \<mapsto> gs')" "server_content gs' = server_content gs" "gsStatus gs' = GameServerStatus0"
    "DeletionTimestamp (gsMeta gs') = None" "pobjs s' = pobjs s" "vobjs s' = vobjs s" "config s' = config s"
proof -
  obtain gs' s' where c: "run_state (kcreate (gameservers (Client r)) gs) s = (Inr gs', s')" "server_content gs' = server_content gs"
      "gobjs s' = (gobjs s)(k \<mapsto> gs')"
    using gsapi.create_new[of s gs] new(2,3) by auto
  have st: "gsStatus gs' = GameServerStatus0 \<and> DeletionTimestamp (gsMeta gs') = None"
    by (rule created[OF c(1)]) (simp_all add: new(1) newGameServer_def NewMeta_def)
  have f: "(pobjs s', vobjs s', config s') = (pobjs s, vobjs s, config s)" by (rule preservesD[OF create_frame refl c(1)])
  have "run_state (handleCreateGameServer srv q) s = (respondJSON 201 (gameServerToResponse gs'), s')"
    using c(1) by (simp add: handleCreateGameServer_def q srv new(1) Let_def)
  then show thesis by (rule that[of gs' s']) (use c st f in simp_all)
qed

text \<open>The first reconcile of a new server adds the finalizer and nothing else.\<close>

lemma adds_finalizer:
  assumes gs: "gobjs s k = Some gs" "DeletionTimestamp (gsMeta gs) = None" "Finalizers (gsMeta gs) = []"
  obtains s' gs' where "run_state (Reconcile r k) s = (Inr ResultRequeue, s')" "gobjs s' = (gobjs s)(k \<mapsto> gs')"
    "server_content gs' = server_content (gs\<lparr>gsMeta := (gsMeta gs)\<lparr>Finalizers := [FinalizerName]\<rparr>\<rparr>)" "gsStatus gs' = gsStatus gs"
    "DeletionTimestamp (gsMeta gs') = None" "pobjs s' = pobjs s" "vobjs s' = vobjs s" "config s' = config s"
proof -
  let ?x = "gs\<lparr>gsMeta := (gsMeta gs)\<lparr>Finalizers := [FinalizerName]\<rparr>\<rparr>"
  from gsapi.object_key[OF gs(1)] have key: "key_of (gsMeta ?x) = k" by (simp add: key_of_def)
  obtain x' s' where u: "run_state (kupdate (gameservers (Client r)) ?x) s = (Inr x', s')" "server_content x' = server_content ?x"
      "gsStatus x' = gsStatus gs" "DeletionTimestamp (gsMeta x') = None" "gobjs s' = (gobjs s)(k \<mapsto> x')"
    using update_live[of s ?x gs] gs key by auto
  have f: "(pobjs s', vobjs s', config s') = (pobjs s, vobjs s, config s)" by (rule preservesD[OF update_frame refl u(1)])
  have "run_state (Reconcile r k) s = (Inr ResultRequeue, s')"
    using u(1) by (simp add: Reconcile_def gsapi.get_found[OF gs(1)] reconcileFetched_def gs finalizers add_finalizer)
  then show thesis by (rule that[of s' x']) (use u f in simp_all)
qed

text \<open>The deletion that was ordered waits for the finalizer; the reconcile after it removes the Pod and lets go of the server.\<close>

lemma delete_ordered:
  assumes srv: "gameservers (srvClient srv) = gameservers (Client r)"
    and q: "namespaceFromContext q = ns" "ns \<noteq> []" "k = serverKey ns q"
    and gs: "gobjs s k = Some gs" "Finalizers (gsMeta gs) = [FinalizerName]"
  obtains s' gs' where "run_state (handleDeleteGameServer srv q) s = (respondStatus 204, s')" "gobjs s' = (gobjs s)(k \<mapsto> gs')"
    "DeletionTimestamp (gsMeta gs') \<noteq> None" "server_content gs' = server_content gs" "pobjs s' = pobjs s"
proof -
  note key = gsapi.object_key[OF gs(1)]
  obtain gs' s' where d: "run_state (kdelete (gameservers (Client r)) gs None) s = (Inr (), s')" "DeletionTimestamp (gsMeta gs') \<noteq> None"
      "gobjs s' = (gobjs s)(k \<mapsto> gs')"
    using gsapi.delete_finalized[of s gs gs None] gs key by auto
  have "server_content gs' = server_content gs" using delete_waits[of s gs gs None s'] gs key d by auto
  moreover have "pobjs s' = pobjs s" by (rule preservesD[OF server_delete_frame refl d(1)])
  moreover have "run_state (handleDeleteGameServer srv q) s = (respondStatus 204, s')"
    using d(1) by (simp add: handleDeleteGameServer_def withNamespace_def fetchGameServer_def q(1,2) q(3)[symmetric] srv
        gsapi.get_found[OF gs(1)])
  ultimately show thesis using that d by blast
qed

lemma finalizes:
  assumes gs: "gobjs s k = Some gs" "DeletionTimestamp (gsMeta gs) \<noteq> None" "Finalizers (gsMeta gs) = [FinalizerName]"
    and pod: "\<And>p. pobjs s k = Some p \<Longrightarrow> Finalizers (podMeta p) = []"
  obtains s' where "run_state (Reconcile r k) s = (Inr Result0, s')" "gobjs s' = (gobjs s)(k := None)" "pobjs s' = (pobjs s)(k := None)"
proof -
  from gsapi.object_key[OF gs(1)] have key: "gsKey gs = k" "key_of (gsMeta gs) = k" by (simp_all add: gsKey_def)
  let ?gone = "do { got \<leftarrow> kget (pods (Client r)) k;
      case got of
        Inr pod \<Rightarrow> do {
          del \<leftarrow> kdelete (pods (Client r)) pod None;
          case (case del of Inl err \<Rightarrow> (if IsNotFound err then None else Some err) | Inr _ \<Rightarrow> None) of
            Some err \<Rightarrow> ret (Inl (errf ''failed to delete Pod during finalization: '' err))
          | None \<Rightarrow> ret (Inr ()) }
      | Inl err \<Rightarrow>
          if \<not> IsNotFound err then ret (Inl (errf ''failed to get Pod during finalization: '' err))
          else ret (Inr ()) }"
  have "\<exists>s1. run_state ?gone s = (Inr (), s1) \<and> gobjs s1 = gobjs s \<and> pobjs s1 = (pobjs s)(k := None)"
  proof (cases rule: podapi.get_cases[of s k])
    case (found p)
    with podapi.object_key[OF found(1)] obtain s1 where d: "run_state (kdelete (pods (Client r)) p None) s = (Inr (), s1)" "pobjs s1 = (pobjs s)(k := None)"
      using podapi.delete_existing[of s p p None] pod[OF found(1)] by auto
    moreover have "gobjs s1 = gobjs s" by (rule preservesD[OF delete_frame refl d(1)])
    ultimately show ?thesis using found by simp
  next
    case (missing e)
    then show ?thesis by (simp add: fun_upd_idem)
  qed
  then obtain s1 where g: "run_state ?gone s = (Inr (), s1)" "gobjs s1 = gobjs s" "pobjs s1 = (pobjs s)(k := None)" by blast
  let ?x = "gs\<lparr>gsMeta := (gsMeta gs)\<lparr>Finalizers := []\<rparr>\<rparr>"
  have xk: "key_of (gsMeta ?x) = k" using key(2) by (simp add: key_of_def)
  obtain x' s2 where u: "run_state (kupdate (gameservers (Client r)) ?x) s1 = (Inr x', s2)" "gobjs s2 = (gobjs s1)(k := None)"
    using update_collects[of s1 ?x gs] gs g(2) xk by auto
  have f: "(pobjs s2, vobjs s2, config s2) = (pobjs s1, vobjs s1, config s1)" by (rule preservesD[OF update_frame refl u(1)])
  obtain s3 where e: "run_state (Event (Runtime r) k ''Normal'' ''Finalized'' ''GameServer finalized and resources cleaned up'') s2 = ((), s3)"
    by (rule run_unit)
  have "run_state (Reconcile r k) s = (Inr Result0, s3)"
    using g(1) u(1) e
    by (auto simp: Reconcile_def gsapi.get_found[OF gs(1)] reconcileFetched_def gs handleDeletion_def finalizers remove_finalizer key(1)
        split: prod.splits)
  then show thesis by (rule that[of s3]) (use g u f event_gs[OF e] in simp_all)
qed

end

section \<open>Creation and deletion\<close>

lemma runs_server_cong:
  assumes "gsSpec gs' = gsSpec gs" "Labels (gsMeta gs') = Labels (gsMeta gs)" "Annotations (gsMeta gs') = Annotations (gsMeta gs)"
    "Name (gsMeta gs') = Name (gsMeta gs)"
  shows "runs_server r gs' = runs_server r gs"
  using assms by (simp add: runs_server_def fun_eq_iff gsPodSpec_def Let_def)



section \<open>The reference cluster\<close>

interpretation managed: managed_cluster cluster_reconciler "store_find KGameServer" "store_find KPod" cClock
    "store_find KPVC" "\<lambda>x. (user_meta (pvcMeta x), pvcSpec x)" cluster_config
proof (intro managed_cluster.intro managed_cluster_axioms.intro)
  show "provisioning_cluster cluster_reconciler (store_find KGameServer) (store_find KPod) cClock
      (store_find KPVC) (\<lambda>x. (user_meta (pvcMeta x), pvcSpec x)) cluster_config"
    by (rule provisioning.provisioning_cluster_axioms)
  let ?v = "\<lambda>s. (store_find KPod s, store_find KPVC s, cluster_config s)"
  have v: "?v (kPut KGameServer xs c) = ?v c" "?v (kBump KGameServer c) = ?v c" for c xs
    by (simp_all add: store_find_def kind_defs fun_eq_iff cluster_config_def)
  show "preserves (\<lambda>s. ?v s = w) (kcreate (gameservers (Client cluster_reconciler)) x)" for w x
    by (rule preserves_view) (simp only: cluster_reconciler_simps cluster_client_simps run_store_api kgs.write_frames[where view = ?v, OF v])
  show "preserves (\<lambda>s. ?v s = w) (kupdate (gameservers (Client cluster_reconciler)) x)" for w x
    by (rule preserves_view) (simp only: cluster_reconciler_simps cluster_client_simps run_store_api kgs.write_frames[where view = ?v, OF v])
  have p: "store_find KPod (kPut KGameServer xs c) = store_find KPod c" "store_find KPod (kBump KGameServer c) = store_find KPod c" for c xs
    using v by auto
  show "preserves (\<lambda>s. store_find KPod s = w) (kdelete (gameservers (Client cluster_reconciler)) x g)" for w x g
    by (rule preserves_view)
      (simp only: cluster_reconciler_simps cluster_client_simps run_store_api kgs.write_frames[where view = "store_find KPod", OF p])
next
  fix s s' :: cluster and x x' cur :: GameServer and g :: "int option"
  show "gsStatus x' = GameServerStatus0 \<and> DeletionTimestamp (gsMeta x') = None"
    if "run_state (kcreate (gameservers (Client cluster_reconciler)) x) s = (Inr x', s')" "gsStatus x = GameServerStatus0"
      "DeletionTimestamp (gsMeta x) = None"
    using that by (auto simp: store_create_def store_stamp_def Let_def kind_defs split: option.splits)
  show "\<exists>x' s'. run_state (kupdate (gameservers (Client cluster_reconciler)) x) s = (Inr x', s') \<and> server_content x' = server_content x \<and>
        gsStatus x' = gsStatus cur \<and> DeletionTimestamp (gsMeta x') = None \<and>
        store_find KGameServer s' = (store_find KGameServer s)(key_of (gsMeta x) \<mapsto> x')"
    if "store_find KGameServer s (key_of (gsMeta x)) = Some cur" "ResourceVersion (gsMeta x) = ResourceVersion (gsMeta cur)"
      "DeletionTimestamp (gsMeta cur) = None"
    using kgs.update_kept[of s x cur] that by simp
  show "\<exists>x' s'. run_state (kupdate (gameservers (Client cluster_reconciler)) x) s = (Inr x', s') \<and>
        store_find KGameServer s' = (store_find KGameServer s)(key_of (gsMeta x) := None)"
    if "store_find KGameServer s (key_of (gsMeta x)) = Some cur" "ResourceVersion (gsMeta x) = ResourceVersion (gsMeta cur)"
      "DeletionTimestamp (gsMeta cur) \<noteq> None" "Finalizers (gsMeta x) = []"
    using kgs.update_dropped[of s x cur] that by simp
  show "\<exists>x'. store_find KGameServer s' (key_of (gsMeta x)) = Some x' \<and> server_content x' = server_content cur"
    if "store_find KGameServer s (key_of (gsMeta x)) = Some cur" "Finalizers (gsMeta cur) \<noteq> []"
      "run_state (kdelete (gameservers (Client cluster_reconciler)) x g) s = (Inr (), s')"
    using kgs.delete_content[of s x cur s'] that by simp
qed (simp_all add: cluster_runtime_def)

section \<open>A concrete server\<close>


lemma survival_admitted:
  assumes "gs = newGameServer ''user-alice'' ''alice'' req m ps" "cgName req = ''survival''"
    and k: "k = \<lparr>keyNamespace = ''user-alice'', keyName = ''survival''\<rparr>"
  shows "creating_state (cluster_config cluster0) gs ((store_find KGameServer cluster0)(k \<mapsto> gs)) = GameServerStateStarting"
proof -
  have c: "cluster_config cluster0 = DefaultAdminConfig cluster_runtime"
    by (simp add: cluster_config_def cluster0_def store_find_def kind_defs)
  have "(store_find KGameServer cluster0)(k \<mapsto> gs) = store_find KGameServer (cluster0\<lparr>cGameServers := [gs]\<rparr>)"
    using assms by (auto simp: store_find_def cluster0_def kind_defs fun_eq_iff newGameServer_def NewMeta_def key_of_def)
  moreover have "kObjs KGameServer (cluster0\<lparr>cGameServers := [gs]\<rparr>) = [gs]" by (simp add: kind_defs)
  moreover have "mget (Labels (gsMeta gs)) LabelOwner \<noteq> []"
    by (simp add: assms(1) newGameServer_def NewMeta_def GameServerLabels_def util_constant_defs mget_def)
  moreover have "MaxServersGlobal (DefaultAdminConfig cluster_runtime) \<ge> 1" "MaxServersPerUser (DefaultAdminConfig cluster_runtime) \<ge> 1"
    by (simp_all add: DefaultAdminConfig_def) code_simp+
  ultimately show ?thesis by (simp add: creating_state_def servers_in_store Let_def c)
qed


end
