(* ===== verification/Memory.thy ===== *)
theory Memory
  imports Prelude
begin

text \<open>
  Go memory, as far as copying needs it. A heap maps addresses to blocks; a slice is a window on a block, and a
  pointer to a struct an entry of one. A \<open>rep\<close> says what a value that holds references stands for: its contents
  with the references followed, the addresses it reaches, and whether it is well formed. \<open>deep_copy\<close> is the contract
  of a copier; slices, maps, pointers and structs keep it.
\<close>

section \<open>Heaps\<close>

type_synonym addr = nat

record 'c heap =
  hNext :: addr
  hCells :: "addr \<Rightarrow> 'c option"

definition heap_ok :: "'c heap \<Rightarrow> bool" where
  "heap_ok h \<longleftrightarrow> (\<forall>a \<ge> hNext h. hCells h a = None)"

abbreviation allocated_addrs :: "'c heap \<Rightarrow> addr set" where
  "allocated_addrs h \<equiv> dom (hCells h)"

definition alloc :: "'c \<Rightarrow> ('c heap, addr) state" where
  "alloc c = State_Monad.State (\<lambda>h. (hNext h, h\<lparr>hNext := hNext h + 1, hCells := (hCells h)(hNext h \<mapsto> c)\<rparr>))"

definition assign :: "addr \<Rightarrow> 'c \<Rightarrow> ('c heap, unit) state" where
  "assign a c = State_Monad.State (\<lambda>h. ((), h\<lparr>hCells := (hCells h)(a \<mapsto> c)\<rparr>))"

text \<open>Blocks of elements of one type; \<open>(a, off, n)\<close> is the slice of length \<open>n\<close> that starts at entry \<open>off\<close>.\<close>

record ('c, 'a) block_kind =
  mkBlock :: "'a list \<Rightarrow> 'c"
  ofBlock :: "'c \<Rightarrow> 'a list option"

type_synonym slice = "addr \<times> nat \<times> nat"
type_synonym ptr = "addr \<times> nat"

definition block :: "('c, 'a) block_kind \<Rightarrow> 'c heap \<Rightarrow> addr \<Rightarrow> 'a list" where
  "block K h a = (case Option.bind (hCells h a) (ofBlock K) of None \<Rightarrow> [] | Some xs \<Rightarrow> xs)"

definition elems :: "('c, 'a) block_kind \<Rightarrow> 'c heap \<Rightarrow> slice \<Rightarrow> 'a list" where
  "elems K h s = (case s of (a, off, n) \<Rightarrow> take n (drop off (block K h a)))"

definition setElem :: "('c, 'a) block_kind \<Rightarrow> addr \<Rightarrow> nat \<Rightarrow> 'a \<Rightarrow> ('c heap, unit) state" where
  "setElem K a i x = do { h \<leftarrow> State_Monad.get; assign a (mkBlock K ((block K h a)[i := x])) }"

section \<open>What a value stands for\<close>

record ('c, 'a, 'v) rep =
  repValue :: "'c heap \<Rightarrow> 'a \<Rightarrow> 'v"
  repReach :: "'c heap \<Rightarrow> 'a \<Rightarrow> addr set"
  repGood :: "'c heap \<Rightarrow> 'a \<Rightarrow> bool"

definition agree :: "addr set \<Rightarrow> 'c heap \<Rightarrow> 'c heap \<Rightarrow> bool" where
  "agree A h h' \<longleftrightarrow> (\<forall>a \<in> A. hCells h' a = hCells h a)"

lemma agree_trans: "agree A h h1 \<Longrightarrow> agree B h1 h2 \<Longrightarrow> A \<subseteq> B \<Longrightarrow> agree A h h2"
  by (force simp: agree_def)

lemma agree_mono: "agree B h h' \<Longrightarrow> A \<subseteq> B \<Longrightarrow> agree A h h'"
  by (auto simp: agree_def)

lemma agree_allocated: "agree (allocated_addrs h) h h' \<Longrightarrow> allocated_addrs h \<subseteq> allocated_addrs h'"
  by (auto simp: agree_def dom_def)

text \<open>What a value stands for depends on the blocks it reaches only.\<close>

locale local_rep =
  fixes R :: "('c, 'a, 'v) rep"
  assumes reach_allocated: "repGood R h x \<Longrightarrow> repReach R h x \<subseteq> allocated_addrs h"
    and local: "repGood R h x \<Longrightarrow> agree (repReach R h x) h h' \<Longrightarrow>
      repGood R h' x \<and> repReach R h' x = repReach R h x \<and> repValue R h' x = repValue R h x"

text \<open>A copy stands for the same contents, reaches no block that was there before, and leaves those unchanged.\<close>

definition copied :: "('c, 'a, 'v) rep \<Rightarrow> 'c heap \<Rightarrow> 'a \<Rightarrow> 'a \<Rightarrow> 'c heap \<Rightarrow> bool" where
  "copied R h x y h' \<longleftrightarrow> heap_ok h' \<and> agree (allocated_addrs h) h h' \<and> repGood R h' y \<and> repValue R h' y = repValue R h x \<and>
     repReach R h' y \<inter> allocated_addrs h = {}"

locale deep_copy = local_rep R
  for R :: "('c, 'a, 'v) rep" +
  fixes copy :: "'a \<Rightarrow> ('c heap, 'a) state"
  assumes copies: "heap_ok h \<Longrightarrow> repGood R h x \<Longrightarrow> \<exists>y h'. run_state (copy x) h = (y, h') \<and> copied R h x y h'"
begin

text \<open>Whatever is written through the copy, the original keeps its contents.\<close>

lemma independent:
  assumes "heap_ok h" "repGood R h x" "run_state (copy x) h = (y, h')" "agree (- repReach R h' y) h' h''"
  shows "repValue R h'' x = repValue R h x"
proof -
  from copies[OF assms(1,2)] assms(3) have c: "copied R h x y h'" by auto
  have "agree (repReach R h x) h h''"
    using assms(4) c reach_allocated[OF assms(2)] by (force simp: agree_def copied_def)
  with local[OF assms(2)] show ?thesis by blast
qed

end

section \<open>Structs\<close>

definition plain_rep :: "('c, 'a, 'a) rep" where
  "plain_rep = \<lparr>repValue = (\<lambda>h x. x), repReach = (\<lambda>h x. {}), repGood = (\<lambda>h x. True)\<rparr>"

definition pair_rep :: "('c, 'a, 'v) rep \<Rightarrow> ('c, 'b, 'w) rep \<Rightarrow> ('c, 'a \<times> 'b, 'v \<times> 'w) rep" where
  "pair_rep R S = \<lparr>repValue = (\<lambda>h (x, y). (repValue R h x, repValue S h y)), repReach = (\<lambda>h (x, y). repReach R h x \<union> repReach S h y),
     repGood = (\<lambda>h (x, y). repGood R h x \<and> repGood S h y)\<rparr>"

text \<open>A struct: its plain fields and, through \<open>proj\<close>, the fields that hold references.\<close>

definition struct_rep :: "('a \<Rightarrow> 'p) \<Rightarrow> ('a \<Rightarrow> 'b) \<Rightarrow> ('c, 'b, 'v) rep \<Rightarrow> ('c, 'a, 'p \<times> 'v) rep" where
  "struct_rep plain proj R = \<lparr>repValue = (\<lambda>h x. (plain x, repValue R h (proj x))), repReach = (\<lambda>h x. repReach R h (proj x)),
     repGood = (\<lambda>h x. repGood R h (proj x))\<rparr>"

definition opt_rep :: "('c, 'a, 'v) rep \<Rightarrow> ('c, 'a option, 'v option) rep" where
  "opt_rep R = \<lparr>repValue = (\<lambda>h. map_option (repValue R h)), repReach = (\<lambda>h x. case x of None \<Rightarrow> {} | Some y \<Rightarrow> repReach R h y),
     repGood = (\<lambda>h x. case x of None \<Rightarrow> True | Some y \<Rightarrow> repGood R h y)\<rparr>"

lemmas rep_defs = plain_rep_def pair_rep_def struct_rep_def opt_rep_def

definition pairCopy :: "('a \<Rightarrow> ('s, 'a) state) \<Rightarrow> ('b \<Rightarrow> ('s, 'b) state) \<Rightarrow> 'a \<times> 'b \<Rightarrow> ('s, 'a \<times> 'b) state" where
  "pairCopy c d p = (case p of (x, y) \<Rightarrow> do { x' \<leftarrow> c x; y' \<leftarrow> d y; ret (x', y') })"

definition structCopy :: "('a \<Rightarrow> 'b) \<Rightarrow> ('b \<Rightarrow> 'a \<Rightarrow> 'a) \<Rightarrow> ('b \<Rightarrow> ('s, 'b) state) \<Rightarrow> 'a \<Rightarrow> ('s, 'a) state" where
  "structCopy proj upd c x = do { y \<leftarrow> c (proj x); ret (upd y x) }"

text \<open>\<^verbatim>\<open>if in.Field != nil { ... }\<close>\<close>

definition unlessNil :: "('a \<Rightarrow> ('s, 'a) state) \<Rightarrow> 'a option \<Rightarrow> ('s, 'a option) state" where
  "unlessNil c x = (case x of None \<Rightarrow> ret None | Some y \<Rightarrow> do { z \<leftarrow> c y; ret (Some z) })"

lemma plain_local: "local_rep plain_rep"
  by unfold_locales (simp_all add: rep_defs)

lemma plain_copy: "deep_copy plain_rep ret"
  by (intro deep_copy.intro deep_copy_axioms.intro plain_local) (simp add: copied_def agree_def rep_defs)

lemma pair_copy:
  assumes "deep_copy R c" "deep_copy S d"
  shows "deep_copy (pair_rep R S) (pairCopy c d)"
proof -
  have R: "local_rep R" and S: "local_rep S" using assms by (simp_all add: deep_copy_def)
  show ?thesis
  proof (intro deep_copy.intro deep_copy_axioms.intro local_rep.intro)
    fix h p
    show "repGood (pair_rep R S) h p \<Longrightarrow> repReach (pair_rep R S) h p \<subseteq> allocated_addrs h"
      using local_rep.reach_allocated[OF R, of h] local_rep.reach_allocated[OF S, of h] by (cases p) (auto simp: rep_defs)
  next
    fix h p h'
    show "repGood (pair_rep R S) h p \<Longrightarrow> agree (repReach (pair_rep R S) h p) h h' \<Longrightarrow>
        repGood (pair_rep R S) h' p \<and> repReach (pair_rep R S) h' p = repReach (pair_rep R S) h p \<and>
        repValue (pair_rep R S) h' p = repValue (pair_rep R S) h p"
      using local_rep.local[OF R, of h "fst p" h'] local_rep.local[OF S, of h "snd p" h'] by (cases p) (auto simp: rep_defs agree_def)
  next
    fix h and p :: "_ \<times> _"
    assume ok: "heap_ok h" and good: "repGood (pair_rep R S) h p"
    obtain x y where p: "p = (x, y)" by (cases p)
    with good have g: "repGood R h x" "repGood S h y" by (simp_all add: rep_defs)
    obtain x' h1 where 1: "run_state (c x) h = (x', h1)" "copied R h x x' h1" using deep_copy.copies[OF assms(1) ok g(1)] by blast
    have sub: "allocated_addrs h \<subseteq> allocated_addrs h1" using 1(2) by (simp add: copied_def agree_allocated)
    have "agree (repReach S h y) h h1"
      using 1(2) local_rep.reach_allocated[OF S g(2)] by (auto simp: copied_def intro: agree_mono)
    from local_rep.local[OF S g(2) this] have y: "repGood S h1 y" "repValue S h1 y = repValue S h y" by simp_all
    from 1(2) have ok1: "heap_ok h1" by (simp add: copied_def)
    obtain y' h2 where 2: "run_state (d y) h1 = (y', h2)" "copied S h1 y y' h2" using deep_copy.copies[OF assms(2) ok1 y(1)] by blast
    have g1: "repGood R h1 x'" using 1(2) by (simp add: copied_def)
    have "agree (repReach R h1 x') h1 h2"
      using 2(2) local_rep.reach_allocated[OF R g1] by (auto simp: copied_def intro: agree_mono)
    note x' = local_rep.local[OF R g1 this]
    have "agree (allocated_addrs h) h h2" using 1(2) 2(2) sub by (auto simp: copied_def intro: agree_trans)
    moreover have "repReach S h2 y' \<inter> allocated_addrs h = {}" using 2(2) sub unfolding copied_def by blast
    ultimately have "copied (pair_rep R S) h p (x', y') h2"
      using 1(2) 2(2) x' y(2) by (simp add: copied_def rep_defs p Int_Un_distrib2)
    then show "\<exists>q h'. run_state (pairCopy c d p) h = (q, h') \<and> copied (pair_rep R S) h p q h'"
      using 1(1) 2(1) by (simp add: pairCopy_def p)
  qed
qed

lemma struct_copy:
  assumes "deep_copy R c" and upd: "\<And>x y. proj (upd y x) = y" "\<And>x y. plain (upd y x) = plain x"
  shows "deep_copy (struct_rep plain proj R) (structCopy proj upd c)"
proof -
  have R: "local_rep R" using assms(1) by (simp add: deep_copy_def)
  show ?thesis
  proof (intro deep_copy.intro deep_copy_axioms.intro local_rep.intro)
    fix h x
    show "repGood (struct_rep plain proj R) h x \<Longrightarrow> repReach (struct_rep plain proj R) h x \<subseteq> allocated_addrs h"
      using local_rep.reach_allocated[OF R] by (simp add: rep_defs)
    show "heap_ok h \<Longrightarrow> repGood (struct_rep plain proj R) h x \<Longrightarrow>
        \<exists>y h'. run_state (structCopy proj upd c x) h = (y, h') \<and> copied (struct_rep plain proj R) h x y h'"
      using deep_copy.copies[OF assms(1), of h "proj x"] by (auto simp: structCopy_def copied_def rep_defs upd)
    show "repGood (struct_rep plain proj R) h x \<Longrightarrow> agree (repReach (struct_rep plain proj R) h x) h h' \<Longrightarrow>
        repGood (struct_rep plain proj R) h' x \<and> repReach (struct_rep plain proj R) h' x = repReach (struct_rep plain proj R) h x \<and>
        repValue (struct_rep plain proj R) h' x = repValue (struct_rep plain proj R) h x" for h'
      using local_rep.local[OF R, of h "proj x" h'] by (simp add: rep_defs)
  qed
qed

lemma opt_copy:
  assumes "deep_copy R c"
  shows "deep_copy (opt_rep R) (unlessNil c)"
proof -
  have R: "local_rep R" using assms(1) by (simp add: deep_copy_def)
  show ?thesis
  proof (intro deep_copy.intro deep_copy_axioms.intro local_rep.intro)
    fix h x
    show "repGood (opt_rep R) h x \<Longrightarrow> repReach (opt_rep R) h x \<subseteq> allocated_addrs h"
      using local_rep.reach_allocated[OF R] by (auto simp: rep_defs split: option.splits)
    show "heap_ok h \<Longrightarrow> repGood (opt_rep R) h x \<Longrightarrow>
        \<exists>y h'. run_state (unlessNil c x) h = (y, h') \<and> copied (opt_rep R) h x y h'"
      using deep_copy.copies[OF assms(1), of h] by (cases x) (fastforce simp: unlessNil_def copied_def rep_defs agree_def)+
    show "repGood (opt_rep R) h x \<Longrightarrow> agree (repReach (opt_rep R) h x) h h' \<Longrightarrow>
        repGood (opt_rep R) h' x \<and> repReach (opt_rep R) h' x = repReach (opt_rep R) h x \<and>
        repValue (opt_rep R) h' x = repValue (opt_rep R) h x" for h'
      using local_rep.local[OF R, of h "the x" h'] by (cases x) (simp_all add: rep_defs)
  qed
qed

section \<open>Slices and pointers\<close>

text \<open>
  \<^verbatim>\<open>make([]T, len)\<close> followed by \<^verbatim>\<open>copy\<close>, and by a loop that copies each element in place. A new block holds zero values.
\<close>

definition makeCopy :: "('c, 'a) block_kind \<Rightarrow> 'a \<Rightarrow> slice \<Rightarrow> ('c heap, slice) state" where
  "makeCopy K zero s = (case s of (a, off, n) \<Rightarrow> do {
     b \<leftarrow> alloc (mkBlock K (replicate n zero));
     h \<leftarrow> State_Monad.get;
     assign b (mkBlock K (elems K h s));
     ret (b, 0, n) })"

function copyEach :: "('c, 'a) block_kind \<Rightarrow> ('a \<Rightarrow> ('c heap, 'a) state) \<Rightarrow> slice \<Rightarrow> addr \<Rightarrow> nat \<Rightarrow> ('c heap, unit) state" where
  "copyEach K c (a, off, n) b i = (if i < n then do {
     h \<leftarrow> State_Monad.get;
     y \<leftarrow> c (elems K h (a, off, n) ! i);
     setElem K b i y;
     copyEach K c (a, off, n) b (i + 1) } else ret ())"
  by pat_completeness auto
termination by (relation "measure (\<lambda>(K, c, (a, off, n), b, i). n - i)") auto

declare copyEach.simps [simp del]

definition makeEach :: "('c, 'a) block_kind \<Rightarrow> 'a \<Rightarrow> ('a \<Rightarrow> ('c heap, 'a) state) \<Rightarrow> slice \<Rightarrow> ('c heap, slice) state" where
  "makeEach K zero c s = (case s of (a, off, n) \<Rightarrow> do {
     b \<leftarrow> alloc (mkBlock K (replicate n zero));
     copyEach K c s b 0;
     ret (b, 0, n) })"

text \<open>\<^verbatim>\<open>out := new(T); in.DeepCopyInto(out); return out\<close>\<close>

definition newCopy :: "('c, 'a) block_kind \<Rightarrow> 'a \<Rightarrow> ('a \<Rightarrow> ('c heap, 'a) state) \<Rightarrow> ptr \<Rightarrow> ('c heap, ptr) state" where
  "newCopy K zero c p = (case p of (a, i) \<Rightarrow> do {
     b \<leftarrow> alloc (mkBlock K [zero]);
     h \<leftarrow> State_Monad.get;
     y \<leftarrow> c (block K h a ! i);
     setElem K b 0 y;
     ret (b, 0) })"

definition block_rep :: "('c, 'a) block_kind \<Rightarrow> ('c, 'a, 'v) rep \<Rightarrow> ('c, slice, 'v list) rep" where
  "block_rep K R = \<lparr>repValue = (\<lambda>h s. map (repValue R h) (elems K h s)),
     repReach = (\<lambda>h s. insert (fst s) (\<Union>x \<in> set (elems K h s). repReach R h x)),
     repGood = (\<lambda>h (a, off, n). a \<in> allocated_addrs h \<and> off + n \<le> length (block K h a) \<and>
       (\<forall>x \<in> set (elems K h (a, off, n)). repGood R h x))\<rparr>"

definition ptr_rep :: "('c, 'a) block_kind \<Rightarrow> ('c, 'a, 'v) rep \<Rightarrow> ('c, ptr, 'v list) rep" where
  "ptr_rep K R = \<lparr>repValue = (\<lambda>h p. repValue (block_rep K R) h (fst p, snd p, 1)),
     repReach = (\<lambda>h p. repReach (block_rep K R) h (fst p, snd p, 1)),
     repGood = (\<lambda>h p. repGood (block_rep K R) h (fst p, snd p, 1))\<rparr>"

definition kind_ok :: "('c, 'a) block_kind \<Rightarrow> bool" where
  "kind_ok K \<longleftrightarrow> (\<forall>xs. ofBlock K (mkBlock K xs) = Some xs)"

lemma block_local:
  assumes R: "local_rep R"
  shows "local_rep (block_rep K R)"
proof (rule local_rep.intro)
  fix h s
  show "repGood (block_rep K R) h s \<Longrightarrow> repReach (block_rep K R) h s \<subseteq> allocated_addrs h"
    using local_rep.reach_allocated[OF R, of h] by (cases s) (fastforce simp: block_rep_def)
  fix h'
  assume g: "repGood (block_rep K R) h s" and a: "agree (repReach (block_rep K R) h s) h h'"
  have e: "elems K h' s = elems K h s" "block K h' (fst s) = block K h (fst s)" "hCells h' (fst s) = hCells h (fst s)"
    using a by (cases s, simp add: agree_def block_rep_def elems_def block_def)+
  have x: "repGood R h' x \<and> repReach R h' x = repReach R h x \<and> repValue R h' x = repValue R h x" if "x \<in> set (elems K h s)" for x
    using g a that by (cases s) (auto simp: block_rep_def agree_def intro!: local_rep.local[OF R])
  show "repGood (block_rep K R) h' s \<and> repReach (block_rep K R) h' s = repReach (block_rep K R) h s \<and>
      repValue (block_rep K R) h' s = repValue (block_rep K R) h s"
    using g e x by (cases s) (auto simp: block_rep_def)
qed

lemma run_memory [simp]:
  "run_state (alloc c) h = (hNext h, h\<lparr>hNext := hNext h + 1, hCells := (hCells h)(hNext h \<mapsto> c)\<rparr>)"
  "run_state (assign a c) h = ((), h\<lparr>hCells := (hCells h)(a \<mapsto> c)\<rparr>)"
  "run_state (setElem K a i x) h = ((), h\<lparr>hCells := (hCells h)(a \<mapsto> mkBlock K ((block K h a)[i := x]))\<rparr>)"
  by (simp_all add: alloc_def assign_def setElem_def State_Monad.get_def)

lemma heap_ok_alloc: "heap_ok h \<Longrightarrow> heap_ok (h\<lparr>hNext := hNext h + 1, hCells := (hCells h)(hNext h \<mapsto> c)\<rparr>)"
  "heap_ok h \<Longrightarrow> hNext h \<notin> allocated_addrs h"
  "heap_ok h \<Longrightarrow> agree (allocated_addrs h) h (h\<lparr>hNext := hNext h + 1, hCells := (hCells h)(hNext h \<mapsto> c)\<rparr>)"
  by (auto simp: heap_ok_def agree_def)

lemma heap_ok_assign: "heap_ok h \<Longrightarrow> a \<in> allocated_addrs h \<Longrightarrow> heap_ok (h\<lparr>hCells := (hCells h)(a \<mapsto> c)\<rparr>)"
  by (auto simp: heap_ok_def)

lemma agree_assign: "a \<notin> A \<Longrightarrow> agree A h (h\<lparr>hCells := (hCells h)(a \<mapsto> c)\<rparr>)"
  by (auto simp: agree_def)

lemma block_assigned: "kind_ok K \<Longrightarrow> hCells h a = Some (mkBlock K xs) \<Longrightarrow> block K h a = xs"
  by (simp add: block_def kind_ok_def)

text \<open>
  The elements that a loop has copied: of the contents \<open>vs\<close>, well formed in \<open>h\<close>, and reaching neither the blocks \<open>A\<close> of
  before nor the new block \<open>b\<close>.
\<close>

definition copied_to :: "('c, 'a, 'v) rep \<Rightarrow> addr set \<Rightarrow> addr \<Rightarrow> 'v list \<Rightarrow> 'c heap \<Rightarrow> nat \<Rightarrow> 'a list \<Rightarrow> bool" where
  "copied_to R A b vs h i ys \<longleftrightarrow>
     (\<forall>j < i. repGood R h (ys ! j) \<and> repValue R h (ys ! j) = vs ! j \<and> repReach R h (ys ! j) \<inter> insert b A = {})"

lemma copied_to_step:
  assumes R: "local_rep R" and ys: "copied_to R A b vs h i ys" "i < length ys"
    and y: "repGood R h1 y" "repValue R h1 y = vs ! i" "repReach R h1 y \<inter> allocated_addrs h = {}"
    and h: "agree (allocated_addrs h) h h1" "agree (- {b}) h1 h2" "insert b A \<subseteq> allocated_addrs h"
  shows "copied_to R A b vs h2 (i + 1) (ys[i := y])"
  unfolding copied_to_def
proof (intro allI impI)
  fix j assume "j < i + 1"
  then consider "j < i" | "j = i" by linarith
  then show "repGood R h2 (ys[i := y] ! j) \<and> repValue R h2 (ys[i := y] ! j) = vs ! j \<and> repReach R h2 (ys[i := y] ! j) \<inter> insert b A = {}"
  proof cases
    case 1
    with ys(1) have g: "repGood R h (ys ! j)" "repValue R h (ys ! j) = vs ! j" "repReach R h (ys ! j) \<inter> insert b A = {}"
      by (simp_all add: copied_to_def)
    have "agree (repReach R h (ys ! j)) h h2"
      using h(1,2) g(3) local_rep.reach_allocated[OF R g(1)] unfolding agree_def by (metis ComplI IntI empty_iff insertCI singletonD subsetD)
    from local_rep.local[OF R g(1) this] g 1 show ?thesis by simp
  next
    case 2
    have "agree (repReach R h1 y) h1 h2" using h(2,3) y(3) unfolding agree_def by blast
    from local_rep.local[OF R y(1) this] y(2,3) h(3) 2 ys(2) show ?thesis by auto
  qed
qed

lemma copyEach_run:
  assumes c: "deep_copy R c" and K: "kind_ok K" and h0: "repGood (block_rep K R) h0 (a, off, n)" "b \<notin> allocated_addrs h0"
    and h: "heap_ok h" "agree (allocated_addrs h0) h0 h" "hCells h b = Some (mkBlock K ys)" "length ys = n" "i \<le> n"
    and ys: "copied_to R (allocated_addrs h0) b (map (repValue R h0) (elems K h0 (a, off, n))) h i ys"
  shows "\<exists>ys' h'. run_state (copyEach K c (a, off, n) b i) h = ((), h') \<and> heap_ok h' \<and> agree (allocated_addrs h0) h0 h' \<and>
    hCells h' b = Some (mkBlock K ys') \<and> length ys' = n \<and>
    copied_to R (allocated_addrs h0) b (map (repValue R h0) (elems K h0 (a, off, n))) h' n ys'"
  using h ys
proof (induction "n - i" arbitrary: i h ys)
  case 0
  then show ?case by (auto simp: copyEach.simps)
next
  case (Suc k)
  let ?s = "(a, off, n)"
  have R: "local_rep R" using c by (simp add: deep_copy_def)
  have i: "i < n" using Suc.hyps(2) by simp
  have sub: "insert b (allocated_addrs h0) \<subseteq> allocated_addrs h" using Suc.prems(2,3) by (auto simp: agree_def dom_def)
  have same: "elems K h ?s = elems K h0 ?s" using h0(1) Suc.prems(2) by (simp add: elems_def block_def block_rep_def agree_def)
  have len: "length (elems K h0 ?s) = n" using h0(1) by (auto simp: elems_def block_rep_def)
  let ?x = "elems K h0 ?s ! i"
  have x0: "repGood R h0 ?x" using h0(1) i len by (auto simp: block_rep_def)
  have "agree (repReach R h0 ?x) h0 h" using Suc.prems(2) local_rep.reach_allocated[OF R x0] by (rule agree_mono)
  note x = local_rep.local[OF R x0 this]
  then obtain y h1 where y: "run_state (c ?x) h = (y, h1)" "copied R h ?x y h1"
    using deep_copy.copies[OF c Suc.prems(1)] by blast
  let ?h2 = "h1\<lparr>hCells := (hCells h1)(b \<mapsto> mkBlock K (ys[i := y]))\<rparr>"
  have b1: "hCells h1 b = Some (mkBlock K ys)" using y(2) Suc.prems(3) by (auto simp: copied_def agree_def dom_def)
  have step: "run_state (copyEach K c ?s b i) h = run_state (copyEach K c ?s b (i + 1)) ?h2"
    using i y(1) by (subst copyEach.simps) (simp add: same block_assigned[OF K b1] State_Monad.get_def)
  have "copied_to R (allocated_addrs h0) b (map (repValue R h0) (elems K h0 ?s)) ?h2 (i + 1) (ys[i := y])"
  proof (rule copied_to_step[OF R Suc.prems(6)])
    show "i < length ys" using i Suc.prems(4) by simp
    show "repValue R h1 y = map (repValue R h0) (elems K h0 ?s) ! i" using y(2) x i len by (simp add: copied_def)
    show "agree (- {b}) h1 ?h2" by (simp add: agree_assign)
  qed (use y(2) sub in \<open>auto simp: copied_def\<close>)
  moreover have "heap_ok ?h2" using y(2) b1 by (intro heap_ok_assign) (auto simp: copied_def)
  moreover have "agree (allocated_addrs h0) h0 ?h2"
  proof (rule agree_trans)
    show "agree (allocated_addrs h0) h0 h1" using y(2) sub Suc.prems(2) by (auto simp: copied_def intro: agree_trans)
    show "agree (allocated_addrs h0) h1 ?h2" using h0(2) by (rule agree_assign)
  qed simp
  ultimately show ?case
    unfolding step using Suc.hyps(2) Suc.prems(4) i by (intro Suc.hyps(1)) auto
qed

text \<open>A new block with fresh copies of the elements is a copy of the slice.\<close>

lemma block_copied:
  assumes R: "local_rep R" and K: "kind_ok K" and s: "repGood (block_rep K R) h (a, off, n)"
    and h': "heap_ok h'" "agree (allocated_addrs h) h h'" "hCells h' b = Some (mkBlock K ys)" "b \<notin> allocated_addrs h"
    and ys: "copied_to R (allocated_addrs h) b (map (repValue R h) (elems K h (a, off, n))) h' n ys" "length ys = n"
  shows "copied (block_rep K R) h (a, off, n) (b, 0, n) h'"
proof -
  have len: "length (elems K h (a, off, n)) = n" using s by (auto simp: elems_def block_rep_def)
  have b: "block K h' b = ys" using K h'(3) by (rule block_assigned)
  have e: "elems K h' (b, 0, n) = ys" using ys(2) b by (simp add: elems_def)
  have "map (repValue R h') ys = map (repValue R h) (elems K h (a, off, n))"
    by (rule nth_equalityI) (use ys len in \<open>simp_all add: copied_to_def\<close>)
  moreover have new: "repGood R h' y \<and> repReach R h' y \<inter> allocated_addrs h = {}" if "y \<in> set ys" for y
  proof -
    from that ys(2) obtain j where "j < n" "y = ys ! j" by (metis in_set_conv_nth)
    with ys(1) show ?thesis by (simp add: copied_to_def)
  qed
  moreover have "repReach (block_rep K R) h' (b, 0, n) \<inter> allocated_addrs h = {}"
    using new h'(4) e by (simp add: block_rep_def) blast
  ultimately show ?thesis
    using h' b e ys(2) by (simp add: copied_def) (auto simp: block_rep_def)
qed

lemma makeEach_copy:
  assumes c: "deep_copy R c" and K: "kind_ok K"
  shows "deep_copy (block_rep K R) (makeEach K zero c)"
proof -
  have R: "local_rep R" using c by (simp add: deep_copy_def)
  show ?thesis
  proof (intro deep_copy.intro deep_copy_axioms.intro block_local[OF R])
    fix h and s :: slice
    assume ok: "heap_ok h" and good: "repGood (block_rep K R) h s"
    obtain a off n where s: "s = (a, off, n)" by (cases s)
    let ?b = "hNext h" and ?ys = "replicate n zero"
    let ?h1 = "h\<lparr>hNext := hNext h + 1, hCells := (hCells h)(?b \<mapsto> mkBlock K ?ys)\<rparr>"
    have "copied_to R (allocated_addrs h) ?b (map (repValue R h) (elems K h (a, off, n))) ?h1 0 ?ys" by (simp add: copied_to_def)
    with copyEach_run[OF c K good[unfolded s] heap_ok_alloc(2)[OF ok] heap_ok_alloc(1,3)[OF ok], where ys = ?ys and i = 0]
    obtain ys' h' where r: "run_state (copyEach K c (a, off, n) ?b 0) ?h1 = ((), h')" "heap_ok h'" "agree (allocated_addrs h) h h'"
        "hCells h' ?b = Some (mkBlock K ys')" "length ys' = n"
        "copied_to R (allocated_addrs h) ?b (map (repValue R h) (elems K h (a, off, n))) h' n ys'"
      by auto
    have "copied (block_rep K R) h s (?b, 0, n) h'"
      unfolding s by (rule block_copied[OF R K good[unfolded s] r(2-4) heap_ok_alloc(2)[OF ok] r(6,5)])
    moreover have "run_state (makeEach K zero c s) h = ((?b, 0, n), h')" using r(1) by (simp add: makeEach_def s)
    ultimately show "\<exists>y h'. run_state (makeEach K zero c s) h = (y, h') \<and> copied (block_rep K R) h s y h'" by blast
  qed
qed

lemma makeCopy_copy:
  assumes K: "kind_ok K"
  shows "deep_copy (block_rep K plain_rep) (makeCopy K zero)"
proof (intro deep_copy.intro deep_copy_axioms.intro block_local plain_local)
  fix h and s :: slice
  assume ok: "heap_ok h" and good: "repGood (block_rep K plain_rep) h s"
  obtain a off n where s: "s = (a, off, n)" by (cases s)
  let ?b = "hNext h" and ?ys = "elems K h (a, off, n)"
  let ?h' = "h\<lparr>hNext := hNext h + 1, hCells := (hCells h)(?b \<mapsto> mkBlock K ?ys)\<rparr>"
  have ne: "a \<noteq> ?b" using good heap_ok_alloc(2)[OF ok] by (auto simp: s block_rep_def)
  have "length ?ys = n" using good by (auto simp: s elems_def block_rep_def)
  moreover have "copied_to plain_rep (allocated_addrs h) ?b (map (repValue plain_rep h) ?ys) ?h' n ?ys"
    using calculation by (simp add: copied_to_def plain_rep_def)
  ultimately have "copied (block_rep K plain_rep) h s (?b, 0, n) ?h'"
    unfolding s using heap_ok_alloc[OF ok] good by (intro block_copied[OF plain_local K]) (simp_all add: s)
  moreover have "run_state (makeCopy K zero s) h = ((?b, 0, n), ?h')"
    using ne by (simp add: makeCopy_def s State_Monad.get_def elems_def block_def)
  ultimately show "\<exists>y h'. run_state (makeCopy K zero s) h = (y, h') \<and> copied (block_rep K plain_rep) h s y h'" by blast
qed

text \<open>A pointer is an entry of a block: copying what it points to is copying a slice of one.\<close>

lemma newCopy_slice:
  assumes "snd p < length (block K h (fst p))" "fst p \<noteq> hNext h"
  shows "run_state (newCopy K zero c p) h =
    (case run_state (makeEach K zero c (fst p, snd p, 1)) h of ((b, off, n), h') \<Rightarrow> ((b, off), h'))"
proof -
  obtain a i where p: "p = (a, i)" by (cases p)
  let ?h1 = "h\<lparr>hNext := hNext h + 1, hCells := (hCells h)(hNext h \<mapsto> mkBlock K [zero])\<rparr>"
  have "block K ?h1 a = block K h a" using assms(2) by (simp add: p block_def)
  moreover have "elems K ?h1 (a, i, 1) ! 0 = block K ?h1 a ! i"
    using assms(1) calculation by (simp add: p elems_def)
  ultimately show ?thesis
    by (simp add: p newCopy_def makeEach_def State_Monad.get_def copyEach.simps split: prod.split)
qed

lemma newCopy_copy:
  assumes c: "deep_copy R c" and K: "kind_ok K"
  shows "deep_copy (ptr_rep K R) (newCopy K zero c)"
proof -
  note b = makeEach_copy[OF c K, where zero = zero]
  then have R: "local_rep (block_rep K R)" by (simp add: deep_copy_def)
  show ?thesis
  proof (intro deep_copy.intro deep_copy_axioms.intro local_rep.intro)
    fix h p
    show "repGood (ptr_rep K R) h p \<Longrightarrow> repReach (ptr_rep K R) h p \<subseteq> allocated_addrs h"
      using local_rep.reach_allocated[OF R] by (simp add: ptr_rep_def)
    show "repGood (ptr_rep K R) h p \<Longrightarrow> agree (repReach (ptr_rep K R) h p) h h' \<Longrightarrow>
        repGood (ptr_rep K R) h' p \<and> repReach (ptr_rep K R) h' p = repReach (ptr_rep K R) h p \<and>
        repValue (ptr_rep K R) h' p = repValue (ptr_rep K R) h p" for h'
      using local_rep.local[OF R, of h "(fst p, snd p, 1)" h'] by (simp add: ptr_rep_def)
    assume ok: "heap_ok h" and good: "repGood (ptr_rep K R) h p"
    let ?s = "(fst p, snd p, 1)"
    have good1: "repGood (block_rep K R) h ?s" using good by (simp add: ptr_rep_def)
    then have len: "snd p < length (block K h (fst p))" "fst p \<noteq> hNext h"
      using heap_ok_alloc(2)[OF ok] by (auto simp: block_rep_def)
    obtain t h' where t: "run_state (makeEach K zero c ?s) h = (t, h')" "copied (block_rep K R) h ?s t h'"
      using deep_copy.copies[OF b ok good1] by blast
    have "snd (snd t) = 1" using t(1) by (auto simp: makeEach_def split: prod.splits)
    then obtain q off where q: "t = (q, off, 1)" by (cases t) simp
    have "run_state (newCopy K zero c p) h = ((q, off), h')" using newCopy_slice[OF len, of zero c] t(1) q by simp
    moreover have "copied (ptr_rep K R) h p (q, off) h'" using t(2) by (simp add: copied_def ptr_rep_def q)
    ultimately show "\<exists>y h'. run_state (newCopy K zero c p) h = (y, h') \<and> copied (ptr_rep K R) h p y h'" by blast
  qed
qed

section \<open>Maps\<close>

text \<open>\<^verbatim>\<open>make(map[string]string, len)\<close> and a \<^verbatim>\<open>range\<close> loop, in an order of the runtime's choice.\<close>

definition setKey :: "('c, string \<times> string) block_kind \<Rightarrow> addr \<Rightarrow> string \<Rightarrow> string \<Rightarrow> ('c heap, unit) state" where
  "setKey K a k v = do { h \<leftarrow> State_Monad.get; assign a (mkBlock K (mput k v (block K h a))) }"

abbreviation setKeys :: "('c, string \<times> string) block_kind \<Rightarrow> addr \<Rightarrow> gomap \<Rightarrow> ('c heap, unit) state" where
  "setKeys K a kvs \<equiv> forEach kvs (\<lambda>kv. setKey K a (fst kv) (snd kv))"

definition makeMap :: "('c, string \<times> string) block_kind \<Rightarrow> (gomap \<Rightarrow> gomap) \<Rightarrow> addr \<Rightarrow> ('c heap, addr) state" where
  "makeMap K order a = do {
     b \<leftarrow> alloc (mkBlock K []);
     h \<leftarrow> State_Monad.get;
     setKeys K b (order (block K h a));
     ret b }"

definition map_rep :: "('c, string \<times> string) block_kind \<Rightarrow> ('c, addr, string \<Rightarrow> string option) rep" where
  "map_rep K = \<lparr>repValue = (\<lambda>h a. map_of (block K h a)), repReach = (\<lambda>h a. {a}),
     repGood = (\<lambda>h a. a \<in> allocated_addrs h \<and> distinct (map fst (block K h a)))\<rparr>"

lemma setKeys_run:
  assumes "kind_ok K" "heap_ok h" "hCells h b = Some (mkBlock K m)" "b \<notin> A"
  shows "\<exists>h' m'. run_state (setKeys K b kvs) h = ((), h') \<and> heap_ok h' \<and> agree A h h' \<and> hCells h' b = Some (mkBlock K m') \<and>
    (distinct (map fst m) \<longrightarrow> distinct (map fst m')) \<and> map_of m' = map_of m ++ map_of (rev kvs)"
  using assms(2,3)
proof (induction kvs arbitrary: h m)
  case Nil
  then show ?case by (auto simp: agree_def)
next
  case (Cons kv kvs)
  let ?m = "mput (fst kv) (snd kv) m"
  let ?h = "h\<lparr>hCells := (hCells h)(b \<mapsto> mkBlock K ?m)\<rparr>"
  have r: "run_state (setKey K b (fst kv) (snd kv)) h = ((), ?h)"
    using assms(1) Cons.prems by (simp add: setKey_def State_Monad.get_def block_def kind_ok_def)
  have "heap_ok ?h" using Cons.prems by (intro heap_ok_assign) auto
  moreover have "hCells ?h b = Some (mkBlock K ?m)" by simp
  ultimately obtain h' m' where h': "run_state (setKeys K b kvs) ?h = ((), h')" "heap_ok h'" "agree A ?h h'"
      "hCells h' b = Some (mkBlock K m')" "distinct (map fst ?m) \<longrightarrow> distinct (map fst m')" "map_of m' = map_of ?m ++ map_of (rev kvs)"
    using Cons.IH by blast
  have "agree A h h'" using agree_trans[OF agree_assign[OF assms(4)] h'(3)] by simp
  moreover have "map_of m' = map_of m ++ map_of (rev (kv # kvs))"
    using h'(6) by (cases kv) (simp add: update_conv' map_add_def fun_eq_iff split: option.split)
  ultimately show ?case using h' r by (auto simp: distinct_update)
qed

lemma makeMap_copy:
  assumes K: "kind_ok K"
    and order: "\<And>m. distinct (map fst m) \<Longrightarrow> distinct (map fst (order m)) \<and> set (order m) = set m"
  shows "deep_copy (map_rep K) (makeMap K order)"
proof (intro deep_copy.intro deep_copy_axioms.intro local_rep.intro)
  fix h and a :: addr
  show "repGood (map_rep K) h a \<Longrightarrow> repReach (map_rep K) h a \<subseteq> allocated_addrs h" by (simp add: map_rep_def)
  show "repGood (map_rep K) h a \<Longrightarrow> agree (repReach (map_rep K) h a) h h' \<Longrightarrow>
      repGood (map_rep K) h' a \<and> repReach (map_rep K) h' a = repReach (map_rep K) h a \<and>
      repValue (map_rep K) h' a = repValue (map_rep K) h a" for h'
    by (auto simp: map_rep_def agree_def block_def)
  assume ok: "heap_ok h" and good: "repGood (map_rep K) h a"
  let ?b = "hNext h" and ?m = "block K h a"
  let ?h1 = "h\<lparr>hNext := hNext h + 1, hCells := (hCells h)(?b \<mapsto> mkBlock K [])\<rparr>"
  have same: "block K ?h1 a = ?m" using good heap_ok_alloc(2)[OF ok] by (auto simp: map_rep_def block_def)
  obtain h' m' where r: "run_state (setKeys K ?b (order ?m)) ?h1 = ((), h')" "heap_ok h'" "agree (allocated_addrs h) ?h1 h'"
      "hCells h' ?b = Some (mkBlock K m')" "distinct (map fst m')" "map_of m' = map_of (rev (order ?m))"
    using setKeys_run[OF K heap_ok_alloc(1)[OF ok], where b = ?b and m = "[]" and A = "allocated_addrs h" and kvs = "order ?m"] heap_ok_alloc(2)[OF ok] by auto
  have d: "distinct (map fst ?m)" using good by (simp add: map_rep_def)
  have "map_of m' = map_of ?m"
    unfolding r(6) using order[OF d] d by (subst map_of_inject_set) (simp_all add: rev_map[symmetric])
  moreover have "agree (allocated_addrs h) h h'" using agree_trans[OF heap_ok_alloc(3)[OF ok] r(3)] by simp
  ultimately have "copied (map_rep K) h a ?b h'"
    using r(2,4,5) heap_ok_alloc(2)[OF ok] by (auto simp: copied_def map_rep_def block_assigned[OF K r(4)])
  moreover have "run_state (makeMap K order a) h = (?b, h')" using r(1) same by (simp add: makeMap_def State_Monad.get_def)
  ultimately show "\<exists>y h'. run_state (makeMap K order a) h = (y, h') \<and> copied (map_rep K) h a y h'" by blast
qed

end
