(* ===== verification/DeepCopy.thy ===== *)
theory DeepCopy
  imports Memory ApiTypes
begin

text \<open>
  The deep copies of the API types (\<^verbatim>\<open>api/v1alpha1/zz_generated.deepcopy.go\<close>), on the memory of \<open>Memory\<close>. The structs
  hold slices, maps and pointers here where the other theories hold their contents; \<^verbatim>\<open>nil\<close> is \<open>None\<close>.
  \<^verbatim>\<open>DeepCopyInto\<close> yields the struct that it writes to \<^verbatim>\<open>*out\<close>. Structs of the Kubernetes libraries are values of a type
  of their own, and their copies are operations of \<open>Library\<close>.
\<close>

section \<open>Structs in memory\<close>

record TypeMeta =
  tmKind :: string
  tmAPIVersion :: string

record BackupSpecMem =
  mGameServerName :: string
  mBackupPaths :: "slice option"

record BackupStatusMem =
  mbState :: BackupState
  mS3Key :: string
  mS3Bucket :: string
  mSize :: int
  mStartedAt :: "ptr option"
  mCompletedAt :: "ptr option"
  mMessage :: string
  mbConditions :: "slice option"

record 'l BackupMem =
  mbTypeMeta :: TypeMeta
  mbObjectMeta :: 'l
  mbSpec :: BackupSpecMem
  mbStatus :: BackupStatusMem

record 'l BackupListMem =
  mblTypeMeta :: TypeMeta
  mblListMeta :: 'l
  mblItems :: "slice option"

record 'l GameServerSpecMem =
  mGameType :: string
  mImage :: string
  mResources :: 'l
  mPorts :: "slice option"
  mParameters :: "addr option"

record GameServerStatusMem =
  mState :: GameServerState
  mAddress :: string
  mStatusPorts :: "slice option"
  mConditions :: "slice option"

record 'l GameServerMem =
  mgTypeMeta :: TypeMeta
  mgObjectMeta :: 'l
  mgSpec :: "'l GameServerSpecMem"
  mgStatus :: GameServerStatusMem

record 'l GameServerListMem =
  mglTypeMeta :: TypeMeta
  mglListMeta :: 'l
  mglItems :: "slice option"

datatype 'l cell =
    Strings "string list"
  | PortCells "GameServerPort list"
  | StatusPortCells "GameServerStatusPort list"
  | ConditionCells "'l list"
  | BackupSpecs "BackupSpecMem list"
  | BackupStatuses "BackupStatusMem list"
  | Backups "'l BackupMem list"
  | BackupLists "'l BackupListMem list"
  | GameServerSpecs "'l GameServerSpecMem list"
  | GameServerStatuses "GameServerStatusMem list"
  | GameServers "'l GameServerMem list"
  | GameServerLists "'l GameServerListMem list"
  | StringMap "(string \<times> string) list"
  | LibraryCells "'l list"

definition BStrings :: "('l cell, string) block_kind" where
  "BStrings = \<lparr>mkBlock = Strings, ofBlock = (\<lambda>c. case c of Strings xs \<Rightarrow> Some xs | _ \<Rightarrow> None)\<rparr>"
definition BPorts :: "('l cell, GameServerPort) block_kind" where
  "BPorts = \<lparr>mkBlock = PortCells, ofBlock = (\<lambda>c. case c of PortCells xs \<Rightarrow> Some xs | _ \<Rightarrow> None)\<rparr>"
definition BStatusPorts :: "('l cell, GameServerStatusPort) block_kind" where
  "BStatusPorts = \<lparr>mkBlock = StatusPortCells, ofBlock = (\<lambda>c. case c of StatusPortCells xs \<Rightarrow> Some xs | _ \<Rightarrow> None)\<rparr>"
definition BConditions :: "('l cell, 'l) block_kind" where
  "BConditions = \<lparr>mkBlock = ConditionCells, ofBlock = (\<lambda>c. case c of ConditionCells xs \<Rightarrow> Some xs | _ \<Rightarrow> None)\<rparr>"
definition BBackupSpecs :: "('l cell, BackupSpecMem) block_kind" where
  "BBackupSpecs = \<lparr>mkBlock = BackupSpecs, ofBlock = (\<lambda>c. case c of BackupSpecs xs \<Rightarrow> Some xs | _ \<Rightarrow> None)\<rparr>"
definition BBackupStatuses :: "('l cell, BackupStatusMem) block_kind" where
  "BBackupStatuses = \<lparr>mkBlock = BackupStatuses, ofBlock = (\<lambda>c. case c of BackupStatuses xs \<Rightarrow> Some xs | _ \<Rightarrow> None)\<rparr>"
definition BBackups :: "('l cell, 'l BackupMem) block_kind" where
  "BBackups = \<lparr>mkBlock = Backups, ofBlock = (\<lambda>c. case c of Backups xs \<Rightarrow> Some xs | _ \<Rightarrow> None)\<rparr>"
definition BBackupLists :: "('l cell, 'l BackupListMem) block_kind" where
  "BBackupLists = \<lparr>mkBlock = BackupLists, ofBlock = (\<lambda>c. case c of BackupLists xs \<Rightarrow> Some xs | _ \<Rightarrow> None)\<rparr>"
definition BGameServerSpecs :: "('l cell, 'l GameServerSpecMem) block_kind" where
  "BGameServerSpecs = \<lparr>mkBlock = GameServerSpecs, ofBlock = (\<lambda>c. case c of GameServerSpecs xs \<Rightarrow> Some xs | _ \<Rightarrow> None)\<rparr>"
definition BGameServerStatuses :: "('l cell, GameServerStatusMem) block_kind" where
  "BGameServerStatuses = \<lparr>mkBlock = GameServerStatuses, ofBlock = (\<lambda>c. case c of GameServerStatuses xs \<Rightarrow> Some xs | _ \<Rightarrow> None)\<rparr>"
definition BGameServers :: "('l cell, 'l GameServerMem) block_kind" where
  "BGameServers = \<lparr>mkBlock = GameServers, ofBlock = (\<lambda>c. case c of GameServers xs \<Rightarrow> Some xs | _ \<Rightarrow> None)\<rparr>"
definition BGameServerLists :: "('l cell, 'l GameServerListMem) block_kind" where
  "BGameServerLists = \<lparr>mkBlock = GameServerLists, ofBlock = (\<lambda>c. case c of GameServerLists xs \<Rightarrow> Some xs | _ \<Rightarrow> None)\<rparr>"
definition BStringMap :: "('l cell, string \<times> string) block_kind" where
  "BStringMap = \<lparr>mkBlock = StringMap, ofBlock = (\<lambda>c. case c of StringMap m \<Rightarrow> Some m | _ \<Rightarrow> None)\<rparr>"

lemmas block_kind_defs = BStrings_def BPorts_def BStatusPorts_def BConditions_def BBackupSpecs_def BBackupStatuses_def BBackups_def
  BBackupLists_def BGameServerSpecs_def BGameServerStatuses_def BGameServers_def BGameServerLists_def BStringMap_def

lemma kinds_ok [simp]:
  "kind_ok BStrings" "kind_ok BPorts" "kind_ok BStatusPorts" "kind_ok BConditions" "kind_ok BBackupSpecs" "kind_ok BBackupStatuses"
  "kind_ok BBackups" "kind_ok BBackupLists" "kind_ok BGameServerSpecs" "kind_ok BGameServerStatuses" "kind_ok BGameServers"
  "kind_ok BGameServerLists" "kind_ok BStringMap"
  by (simp_all add: kind_ok_def block_kind_defs)

text \<open>What the libraries copy, the zero values of their structs, and the order in which \<^verbatim>\<open>range\<close> visits a map.\<close>

record 'l Library =
  copyObjectMeta :: "'l \<Rightarrow> ('l cell heap, 'l) state"
  copyListMeta :: "'l \<Rightarrow> ('l cell heap, 'l) state"
  copyResources :: "'l \<Rightarrow> ('l cell heap, 'l) state"
  copyCondition :: "'l \<Rightarrow> ('l cell heap, 'l) state"
  copyTime :: "ptr \<Rightarrow> ('l cell heap, ptr) state"
  zeroObjectMeta :: 'l
  zeroListMeta :: 'l
  zeroResources :: 'l
  zeroCondition :: 'l
  rangeOrder :: "gomap \<Rightarrow> gomap"

section \<open>Zero values\<close>

definition TypeMeta0 :: TypeMeta where "TypeMeta0 = \<lparr>tmKind = [], tmAPIVersion = []\<rparr>"

definition GameServerPort0 :: GameServerPort where
  "GameServerPort0 = \<lparr>PortName = [], ContainerPort = 0, Protocol = []\<rparr>"

definition GameServerStatusPort0 :: GameServerStatusPort where
  "GameServerStatusPort0 = \<lparr>StatusPortName = [], StatusPort = 0, StatusProtocol = []\<rparr>"

definition BackupSpecMem0 :: BackupSpecMem where
  "BackupSpecMem0 = \<lparr>mGameServerName = [], mBackupPaths = None\<rparr>"

definition BackupStatusMem0 :: BackupStatusMem where
  "BackupStatusMem0 = \<lparr>mbState = BackupStateUnset, mS3Key = [], mS3Bucket = [], mSize = 0, mStartedAt = None, mCompletedAt = None,
     mMessage = [], mbConditions = None\<rparr>"

definition BackupMem0 :: "'l Library \<Rightarrow> 'l BackupMem" where
  "BackupMem0 lib = \<lparr>mbTypeMeta = TypeMeta0, mbObjectMeta = zeroObjectMeta lib, mbSpec = BackupSpecMem0, mbStatus = BackupStatusMem0\<rparr>"

definition BackupListMem0 :: "'l Library \<Rightarrow> 'l BackupListMem" where
  "BackupListMem0 lib = \<lparr>mblTypeMeta = TypeMeta0, mblListMeta = zeroListMeta lib, mblItems = None\<rparr>"

definition GameServerSpecMem0 :: "'l Library \<Rightarrow> 'l GameServerSpecMem" where
  "GameServerSpecMem0 lib = \<lparr>mGameType = [], mImage = [], mResources = zeroResources lib, mPorts = None, mParameters = None\<rparr>"

definition GameServerStatusMem0 :: GameServerStatusMem where
  "GameServerStatusMem0 = \<lparr>mState = GameServerStateUnset, mAddress = [], mStatusPorts = None, mConditions = None\<rparr>"

definition GameServerMem0 :: "'l Library \<Rightarrow> 'l GameServerMem" where
  "GameServerMem0 lib = \<lparr>mgTypeMeta = TypeMeta0, mgObjectMeta = zeroObjectMeta lib, mgSpec = GameServerSpecMem0 lib, mgStatus = GameServerStatusMem0\<rparr>"

definition GameServerListMem0 :: "'l Library \<Rightarrow> 'l GameServerListMem" where
  "GameServerListMem0 lib = \<lparr>mglTypeMeta = TypeMeta0, mglListMeta = zeroListMeta lib, mglItems = None\<rparr>"

section \<open>Copies\<close>

definition BackupSpec_DeepCopyInto :: "BackupSpecMem \<Rightarrow> ('l cell heap, BackupSpecMem) state" where
  "BackupSpec_DeepCopyInto inp = do {
     paths \<leftarrow> unlessNil (makeCopy BStrings []) (mBackupPaths inp);
     ret (inp\<lparr>mBackupPaths := paths\<rparr>) }"

definition BackupSpec_DeepCopy :: "ptr option \<Rightarrow> ('l cell heap, ptr option) state" where
  "BackupSpec_DeepCopy = unlessNil (newCopy BBackupSpecs BackupSpecMem0 BackupSpec_DeepCopyInto)"

definition BackupStatus_DeepCopyInto :: "'l Library \<Rightarrow> BackupStatusMem \<Rightarrow> ('l cell heap, BackupStatusMem) state" where
  "BackupStatus_DeepCopyInto lib inp = do {
     started \<leftarrow> unlessNil (copyTime lib) (mStartedAt inp);
     completed \<leftarrow> unlessNil (copyTime lib) (mCompletedAt inp);
     conds \<leftarrow> unlessNil (makeEach BConditions (zeroCondition lib) (copyCondition lib)) (mbConditions inp);
     ret (inp\<lparr>mStartedAt := started, mCompletedAt := completed, mbConditions := conds\<rparr>) }"

definition BackupStatus_DeepCopy :: "'l Library \<Rightarrow> ptr option \<Rightarrow> ('l cell heap, ptr option) state" where
  "BackupStatus_DeepCopy lib = unlessNil (newCopy BBackupStatuses BackupStatusMem0 (BackupStatus_DeepCopyInto lib))"

definition Backup_DeepCopyInto :: "'l Library \<Rightarrow> 'l BackupMem \<Rightarrow> ('l cell heap, 'l BackupMem) state" where
  "Backup_DeepCopyInto lib inp = do {
     m \<leftarrow> copyObjectMeta lib (mbObjectMeta inp);
     spec \<leftarrow> BackupSpec_DeepCopyInto (mbSpec inp);
     status \<leftarrow> BackupStatus_DeepCopyInto lib (mbStatus inp);
     ret (inp\<lparr>mbObjectMeta := m, mbSpec := spec, mbStatus := status\<rparr>) }"

definition Backup_DeepCopy :: "'l Library \<Rightarrow> ptr option \<Rightarrow> ('l cell heap, ptr option) state" where
  "Backup_DeepCopy lib = unlessNil (newCopy BBackups (BackupMem0 lib) (Backup_DeepCopyInto lib))"

definition BackupList_DeepCopyInto :: "'l Library \<Rightarrow> 'l BackupListMem \<Rightarrow> ('l cell heap, 'l BackupListMem) state" where
  "BackupList_DeepCopyInto lib inp = do {
     m \<leftarrow> copyListMeta lib (mblListMeta inp);
     items \<leftarrow> unlessNil (makeEach BBackups (BackupMem0 lib) (Backup_DeepCopyInto lib)) (mblItems inp);
     ret (inp\<lparr>mblListMeta := m, mblItems := items\<rparr>) }"

definition BackupList_DeepCopy :: "'l Library \<Rightarrow> ptr option \<Rightarrow> ('l cell heap, ptr option) state" where
  "BackupList_DeepCopy lib = unlessNil (newCopy BBackupLists (BackupListMem0 lib) (BackupList_DeepCopyInto lib))"

definition GameServerPort_DeepCopyInto :: "GameServerPort \<Rightarrow> ('l cell heap, GameServerPort) state" where
  "GameServerPort_DeepCopyInto inp = ret inp"

definition GameServerPort_DeepCopy :: "ptr option \<Rightarrow> ('l cell heap, ptr option) state" where
  "GameServerPort_DeepCopy = unlessNil (newCopy BPorts GameServerPort0 GameServerPort_DeepCopyInto)"

definition GameServerStatusPort_DeepCopyInto :: "GameServerStatusPort \<Rightarrow> ('l cell heap, GameServerStatusPort) state" where
  "GameServerStatusPort_DeepCopyInto inp = ret inp"

definition GameServerStatusPort_DeepCopy :: "ptr option \<Rightarrow> ('l cell heap, ptr option) state" where
  "GameServerStatusPort_DeepCopy = unlessNil (newCopy BStatusPorts GameServerStatusPort0 GameServerStatusPort_DeepCopyInto)"

definition GameServerSpec_DeepCopyInto :: "'l Library \<Rightarrow> 'l GameServerSpecMem \<Rightarrow> ('l cell heap, 'l GameServerSpecMem) state" where
  "GameServerSpec_DeepCopyInto lib inp = do {
     res \<leftarrow> copyResources lib (mResources inp);
     ports \<leftarrow> unlessNil (makeCopy BPorts GameServerPort0) (mPorts inp);
     params \<leftarrow> unlessNil (makeMap BStringMap (rangeOrder lib)) (mParameters inp);
     ret (inp\<lparr>mResources := res, mPorts := ports, mParameters := params\<rparr>) }"

definition GameServerSpec_DeepCopy :: "'l Library \<Rightarrow> ptr option \<Rightarrow> ('l cell heap, ptr option) state" where
  "GameServerSpec_DeepCopy lib = unlessNil (newCopy BGameServerSpecs (GameServerSpecMem0 lib) (GameServerSpec_DeepCopyInto lib))"

definition GameServerStatus_DeepCopyInto :: "'l Library \<Rightarrow> GameServerStatusMem \<Rightarrow> ('l cell heap, GameServerStatusMem) state" where
  "GameServerStatus_DeepCopyInto lib inp = do {
     ports \<leftarrow> unlessNil (makeCopy BStatusPorts GameServerStatusPort0) (mStatusPorts inp);
     conds \<leftarrow> unlessNil (makeEach BConditions (zeroCondition lib) (copyCondition lib)) (mConditions inp);
     ret (inp\<lparr>mStatusPorts := ports, mConditions := conds\<rparr>) }"

definition GameServerStatus_DeepCopy :: "'l Library \<Rightarrow> ptr option \<Rightarrow> ('l cell heap, ptr option) state" where
  "GameServerStatus_DeepCopy lib = unlessNil (newCopy BGameServerStatuses GameServerStatusMem0 (GameServerStatus_DeepCopyInto lib))"

definition GameServer_DeepCopyInto :: "'l Library \<Rightarrow> 'l GameServerMem \<Rightarrow> ('l cell heap, 'l GameServerMem) state" where
  "GameServer_DeepCopyInto lib inp = do {
     m \<leftarrow> copyObjectMeta lib (mgObjectMeta inp);
     spec \<leftarrow> GameServerSpec_DeepCopyInto lib (mgSpec inp);
     status \<leftarrow> GameServerStatus_DeepCopyInto lib (mgStatus inp);
     ret (inp\<lparr>mgObjectMeta := m, mgSpec := spec, mgStatus := status\<rparr>) }"

definition GameServer_DeepCopy :: "'l Library \<Rightarrow> ptr option \<Rightarrow> ('l cell heap, ptr option) state" where
  "GameServer_DeepCopy lib = unlessNil (newCopy BGameServers (GameServerMem0 lib) (GameServer_DeepCopyInto lib))"

definition GameServerList_DeepCopyInto :: "'l Library \<Rightarrow> 'l GameServerListMem \<Rightarrow> ('l cell heap, 'l GameServerListMem) state" where
  "GameServerList_DeepCopyInto lib inp = do {
     m \<leftarrow> copyListMeta lib (mglListMeta inp);
     items \<leftarrow> unlessNil (makeEach BGameServers (GameServerMem0 lib) (GameServer_DeepCopyInto lib)) (mglItems inp);
     ret (inp\<lparr>mglListMeta := m, mglItems := items\<rparr>) }"

definition GameServerList_DeepCopy :: "'l Library \<Rightarrow> ptr option \<Rightarrow> ('l cell heap, ptr option) state" where
  "GameServerList_DeepCopy lib = unlessNil (newCopy BGameServerLists (GameServerListMem0 lib) (GameServerList_DeepCopyInto lib))"

text \<open>
  The four types are \<^verbatim>\<open>runtime.Object\<close>s: an object is a pointer, possibly \<^verbatim>\<open>nil\<close>, with its type. The copy of a \<^verbatim>\<open>nil\<close>
  pointer is the \<^verbatim>\<open>nil\<close> interface, which has no type.
\<close>

datatype ('a, 'b, 'c, 'd) kinded = OfBackup 'a | OfBackupList 'b | OfGameServer 'c | OfGameServerList 'd

type_synonym Object = "(ptr option, ptr option, ptr option, ptr option) kinded"

definition asObject :: "(ptr option \<Rightarrow> Object) \<Rightarrow> ('s, ptr option) state \<Rightarrow> ('s, Object option) state" where
  "asObject tag m = do { c \<leftarrow> m; if c \<noteq> None then ret (Some (tag c)) else ret None }"

definition Backup_DeepCopyObject :: "'l Library \<Rightarrow> ptr option \<Rightarrow> ('l cell heap, Object option) state" where
  "Backup_DeepCopyObject lib inp = asObject OfBackup (Backup_DeepCopy lib inp)"

definition BackupList_DeepCopyObject :: "'l Library \<Rightarrow> ptr option \<Rightarrow> ('l cell heap, Object option) state" where
  "BackupList_DeepCopyObject lib inp = asObject OfBackupList (BackupList_DeepCopy lib inp)"

definition GameServer_DeepCopyObject :: "'l Library \<Rightarrow> ptr option \<Rightarrow> ('l cell heap, Object option) state" where
  "GameServer_DeepCopyObject lib inp = asObject OfGameServer (GameServer_DeepCopy lib inp)"

definition GameServerList_DeepCopyObject :: "'l Library \<Rightarrow> ptr option \<Rightarrow> ('l cell heap, Object option) state" where
  "GameServerList_DeepCopyObject lib inp = asObject OfGameServerList (GameServerList_DeepCopy lib inp)"

text \<open>Calling \<^verbatim>\<open>DeepCopyObject\<close> on an object runs the method of its type.\<close>

fun DeepCopyObject :: "'l Library \<Rightarrow> Object \<Rightarrow> ('l cell heap, Object option) state" where
  "DeepCopyObject lib (OfBackup p) = Backup_DeepCopyObject lib p"
| "DeepCopyObject lib (OfBackupList p) = BackupList_DeepCopyObject lib p"
| "DeepCopyObject lib (OfGameServer p) = GameServer_DeepCopyObject lib p"
| "DeepCopyObject lib (OfGameServerList p) = GameServerList_DeepCopyObject lib p"

lemmas object_method_defs = Backup_DeepCopyObject_def BackupList_DeepCopyObject_def GameServer_DeepCopyObject_def
  GameServerList_DeepCopyObject_def

section \<open>What the structs stand for\<close>

record ('l, 'v, 'w) LibraryReps =
  objectMetaRep :: "('l cell, 'l, 'v) rep"
  listMetaRep :: "('l cell, 'l, 'v) rep"
  resourcesRep :: "('l cell, 'l, 'v) rep"
  conditionRep :: "('l cell, 'l, 'v) rep"
  timeRep :: "('l cell, ptr, 'w) rep"

abbreviation plain_slice :: "('c, 'a) block_kind \<Rightarrow> ('c, slice option, 'a list option) rep" where
  "plain_slice K \<equiv> opt_rep (block_rep K plain_rep)"

text \<open>The plain part of a struct is the struct with its references blanked out.\<close>

definition backupSpecRep :: "('l cell, BackupSpecMem, BackupSpecMem \<times> string list option) rep" where
  "backupSpecRep = struct_rep (\<lambda>x. x\<lparr>mBackupPaths := None\<rparr>) mBackupPaths (plain_slice BStrings)"

definition backupStatusRep where
  "backupStatusRep M = struct_rep (\<lambda>x. x\<lparr>mStartedAt := None, mCompletedAt := None, mbConditions := None\<rparr>)
     (\<lambda>x. (mStartedAt x, mCompletedAt x, mbConditions x))
     (pair_rep (opt_rep (timeRep M)) (pair_rep (opt_rep (timeRep M)) (opt_rep (block_rep BConditions (conditionRep M)))))"

definition backupRep where
  "backupRep M = struct_rep mbTypeMeta (\<lambda>x. (mbObjectMeta x, mbSpec x, mbStatus x))
     (pair_rep (objectMetaRep M) (pair_rep backupSpecRep (backupStatusRep M)))"

definition backupListRep where
  "backupListRep M = struct_rep mblTypeMeta (\<lambda>x. (mblListMeta x, mblItems x))
     (pair_rep (listMetaRep M) (opt_rep (block_rep BBackups (backupRep M))))"

definition gameServerSpecRep where
  "gameServerSpecRep M = struct_rep (\<lambda>x. (mGameType x, mImage x)) (\<lambda>x. (mResources x, mPorts x, mParameters x))
     (pair_rep (resourcesRep M) (pair_rep (plain_slice BPorts) (opt_rep (map_rep BStringMap))))"

definition gameServerStatusRep where
  "gameServerStatusRep M = struct_rep (\<lambda>x. x\<lparr>mStatusPorts := None, mConditions := None\<rparr>) (\<lambda>x. (mStatusPorts x, mConditions x))
     (pair_rep (plain_slice BStatusPorts) (opt_rep (block_rep BConditions (conditionRep M))))"

definition gameServerRep where
  "gameServerRep M = struct_rep mgTypeMeta (\<lambda>x. (mgObjectMeta x, mgSpec x, mgStatus x))
     (pair_rep (objectMetaRep M) (pair_rep (gameServerSpecRep M) (gameServerStatusRep M)))"

definition gameServerListRep where
  "gameServerListRep M = struct_rep mglTypeMeta (\<lambda>x. (mglListMeta x, mglItems x))
     (pair_rep (listMetaRep M) (opt_rep (block_rep BGameServers (gameServerRep M))))"

section \<open>The copies are deep\<close>

locale library_copies =
  fixes lib :: "'l Library" and M :: "('l, 'v, 'w) LibraryReps"
  assumes object_meta: "deep_copy (objectMetaRep M) (copyObjectMeta lib)"
    and list_meta: "deep_copy (listMetaRep M) (copyListMeta lib)"
    and resources: "deep_copy (resourcesRep M) (copyResources lib)"
    and condition: "deep_copy (conditionRep M) (copyCondition lib)"
    and time: "deep_copy (timeRep M) (copyTime lib)"
    and range_order: "distinct (map fst m) \<Longrightarrow> distinct (map fst (rangeOrder lib m)) \<and> set (rangeOrder lib m) = set m"

lemmas copy_rules = pair_copy opt_copy makeCopy_copy makeEach_copy newCopy_copy makeMap_copy

lemma BackupSpec_structCopy:
  "BackupSpec_DeepCopyInto = structCopy mBackupPaths (\<lambda>y x. x\<lparr>mBackupPaths := y\<rparr>) (unlessNil (makeCopy BStrings []))"
  by (simp add: fun_eq_iff BackupSpec_DeepCopyInto_def structCopy_def)

interpretation backup_spec: deep_copy backupSpecRep BackupSpec_DeepCopyInto
  unfolding backupSpecRep_def BackupSpec_structCopy by (intro struct_copy copy_rules; simp)

lemma GameServerPort_plain: "GameServerPort_DeepCopyInto = ret"
  by (simp add: fun_eq_iff GameServerPort_DeepCopyInto_def)

lemma GameServerStatusPort_plain: "GameServerStatusPort_DeepCopyInto = ret"
  by (simp add: fun_eq_iff GameServerStatusPort_DeepCopyInto_def)

interpretation port: deep_copy plain_rep GameServerPort_DeepCopyInto
  unfolding GameServerPort_plain by (rule plain_copy)

interpretation status_port: deep_copy plain_rep GameServerStatusPort_DeepCopyInto
  unfolding GameServerStatusPort_plain by (rule plain_copy)

sublocale library_copies \<subseteq> backup_status: deep_copy "backupStatusRep M" "BackupStatus_DeepCopyInto lib"
proof -
  have "BackupStatus_DeepCopyInto lib = structCopy (\<lambda>x. (mStartedAt x, mCompletedAt x, mbConditions x))
      (\<lambda>(s, c, cs) x. x\<lparr>mStartedAt := s, mCompletedAt := c, mbConditions := cs\<rparr>)
      (pairCopy (unlessNil (copyTime lib)) (pairCopy (unlessNil (copyTime lib))
        (unlessNil (makeEach BConditions (zeroCondition lib) (copyCondition lib)))))"
    by (simp add: fun_eq_iff BackupStatus_DeepCopyInto_def structCopy_def pairCopy_def)
  then show "deep_copy (backupStatusRep M) (BackupStatus_DeepCopyInto lib)"
    unfolding backupStatusRep_def by (simp only:) (intro struct_copy copy_rules time condition; simp split: prod.split)
qed

sublocale library_copies \<subseteq> backup: deep_copy "backupRep M" "Backup_DeepCopyInto lib"
proof -
  have "Backup_DeepCopyInto lib = structCopy (\<lambda>x. (mbObjectMeta x, mbSpec x, mbStatus x))
      (\<lambda>(m, sp, st) x. x\<lparr>mbObjectMeta := m, mbSpec := sp, mbStatus := st\<rparr>)
      (pairCopy (copyObjectMeta lib) (pairCopy BackupSpec_DeepCopyInto (BackupStatus_DeepCopyInto lib)))"
    by (simp add: fun_eq_iff Backup_DeepCopyInto_def structCopy_def pairCopy_def)
  then show "deep_copy (backupRep M) (Backup_DeepCopyInto lib)"
    unfolding backupRep_def
    by (simp only:) (intro struct_copy copy_rules object_meta backup_spec.deep_copy_axioms backup_status.deep_copy_axioms; simp split: prod.split)
qed

sublocale library_copies \<subseteq> backup_list: deep_copy "backupListRep M" "BackupList_DeepCopyInto lib"
proof -
  have "BackupList_DeepCopyInto lib = structCopy (\<lambda>x. (mblListMeta x, mblItems x)) (\<lambda>(m, is) x. x\<lparr>mblListMeta := m, mblItems := is\<rparr>)
      (pairCopy (copyListMeta lib) (unlessNil (makeEach BBackups (BackupMem0 lib) (Backup_DeepCopyInto lib))))"
    by (simp add: fun_eq_iff BackupList_DeepCopyInto_def structCopy_def pairCopy_def)
  then show "deep_copy (backupListRep M) (BackupList_DeepCopyInto lib)"
    unfolding backupListRep_def by (simp only:) (intro struct_copy copy_rules list_meta backup.deep_copy_axioms; simp split: prod.split)
qed

sublocale library_copies \<subseteq> gs_spec: deep_copy "gameServerSpecRep M" "GameServerSpec_DeepCopyInto lib"
proof -
  have "GameServerSpec_DeepCopyInto lib = structCopy (\<lambda>x. (mResources x, mPorts x, mParameters x))
      (\<lambda>(r, p, m) x. x\<lparr>mResources := r, mPorts := p, mParameters := m\<rparr>)
      (pairCopy (copyResources lib) (pairCopy (unlessNil (makeCopy BPorts GameServerPort0))
        (unlessNil (makeMap BStringMap (rangeOrder lib)))))"
    by (simp add: fun_eq_iff GameServerSpec_DeepCopyInto_def structCopy_def pairCopy_def)
  then show "deep_copy (gameServerSpecRep M) (GameServerSpec_DeepCopyInto lib)"
    unfolding gameServerSpecRep_def
    by (simp only:) (intro struct_copy copy_rules resources; simp add: range_order split: prod.split)
qed

sublocale library_copies \<subseteq> gs_status: deep_copy "gameServerStatusRep M" "GameServerStatus_DeepCopyInto lib"
proof -
  have "GameServerStatus_DeepCopyInto lib = structCopy (\<lambda>x. (mStatusPorts x, mConditions x)) (\<lambda>(p, cs) x. x\<lparr>mStatusPorts := p, mConditions := cs\<rparr>)
      (pairCopy (unlessNil (makeCopy BStatusPorts GameServerStatusPort0))
        (unlessNil (makeEach BConditions (zeroCondition lib) (copyCondition lib))))"
    by (simp add: fun_eq_iff GameServerStatus_DeepCopyInto_def structCopy_def pairCopy_def)
  then show "deep_copy (gameServerStatusRep M) (GameServerStatus_DeepCopyInto lib)"
    unfolding gameServerStatusRep_def by (simp only:) (intro struct_copy copy_rules condition; simp split: prod.split)
qed

sublocale library_copies \<subseteq> gs: deep_copy "gameServerRep M" "GameServer_DeepCopyInto lib"
proof -
  have "GameServer_DeepCopyInto lib = structCopy (\<lambda>x. (mgObjectMeta x, mgSpec x, mgStatus x))
      (\<lambda>(m, sp, st) x. x\<lparr>mgObjectMeta := m, mgSpec := sp, mgStatus := st\<rparr>)
      (pairCopy (copyObjectMeta lib) (pairCopy (GameServerSpec_DeepCopyInto lib) (GameServerStatus_DeepCopyInto lib)))"
    by (simp add: fun_eq_iff GameServer_DeepCopyInto_def structCopy_def pairCopy_def)
  then show "deep_copy (gameServerRep M) (GameServer_DeepCopyInto lib)"
    unfolding gameServerRep_def
    by (simp only:) (intro struct_copy copy_rules object_meta gs_spec.deep_copy_axioms gs_status.deep_copy_axioms; simp split: prod.split)
qed

sublocale library_copies \<subseteq> gs_list: deep_copy "gameServerListRep M" "GameServerList_DeepCopyInto lib"
proof -
  have "GameServerList_DeepCopyInto lib = structCopy (\<lambda>x. (mglListMeta x, mglItems x)) (\<lambda>(m, is) x. x\<lparr>mglListMeta := m, mglItems := is\<rparr>)
      (pairCopy (copyListMeta lib) (unlessNil (makeEach BGameServers (GameServerMem0 lib) (GameServer_DeepCopyInto lib))))"
    by (simp add: fun_eq_iff GameServerList_DeepCopyInto_def structCopy_def pairCopy_def)
  then show "deep_copy (gameServerListRep M) (GameServerList_DeepCopyInto lib)"
    unfolding gameServerListRep_def by (simp only:) (intro struct_copy copy_rules list_meta gs.deep_copy_axioms; simp split: prod.split)
qed

text \<open>The copies through pointers.\<close>

definition kinded_rep :: "('c, 'x, 'a) rep \<Rightarrow> ('c, 'x, 'b) rep \<Rightarrow> ('c, 'x, 'd) rep \<Rightarrow> ('c, 'x, 'e) rep \<Rightarrow>
    ('c, ('x, 'x, 'x, 'x) kinded, ('a, 'b, 'd, 'e) kinded) rep" where
  "kinded_rep A B C D = \<lparr>
     repValue = (\<lambda>h x. case x of OfBackup p \<Rightarrow> OfBackup (repValue A h p) | OfBackupList p \<Rightarrow> OfBackupList (repValue B h p)
       | OfGameServer p \<Rightarrow> OfGameServer (repValue C h p) | OfGameServerList p \<Rightarrow> OfGameServerList (repValue D h p)),
     repReach = (\<lambda>h x. case x of OfBackup p \<Rightarrow> repReach A h p | OfBackupList p \<Rightarrow> repReach B h p
       | OfGameServer p \<Rightarrow> repReach C h p | OfGameServerList p \<Rightarrow> repReach D h p),
     repGood = (\<lambda>h x. case x of OfBackup p \<Rightarrow> repGood A h p | OfBackupList p \<Rightarrow> repGood B h p
       | OfGameServer p \<Rightarrow> repGood C h p | OfGameServerList p \<Rightarrow> repGood D h p)\<rparr>"

definition objectRep where
  "objectRep M = kinded_rep (opt_rep (ptr_rep BBackups (backupRep M))) (opt_rep (ptr_rep BBackupLists (backupListRep M)))
     (opt_rep (ptr_rep BGameServers (gameServerRep M))) (opt_rep (ptr_rep BGameServerLists (gameServerListRep M)))"

fun objectPtr :: "Object \<Rightarrow> ptr option" where
  "objectPtr (OfBackup p) = p"
| "objectPtr (OfBackupList p) = p"
| "objectPtr (OfGameServer p) = p"
| "objectPtr (OfGameServerList p) = p"

sublocale library_copies \<subseteq> backup_ptr: deep_copy "opt_rep (ptr_rep BBackups (backupRep M))" "Backup_DeepCopy lib"
  unfolding Backup_DeepCopy_def by (intro copy_rules backup.deep_copy_axioms) simp

sublocale library_copies \<subseteq> backup_list_ptr: deep_copy "opt_rep (ptr_rep BBackupLists (backupListRep M))" "BackupList_DeepCopy lib"
  unfolding BackupList_DeepCopy_def by (intro copy_rules backup_list.deep_copy_axioms) simp

sublocale library_copies \<subseteq> gs_ptr: deep_copy "opt_rep (ptr_rep BGameServers (gameServerRep M))" "GameServer_DeepCopy lib"
  unfolding GameServer_DeepCopy_def by (intro copy_rules gs.deep_copy_axioms) simp

sublocale library_copies \<subseteq> gs_list_ptr: deep_copy "opt_rep (ptr_rep BGameServerLists (gameServerListRep M))" "GameServerList_DeepCopy lib"
  unfolding GameServerList_DeepCopy_def by (intro copy_rules gs_list.deep_copy_axioms) simp

sublocale library_copies \<subseteq> backup_status_ptr: deep_copy "opt_rep (ptr_rep BBackupStatuses (backupStatusRep M))" "BackupStatus_DeepCopy lib"
  unfolding BackupStatus_DeepCopy_def by (intro copy_rules backup_status.deep_copy_axioms) simp

sublocale library_copies \<subseteq> gs_spec_ptr: deep_copy "opt_rep (ptr_rep BGameServerSpecs (gameServerSpecRep M))" "GameServerSpec_DeepCopy lib"
  unfolding GameServerSpec_DeepCopy_def by (intro copy_rules gs_spec.deep_copy_axioms) simp

sublocale library_copies \<subseteq> gs_status_ptr: deep_copy "opt_rep (ptr_rep BGameServerStatuses (gameServerStatusRep M))" "GameServerStatus_DeepCopy lib"
  unfolding GameServerStatus_DeepCopy_def by (intro copy_rules gs_status.deep_copy_axioms) simp

interpretation backup_spec_ptr: deep_copy "opt_rep (ptr_rep BBackupSpecs backupSpecRep)" BackupSpec_DeepCopy
  unfolding BackupSpec_DeepCopy_def by (intro copy_rules backup_spec.deep_copy_axioms) simp

interpretation port_ptr: deep_copy "opt_rep (ptr_rep BPorts plain_rep)" GameServerPort_DeepCopy
  unfolding GameServerPort_DeepCopy_def by (intro copy_rules port.deep_copy_axioms) simp

interpretation status_port_ptr: deep_copy "opt_rep (ptr_rep BStatusPorts plain_rep)" GameServerStatusPort_DeepCopy
  unfolding GameServerStatusPort_DeepCopy_def by (intro copy_rules status_port.deep_copy_axioms) simp

lemma asObject_copied:
  assumes "\<exists>q h'. run_state m h = (q, h') \<and> copied (opt_rep R) h p q h'" "p \<noteq> None"
  shows "\<exists>q h'. run_state (asObject tag m) h = (Some (tag q), h') \<and> copied (opt_rep R) h p q h'"
proof -
  from assms(1) obtain q h' where q: "run_state m h = (q, h')" "copied (opt_rep R) h p q h'" by blast
  have "map_option (repValue R h') q = map_option (repValue R h) p" using q(2) by (simp add: copied_def opt_rep_def)
  then have "q \<noteq> None" using assms(2) by (metis option.map_disc_iff)
  with q show ?thesis by (auto simp: asObject_def)
qed

lemma copied_kinded:
  "copied (kinded_rep A B C D) h (OfBackup p) (OfBackup q) h' = copied A h p q h'"
  "copied (kinded_rep A B C D) h (OfBackupList p) (OfBackupList q) h' = copied B h p q h'"
  "copied (kinded_rep A B C D) h (OfGameServer p) (OfGameServer q) h' = copied C h p q h'"
  "copied (kinded_rep A B C D) h (OfGameServerList p) (OfGameServerList q) h' = copied D h p q h'"
  by (simp_all add: copied_def kinded_rep_def)

context library_copies
begin

lemma object_copies:
  assumes "heap_ok h" "repGood (objectRep M) h x" "objectPtr x \<noteq> None"
  shows "\<exists>y h'. run_state (DeepCopyObject lib x) h = (Some y, h') \<and> copied (objectRep M) h x y h'"
proof (cases x)
  case (OfBackup p)
  with assms have "\<exists>q h'. run_state (Backup_DeepCopy lib p) h = (q, h') \<and> copied (opt_rep (ptr_rep BBackups (backupRep M))) h p q h'" "p \<noteq> None"
    by (simp_all add: backup_ptr.copies objectRep_def kinded_rep_def)
  from asObject_copied[OF this] show ?thesis using OfBackup by (fastforce simp: objectRep_def copied_kinded object_method_defs)
next
  case (OfBackupList p)
  with assms have "\<exists>q h'. run_state (BackupList_DeepCopy lib p) h = (q, h') \<and> copied (opt_rep (ptr_rep BBackupLists (backupListRep M))) h p q h'"
      "p \<noteq> None"
    by (simp_all add: backup_list_ptr.copies objectRep_def kinded_rep_def)
  from asObject_copied[OF this] show ?thesis using OfBackupList by (fastforce simp: objectRep_def copied_kinded object_method_defs)
next
  case (OfGameServer p)
  with assms have "\<exists>q h'. run_state (GameServer_DeepCopy lib p) h = (q, h') \<and> copied (opt_rep (ptr_rep BGameServers (gameServerRep M))) h p q h'"
      "p \<noteq> None"
    by (simp_all add: gs_ptr.copies objectRep_def kinded_rep_def)
  from asObject_copied[OF this] show ?thesis using OfGameServer by (fastforce simp: objectRep_def copied_kinded object_method_defs)
next
  case (OfGameServerList p)
  with assms have "\<exists>q h'. run_state (GameServerList_DeepCopy lib p) h = (q, h') \<and>
      copied (opt_rep (ptr_rep BGameServerLists (gameServerListRep M))) h p q h'" "p \<noteq> None"
    by (simp_all add: gs_list_ptr.copies objectRep_def kinded_rep_def)
  from asObject_copied[OF this] show ?thesis using OfGameServerList by (fastforce simp: objectRep_def copied_kinded object_method_defs)
qed

lemma object_local: "local_rep (objectRep M)"
proof (rule local_rep.intro)
  fix h and x :: Object
  show "repGood (objectRep M) h x \<Longrightarrow> repReach (objectRep M) h x \<subseteq> allocated_addrs h"
    unfolding objectRep_def kinded_rep_def
    by (cases x) (simp_all add: backup_ptr.reach_allocated backup_list_ptr.reach_allocated gs_ptr.reach_allocated gs_list_ptr.reach_allocated)
  fix h'
  assume "repGood (objectRep M) h x" "agree (repReach (objectRep M) h x) h h'"
  then show "repGood (objectRep M) h' x \<and> repReach (objectRep M) h' x = repReach (objectRep M) h x \<and>
      repValue (objectRep M) h' x = repValue (objectRep M) h x"
    unfolding objectRep_def kinded_rep_def
    using backup_ptr.local[of h "objectPtr x" h'] backup_list_ptr.local[of h "objectPtr x" h'] gs_ptr.local[of h "objectPtr x" h']
      gs_list_ptr.local[of h "objectPtr x" h'] by (cases x) simp_all
qed

end

section \<open>Property\<close>

text \<open>C32: Deep copies are deep. Given that the libraries copy their own structs deeply, copying a \<^verbatim>\<open>Backup\<close>, a \<^verbatim>\<open>GameServer\<close> or a
  list of them gives an object of the same contents, \<^verbatim>\<open>nil\<close> and empty slices and maps told apart, which shares no memory with
  the original or anything else that was allocated; nothing that was allocated changes, and whatever is later written
  to the copy's memory, the original keeps its contents. The copy of a \<^verbatim>\<open>nil\<close> pointer is the \<^verbatim>\<open>nil\<close> interface.\<close>

theorem DeepCopyObject_deep:
  assumes "library_copies lib M" "heap_ok h" "repGood (objectRep M) h x"
  shows "if objectPtr x = None then run_state (DeepCopyObject lib x) h = (None, h)
    else \<exists>y h'. run_state (DeepCopyObject lib x) h = (Some y, h') \<and>
      repGood (objectRep M) h' y \<and> repValue (objectRep M) h' y = repValue (objectRep M) h x \<and>
      repReach (objectRep M) h' y \<inter> dom (hCells h) = {} \<and> (\<forall>a \<in> dom (hCells h). hCells h' a = hCells h a) \<and>
      (\<forall>h''. (\<forall>a. a \<notin> repReach (objectRep M) h' y \<longrightarrow> hCells h'' a = hCells h' a) \<longrightarrow>
        repValue (objectRep M) h'' x = repValue (objectRep M) h x)"
proof (cases "objectPtr x = None")
  case True
  then show ?thesis
    by (cases x) (simp_all add: object_method_defs asObject_def unlessNil_def Backup_DeepCopy_def BackupList_DeepCopy_def GameServer_DeepCopy_def
        GameServerList_DeepCopy_def)
next
  case False
  from library_copies.object_copies[OF assms False] obtain y h' where
    y: "run_state (DeepCopyObject lib x) h = (Some y, h')" "copied (objectRep M) h x y h'" by blast
  note L = library_copies.object_local[OF assms(1)]
  have "repValue (objectRep M) h'' x = repValue (objectRep M) h x"
    if "\<forall>a. a \<notin> repReach (objectRep M) h' y \<longrightarrow> hCells h'' a = hCells h' a" for h''
  proof -
    have "agree (repReach (objectRep M) h x) h h''"
      using that y(2) local_rep.reach_allocated[OF L assms(3)] by (force simp: agree_def copied_def)
    from local_rep.local[OF L assms(3) this] show ?thesis by simp
  qed
  with y False show ?thesis by (simp add: copied_def agree_def)
qed

section \<open>A concrete copy\<close>

text \<open>A library whose structs have text and, perhaps, a map; its times are plain.\<close>

type_synonym libstruct = "string \<times> addr option"

definition BLibrary :: "('l cell, 'l) block_kind" where
  "BLibrary = \<lparr>mkBlock = LibraryCells, ofBlock = (\<lambda>c. case c of LibraryCells xs \<Rightarrow> Some xs | _ \<Rightarrow> None)\<rparr>"

definition demoCopy :: "libstruct \<Rightarrow> (libstruct cell heap, libstruct) state" where
  "demoCopy = structCopy snd (\<lambda>m x. (fst x, m)) (unlessNil (makeMap BStringMap rev))"

definition demoLibrary :: "libstruct Library" where
  "demoLibrary = \<lparr>copyObjectMeta = demoCopy, copyListMeta = demoCopy, copyResources = demoCopy, copyCondition = demoCopy,
     copyTime = newCopy BLibrary ([], None) ret, zeroObjectMeta = ([], None), zeroListMeta = ([], None), zeroResources = ([], None),
     zeroCondition = ([], None), rangeOrder = rev\<rparr>"

definition demoRep :: "(libstruct cell, libstruct, string \<times> (string \<Rightarrow> string option) option) rep" where
  "demoRep = struct_rep fst snd (opt_rep (map_rep BStringMap))"

definition demoReps where
  "demoReps = \<lparr>objectMetaRep = demoRep, listMetaRep = demoRep, resourcesRep = demoRep, conditionRep = demoRep,
     timeRep = ptr_rep BLibrary plain_rep\<rparr>"

lemma reverse_order: "distinct (map fst (m :: gomap)) \<Longrightarrow> distinct (map fst (rev m)) \<and> set (rev m) = set m"
  by (simp add: rev_map[symmetric])

lemma demo_copy: "deep_copy demoRep demoCopy"
  unfolding demoRep_def demoCopy_def by (intro struct_copy opt_copy makeMap_copy reverse_order) simp_all

interpretation demo_copies: library_copies demoLibrary demoReps
proof (rule library_copies.intro)
  show "deep_copy (timeRep demoReps) (copyTime demoLibrary)"
    unfolding demoReps_def demoLibrary_def by (simp add: newCopy_copy plain_copy kind_ok_def BLibrary_def)
qed (simp_all add: demoReps_def demoLibrary_def demo_copy reverse_order)

definition demoGameServerMem :: "libstruct GameServerMem" where
  "demoGameServerMem = \<lparr>mgTypeMeta = TypeMeta0, mgObjectMeta = (''mc'', Some 0),
     mgSpec = \<lparr>mGameType = ''minecraft'', mImage = ''img'', mResources = ([], None), mPorts = Some (1, 0, 1), mParameters = Some 2\<rparr>,
     mgStatus = \<lparr>mState = GameServerStateReady, mAddress = [], mStatusPorts = None, mConditions = Some (3, 0, 1)\<rparr>\<rparr>"

definition demoHeap :: "libstruct cell heap" where
  "demoHeap = \<lparr>hNext = 6, hCells = [0 \<mapsto> StringMap [(''app'', ''mc'')], 1 \<mapsto> PortCells [GameServerPort0],
     2 \<mapsto> StringMap [(''EULA'', ''true''), (''MOTD'', ''hi'')], 3 \<mapsto> ConditionCells [(''Ready'', None)],
     4 \<mapsto> GameServers [demoGameServerMem],
     5 \<mapsto> GameServerLists [\<lparr>mglTypeMeta = TypeMeta0, mglListMeta = ([], None), mglItems = Some (4, 0, 1)\<rparr>]]\<rparr>"

theorem DeepCopyObject_deep_witness:
  "\<exists>y h'. run_state (DeepCopyObject demoLibrary (OfGameServerList (Some (5, 0)))) demoHeap = (Some y, h') \<and>
     repValue (objectRep demoReps) h' y = repValue (objectRep demoReps) demoHeap (OfGameServerList (Some (5, 0))) \<and>
     repReach (objectRep demoReps) h' y \<inter> {0, 1, 2, 3, 4, 5} = {}"
proof -
  have "heap_ok demoHeap" "dom (hCells demoHeap) = {0, 1, 2, 3, 4, 5}" by (auto simp: heap_ok_def demoHeap_def)
  moreover have "repGood (objectRep demoReps) demoHeap (OfGameServerList (Some (5, 0)))"
    by (simp add: objectRep_def kinded_rep_def ptr_rep_def block_rep_def rep_defs map_rep_def demoReps_def demoRep_def gameServerListRep_def
        gameServerRep_def gameServerSpecRep_def gameServerStatusRep_def elems_def block_def block_kind_defs demoHeap_def demoGameServerMem_def)
  ultimately show ?thesis using DeepCopyObject_deep[OF demo_copies.library_copies_axioms] by fastforce
qed

end
