(* ===== verification/Spec2Isabelle.thy ===== *)
theory Spec2Isabelle
  imports GameServerSafety GameServerRefinement GameServerObjects DNSProperties BackupSchedule ApiDemo Startup
    Operator GameServerCreation OperatorMain Metrics Frontend BackupRestore ServerLife DeepCopy
begin

text \<open>
  \<^bold>\<open>Kterodactyl\<close> is a Kubernetes operator together with a REST API that runs game servers for users.

  \<^bold>\<open>The parts of the program.\<close> A user signs in to the API (\<^verbatim>\<open>internal/api\<close>, \<^verbatim>\<open>internal/auth\<close>) and works in a
  namespace of their own. The API reads game manifests from files (\<^verbatim>\<open>internal/manifest\<close>) and turns requests
  into GameServer and Backup resources (\<^verbatim>\<open>api/v1alpha1\<close>). Three controllers (\<^verbatim>\<open>internal/controller\<close>) watch
  these resources: the GameServer controller drives the lifecycle and owns the Pod, its volumes and the
  namespace; the DNS controller maintains the Service, the HTTPRoute and the address of a running server;
  the backup controller archives a directory of the Pod to S3, creates backups on a cron schedule and
  enforces retention. The controllers and the API share no memory: they meet in the objects of the
  Kubernetes API server only. \<^verbatim>\<open>cmd/main.go\<close> puts the parts together.

  \<^bold>\<open>How effects are modelled.\<close> A Go function that performs calls is a computation in the state monad,
  \<^verbatim>\<open>('s, gerr + 'a) state\<close>, over a state \<^verbatim>\<open>'s\<close> that the model leaves open; \<^verbatim>\<open>Inl\<close> is the returned error
  (\<^verbatim>\<open>Prelude\<close>). Code outside the repository is a record of operations that a definition receives as an
  argument: the Kubernetes client (\<^verbatim>\<open>Kube\<close>: one \<^verbatim>\<open>kapi\<close> per kind of object with get, list, create, update,
  status update, delete and create-or-update, each of which may fail), the clock and event recorder, Pod
  exec, S3, gzip, cron, the sorting function, the random source, Argon2, the JWT library, mail, YAML and
  JSON Schema. What the code relies on of them is stated as the laws of a locale or as hypotheses of a
  property, and never built into a definition. Go's own strings, strconv, path, hex, time and base64
  functions are modelled (\<^verbatim>\<open>GoStd\<close>, \<^verbatim>\<open>GoTime\<close>, \<^verbatim>\<open>Passwords\<close>).
  Two kinds of theorem result. A \<^emph>\<open>trace\<close> theorem runs the program on a client whose calls are recorded
  (\<^verbatim>\<open>traced_client\<close>, \<^verbatim>\<open>traced_server\<close>) and speaks about the calls, their order and the answers they got: it
  holds for every API server, also one that fails any call or that others write to in between. A
  \<^emph>\<open>contract\<close> theorem assumes the laws of a store and speaks about its contents.

  \<^bold>\<open>Theories and sources\<close> (paths below \<^verbatim>\<open>src/\<close>).
  \<^item> \<^verbatim>\<open>Prelude\<close>, \<^verbatim>\<open>GoStd\<close>, \<^verbatim>\<open>GoTime\<close>: computations, Go maps, wrapped errors, the standard library; round
    trips of \<^verbatim>\<open>Itoa\<close>/\<^verbatim>\<open>Atoi\<close> and of RFC 3339 times.
  \<^item> \<^verbatim>\<open>ApiTypes\<close>: the resources and lifecycles of \<^verbatim>\<open>api/v1alpha1\<close>; locale \<^verbatim>\<open>lifecycle\<close> and its extension
    \<^verbatim>\<open>terminating_lifecycle\<close>, interpreted on the two transition tables.
  \<^item> \<^verbatim>\<open>Util\<close>: \<^verbatim>\<open>internal/util\<close>. \<^verbatim>\<open>AdminConfig\<close>: \<^verbatim>\<open>LoadAdminConfig\<close> with its defaults and fields.
  \<^item> \<^verbatim>\<open>Kube\<close>, \<^verbatim>\<open>Store\<close>, \<^verbatim>\<open>Cluster\<close>, \<^verbatim>\<open>Demo\<close>: the client interface and its recording; the laws of an
    object store (\<^verbatim>\<open>object_store\<close>, \<^verbatim>\<open>status_store\<close>) and a reference API server that satisfies them for every
    kind of object (\<^verbatim>\<open>kind_laws\<close>, a \<^verbatim>\<open>sublocale\<close> of \<^verbatim>\<open>status_store\<close>). \<^verbatim>\<open>generation_store\<close> adds when the API
    server raises an object's generation, on which the watches depend.
  \<^item> \<^verbatim>\<open>GameServerController\<close>, \<^verbatim>\<open>GameServerReconcile\<close>: \<^verbatim>\<open>internal/controller/gameserver_controller.go\<close>, from
    \<^verbatim>\<open>Reconcile\<close> down to the Pod that is built. \<^verbatim>\<open>GameServerSafety\<close> shows what each call of a reconcile must be
    preceded by: status writes follow the lifecycle, a Pod is created only within the limits and in a
    prepared namespace, a Pod is deleted only on shutdown or deletion, the finalizer is removed only when
    the Pod is gone. \<^verbatim>\<open>GameServerRefinement\<close> has the abstract state machine \<^verbatim>\<open>next_state\<close> and shows that
    \<^verbatim>\<open>Reconcile\<close> implements it on a healthy cluster. \<^verbatim>\<open>GameServerObjects\<close> treats the Pod, the gauge and
    malformed configuration. \<^verbatim>\<open>GameServerCreation\<close> covers the state \<^verbatim>\<open>Creating\<close>: the limits as an abstract function of
    the stored servers (\<^verbatim>\<open>creating_state\<close>), the refinement of it, and that a new server that is admitted becomes
    ready (locale \<^verbatim>\<open>provisioning_cluster\<close>, interpreted on the reference API server).
  \<^item> \<^verbatim>\<open>DNSController\<close>, \<^verbatim>\<open>DNSProperties\<close>: \<^verbatim>\<open>internal/controller/dns_controller.go\<close>; the objects it may touch, and
    that a server that is not running ends with neither Service, route nor address.
  \<^item> \<^verbatim>\<open>BackupController\<close>, \<^verbatim>\<open>BackupSafety\<close>, \<^verbatim>\<open>BackupSchedule\<close>: \<^verbatim>\<open>internal/controller/backup_controller.go\<close>; a backup
    is Completed only after its upload, with the key and size of that upload; retention keeps the newest
    backups; a schedule does not fire twice for one activation time.
  \<^item> \<^verbatim>\<open>Pipe\<close>: the goroutines of \<^verbatim>\<open>performBackup\<close> and \<^verbatim>\<open>handleUploadMod\<close> as an inductive step relation; every
    interleaving gives the result of the sequential definition, and the call returns exactly when the
    consumer reads what the goroutine writes before its report.
  \<^item> \<^verbatim>\<open>Users\<close>, \<^verbatim>\<open>Invites\<close>, \<^verbatim>\<open>Passwords\<close>, \<^verbatim>\<open>Tokens\<close>: \<^verbatim>\<open>internal/auth\<close>. Each states what it promises as a locale
    (\<^verbatim>\<open>user_service\<close>, \<^verbatim>\<open>token_service\<close>, \<^verbatim>\<open>invite_store\<close>) that the code's definitions implement over any store
    or library that obeys its laws.
  \<^item> \<^verbatim>\<open>Http\<close>: \<^verbatim>\<open>request.go\<close>, \<^verbatim>\<open>response.go\<close> and both middleware files. \<^verbatim>\<open>Manifest\<close>: \<^verbatim>\<open>internal/manifest\<close>.
  \<^item> \<^verbatim>\<open>ApiServer\<close>, \<^verbatim>\<open>ApiAuth\<close>, \<^verbatim>\<open>ApiBackups\<close>, \<^verbatim>\<open>ApiRoutes\<close>: the handlers of \<^verbatim>\<open>internal/api\<close> and the routing table.
    \<^verbatim>\<open>ApiIsolation\<close> shows that a request reaches objects of its caller's namespace only, unless the caller is
    an administrator; \<^verbatim>\<open>ApiProperties\<close> and \<^verbatim>\<open>ApiSession\<close> treat single endpoints and the composition of
    registration and login; \<^verbatim>\<open>ApiDemo\<close> has a concrete server on which the hypotheses are discharged.
  \<^item> \<^verbatim>\<open>Console\<close>: the goroutines and the channel of a console session (\<^verbatim>\<open>handlers_console.go\<close>) as a step relation, the
    writer and the ping goroutine included.
  \<^item> \<^verbatim>\<open>ServerLife\<close>: the API and the GameServer controller together. A creation request leads to a running server, and
    a deletion request leaves neither the server nor its Pod (locale \<^verbatim>\<open>managed_cluster\<close>, which extends
    \<^verbatim>\<open>provisioning_cluster\<close> by creation, update and deletion of servers).
  \<^item> \<^verbatim>\<open>BackupRestore\<close>: the API and the backup controller together. A backup that a user orders is made, and restoring
    it brings its files back (locale \<^verbatim>\<open>backup_cluster\<close>: the stores, the objects in S3, and the files of a Pod as
    \<^verbatim>\<open>tar\<close> reads and writes them). Both locales are interpreted on the reference API server.
  \<^item> \<^verbatim>\<open>Memory\<close>, \<^verbatim>\<open>DeepCopy\<close>: \<^verbatim>\<open>api/v1alpha1/zz_generated.deepcopy.go\<close> on an explicit heap of blocks, the only place of the
    program where sharing of memory matters. The contract of a copier is the locale \<^verbatim>\<open>deep_copy\<close>; slices, maps, pointers
    and structs keep it, and every copy of the file has it when the library's copies have (\<^verbatim>\<open>library_copies\<close>).
  \<^item> \<^verbatim>\<open>Operator\<close>: \<^verbatim>\<open>SetupWithManager\<close> of the three controllers, and the work queue between the watches and \<^verbatim>\<open>Reconcile\<close> as a
    step relation in which others write to the cluster. A server on its way to running always has a reconcile
    queued; which API requests the controllers notice is stated with it. The library's predicates are
    arguments (locale \<^verbatim>\<open>watch_predicates\<close>).
  \<^item> \<^verbatim>\<open>Startup\<close>: the part of \<^verbatim>\<open>cmd/main.go\<close> that builds the API server; the server it builds meets the
    hypothesis of the isolation property. \<^verbatim>\<open>OperatorMain\<close>: the rest of it, from the flags of the command line to
    the start of the manager, and the tool \<^verbatim>\<open>hack/hash-password.go\<close>.
  \<^item> \<^verbatim>\<open>Metrics\<close>: \<^verbatim>\<open>internal/metrics/metrics.go\<close> and that every use of a metric fits its declaration. \<^verbatim>\<open>Frontend\<close>: the
    embedded files of \<^verbatim>\<open>spa.go\<close> behind the file server of \<^verbatim>\<open>net/http\<close>.

  \<^bold>\<open>Bounds and termination.\<close> No definition uses fuel. Loops over slices are structural recursion; the few
  other recursions (digits of a number, splitting a string, base64 groups) have a measure. Integers that
  Go parses or multiplies at 64 bits keep their range: \<^verbatim>\<open>Atoi\<close> rejects what does not fit, and durations wrap
  around (\<^verbatim>\<open>wrap64\<close>). Times are nanoseconds since the Unix epoch, on the proleptic Gregorian calendar in UTC; an
  RFC 3339 text reads back to the second for the years 0 to 9999. The step relations may run for ever only where the program may.

  \<^bold>\<open>Not modelled.\<close> Log output; what the manager, its cache and leader election do after they are started,
  except for the delivery of events to the queue of the GameServer controller; the delays and the backoff of
  that queue, whose requests may come at any time; the registration of types with the scheme (\<^verbatim>\<open>groupversion_info.go\<close>
  and the \<^verbatim>\<open>init\<close> functions of the types, calls of a library only); the text syntax of JSON and YAML (request
  bodies and manifests are syntax trees); the logging, CORS, timeout and rate-limiting middleware of
  libraries; byte ranges and conditional requests for embedded files; the deadlines of the WebSocket, for which a
  write may fail at any time. Constant-time comparison is modelled as equality. The helpers of the end-to-end
  tests (\<^verbatim>\<open>test/utils\<close>) run external commands.
\<close>

end
